(* ===== verification/Prelude.thy ===== *)
theory Prelude
  imports Complex_Main "HOL-Library.Word" "HOL-Library.Char_ord" "HOL-Library.List_Lexorder"
begin

text \<open>
  Shared vocabulary of the development: Go values (times, byte slices, strings and the
  functions of package \<^verbatim>\<open>strings\<close> and \<^verbatim>\<open>strconv\<close> that MiniDock
  calls), the error values that every fallible operation returns, and the meaning of the few
  SQL constructs the store uses (row identifiers, \<^verbatim>\<open>UPDATE ... WHERE\<close>,
  \<^verbatim>\<open>ORDER BY\<close>, \<^verbatim>\<open>LIKE\<close>). A string is a list of bytes, as
  in Go; its order is the byte order that both Go's \<^verbatim>\<open>sort.Strings\<close> and SQLite's
  BINARY collation use.
\<close>

section \<open>Collections of rewrite rules\<close>

named_theorems store_defs \<open>definitions of the operations of package store\<close>
named_theorems sql_simps \<open>rules for the SQL helpers on tables\<close>

section \<open>Times, bytes and errors\<close>

text \<open>
  A Go \<^verbatim>\<open>time.Time\<close> is the number of nanoseconds since the zero time, so that
  \<^verbatim>\<open>IsZero\<close> is equality with 0; a duration is a number of nanoseconds.
\<close>

type_synonym time = int
type_synonym duration = int
type_synonym byte = "8 word"
type_synonym bytes = "byte list"

abbreviation zero_time :: time where "zero_time \<equiv> 0"
abbreviation millisecond :: duration where "millisecond \<equiv> 1000000"
abbreviation second :: duration where "second \<equiv> 1000000000"
abbreviation minute :: duration where "minute \<equiv> 60 * second"
abbreviation hour :: duration where "hour \<equiv> 60 * minute"

text \<open>Go's integer division truncates towards zero.\<close>

definition trunc_div :: "int \<Rightarrow> int \<Rightarrow> int" where
  "trunc_div a b = (if (a < 0) = (b < 0) then \<bar>a\<bar> div \<bar>b\<bar> else - (\<bar>a\<bar> div \<bar>b\<bar>))"

definition to_bytes :: "string \<Rightarrow> bytes" where
  "to_bytes s = map of_char s"

definition of_bytes :: "bytes \<Rightarrow> string" where
  "of_bytes b = map (\<lambda>w. char_of (unat w)) b"

text \<open>
  The error values that reach a caller: the two sentinels of package store, SQLite's constraint
  failures, an error made from a message, and a run-time panic, which ends the request.
\<close>

datatype error =
    ErrNotFound
  | ErrDeploymentCancelled
  | ErrUnique string
  | ErrForeignKey
  | ErrCheck string
  | ErrMsg string
  | ErrPanic string

type_synonym 'a result = "error + 'a"

text \<open>A stateful fallible operation keeps the state it reached also when it fails.\<close>

type_synonym ('s, 'a) op = "'s \<Rightarrow> 's \<times> 'a result"

definition error_text :: "error \<Rightarrow> string" where
  "error_text e = (case e of
     ErrNotFound \<Rightarrow> ''store: record not found''
   | ErrDeploymentCancelled \<Rightarrow> ''store: deployment cancellation requested''
   | ErrUnique c \<Rightarrow> ''constraint failed: UNIQUE constraint failed: '' @ c
   | ErrForeignKey \<Rightarrow> ''constraint failed: FOREIGN KEY constraint failed''
   | ErrCheck c \<Rightarrow> ''constraint failed: CHECK constraint failed: '' @ c
   | ErrMsg m \<Rightarrow> m
   | ErrPanic m \<Rightarrow> ''panic: '' @ m)"

section \<open>Package strings\<close>

definition has_prefix :: "string \<Rightarrow> string \<Rightarrow> bool" where
  "has_prefix s p \<longleftrightarrow> take (length p) s = p"

definition has_suffix :: "string \<Rightarrow> string \<Rightarrow> bool" where
  "has_suffix s p \<longleftrightarrow> length p \<le> length s \<and> drop (length s - length p) s = p"

definition trim_prefix :: "string \<Rightarrow> string \<Rightarrow> string" where
  "trim_prefix s p = (if has_prefix s p then drop (length p) s else s)"

definition trim_suffix :: "string \<Rightarrow> string \<Rightarrow> string" where
  "trim_suffix s p = (if has_suffix s p then take (length s - length p) s else s)"

fun contains_str :: "string \<Rightarrow> string \<Rightarrow> bool" where
  "contains_str [] p = (p = [])"
| "contains_str (c # s) p = (has_prefix (c # s) p \<or> contains_str s p)"

definition contains_any :: "string \<Rightarrow> string \<Rightarrow> bool" where
  "contains_any s cs = list_ex (\<lambda>c. c \<in> set cs) s"

text \<open>ASCII white space; the model does not decode multi-byte spaces.\<close>

definition is_space :: "char \<Rightarrow> bool" where
  "is_space c \<longleftrightarrow> c \<in> set [CHR 0x09, CHR 0x0A, CHR 0x0B, CHR 0x0C, CHR 0x0D, CHR '' '']"

definition trim_left :: "(char \<Rightarrow> bool) \<Rightarrow> string \<Rightarrow> string" where
  "trim_left P s = dropWhile P s"

definition trim_right :: "(char \<Rightarrow> bool) \<Rightarrow> string \<Rightarrow> string" where
  "trim_right P s = rev (dropWhile P (rev s))"

definition trim_space :: "string \<Rightarrow> string" where
  "trim_space s = trim_right is_space (trim_left is_space s)"

definition trim_chars :: "string \<Rightarrow> string \<Rightarrow> string" where
  "trim_chars s cs = trim_right (\<lambda>c. c \<in> set cs) (trim_left (\<lambda>c. c \<in> set cs) s)"

definition lower_char :: "char \<Rightarrow> char" where
  "lower_char c = (let n = of_char c :: nat in if 65 \<le> n \<and> n \<le> 90 then char_of (n + 32) else c)"

definition to_lower :: "string \<Rightarrow> string" where
  "to_lower s = map lower_char s"

text \<open>\<^verbatim>\<open>strings.Split\<close> on a one-character separator.\<close>

fun split_on :: "char \<Rightarrow> string \<Rightarrow> string list" where
  "split_on sep [] = [[]]"
| "split_on sep (c # s) =
     (if c = sep then [] # split_on sep s
      else case split_on sep s of [] \<Rightarrow> [[c]] | w # ws \<Rightarrow> (c # w) # ws)"

text \<open>\<^verbatim>\<open>strings.ReplaceAll\<close> for a non-empty pattern: leftmost, not overlapping.\<close>

function replace_all :: "string \<Rightarrow> string \<Rightarrow> string \<Rightarrow> string" where
  "replace_all s old new =
     (if s = [] \<or> old = [] then s
      else if has_prefix s old then new @ replace_all (drop (length old) s) old new
      else hd s # replace_all (tl s) old new)"
  by pat_completeness auto
termination
  by (relation "measure (\<lambda>(s, _, _). length s)") auto

declare replace_all.simps [simp del]

section \<open>Decimal numbers\<close>

definition digit_char :: "nat \<Rightarrow> char" where
  "digit_char d = char_of (48 + d)"

fun show_nat :: "nat \<Rightarrow> string" where
  "show_nat n = (if n < 10 then [digit_char n] else show_nat (n div 10) @ [digit_char (n mod 10)])"

declare show_nat.simps [simp del]

definition show_int :: "int \<Rightarrow> string" where
  "show_int i = (if i < 0 then ''-'' @ show_nat (nat (- i)) else show_nat (nat i))"

definition is_digit :: "char \<Rightarrow> bool" where
  "is_digit c \<longleftrightarrow> 48 \<le> (of_char c :: nat) \<and> (of_char c :: nat) \<le> 57"

definition digit_val :: "char \<Rightarrow> nat" where
  "digit_val c = (of_char c :: nat) - 48"

definition read_nat :: "string \<Rightarrow> nat" where
  "read_nat s = foldl (\<lambda>n c. 10 * n + digit_val c) 0 s"

text \<open>
  \<^verbatim>\<open>strconv.ParseInt(s, 10, 64)\<close>: an optional sign and at least one digit, within
  the range of a signed 64-bit integer; \<open>None\<close> is the error.
\<close>

definition parse_int :: "string \<Rightarrow> int option" where
  "parse_int s =
     (let neg = has_prefix s ''-'';
          ds = (if has_prefix s ''-'' \<or> has_prefix s ''+'' then tl s else s)
      in if ds = [] \<or> \<not> list_all is_digit ds then None
         else let v = (if neg then - int (read_nat ds) else int (read_nat ds))
              in if - (2 ^ 63) \<le> v \<and> v < 2 ^ 63 then Some v else None)"

section \<open>SQL\<close>

text \<open>
  A table is the list of its rows in insertion order. An \<^verbatim>\<open>INTEGER PRIMARY KEY\<close>
  gives a new row the largest identifier in use plus one (identifiers are positive here).
\<close>

definition next_rowid :: "('r \<Rightarrow> int) \<Rightarrow> 'r list \<Rightarrow> int" where
  "next_rowid key rows = 1 + foldr (\<lambda>r m. max (key r) m) rows 0"

definition update_where :: "('r \<Rightarrow> bool) \<Rightarrow> ('r \<Rightarrow> 'r) \<Rightarrow> 'r list \<Rightarrow> 'r list" where
  "update_where P u rows = map (\<lambda>r. if P r then u r else r) rows"

definition count_where :: "('r \<Rightarrow> bool) \<Rightarrow> 'r list \<Rightarrow> nat" where
  "count_where P rows = length (filter P rows)"

definition delete_where :: "('r \<Rightarrow> bool) \<Rightarrow> 'r list \<Rightarrow> 'r list" where
  "delete_where P rows = filter (\<lambda>r. \<not> P r) rows"

text \<open>
  \<^verbatim>\<open>INSERT ... ON CONFLICT(key) DO UPDATE\<close>: \<open>merge\<close> computes the row kept
  for a key that is already present.
\<close>

definition upsert_by :: "('r \<Rightarrow> 'k) \<Rightarrow> ('r \<Rightarrow> 'r \<Rightarrow> 'r) \<Rightarrow> 'r \<Rightarrow> 'r list \<Rightarrow> 'r list" where
  "upsert_by key merge new rows =
     (if list_ex (\<lambda>r. key r = key new) rows
      then update_where (\<lambda>r. key r = key new) (\<lambda>r. merge r new) rows
      else rows @ [new])"

definition order_desc :: "('r \<Rightarrow> 'k::linorder) \<Rightarrow> 'r list \<Rightarrow> 'r list" where
  "order_desc key rows = rev (sort_key key rows)"

text \<open>SQLite's \<^verbatim>\<open>LIKE\<close>: ASCII case-insensitive, with \<^verbatim>\<open>%\<close> and \<^verbatim>\<open>_\<close>.\<close>

fun sql_like :: "string \<Rightarrow> string \<Rightarrow> bool" where
  "sql_like [] s = (s = [])"
| "sql_like (p # ps) s =
     (if p = CHR ''%'' then list_ex (\<lambda>i. sql_like ps (drop i s)) [0..<Suc (length s)]
      else case s of [] \<Rightarrow> False
           | c # cs \<Rightarrow> (p = CHR ''_'' \<or> lower_char p = lower_char c) \<and> sql_like ps cs)"

section \<open>Lemmas on the SQL helpers\<close>

lemma update_where_simps [simp, sql_simps]:
  "update_where P u [] = []"
  "update_where P u (r # rs) = (if P r then u r else r) # update_where P u rs"
  by (simp_all add: update_where_def)

lemma set_update_where: "set (update_where P u rows) = (\<lambda>r. if P r then u r else r) ` set rows"
  by (simp add: update_where_def)

lemma in_update_whereE [elim]:
  assumes "r \<in> set (update_where P u rows)"
  obtains (same) "r \<in> set rows" "\<not> P r" | (changed) r0 where "r0 \<in> set rows" "P r0" "r = u r0"
  using assms by (auto simp: set_update_where split: if_splits)

lemma in_update_where_other: "r \<in> set rows \<Longrightarrow> \<not> P r \<Longrightarrow> r \<in> set (update_where P u rows)"
  by (force simp: set_update_where)

lemma in_update_where_changed: "r \<in> set rows \<Longrightarrow> P r \<Longrightarrow> u r \<in> set (update_where P u rows)"
  by (force simp: set_update_where)

lemma map_update_where:
  "(\<And>r. P r \<Longrightarrow> f (u r) = f r) \<Longrightarrow> map f (update_where P u rows) = map f rows"
  by (simp add: update_where_def)

lemma update_where_id [simp]: "\<forall>r\<in>set rows. \<not> P r \<Longrightarrow> update_where P u rows = rows"
  by (induction rows) auto

lemma filter_update_where_same:
  "(\<And>r. P r \<Longrightarrow> Q (u r) = Q r) \<Longrightarrow>
   filter Q (update_where P u rows) = update_where P u (filter Q rows)"
  by (induction rows) auto

lemma count_where_0 [simp]: "(count_where P rows = 0) \<longleftrightarrow> (\<forall>r\<in>set rows. \<not> P r)"
  by (auto simp: count_where_def filter_empty_conv)

lemma count_where_pos: "r \<in> set rows \<Longrightarrow> P r \<Longrightarrow> 0 < count_where P rows"
  by (metis count_where_0 gr0I)

text \<open>A condition on a key that is unique in the table selects at most one row.\<close>

lemma distinct_key_inj:
  "distinct (map key rows) \<Longrightarrow> r \<in> set rows \<Longrightarrow> s \<in> set rows \<Longrightarrow> key r = key s \<Longrightarrow> r = s"
  by (induction rows) (auto simp: image_iff)

lemma filter_key_Some:
  assumes "distinct (map key rows)" and "r \<in> set rows" and "key r = k"
  shows "filter (\<lambda>x. key x = k) rows = [r]"
  using assms
proof (induction rows)
  case (Cons a rows)
  show ?case
  proof (cases "a = r")
    case True
    with Cons.prems have "filter (\<lambda>x. key x = k) rows = []"
      by (auto simp: filter_empty_conv image_iff)
    with True Cons.prems show ?thesis by simp
  next
    case False
    with Cons.prems have "key a \<noteq> k" by (auto simp: image_iff)
    with False Cons show ?thesis by auto
  qed
qed simp

lemma count_where_key:
  assumes "distinct (map key rows)" and "r \<in> set rows" and "P r"
    and "\<And>x. x \<in> set rows \<Longrightarrow> P x \<Longrightarrow> key x = key r"
  shows "count_where P rows = 1"
proof -
  have "P x \<longleftrightarrow> key x = key r" if "x \<in> set rows" for x
    using assms(3,4) that distinct_key_inj [OF assms(1) that assms(2)] by blast
  then have "filter P rows = filter (\<lambda>x. key x = key r) rows"
    by (intro filter_cong) simp_all
  also have "\<dots> = [r]" using assms(1,2) by (rule filter_key_Some) simp
  finally show ?thesis by (simp add: count_where_def)
qed

lemma find_key_Some:
  assumes "distinct (map key rows)" and "r \<in> set rows"
  shows "find (\<lambda>x. key x = key r) rows = Some r"
  using assms by (induction rows) (auto simp: image_iff)

lemma in_delete_where [simp]: "r \<in> set (delete_where P rows) \<longleftrightarrow> r \<in> set rows \<and> \<not> P r"
  by (auto simp: delete_where_def)

lemma distinct_map_delete_where: "distinct (map f rows) \<Longrightarrow> distinct (map f (delete_where P rows))"
  by (simp add: delete_where_def distinct_map_filter)

subsection \<open>Row identifiers\<close>

lemma next_rowid_Cons: "next_rowid key (r # rs) = max (1 + key r) (next_rowid key rs)"
  by (simp add: next_rowid_def)

lemma next_rowid_gt: "r \<in> set rows \<Longrightarrow> key r < next_rowid key rows"
  by (induction rows) (auto simp: next_rowid_Cons)

lemma next_rowid_pos: "0 < next_rowid key rows"
  by (induction rows) (auto simp: next_rowid_Cons next_rowid_def)

lemma next_rowid_fresh: "next_rowid key rows \<notin> key ` set rows"
proof
  assume "next_rowid key rows \<in> key ` set rows"
  then obtain r where "r \<in> set rows" and "key r = next_rowid key rows" by auto
  with next_rowid_gt [of r rows key] show False by simp
qed

lemma distinct_snoc_rowid:
  "distinct (map key rows) \<Longrightarrow> key new = next_rowid key rows \<Longrightarrow> distinct (map key (rows @ [new]))"
  using next_rowid_fresh [of key rows] by auto

lemma sorted_snoc_rowid:
  "sorted (map key rows) \<Longrightarrow> key new = next_rowid key rows \<Longrightarrow> sorted (map key (rows @ [new]))"
  using next_rowid_gt [of _ rows key] by (auto simp: sorted_append less_imp_le)

subsection \<open>Tables with a unique key\<close>

lemma upsert_by_key_set:
  assumes "\<And>r. key r = key new \<Longrightarrow> key (merge r new) = key new"
  shows "map key (upsert_by key merge new rows) =
    (if key new \<in> key ` set rows then map key rows else map key rows @ [key new])"
proof -
  have "map key (update_where (\<lambda>r. key r = key new) (\<lambda>r. merge r new) rows) = map key rows"
    using assms by (intro map_update_where) auto
  moreover have "list_ex (\<lambda>r. key r = key new) rows \<longleftrightarrow> key new \<in> key ` set rows"
    by (induction rows) auto
  ultimately show ?thesis by (simp add: upsert_by_def)
qed

lemma distinct_upsert_by:
  "(\<And>r. key r = key new \<Longrightarrow> key (merge r new) = key new) \<Longrightarrow> distinct (map key rows) \<Longrightarrow>
   distinct (map key (upsert_by key merge new rows))"
  by (subst upsert_by_key_set) auto

lemma find_upsert_by_same:
  assumes "\<And>r. key r = key new \<Longrightarrow> key (merge r new) = key new"
  shows "find (\<lambda>r. key r = key new) (upsert_by key merge new rows) =
    Some (case find (\<lambda>r. key r = key new) rows of None \<Rightarrow> new | Some r \<Rightarrow> merge r new)"
proof (cases "list_ex (\<lambda>r. key r = key new) rows")
  case True
  then show ?thesis using assms
    by (induction rows) (auto simp: upsert_by_def split: if_splits)
next
  case False
  then show ?thesis by (induction rows) (auto simp: upsert_by_def)
qed

lemma find_upsert_by_other:
  assumes "\<And>r. key r = key new \<Longrightarrow> key (merge r new) = key new" and "k \<noteq> key new"
  shows "find (\<lambda>r. key r = k) (upsert_by key merge new rows) = find (\<lambda>r. key r = k) rows"
proof -
  have upd: "find (\<lambda>r. key r = k) (update_where (\<lambda>r. key r = key new) (\<lambda>r. merge r new) rows) =
      find (\<lambda>r. key r = k) rows"
    using assms by (induction rows) auto
  have app: "find (\<lambda>r. key r = k) (rows @ [new]) = find (\<lambda>r. key r = k) rows"
    using assms(2) by (induction rows) auto
  from upd app show ?thesis by (simp add: upsert_by_def)
qed

lemma find_delete_where:
  "find (\<lambda>r. key r = k) (delete_where (\<lambda>r. key r = k') rows) =
    (if k = k' then None else find (\<lambda>r. key r = k) rows)"
  by (induction rows) (auto simp: delete_where_def)

lemma find_append: "find P (xs @ ys) = (case find P xs of None \<Rightarrow> find P ys | Some r \<Rightarrow> Some r)"
  by (induction xs) auto

lemma find_SomeD: "find P xs = Some x \<Longrightarrow> x \<in> set xs \<and> P x"
  by (induction xs) (auto split: if_splits)

lemma find_None_key: "find (\<lambda>r. key r = k) rows = None \<longleftrightarrow> k \<notin> key ` set rows"
  by (auto simp: find_None_iff)

section \<open>Lemmas on strings and numbers\<close>

lemma of_to_bytes [simp]: "of_bytes (to_bytes s) = s"
proof (induction s)
  case (Cons c s)
  have "unat (of_char c :: byte) = of_char c"
  proof -
    have "unat (of_nat (of_char c) :: byte) = (of_char c :: nat) mod 256"
      by (simp add: unat_of_nat)
    then show ?thesis by (simp only: of_nat_of_char of_char_mod_256)
  qed
  with Cons show ?case by (simp add: of_bytes_def to_bytes_def)
qed (simp add: of_bytes_def to_bytes_def)

lemma has_prefix_append [simp]: "has_prefix (p @ s) p"
  by (simp add: has_prefix_def)

lemma has_prefix_iff: "has_prefix s p \<longleftrightarrow> (\<exists>t. s = p @ t)"
  by (auto simp: has_prefix_def) (metis append_take_drop_id)

lemma trim_prefix_append [simp]: "trim_prefix (p @ s) p = s"
  by (simp add: trim_prefix_def)

lemma digit_char_props: "d < 10 \<Longrightarrow> is_digit (digit_char d) \<and> digit_val (digit_char d) = d"
  by (simp add: is_digit_def digit_char_def digit_val_def)

lemma read_nat_snoc: "read_nat (s @ [c]) = 10 * read_nat s + digit_val c"
  by (simp add: read_nat_def)

lemma show_nat_digits: "list_all is_digit (show_nat n) \<and> show_nat n \<noteq> []"
proof (induction n rule: show_nat.induct)
  case (1 n)
  then show ?case
    by (cases "n < 10") (simp_all add: show_nat.simps [of n] digit_char_props)
qed

lemma read_show_nat [simp]: "read_nat (show_nat n) = n"
proof (induction n rule: show_nat.induct)
  case (1 n)
  show ?case
  proof (cases "n < 10")
    case True
    then show ?thesis
      by (subst show_nat.simps) (simp add: read_nat_def digit_char_props)
  next
    case False
    with 1 show ?thesis
      by (subst show_nat.simps) (simp add: read_nat_snoc digit_char_props)
  qed
qed

lemma show_nat_inj: "show_nat m = show_nat n \<longleftrightarrow> m = n"
  by (metis read_show_nat)

lemma show_nat_no_sign: "hd (show_nat n) \<noteq> CHR ''-''"
  using show_nat_digits [of n] by (cases "show_nat n") (auto simp: is_digit_def)

lemma show_int_inj: "show_int i = show_int j \<longleftrightarrow> i = j"
  using show_nat_no_sign [of "nat i"] show_nat_no_sign [of "nat j"]
  by (auto simp: show_int_def show_nat_inj split: if_splits)
    (metis list.sel(1) append_Cons)+

lemma show_int_chars: "c \<in> set (show_int i) \<Longrightarrow> is_digit c \<or> c = CHR ''-''"
  using show_nat_digits by (auto simp: show_int_def list_all_iff split: if_splits)

lemma parse_show_int: "- (2 ^ 63) \<le> i \<Longrightarrow> i < 2 ^ 63 \<Longrightarrow> parse_int (show_int i) = Some i"
proof -
  assume b: "- (2 ^ 63) \<le> i" "i < 2 ^ 63"
  show ?thesis
  proof (cases "i < 0")
    case True
    with b show ?thesis using show_nat_digits [of "nat (- i)"]
      by (simp add: parse_int_def show_int_def has_prefix_def)
  next
    case False
    have "\<not> has_prefix (show_nat (nat i)) ''-''" "\<not> has_prefix (show_nat (nat i)) ''+''"
      using show_nat_digits [of "nat i"]
      by (cases "show_nat (nat i)"; auto simp: has_prefix_def is_digit_def)+
    with False b show ?thesis using show_nat_digits [of "nat i"]
      by (simp add: parse_int_def show_int_def)
  qed
qed

end
