(* ===== verification/Db.thy ===== *)
theory Db
  imports Prelude
begin

text \<open>
  The data of package store (\<^verbatim>\<open>internal/store/store.go\<close>): the Go structs its
  operations take and return, one row record per SQLite table whose columns the structs do not
  repeat exactly, and the record \<open>db\<close> of all tables after the ten migrations. A nullable
  column is an option; a Go time field uses the zero time for NULL.
\<close>

section \<open>Structs\<close>

record application =
  app_id :: int
  app_name :: string
  app_repository :: string
  app_branch :: string
  app_work_dir :: string
  app_type :: string
  app_build_command :: string
  app_run_command :: string
  app_internal_port :: int
  app_domain :: string
  app_runtime :: string
  app_deploy_on_push :: bool
  app_require_confirmation :: bool
  app_auto_rollback :: bool
  app_github_installation_id :: int
  app_health_endpoint :: string
  app_created_at :: time

text \<open>A row of table \<^verbatim>\<open>deployments\<close> (migrations V1 and V2).\<close>

record deployment_row =
  dr_id :: int
  dr_application_id :: int
  dr_status :: string
  dr_image :: string
  dr_log_path :: string
  dr_started_at :: time
  dr_finished_at :: "time option"
  dr_action :: string
  dr_requested_ref :: string
  dr_source_revision :: string
  dr_source_fingerprint :: string
  dr_artifact_digest :: string
  dr_runtime :: string
  dr_internal_port :: int
  dr_health_endpoint :: string
  dr_manifest :: string
  dr_configuration_digest :: string
  dr_failure_stage :: string
  dr_failure_code :: string
  dr_failure_detail :: string
  dr_attempt :: int
  dr_heartbeat_at :: "time option"
  dr_lease_expires_at :: "time option"
  dr_cancellation_requested_at :: "time option"
  dr_queue_duration_ms :: int
  dr_source_duration_ms :: int
  dr_build_duration_ms :: int
  dr_start_duration_ms :: int
  dr_health_duration_ms :: int
  dr_route_duration_ms :: int
  dr_current_stage :: string

text \<open>The Go struct \<^verbatim>\<open>Deployment\<close>.\<close>

record deployment =
  d_id :: int
  d_application_id :: int
  d_status :: string
  d_image :: string
  d_requested_ref :: string
  d_source_revision :: string
  d_source_fingerprint :: string
  d_artifact_digest :: string
  d_runtime :: string
  d_internal_port :: int
  d_health_endpoint :: string
  d_manifest :: string
  d_configuration_digest :: string
  d_failure_stage :: string
  d_failure_code :: string
  d_failure_detail :: string
  d_log_path :: string
  d_started_at :: time
  d_finished_at :: time
  d_action :: string
  d_attempt :: int
  d_lease_expires_at :: time
  d_heartbeat_at :: time
  d_cancellation_requested_at :: time
  d_queue_duration_ms :: int
  d_source_duration_ms :: int
  d_build_duration_ms :: int
  d_start_duration_ms :: int
  d_health_duration_ms :: int
  d_route_duration_ms :: int
  d_current_stage :: string

record release_metadata =
  rm_requested_ref :: string
  rm_source_revision :: string
  rm_source_fingerprint :: string
  rm_artifact_digest :: string
  rm_runtime :: string
  rm_internal_port :: int
  rm_health_endpoint :: string
  rm_manifest :: string
  rm_configuration_digest :: string

record security_config =
  sc_salt :: bytes
  sc_verifier_nonce :: bytes
  sc_verifier_cipher :: bytes

record node =
  node_id :: string
  node_name :: string
  node_version :: string
  node_capabilities :: "string list"
  node_fingerprint :: string
  node_created_at :: time
  node_last_seen_at :: time

record cloudflare_config =
  cf_mode :: string
  cf_account_id :: string
  cf_tunnel_id :: string
  cf_tunnel_name :: string
  cf_status :: string
  cf_last_health_check :: "time option"
  cf_error_message :: string
  cf_updated_at :: time

record alert =
  al_id :: int
  al_severity :: string
  al_message :: string
  al_application_id :: "int option"
  al_deployment_id :: "int option"
  al_resolved :: bool
  al_created_at :: time
  al_resolved_at :: "time option"

record deployment_event =
  ev_id :: int
  ev_deployment_id :: int
  ev_stage :: string
  ev_type :: string
  ev_message :: string
  ev_created_at :: time

record health_evidence =
  he_application_id :: int
  he_internal_status :: string
  he_internal_checked_at :: "time option"
  he_route_status :: string
  he_route_checked_at :: "time option"
  he_external_status :: string
  he_external_checked_at :: "time option"
  he_external_observer :: string
  he_external_http_status :: int
  he_external_detail :: string

section \<open>Further rows\<close>

record secret_row =
  sec_scope :: string
  sec_name :: string
  sec_nonce :: bytes
  sec_ciphertext :: bytes
  sec_updated_at :: time

record secret_audit_row =
  sa_id :: int
  sa_application_id :: int
  sa_environment :: string
  sa_target :: string
  sa_name :: string
  sa_action :: string
  sa_created_at :: time

record configuration_row =
  conf_application_id :: int
  conf_environment :: string
  conf_target :: string
  conf_name :: string
  conf_value :: string
  conf_updated_at :: time

record route_probe_row =
  rp_id :: int
  rp_application_id :: int
  rp_success :: bool
  rp_checked_at :: time
  rp_observer :: string
  rp_http_status :: int
  rp_detail :: string

record rate_limit_row =
  rl_scope :: string
  rl_window_started_at :: time
  rl_requests :: int

record unlock_row =
  ua_scope :: string
  ua_failed_attempts :: int
  ua_lockout_until :: "time option"

record identity_provider =
  ip_id :: string
  ip_issuer :: string
  ip_client_id :: string
  ip_enabled :: bool
  ip_created_at :: time

record federated_identity =
  fi_provider_id :: string
  fi_subject :: string
  fi_email :: string
  fi_display_name :: string

record user_row =
  us_id :: int
  us_email :: string
  us_display_name :: string
  us_created_at :: time
  us_disabled_at :: "time option"

record identity_row =
  id_provider_id :: string
  id_subject :: string
  id_user_id :: int
  id_created_at :: time

record identity_audit_row =
  ia_id :: int
  ia_user_id :: "int option"
  ia_action :: string
  ia_detail :: string
  ia_created_at :: time

section \<open>The database\<close>

record db =
  settings :: "(string \<times> bytes) list"
  secrets :: "secret_row list"
  secret_audits :: "secret_audit_row list"
  configurations :: "configuration_row list"
  applications :: "application list"
  automation_settings :: "string option"
  deployments :: "deployment_row list"
  deployment_events :: "deployment_event list"
  alerts :: "alert list"
  application_health :: "health_evidence list"
  route_probes :: "route_probe_row list"
  webhook_deliveries :: "(string \<times> string) list"
  identity_providers :: "identity_provider list"
  users :: "user_row list"
  federated_identities :: "identity_row list"
  role_bindings :: "(int \<times> string) list"
  identity_audits :: "identity_audit_row list"
  nodes :: "node list"
  webhook_rate_limits :: "rate_limit_row list"
  unlock_attempts :: "unlock_row list"
  cloudflare :: "cloudflare_config option"

type_synonym 'a store_op = "(db, 'a) op"

text \<open>
  A database created by the migrations: empty tables, and the one row that migration V10
  inserts into \<^verbatim>\<open>cloudflare_config\<close> at the time of the migration.
\<close>

definition initial_cloudflare :: "time \<Rightarrow> cloudflare_config" where
  "initial_cloudflare now =
     \<lparr>cf_mode = ''disabled'', cf_account_id = '''', cf_tunnel_id = '''', cf_tunnel_name = '''',
      cf_status = ''disabled'', cf_last_health_check = None, cf_error_message = '''',
      cf_updated_at = now\<rparr>"

definition empty_db :: "time \<Rightarrow> db" where
  "empty_db now =
     \<lparr>settings = [], secrets = [], secret_audits = [], configurations = [], applications = [],
      automation_settings = None, deployments = [], deployment_events = [], alerts = [],
      application_health = [], route_probes = [], webhook_deliveries = [],
      identity_providers = [], users = [], federated_identities = [], role_bindings = [],
      identity_audits = [], nodes = [], webhook_rate_limits = [], unlock_attempts = [],
      cloudflare = Some (initial_cloudflare now)\<rparr>"

text \<open>The foreign key \<^verbatim>\<open>REFERENCES applications(id)\<close>.\<close>

definition app_exists :: "db \<Rightarrow> int \<Rightarrow> bool" where
  "app_exists s a \<longleftrightarrow> list_ex (\<lambda>r. app_id r = a) (applications s)"

text \<open>The zero value of the Go struct \<^verbatim>\<open>Deployment\<close>.\<close>

definition zero_deployment :: deployment where
  "zero_deployment =
     \<lparr>d_id = 0, d_application_id = 0, d_status = '''', d_image = '''', d_requested_ref = '''',
      d_source_revision = '''', d_source_fingerprint = '''', d_artifact_digest = '''',
      d_runtime = '''', d_internal_port = 0, d_health_endpoint = '''', d_manifest = '''',
      d_configuration_digest = '''', d_failure_stage = '''', d_failure_code = '''',
      d_failure_detail = '''', d_log_path = '''', d_started_at = zero_time,
      d_finished_at = zero_time, d_action = '''', d_attempt = 0, d_lease_expires_at = zero_time,
      d_heartbeat_at = zero_time, d_cancellation_requested_at = zero_time,
      d_queue_duration_ms = 0, d_source_duration_ms = 0, d_build_duration_ms = 0,
      d_start_duration_ms = 0, d_health_duration_ms = 0, d_route_duration_ms = 0,
      d_current_stage = ''''\<rparr>"

definition time_or_zero :: "time option \<Rightarrow> time" where
  "time_or_zero t = (case t of None \<Rightarrow> zero_time | Some v \<Rightarrow> v)"

text \<open>
  \<^verbatim>\<open>nullTime\<close>: the zero time is stored as NULL.
\<close>

definition nullTime :: "time \<Rightarrow> time option" where
  "nullTime value = (if value = zero_time then None else Some value)"

end
