(* ===== verification/Store_Queue.thy ===== *)
theory Store_Queue
  imports Db
begin

text \<open>
  The persistent deployment queue of package store: queueing, claiming, heartbeats,
  cancellation, recovery, finishing and the queries over the deployment history. Every SQL
  statement is the corresponding change of table \<^verbatim>\<open>deployments\<close>; the clock readings
  of an operation are its arguments.
\<close>

section \<open>Rows and structs\<close>

definition DeploymentLeaseDuration :: duration where
  "DeploymentLeaseDuration = 30 * second"

text \<open>The statuses covered by the partial unique index \<^verbatim>\<open>one_active_deployment_per_application\<close>.\<close>

definition active_status :: "string \<Rightarrow> bool" where
  "active_status st \<longleftrightarrow> st = ''queued'' \<or> st = ''running''"

abbreviation active_row :: "deployment_row \<Rightarrow> bool" where
  "active_row r \<equiv> active_status (dr_status r)"

text \<open>The columns every query of the deployment history selects.\<close>

definition scan_release :: "deployment_row \<Rightarrow> deployment" where
  "scan_release r = zero_deployment
     \<lparr>d_id := dr_id r, d_application_id := dr_application_id r, d_status := dr_status r,
      d_image := dr_image r, d_requested_ref := dr_requested_ref r,
      d_source_revision := dr_source_revision r, d_source_fingerprint := dr_source_fingerprint r,
      d_artifact_digest := dr_artifact_digest r, d_runtime := dr_runtime r,
      d_internal_port := dr_internal_port r, d_health_endpoint := dr_health_endpoint r,
      d_manifest := dr_manifest r, d_configuration_digest := dr_configuration_digest r,
      d_failure_stage := dr_failure_stage r, d_failure_code := dr_failure_code r,
      d_failure_detail := dr_failure_detail r, d_log_path := dr_log_path r,
      d_started_at := dr_started_at r, d_finished_at := time_or_zero (dr_finished_at r),
      d_action := dr_action r, d_queue_duration_ms := dr_queue_duration_ms r,
      d_source_duration_ms := dr_source_duration_ms r,
      d_build_duration_ms := dr_build_duration_ms r,
      d_start_duration_ms := dr_start_duration_ms r,
      d_health_duration_ms := dr_health_duration_ms r,
      d_route_duration_ms := dr_route_duration_ms r, d_current_stage := dr_current_stage r\<rparr>"

text \<open>The queries that also select the lease columns.\<close>

definition scan_deployment :: "deployment_row \<Rightarrow> deployment" where
  "scan_deployment r = (scan_release r)
     \<lparr>d_attempt := dr_attempt r, d_heartbeat_at := time_or_zero (dr_heartbeat_at r),
      d_lease_expires_at := time_or_zero (dr_lease_expires_at r),
      d_cancellation_requested_at := time_or_zero (dr_cancellation_requested_at r)\<rparr>"

text \<open>A row with the column defaults of migrations V1 and V2.\<close>

definition new_deployment_row :: "int \<Rightarrow> int \<Rightarrow> string \<Rightarrow> string \<Rightarrow> string \<Rightarrow> time \<Rightarrow> deployment_row" where
  "new_deployment_row i a status img logPath started =
     \<lparr>dr_id = i, dr_application_id = a, dr_status = status, dr_image = img,
      dr_log_path = logPath, dr_started_at = started, dr_finished_at = None,
      dr_action = ''deploy'', dr_requested_ref = '''', dr_source_revision = '''',
      dr_source_fingerprint = '''', dr_artifact_digest = '''', dr_runtime = '''',
      dr_internal_port = 0, dr_health_endpoint = '''', dr_manifest = '''',
      dr_configuration_digest = '''', dr_failure_stage = '''', dr_failure_code = '''',
      dr_failure_detail = '''', dr_attempt = 0, dr_heartbeat_at = None,
      dr_lease_expires_at = None, dr_cancellation_requested_at = None,
      dr_queue_duration_ms = 0, dr_source_duration_ms = 0, dr_build_duration_ms = 0,
      dr_start_duration_ms = 0, dr_health_duration_ms = 0, dr_route_duration_ms = 0,
      dr_current_stage = ''''\<rparr>"

text \<open>
  An \<^verbatim>\<open>INSERT\<close> into \<^verbatim>\<open>deployments\<close>: the partial unique index and the
  foreign key to the application are checked, and the row gets the next row identifier.
\<close>

definition insert_deployment :: "(int \<Rightarrow> deployment_row) \<Rightarrow> int store_op" where
  "insert_deployment mk s =
     (let i = next_rowid dr_id (deployments s); r = mk i
      in if active_row r \<and>
            list_ex (\<lambda>x. dr_application_id x = dr_application_id r \<and> active_row x) (deployments s)
         then (s, Inl (ErrUnique ''deployments.application_id''))
         else if \<not> app_exists s (dr_application_id r) then (s, Inl ErrForeignKey)
         else (s\<lparr>deployments := deployments s @ [r]\<rparr>, Inr i))"

text \<open>
  The index holds for a table whose active rows belong to different applications; an
  \<^verbatim>\<open>UPDATE\<close> that would break it fails and changes nothing.
\<close>

definition one_active :: "deployment_row list \<Rightarrow> bool" where
  "one_active rows \<longleftrightarrow> distinct (map dr_application_id (filter active_row rows))"

definition set_deployments :: "deployment_row list \<Rightarrow> db \<Rightarrow> db" where
  "set_deployments rows s = s\<lparr>deployments := rows\<rparr>"

section \<open>Operations\<close>

definition StartDeployment :: "time \<Rightarrow> int \<Rightarrow> string \<Rightarrow> string \<Rightarrow> deployment store_op" where
  "StartDeployment now applicationID img logPath s =
     (let leaseExpiresAt = now + DeploymentLeaseDuration
      in case insert_deployment
                (\<lambda>i. (new_deployment_row i applicationID ''running'' img logPath now)
                  \<lparr>dr_attempt := 1, dr_heartbeat_at := Some now,
                   dr_lease_expires_at := Some leaseExpiresAt\<rparr>) s
         of (s', Inl e) \<Rightarrow> (s', Inl e)
          | (s', Inr i) \<Rightarrow>
             (s', Inr (zero_deployment
                \<lparr>d_id := i, d_application_id := applicationID, d_status := ''running'',
                 d_image := img, d_log_path := logPath, d_started_at := now, d_attempt := 1,
                 d_heartbeat_at := now, d_lease_expires_at := leaseExpiresAt\<rparr>)))"

definition QueueDeployment :: "time \<Rightarrow> int \<Rightarrow> string \<Rightarrow> string \<Rightarrow> deployment store_op" where
  "QueueDeployment now applicationID action logPath s =
     (if action \<noteq> ''deploy'' \<and> action \<noteq> ''rollback'' \<and> action \<noteq> ''auto_rollback''
      then (s, Inl (ErrMsg ''invalid deployment action''))
      else case insert_deployment
                  (\<lambda>i. (new_deployment_row i applicationID ''queued'' '''' logPath now)
                    \<lparr>dr_action := action\<rparr>) s
           of (s', Inl e) \<Rightarrow> (s', Inl e)
            | (s', Inr i) \<Rightarrow>
               (s', Inr (zero_deployment
                  \<lparr>d_id := i, d_application_id := applicationID, d_status := ''queued'',
                   d_log_path := logPath, d_started_at := now, d_action := action\<rparr>)))"

definition oldest_queued :: "db \<Rightarrow> deployment_row option" where
  "oldest_queued s =
     (case sort_key dr_id (filter (\<lambda>r. dr_status r = ''queued'') (deployments s)) of
        [] \<Rightarrow> None | r # _ \<Rightarrow> Some r)"

definition claim_row :: "time \<Rightarrow> deployment_row \<Rightarrow> deployment_row" where
  "claim_row now r = r
     \<lparr>dr_status := ''running'', dr_started_at := now, dr_attempt := dr_attempt r + 1,
      dr_heartbeat_at := Some now, dr_lease_expires_at := Some (now + DeploymentLeaseDuration),
      dr_queue_duration_ms := trunc_div (now - dr_started_at r) millisecond,
      dr_current_stage := ''source''\<rparr>"

text \<open>
  The transaction of \<^verbatim>\<open>NextQueuedDeployment\<close>: nothing is committed unless exactly
  one row was updated. The struct returned carries the columns that were read before the update
  and then overwritten in Go; heartbeat and lease come from the clock, the cancellation column is
  not selected.
\<close>

definition NextQueuedDeployment :: "time \<Rightarrow> deployment store_op" where
  "NextQueuedDeployment now s =
     (case oldest_queued s of
        None \<Rightarrow> (s, Inl ErrNotFound)
      | Some r \<Rightarrow>
          (let sel = (\<lambda>x. dr_id x = dr_id r \<and> dr_status x = ''queued'')
           in if count_where sel (deployments s) \<noteq> 1 then (s, Inl ErrNotFound)
              else (set_deployments (update_where sel (claim_row now) (deployments s)) s,
                    Inr ((scan_release r)
                      \<lparr>d_status := ''running'', d_started_at := now, d_attempt := dr_attempt r + 1,
                       d_heartbeat_at := now, d_lease_expires_at := now + DeploymentLeaseDuration,
                       d_queue_duration_ms := trunc_div (now - dr_started_at r) millisecond,
                       d_current_stage := ''source''\<rparr>))))"

definition DeploymentCancellationRequested :: "int \<Rightarrow> db \<Rightarrow> bool result" where
  "DeploymentCancellationRequested i s =
     (case find (\<lambda>r. dr_id r = i) (deployments s) of
        None \<Rightarrow> Inl ErrNotFound
      | Some r \<Rightarrow> Inr (dr_cancellation_requested_at r \<noteq> None))"

definition HeartbeatDeployment :: "time \<Rightarrow> int \<Rightarrow> unit store_op" where
  "HeartbeatDeployment now i s =
     (let sel = (\<lambda>r. dr_id r = i \<and> dr_status r = ''running'' \<and>
                     dr_cancellation_requested_at r = None);
          s' = set_deployments
                 (update_where sel
                    (\<lambda>r. r\<lparr>dr_heartbeat_at := Some now,
                          dr_lease_expires_at := Some (now + DeploymentLeaseDuration)\<rparr>)
                    (deployments s)) s
      in if count_where sel (deployments s) \<noteq> 1 then
           (s', Inl (if DeploymentCancellationRequested i s' = Inr True
                     then ErrDeploymentCancelled else ErrNotFound))
         else (s', Inr ()))"

definition CancelDeployment :: "time \<Rightarrow> int \<Rightarrow> int \<Rightarrow> unit store_op" where
  "CancelDeployment now applicationID i s =
     (let sel = (\<lambda>r. dr_id r = i \<and> dr_application_id r = applicationID \<and> dr_status r = ''queued'');
          s1 = set_deployments
                 (update_where sel
                    (\<lambda>r. r\<lparr>dr_status := ''cancelled'', dr_finished_at := Some now,
                          dr_lease_expires_at := None\<rparr>) (deployments s)) s
      in if count_where sel (deployments s) = 1 then (s1, Inr ())
         else
           let sel2 = (\<lambda>r. dr_id r = i \<and> dr_application_id r = applicationID \<and>
                           dr_status r = ''running'' \<and> dr_cancellation_requested_at r = None);
               s2 = set_deployments
                      (update_where sel2 (\<lambda>r. r\<lparr>dr_cancellation_requested_at := Some now\<rparr>)
                        (deployments s1)) s1
           in if count_where sel2 (deployments s1) \<noteq> 1 then (s2, Inl ErrNotFound)
              else (s2, Inr ()))"

definition RecoverInterruptedDeployments :: "time \<Rightarrow> nat store_op" where
  "RecoverInterruptedDeployments now s =
     (let sel = (\<lambda>r. dr_status r = ''running'')
      in (set_deployments
            (update_where sel
               (\<lambda>r. r\<lparr>dr_status := ''failed'', dr_finished_at := Some now,
                     dr_failure_stage := ''start'', dr_failure_code := ''worker_restarted'',
                     dr_failure_detail := ''MiniDock restarted before this job completed'',
                     dr_lease_expires_at := None\<rparr>) (deployments s)) s,
          Inr (count_where sel (deployments s))))"

text \<open>The history of an application, most recent first.\<close>

definition app_history :: "int \<Rightarrow> db \<Rightarrow> deployment_row list" where
  "app_history applicationID s =
     order_desc dr_id (filter (\<lambda>r. dr_application_id r = applicationID) (deployments s))"

definition successful_images :: "int \<Rightarrow> db \<Rightarrow> deployment_row list" where
  "successful_images applicationID s =
     filter (\<lambda>r. dr_status r = ''successful'' \<and> dr_image r \<noteq> '''') (app_history applicationID s)"

definition PreviousSuccessfulDeployment :: "int \<Rightarrow> db \<Rightarrow> deployment result" where
  "PreviousSuccessfulDeployment applicationID s =
     (case drop 1 (successful_images applicationID s) of
        [] \<Rightarrow> Inl ErrNotFound | r # _ \<Rightarrow> Inr (scan_release r))"

definition LatestSuccessfulDeployment :: "int \<Rightarrow> db \<Rightarrow> deployment result" where
  "LatestSuccessfulDeployment applicationID s =
     (case successful_images applicationID s of
        [] \<Rightarrow> Inl ErrNotFound | r # _ \<Rightarrow> Inr (scan_release r))"

definition LatestFailedDeployment :: "int \<Rightarrow> db \<Rightarrow> deployment result" where
  "LatestFailedDeployment applicationID s =
     (case filter (\<lambda>r. dr_status r = ''failed'') (app_history applicationID s) of
        [] \<Rightarrow> Inl ErrNotFound | r # _ \<Rightarrow> Inr (scan_deployment r))"

definition finish_row :: "time \<Rightarrow> string \<Rightarrow> deployment_row \<Rightarrow> deployment_row" where
  "finish_row now status r = r
     \<lparr>dr_status := (if dr_cancellation_requested_at r \<noteq> None then ''cancelled'' else status),
      dr_finished_at := Some now, dr_lease_expires_at := None\<rparr>"

definition FinishDeployment :: "time \<Rightarrow> int \<Rightarrow> string \<Rightarrow> unit store_op" where
  "FinishDeployment now i status s =
     (let rows = update_where (\<lambda>r. dr_id r = i) (finish_row now status) (deployments s)
      in if one_active rows then (set_deployments rows s, Inr ())
         else (s, Inl (ErrUnique ''deployments.application_id'')))"

definition SetDeploymentImage :: "int \<Rightarrow> string \<Rightarrow> unit store_op" where
  "SetDeploymentImage i img s =
     (set_deployments (update_where (\<lambda>r. dr_id r = i) (\<lambda>r. r\<lparr>dr_image := img\<rparr>) (deployments s)) s,
      Inr ())"

definition SetDeploymentReleaseMetadata :: "int \<Rightarrow> release_metadata \<Rightarrow> unit store_op" where
  "SetDeploymentReleaseMetadata i m s =
     (set_deployments
        (update_where (\<lambda>r. dr_id r = i)
          (\<lambda>r. r\<lparr>dr_requested_ref := rm_requested_ref m, dr_source_revision := rm_source_revision m,
                dr_source_fingerprint := rm_source_fingerprint m,
                dr_artifact_digest := rm_artifact_digest m, dr_runtime := rm_runtime m,
                dr_internal_port := rm_internal_port m, dr_health_endpoint := rm_health_endpoint m,
                dr_manifest := rm_manifest m, dr_configuration_digest := rm_configuration_digest m\<rparr>)
          (deployments s)) s,
      Inr ())"

definition SetDeploymentFailure :: "int \<Rightarrow> string \<Rightarrow> string \<Rightarrow> string \<Rightarrow> unit store_op" where
  "SetDeploymentFailure i stage code detail s =
     (set_deployments
        (update_where (\<lambda>r. dr_id r = i)
          (\<lambda>r. r\<lparr>dr_failure_stage := stage, dr_failure_code := code, dr_failure_detail := detail\<rparr>)
          (deployments s)) s,
      Inr ())"

definition Deployments :: "int \<Rightarrow> db \<Rightarrow> deployment list" where
  "Deployments applicationID s = map scan_deployment (app_history applicationID s)"

definition Deployment :: "int \<Rightarrow> int \<Rightarrow> db \<Rightarrow> deployment result" where
  "Deployment applicationID i s =
     (case find (\<lambda>r. dr_application_id r = applicationID \<and> dr_id r = i) (deployments s) of
        None \<Rightarrow> Inl ErrNotFound | Some r \<Rightarrow> Inr (scan_deployment r))"

text \<open>The loop of \<^verbatim>\<open>RetentionCandidates\<close>, with its counter of successful releases.\<close>

fun retention_loop :: "time \<Rightarrow> int \<Rightarrow> int \<Rightarrow> deployment list \<Rightarrow> deployment list" where
  "retention_loop before retainSuccessful successful [] = []"
| "retention_loop before retainSuccessful successful (d # ds) =
     (let successful = (if d_status d = ''successful'' then successful + 1 else successful)
      in if d_status d = ''queued'' \<or> d_status d = ''running'' \<or> d_finished_at d = zero_time \<or>
            \<not> d_finished_at d < before
         then retention_loop before retainSuccessful successful ds
         else if d_status d = ''successful'' \<and> successful \<le> retainSuccessful
         then retention_loop before retainSuccessful successful ds
         else d # retention_loop before retainSuccessful successful ds)"

definition RetentionCandidates :: "int \<Rightarrow> time \<Rightarrow> int \<Rightarrow> db \<Rightarrow> deployment list" where
  "RetentionCandidates applicationID before retainSuccessful s =
     retention_loop before retainSuccessful 0 (Deployments applicationID s)"

text \<open>
  Deleting deployments cascades to their events and clears the reference of alerts
  (\<^verbatim>\<open>ON DELETE CASCADE\<close>, \<^verbatim>\<open>ON DELETE SET NULL\<close>).
\<close>

definition DeleteDeployments :: "int \<Rightarrow> int list \<Rightarrow> unit store_op" where
  "DeleteDeployments applicationID ids s =
     (if ids = [] then (s, Inr ())
      else let gone = (\<lambda>r. dr_application_id r = applicationID \<and> dr_id r \<in> set ids);
               dead = map dr_id (filter gone (deployments s))
           in (s\<lparr>deployments := delete_where gone (deployments s),
                deployment_events := delete_where (\<lambda>e. ev_deployment_id e \<in> set dead) (deployment_events s),
                alerts := update_where
                  (\<lambda>a. case al_deployment_id a of None \<Rightarrow> False | Some d \<Rightarrow> d \<in> set dead)
                  (\<lambda>a. a\<lparr>al_deployment_id := None\<rparr>) (alerts s)\<rparr>,
               Inr ()))"

definition SetDeploymentStage :: "int \<Rightarrow> string \<Rightarrow> unit store_op" where
  "SetDeploymentStage i stage s =
     (set_deployments
        (update_where (\<lambda>r. dr_id r = i) (\<lambda>r. r\<lparr>dr_current_stage := stage\<rparr>) (deployments s)) s,
      Inr ())"

definition SetDeploymentStageDurations ::
    "int \<Rightarrow> int \<Rightarrow> int \<Rightarrow> int \<Rightarrow> int \<Rightarrow> int \<Rightarrow> int \<Rightarrow> unit store_op" where
  "SetDeploymentStageDurations i queue source build start health route s =
     (set_deployments
        (update_where (\<lambda>r. dr_id r = i)
          (\<lambda>r. r\<lparr>dr_queue_duration_ms := queue, dr_source_duration_ms := source,
                dr_build_duration_ms := build, dr_start_duration_ms := start,
                dr_health_duration_ms := health, dr_route_duration_ms := route\<rparr>)
          (deployments s)) s,
      Inr ())"

definition AddDeploymentEvent :: "time \<Rightarrow> int \<Rightarrow> string \<Rightarrow> string \<Rightarrow> string \<Rightarrow> unit store_op" where
  "AddDeploymentEvent now deploymentID stage eventType message s =
     (if \<not> list_ex (\<lambda>r. dr_id r = deploymentID) (deployments s) then (s, Inl ErrForeignKey)
      else (s\<lparr>deployment_events := deployment_events s @
                [\<lparr>ev_id = next_rowid ev_id (deployment_events s), ev_deployment_id = deploymentID,
                  ev_stage = stage, ev_type = eventType, ev_message = message,
                  ev_created_at = now\<rparr>]\<rparr>, Inr ()))"

definition DeploymentEvents :: "int \<Rightarrow> db \<Rightarrow> deployment_event list" where
  "DeploymentEvents deploymentID s =
     sort_key ev_id (filter (\<lambda>e. ev_deployment_id e = deploymentID) (deployment_events s))"

text \<open>
  \<^verbatim>\<open>BuildDurationSLO\<close> as the exact ratio that the float expression approximates:
  the compliant builds in percent, and 100 when no successful build was measured.
\<close>

definition BuildDurationSLO :: "int \<Rightarrow> db \<Rightarrow> rat" where
  "BuildDurationSLO thresholdMs s =
     (let measured = (\<lambda>r. dr_action r = ''deploy'' \<and> dr_status r = ''successful'' \<and>
                          0 < dr_build_duration_ms r);
          total = count_where measured (deployments s);
          compliant = count_where (\<lambda>r. measured r \<and> dr_build_duration_ms r \<le> thresholdMs) (deployments s)
      in if total = 0 then 100 else of_nat compliant * 100 / of_nat total)"

end
