(* ===== verification/Queue_Spec.thy ===== *)
theory Queue_Spec
  imports Store_Queue
begin

text \<open>
  What the deployment queue promises. For every application the abstract state is one slot:
  free, waiting with a job identifier, or held by the worker that claimed the job, with a flag
  for a requested cancellation. The locale \<open>job_slots\<close> states the effect of each queue
  operation on the slots; the operations of package store are its interpretation. The invariant
  \<open>queue_inv\<close> of the table is what every operation keeps.
\<close>

section \<open>The abstract queue\<close>

datatype slot = Free | Waiting int | Held int bool

text \<open>The transitions an application's slot may take, whatever the operation.\<close>

inductive slot_step :: "(int \<Rightarrow> slot) \<Rightarrow> (int \<Rightarrow> slot) \<Rightarrow> bool" where
  stay: "slot_step f f"
| queued: "f a = Free \<Longrightarrow> slot_step f (f(a := Waiting i))"
| started: "f a = Free \<Longrightarrow> slot_step f (f(a := Held i False))"
| claimed: "f a = Waiting i \<Longrightarrow> slot_step f (f(a := Held i False))"
| withdrawn: "f a = Waiting i \<Longrightarrow> slot_step f (f(a := Free))"
| cancel_requested: "f a = Held i False \<Longrightarrow> slot_step f (f(a := Held i True))"
| finished: "f a = Held i c \<Longrightarrow> slot_step f (f(a := Free))"
| recovered: "slot_step f (\<lambda>a. case f a of Held _ _ \<Rightarrow> Free | x \<Rightarrow> x)"

locale job_slots =
  fixes slot :: "'s \<Rightarrow> int \<Rightarrow> slot"
    and inv :: "'s \<Rightarrow> bool"
    and enqueue :: "'q \<Rightarrow> int \<Rightarrow> ('s, 'd) op"
    and claim :: "time \<Rightarrow> ('s, 'd) op"
    and cancel :: "time \<Rightarrow> int \<Rightarrow> int \<Rightarrow> ('s, unit) op"
    and finish :: "time \<Rightarrow> int \<Rightarrow> string \<Rightarrow> ('s, unit) op"
    and recover :: "time \<Rightarrow> ('s, nat) op"
    and job_app :: "'d \<Rightarrow> int"
    and job_id :: "'d \<Rightarrow> int"
  assumes enqueue_ok: "inv s \<Longrightarrow> enqueue q a s = (s', Inr d) \<Longrightarrow>
      slot s a = Free \<and> job_app d = a \<and> slot s' = (slot s)(a := Waiting (job_id d)) \<and> inv s'"
    and enqueue_err: "inv s \<Longrightarrow> enqueue q a s = (s', Inl e) \<Longrightarrow> s' = s"
    and claim_ok: "inv s \<Longrightarrow> claim t s = (s', Inr d) \<Longrightarrow>
      slot s (job_app d) = Waiting (job_id d) \<and>
      slot s' = (slot s)(job_app d := Held (job_id d) False) \<and> inv s'"
    and claim_err: "inv s \<Longrightarrow> claim t s = (s', Inl e) \<Longrightarrow>
      s' = s \<and> e = ErrNotFound \<and> (\<forall>a i. slot s a \<noteq> Waiting i)"
    and cancel_ok: "inv s \<Longrightarrow> cancel t a i s = (s', Inr ()) \<Longrightarrow>
      (slot s a = Waiting i \<and> slot s' = (slot s)(a := Free) \<or>
       slot s a = Held i False \<and> slot s' = (slot s)(a := Held i True)) \<and> inv s'"
    and cancel_err: "inv s \<Longrightarrow> cancel t a i s = (s', Inl e) \<Longrightarrow>
      s' = s \<and> e = ErrNotFound \<and> slot s a \<noteq> Waiting i \<and> slot s a \<noteq> Held i False"
    and finish_held: "inv s \<Longrightarrow> slot s a = Held i c \<Longrightarrow> \<not> active_status st \<Longrightarrow>
      \<exists>s'. finish t i st s = (s', Inr ()) \<and> slot s' = (slot s)(a := Free) \<and> inv s'"
    and recover_all: "inv s \<Longrightarrow>
      \<exists>s' n. recover t s = (s', Inr n) \<and> inv s' \<and>
        slot s' = (\<lambda>a. case slot s a of Held _ _ \<Rightarrow> Free | x \<Rightarrow> x)"
begin

text \<open>Two claims never hand out the same application without a release in between.\<close>

lemma claim_claim_distinct:
  assumes "inv s" and "claim t s = (s1, Inr d1)" and "claim t' s1 = (s2, Inr d2)"
  shows "job_app d1 \<noteq> job_app d2"
proof
  assume eq: "job_app d1 = job_app d2"
  from claim_ok [OF assms(1,2)] have "slot s1 (job_app d1) = Held (job_id d1) False" "inv s1"
    by simp_all
  with claim_ok [OF _ assms(3)] eq show False by simp
qed

text \<open>While a job is claimed, nothing can be queued for its application.\<close>

lemma held_blocks_enqueue:
  assumes "inv s" and "slot s a \<noteq> Free"
  shows "\<exists>e. enqueue q a s = (s, Inl e)"
proof (cases "enqueue q a s")
  case (Pair s' r)
  with assms enqueue_ok [of s q a s'] enqueue_err [of s q a s'] show ?thesis by (cases r) auto
qed

text \<open>A claimed job that is finished frees its application.\<close>

lemma claim_finish_frees:
  assumes "inv s" and "claim t s = (s1, Inr d)" and "\<not> active_status st"
  shows "\<exists>s2. finish t' (job_id d) st s1 = (s2, Inr ()) \<and>
    slot s2 = (slot s)(job_app d := Free) \<and> inv s2"
proof -
  from claim_ok [OF assms(1,2)] have
    "inv s1" "slot s1 (job_app d) = Held (job_id d) False"
    and eq: "slot s1 = (slot s)(job_app d := Held (job_id d) False)" by simp_all
  from finish_held [OF this(1,2) assms(3)] eq show ?thesis by fastforce
qed

text \<open>After recovery no application is held, so no slot is blocked by a dead worker.\<close>

lemma recover_not_held:
  assumes "inv s" and "recover t s = (s', r)"
  shows "slot s' a \<noteq> Held i c"
  using recover_all [OF assms(1), of t] assms(2) by (auto split: slot.splits)

lemma enqueue_step: "inv s \<Longrightarrow> enqueue q a s = (s', r) \<Longrightarrow> slot_step (slot s) (slot s') \<and> inv s'"
  using enqueue_ok enqueue_err by (cases r) (fastforce intro: slot_step.intros)+

lemma claim_step: "inv s \<Longrightarrow> claim t s = (s', r) \<Longrightarrow> slot_step (slot s) (slot s') \<and> inv s'"
  using claim_ok claim_err by (cases r) (fastforce intro: slot_step.intros)+

lemma cancel_step: "inv s \<Longrightarrow> cancel t a i s = (s', r) \<Longrightarrow> slot_step (slot s) (slot s') \<and> inv s'"
  using cancel_ok cancel_err by (cases r) (fastforce intro: slot_step.intros)+

lemma recover_step: "inv s \<Longrightarrow> recover t s = (s', r) \<Longrightarrow> slot_step (slot s) (slot s') \<and> inv s'"
  using recover_all [of s t] by (auto intro: slot_step.recovered)

end

section \<open>The invariant of the table\<close>

definition row_ok :: "deployment_row \<Rightarrow> bool" where
  "row_ok r \<longleftrightarrow>
     (dr_status r = ''queued'' \<longrightarrow> dr_attempt r = 0 \<and> dr_lease_expires_at r = None \<and>
        dr_cancellation_requested_at r = None \<and> dr_finished_at r = None) \<and>
     (dr_status r = ''running'' \<longrightarrow> dr_heartbeat_at r \<noteq> None \<and> dr_lease_expires_at r \<noteq> None \<and>
        dr_finished_at r = None) \<and>
     (\<not> active_row r \<longrightarrow> dr_finished_at r \<noteq> None \<and> dr_lease_expires_at r = None)"

definition queue_inv :: "db \<Rightarrow> bool" where
  "queue_inv s \<longleftrightarrow>
     sorted_wrt (<) (map dr_id (deployments s)) \<and> one_active (deployments s) \<and>
     (\<forall>r\<in>set (deployments s). 0 < dr_id r \<and> app_exists s (dr_application_id r) \<and> row_ok r)"

definition slot_row :: "deployment_row \<Rightarrow> slot" where
  "slot_row r = (if dr_status r = ''queued'' then Waiting (dr_id r)
                 else Held (dr_id r) (dr_cancellation_requested_at r \<noteq> None))"

definition slot_of :: "db \<Rightarrow> int \<Rightarrow> slot" where
  "slot_of s a =
     (case find (\<lambda>r. dr_application_id r = a \<and> active_row r) (deployments s) of
        None \<Rightarrow> Free | Some r \<Rightarrow> slot_row r)"

lemma deployments_set_deployments [simp]:
  "deployments (set_deployments rows s) = rows"
  "app_exists (set_deployments rows s) a = app_exists s a"
  "applications (set_deployments rows s) = applications s"
  by (simp_all add: set_deployments_def app_exists_def)

lemma queue_inv_distinct: "queue_inv s \<Longrightarrow> distinct (map dr_id (deployments s))"
  by (simp add: queue_inv_def strict_sorted_iff)

lemma queue_inv_sorted: "queue_inv s \<Longrightarrow> sorted (map dr_id (deployments s))"
  by (simp add: queue_inv_def strict_sorted_iff)

lemma one_active_unique:
  assumes "one_active rows" and "r \<in> set rows" and "q \<in> set rows"
    and "active_row r" and "active_row q" and "dr_application_id r = dr_application_id q"
  shows "r = q"
  using assms by (intro distinct_key_inj [of dr_application_id "filter active_row rows"])
    (auto simp: one_active_def)

lemma slot_of_active:
  assumes "one_active (deployments s)" and "r \<in> set (deployments s)" and "active_row r"
  shows "slot_of s (dr_application_id r) = slot_row r"
proof (cases "find (\<lambda>x. dr_application_id x = dr_application_id r \<and> active_row x) (deployments s)")
  case None
  with assms(2,3) show ?thesis by (auto simp: find_None_iff)
next
  case (Some q)
  then have "q \<in> set (deployments s)" "active_row q" "dr_application_id q = dr_application_id r"
    by (auto simp: find_Some_iff)
  with assms one_active_unique have "q = r" by blast
  with Some show ?thesis by (simp add: slot_of_def)
qed

lemma slot_of_Free:
  "slot_of s a = Free \<longleftrightarrow> \<not> (\<exists>r\<in>set (deployments s). dr_application_id r = a \<and> active_row r)"
  by (auto simp: slot_of_def slot_row_def find_None_iff split: option.splits dest: find_SomeD)

lemma slot_of_nonFree:
  assumes "slot_of s a = x" and "x \<noteq> Free"
  obtains r where "r \<in> set (deployments s)" "dr_application_id r = a" "active_row r" "x = slot_row r"
proof (cases "find (\<lambda>r. dr_application_id r = a \<and> active_row r) (deployments s)")
  case None
  with assms show ?thesis by (simp add: slot_of_def)
next
  case (Some r)
  then have "r \<in> set (deployments s)" "dr_application_id r = a" "active_row r"
    by (auto simp: find_Some_iff)
  moreover from Some assms have "x = slot_row r" by (simp add: slot_of_def)
  ultimately show ?thesis by (rule that)
qed

text \<open>How slots are read off a table: the way every operation's effect is proved.\<close>

lemma slot_of_eqI:
  assumes "one_active (deployments s)"
    and "\<And>r. r \<in> set (deployments s) \<Longrightarrow> active_row r \<Longrightarrow> f (dr_application_id r) = slot_row r"
    and "\<And>a. \<forall>r\<in>set (deployments s). dr_application_id r = a \<longrightarrow> \<not> active_row r \<Longrightarrow> f a = Free"
  shows "slot_of s = f"
proof
  fix a
  show "slot_of s a = f a"
  proof (cases "\<exists>r\<in>set (deployments s). dr_application_id r = a \<and> active_row r")
    case True
    then obtain r where "r \<in> set (deployments s)" "dr_application_id r = a" "active_row r" by blast
    with assms(1,2) slot_of_active show ?thesis by metis
  next
    case False
    then have "slot_of s a = Free" by (simp add: slot_of_Free)
    with False assms(3) show ?thesis by auto
  qed
qed

lemma one_active_update:
  assumes "one_active rows"
    and "\<And>r. P r \<Longrightarrow> dr_application_id (u r) = dr_application_id r \<and> (active_row (u r) \<longrightarrow> active_row r)"
  shows "one_active (update_where P u rows)"
proof -
  have "set (map dr_application_id (filter active_row (update_where P u rows)))
      \<subseteq> set (map dr_application_id (filter active_row rows)) \<and>
    (distinct (map dr_application_id (filter active_row rows)) \<longrightarrow>
     distinct (map dr_application_id (filter active_row (update_where P u rows))))"
  proof (induction rows)
    case (Cons r rows)
    then show ?case using assms(2) [of r] by auto
  qed simp
  with assms(1) show ?thesis by (simp add: one_active_def)
qed

text \<open>
  An update that keeps identifier, application and well-formedness of the rows, and makes no row
  active, keeps the invariant.
\<close>

lemma queue_inv_update:
  assumes "queue_inv s"
    and "\<And>r. r \<in> set (deployments s) \<Longrightarrow> row_ok r \<Longrightarrow> P r \<Longrightarrow> row_ok (u r)"
    and "\<And>r. P r \<Longrightarrow> dr_id (u r) = dr_id r \<and> dr_application_id (u r) = dr_application_id r \<and>
      (active_row (u r) \<longrightarrow> active_row r)"
  shows "queue_inv (set_deployments (update_where P u (deployments s)) s)"
proof -
  have "map dr_id (update_where P u (deployments s)) = map dr_id (deployments s)"
    using assms(3) by (intro map_update_where) simp
  moreover have "one_active (update_where P u (deployments s))"
    using assms(1,3) by (intro one_active_update) (auto simp: queue_inv_def)
  moreover have "0 < dr_id r \<and> app_exists s (dr_application_id r) \<and> row_ok r"
    if "r \<in> set (update_where P u (deployments s))" for r
    using that assms by (auto simp: queue_inv_def elim!: in_update_whereE)
  ultimately show ?thesis using assms(1) by (simp add: queue_inv_def)
qed

text \<open>Updates that do not touch the columns a slot depends on do not change any slot.\<close>

lemma slot_of_frame:
  assumes "queue_inv s"
    and "\<And>r. P r \<Longrightarrow> dr_id (u r) = dr_id r \<and> dr_application_id (u r) = dr_application_id r \<and>
      dr_status (u r) = dr_status r \<and>
      dr_cancellation_requested_at (u r) = dr_cancellation_requested_at r"
  shows "slot_of (set_deployments (update_where P u (deployments s)) s) = slot_of s"
proof (rule slot_of_eqI)
  show "one_active (deployments (set_deployments (update_where P u (deployments s)) s))"
    using assms by (simp add: one_active_update queue_inv_def)
next
  fix r assume r: "r \<in> set (deployments (set_deployments (update_where P u (deployments s)) s))"
    and "active_row r"
  then obtain q where "q \<in> set (deployments s)" "active_row q"
      "dr_application_id q = dr_application_id r" "slot_row q = slot_row r"
    using assms(2) by (auto simp: slot_row_def elim!: in_update_whereE)
  then show "slot_of s (dr_application_id r) = slot_row r"
    using assms(1) slot_of_active by (metis queue_inv_def)
next
  fix a assume "\<forall>r\<in>set (deployments (set_deployments (update_where P u (deployments s)) s)).
    dr_application_id r = a \<longrightarrow> \<not> active_row r"
  then have "dr_application_id r = a \<longrightarrow> \<not> active_row r" if "r \<in> set (deployments s)" for r
    using assms(2) [of r] that in_update_where_other [of r "deployments s" P u]
      in_update_where_changed [of r "deployments s" P u] by (cases "P r") auto
  then show "slot_of s a = Free" by (auto simp: slot_of_Free)
qed

section \<open>The operations keep the invariant and move the slots\<close>

lemma active_status_simps [simp]:
  "active_status ''queued''" "active_status ''running''"
  "\<not> active_status ''cancelled''" "\<not> active_status ''failed''" "\<not> active_status ''successful''"
  by (simp_all add: active_status_def)

lemma new_row_simps [simp]:
  "dr_id (new_deployment_row i a st img lp t) = i"
  "dr_application_id (new_deployment_row i a st img lp t) = a"
  "dr_status (new_deployment_row i a st img lp t) = st"
  "dr_attempt (new_deployment_row i a st img lp t) = 0"
  "dr_finished_at (new_deployment_row i a st img lp t) = None"
  "dr_lease_expires_at (new_deployment_row i a st img lp t) = None"
  "dr_cancellation_requested_at (new_deployment_row i a st img lp t) = None"
  by (simp_all add: new_deployment_row_def)

lemma one_active_snoc:
  "one_active (rows @ [r]) \<longleftrightarrow> one_active rows \<and>
    (active_row r \<longrightarrow> (\<forall>q\<in>set rows. active_row q \<longrightarrow> dr_application_id q \<noteq> dr_application_id r))"
  by (auto simp: one_active_def image_iff)

lemma insert_slot:
  assumes "queue_inv s" and "dr_id r = next_rowid dr_id (deployments s)" and "active_row r"
    and "row_ok r" and "app_exists s (dr_application_id r)"
    and "slot_of s (dr_application_id r) = Free"
  shows "queue_inv (s\<lparr>deployments := deployments s @ [r]\<rparr>)"
    and "slot_of (s\<lparr>deployments := deployments s @ [r]\<rparr>) =
      (slot_of s)(dr_application_id r := slot_row r)"
proof -
  let ?s = "s\<lparr>deployments := deployments s @ [r]\<rparr>"
  have one: "one_active (deployments ?s)"
    using assms(1,3,6) by (auto simp: one_active_snoc slot_of_Free queue_inv_def)
  have "sorted_wrt (<) (map dr_id (deployments ?s))"
    using assms(1,2) next_rowid_gt [of _ "deployments s" dr_id]
    by (auto simp: queue_inv_def sorted_wrt_append)
  with one assms show "queue_inv ?s"
    by (auto simp: queue_inv_def app_exists_def next_rowid_pos)
  show "slot_of ?s = (slot_of s)(dr_application_id r := slot_row r)"
  proof (rule slot_of_eqI [OF one])
    fix q assume "q \<in> set (deployments ?s)" "active_row q"
    then show "((slot_of s)(dr_application_id r := slot_row r)) (dr_application_id q) = slot_row q"
      using assms(1,6) slot_of_active [of s q] by (auto simp: slot_of_Free queue_inv_def)
  next
    fix a assume "\<forall>q\<in>set (deployments ?s). dr_application_id q = a \<longrightarrow> \<not> active_row q"
    then show "((slot_of s)(dr_application_id r := slot_row r)) a = Free"
      using assms(3) by (auto simp: slot_of_Free)
  qed
qed

lemma insert_deployment_cases:
  assumes "insert_deployment mk s = (s', x)" and "active_row (mk (next_rowid dr_id (deployments s)))"
  obtains (ok) r where "r = mk (next_rowid dr_id (deployments s))" "x = Inr (next_rowid dr_id (deployments s))"
      "s' = s\<lparr>deployments := deployments s @ [r]\<rparr>" "app_exists s (dr_application_id r)"
      "slot_of s (dr_application_id r) = Free"
    | (busy) "s' = s" "x = Inl (ErrUnique ''deployments.application_id'')"
      "slot_of s (dr_application_id (mk (next_rowid dr_id (deployments s)))) \<noteq> Free"
    | (unknown) "s' = s" "x = Inl ErrForeignKey"
      "\<not> app_exists s (dr_application_id (mk (next_rowid dr_id (deployments s))))"
      "slot_of s (dr_application_id (mk (next_rowid dr_id (deployments s)))) = Free"
proof -
  define r where "r = mk (next_rowid dr_id (deployments s))"
  have busy_iff: "list_ex (\<lambda>x. dr_application_id x = dr_application_id r \<and> active_row x) (deployments s) \<longleftrightarrow>
      slot_of s (dr_application_id r) \<noteq> Free"
    by (auto simp: list_ex_iff slot_of_Free)
  have "insert_deployment mk s =
      (if slot_of s (dr_application_id r) \<noteq> Free then (s, Inl (ErrUnique ''deployments.application_id''))
       else if \<not> app_exists s (dr_application_id r) then (s, Inl ErrForeignKey)
       else (s\<lparr>deployments := deployments s @ [r]\<rparr>, Inr (next_rowid dr_id (deployments s))))"
    using assms(2) busy_iff unfolding insert_deployment_def Let_def r_def by simp
  with assms(1) r_def show ?thesis
    using ok [of r] busy unknown by (simp split: if_splits)
qed

definition queue_action :: "string \<Rightarrow> bool" where
  "queue_action action \<longleftrightarrow> action = ''deploy'' \<or> action = ''rollback'' \<or> action = ''auto_rollback''"

text \<open>The complete behaviour of \<^verbatim>\<open>QueueDeployment\<close>.\<close>

lemma QueueDeployment_cases:
  assumes "queue_inv s" and "QueueDeployment now a action lp s = (s', x)"
  obtains (ok) d where "x = Inr d" "queue_action action" "app_exists s a" "slot_of s a = Free"
      "d_application_id d = a" "d_id d = next_rowid dr_id (deployments s)" "d_status d = ''queued''"
      "slot_of s' = (slot_of s)(a := Waiting (d_id d))" "queue_inv s'"
      "deployments s' = deployments s @
         [(new_deployment_row (d_id d) a ''queued'' '''' lp now)\<lparr>dr_action := action\<rparr>]"
    | (invalid) "s' = s" "x = Inl (ErrMsg ''invalid deployment action'')" "\<not> queue_action action"
    | (busy) "s' = s" "x = Inl (ErrUnique ''deployments.application_id'')" "slot_of s a \<noteq> Free"
    | (unknown) "s' = s" "x = Inl ErrForeignKey" "\<not> app_exists s a" "slot_of s a = Free"
proof (cases "queue_action action")
  case False
  with assms(2) invalid show ?thesis by (auto simp: QueueDeployment_def queue_action_def)
next
  case True
  define mk where "mk i = (new_deployment_row i a ''queued'' '''' lp now)\<lparr>dr_action := action\<rparr>" for i
  obtain s1 y where ins: "insert_deployment mk s = (s1, y)" by fastforce
  have eq: "QueueDeployment now a action lp s = (case (s1, y) of (s', Inl e) \<Rightarrow> (s', Inl e)
            | (s', Inr i) \<Rightarrow>
               (s', Inr (zero_deployment
                  \<lparr>d_id := i, d_application_id := a, d_status := ''queued'',
                   d_log_path := lp, d_started_at := now, d_action := action\<rparr>)))"
    using True ins unfolding QueueDeployment_def mk_def queue_action_def by auto
  have act: "active_row (mk (next_rowid dr_id (deployments s)))" by (simp add: mk_def)
  from ins act show ?thesis
  proof (cases rule: insert_deployment_cases)
    case (ok r)
    have "queue_inv s1" "slot_of s1 = (slot_of s)(a := Waiting (dr_id r))"
      using insert_slot [OF assms(1), of r] ok
      by (simp_all add: mk_def row_ok_def slot_row_def)
    then show ?thesis using ok eq assms(2) True
      by (intro that(1)) (auto simp: mk_def)
  next
    case busy
    with eq assms(2) show ?thesis by (intro that(3)) (auto simp: mk_def)
  next
    case unknown
    with eq assms(2) show ?thesis by (intro that(4)) (auto simp: mk_def)
  qed
qed

lemma StartDeployment_ok:
  assumes "queue_inv s" and "StartDeployment now a img lp s = (s', Inr d)"
  shows "slot_of s a = Free \<and> slot_of s' = (slot_of s)(a := Held (d_id d) False) \<and> queue_inv s' \<and>
    d_application_id d = a"
proof -
  define mk where "mk i = (new_deployment_row i a ''running'' img lp now)
     \<lparr>dr_attempt := 1, dr_heartbeat_at := Some now,
      dr_lease_expires_at := Some (now + DeploymentLeaseDuration)\<rparr>" for i
  obtain s1 y where ins: "insert_deployment mk s = (s1, y)" by fastforce
  have eq: "StartDeployment now a img lp s = (case (s1, y) of (s', Inl e) \<Rightarrow> (s', Inl e)
            | (s', Inr i) \<Rightarrow>
               (s', Inr (zero_deployment
                  \<lparr>d_id := i, d_application_id := a, d_status := ''running'',
                   d_image := img, d_log_path := lp, d_started_at := now, d_attempt := 1,
                   d_heartbeat_at := now, d_lease_expires_at := now + DeploymentLeaseDuration\<rparr>)))"
    using ins unfolding StartDeployment_def mk_def Let_def by auto
  have act: "active_row (mk (next_rowid dr_id (deployments s)))" by (simp add: mk_def)
  from ins act show ?thesis
  proof (cases rule: insert_deployment_cases)
    case (ok r)
    have "queue_inv s1" "slot_of s1 = (slot_of s)(a := Held (dr_id r) False)"
      using insert_slot [OF assms(1), of r] ok
      by (simp_all add: mk_def row_ok_def slot_row_def)
    with ok eq assms(2) show ?thesis by (auto simp: mk_def)
  qed (use eq assms(2) in auto)
qed

text \<open>One active row changes: the slot of its application follows it, the others stay.\<close>

lemma update_one_slot:
  assumes "queue_inv s" and "r \<in> set (deployments s)" and "active_row r" and "P r"
    and "\<And>q. P q \<Longrightarrow> dr_id q = dr_id r"
    and "dr_id (u r) = dr_id r" and "dr_application_id (u r) = dr_application_id r"
    and "row_ok r \<Longrightarrow> row_ok (u r)"
  shows "queue_inv (set_deployments (update_where P u (deployments s)) s) \<and>
    slot_of (set_deployments (update_where P u (deployments s)) s) =
      (slot_of s)(dr_application_id r := if active_row (u r) then slot_row (u r) else Free)"
proof -
  let ?rows = "update_where (\<lambda>x. x = r) u (deployments s)"
  let ?s = "set_deployments ?rows s"
  have same: "update_where P u (deployments s) = ?rows"
    unfolding update_where_def
  proof (rule map_cong [OF refl])
    fix q assume "q \<in> set (deployments s)"
    then show "(if P q then u q else q) = (if q = r then u q else q)"
      using assms(2,4,5) distinct_key_inj [OF queue_inv_distinct [OF assms(1)]] by metis
  qed
  have inv: "queue_inv ?s"
  proof (rule queue_inv_update [OF assms(1)])
    show "row_ok (u q)" if "row_ok q" "q = r" for q using that assms(8) by simp
    show "dr_id (u q) = dr_id q \<and> dr_application_id (u q) = dr_application_id q \<and>
        (active_row (u q) \<longrightarrow> active_row q)" if "q = r" for q
      using that assms(3,6,7) by simp
  qed
  have one: "one_active (deployments s)" using assms(1) by (simp add: queue_inv_def)
  have "slot_of ?s = (slot_of s)(dr_application_id r := if active_row (u r) then slot_row (u r) else Free)"
  proof (rule slot_of_eqI)
    show "one_active (deployments ?s)" using inv by (simp add: queue_inv_def)
  next
    fix q assume "q \<in> set (deployments ?s)" "active_row q"
    then show "((slot_of s)(dr_application_id r := if active_row (u r) then slot_row (u r) else Free))
        (dr_application_id q) = slot_row q"
      using assms(2,3,7) slot_of_active [OF one] one_active_unique [OF one, of q r]
      by (auto elim!: in_update_whereE)
  next
    fix a assume free: "\<forall>q\<in>set (deployments ?s). dr_application_id q = a \<longrightarrow> \<not> active_row q"
    have "u r \<in> set (deployments ?s)" using assms(2) by (simp add: in_update_where_changed)
    moreover have "q \<in> set (deployments ?s)" if "q \<in> set (deployments s)" "q \<noteq> r" for q
      using that by (simp add: in_update_where_other)
    ultimately show "((slot_of s)(dr_application_id r := if active_row (u r) then slot_row (u r) else Free)) a = Free"
      using free assms(7) by (auto simp: slot_of_Free)
  qed
  with inv same show ?thesis by simp
qed

end
