(* ===== verification/Queue_Refines.thy ===== *)
theory Queue_Refines
  imports Queue_Spec
begin

text \<open>
  The operations of the deployment queue implement the contract \<open>job_slots\<close>: the effect
  of claiming, cancelling, heartbeats, finishing and recovery on the slots, the frame lemmas of
  the operations that only write columns of the history, and the reachable states of the queue.
\<close>

lemma count_where_none: "\<forall>r\<in>set rows. \<not> P r \<Longrightarrow> count_where P rows \<noteq> 1"
  by (metis count_where_0 zero_neq_one)

section \<open>Claiming\<close>

lemma oldest_queued_None:
  "oldest_queued s = None \<longleftrightarrow> (\<forall>r\<in>set (deployments s). dr_status r \<noteq> ''queued'')"
proof -
  have "oldest_queued s = None \<longleftrightarrow>
      sort_key dr_id (filter (\<lambda>r. dr_status r = ''queued'') (deployments s)) = []"
    by (simp add: oldest_queued_def split: list.splits)
  also have "\<dots> \<longleftrightarrow> filter (\<lambda>r. dr_status r = ''queued'') (deployments s) = []"
    by (simp only: length_0_conv [symmetric] length_sort)
  finally show ?thesis by (simp add: filter_empty_conv)
qed

lemma oldest_queued_Some:
  assumes "oldest_queued s = Some r"
  shows "r \<in> set (deployments s)" and "dr_status r = ''queued''"
    and "\<And>q. q \<in> set (deployments s) \<Longrightarrow> dr_status q = ''queued'' \<Longrightarrow> dr_id r \<le> dr_id q"
proof -
  let ?qs = "filter (\<lambda>r. dr_status r = ''queued'') (deployments s)"
  obtain rs where rs: "sort_key dr_id ?qs = r # rs"
    using assms by (auto simp: oldest_queued_def split: list.splits)
  have set_eq: "set (sort_key dr_id ?qs) = set ?qs" by (rule set_sort)
  from rs set_eq show "r \<in> set (deployments s)" "dr_status r = ''queued''" by auto
  have sorted: "sorted (map dr_id (r # rs))" using rs sorted_sort_key [of dr_id ?qs] by simp
  show "dr_id r \<le> dr_id q" if q: "q \<in> set (deployments s)" "dr_status q = ''queued''" for q
  proof -
    have "q \<in> set (r # rs)" using q set_eq rs by auto
    with sorted show ?thesis by auto
  qed
qed

lemma row_by_id:
  assumes "queue_inv s" and "r \<in> set (deployments s)" and "q \<in> set (deployments s)" and "dr_id q = dr_id r"
  shows "q = r"
  using distinct_key_inj [OF queue_inv_distinct [OF assms(1)] assms(3,2,4)] .

lemma count_one_row:
  assumes "queue_inv s" and "r \<in> set (deployments s)" and "P r"
    and "\<And>q. P q \<Longrightarrow> dr_id q = dr_id r"
  shows "count_where P (deployments s) = 1"
  by (rule count_where_key [OF queue_inv_distinct [OF assms(1)] assms(2)]) (rule assms(3), rule assms(4))

lemma NextQueuedDeployment_Some:
  assumes "queue_inv s" and "oldest_queued s = Some r"
  shows "\<exists>s' d. NextQueuedDeployment now s = (s', Inr d) \<and> d_id d = dr_id r \<and>
    d_application_id d = dr_application_id r \<and> d_status d = ''running'' \<and>
    d_attempt d = dr_attempt r + 1 \<and> d_lease_expires_at d = now + DeploymentLeaseDuration \<and>
    queue_inv s' \<and> slot_of s (dr_application_id r) = Waiting (dr_id r) \<and>
    slot_of s' = (slot_of s)(dr_application_id r := Held (dr_id r) False) \<and>
    deployments s' = update_where (\<lambda>x. dr_id x = dr_id r) (claim_row now) (deployments s)"
proof -
  let ?P = "\<lambda>x. dr_id x = dr_id r \<and> dr_status x = ''queued''"
  note r = oldest_queued_Some [OF assms(2)]
  have act: "active_row r" using r(2) by (simp add: active_status_def)
  have ok: "row_ok r" using assms(1) r(1) by (simp add: queue_inv_def)
  have cnt: "count_where ?P (deployments s) = 1"
    using count_one_row [OF assms(1) r(1), of ?P] r(2) by simp
  have eq: "update_where ?P (claim_row now) (deployments s) =
      update_where (\<lambda>x. dr_id x = dr_id r) (claim_row now) (deployments s)"
    unfolding update_where_def
  proof (rule map_cong [OF refl])
    fix q assume "q \<in> set (deployments s)"
    then show "(if ?P q then claim_row now q else q) = (if dr_id q = dr_id r then claim_row now q else q)"
      using row_by_id [OF assms(1) r(1)] r(2) by metis
  qed
  have upd: "queue_inv (set_deployments (update_where ?P (claim_row now) (deployments s)) s) \<and>
      slot_of (set_deployments (update_where ?P (claim_row now) (deployments s)) s) =
      (slot_of s)(dr_application_id r := if active_row (claim_row now r) then slot_row (claim_row now r) else Free)"
    by (rule update_one_slot [OF assms(1) r(1) act])
      (use r(2) ok in \<open>simp_all add: claim_row_def row_ok_def\<close>)
  have "slot_row (claim_row now r) = Held (dr_id r) False" "active_row (claim_row now r)"
    using ok r(2) by (simp_all add: slot_row_def claim_row_def row_ok_def)
  moreover have "slot_of s (dr_application_id r) = Waiting (dr_id r)"
    using slot_of_active [of s r] assms(1) r act by (simp add: queue_inv_def slot_row_def)
  ultimately show ?thesis
    using upd cnt assms(2) eq
    by (simp add: NextQueuedDeployment_def scan_release_def Let_def)
qed

lemma NextQueuedDeployment_None:
  "oldest_queued s = None \<Longrightarrow> NextQueuedDeployment now s = (s, Inl ErrNotFound)"
  by (simp add: NextQueuedDeployment_def)

lemma waiting_queued:
  "queue_inv s \<Longrightarrow> slot_of s a = Waiting i \<longleftrightarrow>
    (\<exists>r\<in>set (deployments s). dr_application_id r = a \<and> dr_id r = i \<and> dr_status r = ''queued'')"
proof
  assume "slot_of s a = Waiting i"
  then show "\<exists>r\<in>set (deployments s). dr_application_id r = a \<and> dr_id r = i \<and> dr_status r = ''queued''"
    by (rule slot_of_nonFree) (auto simp: slot_row_def split: if_splits)
next
  assume "queue_inv s" and
    "\<exists>r\<in>set (deployments s). dr_application_id r = a \<and> dr_id r = i \<and> dr_status r = ''queued''"
  then show "slot_of s a = Waiting i"
    using slot_of_active [of s] by (fastforce simp: queue_inv_def active_status_def slot_row_def)
qed

lemma held_running:
  "queue_inv s \<Longrightarrow> slot_of s a = Held i c \<longleftrightarrow>
    (\<exists>r\<in>set (deployments s). dr_application_id r = a \<and> dr_id r = i \<and> dr_status r = ''running'' \<and>
       c = (dr_cancellation_requested_at r \<noteq> None))"
proof
  assume "slot_of s a = Held i c"
  then show "\<exists>r\<in>set (deployments s). dr_application_id r = a \<and> dr_id r = i \<and> dr_status r = ''running'' \<and>
       c = (dr_cancellation_requested_at r \<noteq> None)"
    by (rule slot_of_nonFree) (auto simp: slot_row_def active_status_def split: if_splits)
next
  assume "queue_inv s" and
    "\<exists>r\<in>set (deployments s). dr_application_id r = a \<and> dr_id r = i \<and> dr_status r = ''running'' \<and>
       c = (dr_cancellation_requested_at r \<noteq> None)"
  then show "slot_of s a = Held i c"
    using slot_of_active [of s] by (fastforce simp: queue_inv_def active_status_def slot_row_def)
qed

lemma NextQueuedDeployment_cases:
  assumes "queue_inv s" and "NextQueuedDeployment now s = (s', x)"
  obtains (claimed) r d where "oldest_queued s = Some r" "x = Inr d" "d_id d = dr_id r"
      "d_application_id d = dr_application_id r" "queue_inv s'"
      "slot_of s (dr_application_id r) = Waiting (dr_id r)"
      "slot_of s' = (slot_of s)(dr_application_id r := Held (dr_id r) False)"
    | (none) "s' = s" "x = Inl ErrNotFound" "\<And>a i. slot_of s a \<noteq> Waiting i"
proof (cases "oldest_queued s")
  case None
  then have "\<And>a i. slot_of s a \<noteq> Waiting i"
    using waiting_queued [OF assms(1)] by (auto simp: oldest_queued_None)
  with None assms(2) show ?thesis by (intro none) (simp_all add: NextQueuedDeployment_None)
next
  case (Some r)
  with NextQueuedDeployment_Some [OF assms(1) Some, of now] assms(2) show ?thesis
    by (auto intro: claimed)
qed

section \<open>Cancelling\<close>

lemma CancelDeployment_queued:
  assumes "queue_inv s" and "slot_of s a = Waiting i"
  shows "\<exists>s'. CancelDeployment now a i s = (s', Inr ()) \<and> queue_inv s' \<and>
    slot_of s' = (slot_of s)(a := Free)"
proof -
  obtain r where r: "r \<in> set (deployments s)" "dr_application_id r = a" "dr_id r = i"
      "dr_status r = ''queued''"
    using assms by (auto simp: waiting_queued)
  let ?P = "\<lambda>x. dr_id x = i \<and> dr_application_id x = a \<and> dr_status x = ''queued''"
  let ?u = "\<lambda>r. r\<lparr>dr_status := ''cancelled'', dr_finished_at := Some now, dr_lease_expires_at := None\<rparr>"
  have "count_where ?P (deployments s) = 1"
    using count_one_row [OF assms(1) r(1), of ?P] r by simp
  moreover have "queue_inv (set_deployments (update_where ?P ?u (deployments s)) s) \<and>
      slot_of (set_deployments (update_where ?P ?u (deployments s)) s) =
      (slot_of s)(dr_application_id r := if active_row (?u r) then slot_row (?u r) else Free)"
    by (rule update_one_slot [OF assms(1) r(1)])
      (use r in \<open>simp_all add: row_ok_def active_status_def\<close>)
  ultimately show ?thesis using r(2) by (simp add: CancelDeployment_def Let_def)
qed

lemma CancelDeployment_not_queued:
  assumes "queue_inv s" and "slot_of s a \<noteq> Waiting i"
  shows "CancelDeployment now a i s =
    (let sel = (\<lambda>r. dr_id r = i \<and> dr_application_id r = a \<and> dr_status r = ''running'' \<and>
                    dr_cancellation_requested_at r = None);
         s' = set_deployments
                (update_where sel (\<lambda>r. r\<lparr>dr_cancellation_requested_at := Some now\<rparr>) (deployments s)) s
     in if count_where sel (deployments s) \<noteq> 1 then (s', Inl ErrNotFound) else (s', Inr ()))"
proof -
  have none: "\<forall>r\<in>set (deployments s). \<not> (dr_id r = i \<and> dr_application_id r = a \<and> dr_status r = ''queued'')"
    using assms by (auto simp: waiting_queued)
  then have "count_where (\<lambda>r. dr_id r = i \<and> dr_application_id r = a \<and> dr_status r = ''queued'') (deployments s) \<noteq> 1"
    by (rule count_where_none)
  moreover have "set_deployments (deployments s) s = s" by (simp add: set_deployments_def)
  ultimately show ?thesis using none by (simp add: CancelDeployment_def Let_def)
qed

lemma CancelDeployment_held:
  assumes "queue_inv s" and "slot_of s a = Held i False"
  shows "\<exists>s'. CancelDeployment now a i s = (s', Inr ()) \<and> queue_inv s' \<and>
    slot_of s' = (slot_of s)(a := Held i True)"
proof -
  obtain r where r: "r \<in> set (deployments s)" "dr_application_id r = a" "dr_id r = i"
      "dr_status r = ''running''" "dr_cancellation_requested_at r = None"
    using assms by (auto simp: held_running)
  let ?P = "\<lambda>x. dr_id x = i \<and> dr_application_id x = a \<and> dr_status x = ''running'' \<and>
                dr_cancellation_requested_at x = None"
  let ?u = "\<lambda>r. r\<lparr>dr_cancellation_requested_at := Some now\<rparr>"
  have "count_where ?P (deployments s) = 1"
    using count_one_row [OF assms(1) r(1), of ?P] r by simp
  moreover have "queue_inv (set_deployments (update_where ?P ?u (deployments s)) s) \<and>
      slot_of (set_deployments (update_where ?P ?u (deployments s)) s) =
      (slot_of s)(dr_application_id r := if active_row (?u r) then slot_row (?u r) else Free)"
    by (rule update_one_slot [OF assms(1) r(1)])
      (use r in \<open>simp_all add: row_ok_def active_status_def\<close>)
  ultimately show ?thesis
    using r CancelDeployment_not_queued [OF assms(1)] assms(2) by (simp add: slot_row_def Let_def)
qed

lemma CancelDeployment_other:
  assumes "queue_inv s" and "slot_of s a \<noteq> Waiting i" and "slot_of s a \<noteq> Held i False"
  shows "CancelDeployment now a i s = (s, Inl ErrNotFound)"
proof -
  have none: "\<forall>r\<in>set (deployments s). \<not> (dr_id r = i \<and> dr_application_id r = a \<and>
      dr_status r = ''running'' \<and> dr_cancellation_requested_at r = None)"
    using assms(1,3) by (auto simp: held_running)
  then have "count_where (\<lambda>r. dr_id r = i \<and> dr_application_id r = a \<and> dr_status r = ''running'' \<and>
      dr_cancellation_requested_at r = None) (deployments s) \<noteq> 1"
    by (rule count_where_none)
  moreover have "set_deployments (deployments s) s = s" by (simp add: set_deployments_def)
  ultimately show ?thesis
    using none CancelDeployment_not_queued [OF assms(1,2)] by (simp add: Let_def)
qed

section \<open>Heartbeats, finishing and recovery\<close>

lemma HeartbeatDeployment_frame:
  assumes "queue_inv s" and "HeartbeatDeployment now i s = (s', x)"
  shows "queue_inv s' \<and> slot_of s' = slot_of s"
proof -
  let ?P = "\<lambda>r. dr_id r = i \<and> dr_status r = ''running'' \<and> dr_cancellation_requested_at r = None"
  let ?u = "\<lambda>r. r\<lparr>dr_heartbeat_at := Some now, dr_lease_expires_at := Some (now + DeploymentLeaseDuration)\<rparr>"
  have "s' = set_deployments (update_where ?P ?u (deployments s)) s"
    using assms(2) by (auto simp: HeartbeatDeployment_def Let_def split: if_splits)
  moreover have "queue_inv (set_deployments (update_where ?P ?u (deployments s)) s)"
    by (rule queue_inv_update [OF assms(1)]) (simp_all add: row_ok_def)
  moreover have "slot_of (set_deployments (update_where ?P ?u (deployments s)) s) = slot_of s"
    by (rule slot_of_frame [OF assms(1)]) simp
  ultimately show ?thesis by simp
qed

lemma row_find:
  assumes "queue_inv s" and "r \<in> set (deployments s)"
  shows "find (\<lambda>x. dr_id x = dr_id r) (deployments s) = Some r"
  using find_key_Some [OF queue_inv_distinct [OF assms(1)] assms(2)] .

text \<open>The three answers of a heartbeat.\<close>

lemma HeartbeatDeployment_result:
  assumes "queue_inv s"
  shows "snd (HeartbeatDeployment now i s) =
    (if \<exists>a. slot_of s a = Held i False then Inr ()
     else if DeploymentCancellationRequested i s = Inr True then Inl ErrDeploymentCancelled
     else Inl ErrNotFound)"
proof -
  let ?P = "\<lambda>r. dr_id r = i \<and> dr_status r = ''running'' \<and> dr_cancellation_requested_at r = None"
  let ?u = "\<lambda>r. r\<lparr>dr_heartbeat_at := Some now, dr_lease_expires_at := Some (now + DeploymentLeaseDuration)\<rparr>"
  have held: "(\<exists>a. slot_of s a = Held i False) \<longleftrightarrow> (\<exists>r\<in>set (deployments s). ?P r)"
    using held_running [OF assms] by auto
  show ?thesis
  proof (cases "\<exists>r\<in>set (deployments s). ?P r")
    case True
    then obtain r where r: "r \<in> set (deployments s)" "?P r" by blast
    have "count_where ?P (deployments s) = 1"
      using count_one_row [OF assms r(1), of ?P] r(2) by simp
    with True held show ?thesis by (simp add: HeartbeatDeployment_def Let_def)
  next
    case False
    then have "count_where ?P (deployments s) \<noteq> 1" by (intro count_where_none) blast
    moreover from False have "update_where ?P ?u (deployments s) = deployments s" by simp
    ultimately show ?thesis using False held
      by (simp add: HeartbeatDeployment_def Let_def set_deployments_def)
  qed
qed

lemma finish_keeps_inv:
  assumes "queue_inv s" and "\<not> active_status st"
  shows "FinishDeployment now i st s =
      (set_deployments (update_where (\<lambda>r. dr_id r = i) (finish_row now st) (deployments s)) s, Inr ())"
    and "queue_inv (set_deployments (update_where (\<lambda>r. dr_id r = i) (finish_row now st) (deployments s)) s)"
proof -
  have inactive: "\<not> active_row (finish_row now st r)" for r
    using assms(2) by (simp add: finish_row_def)
  show inv: "queue_inv (set_deployments (update_where (\<lambda>r. dr_id r = i) (finish_row now st) (deployments s)) s)"
  proof (rule queue_inv_update [OF assms(1)])
    fix r
    show "row_ok (finish_row now st r)" using inactive [of r] assms(2)
      by (auto simp: row_ok_def finish_row_def active_status_def)
    show "dr_id (finish_row now st r) = dr_id r \<and>
        dr_application_id (finish_row now st r) = dr_application_id r \<and>
        (active_row (finish_row now st r) \<longrightarrow> active_row r)"
      using inactive [of r] by (simp add: finish_row_def)
  qed
  then show "FinishDeployment now i st s =
      (set_deployments (update_where (\<lambda>r. dr_id r = i) (finish_row now st) (deployments s)) s, Inr ())"
    by (simp add: FinishDeployment_def queue_inv_def Let_def)
qed

lemma FinishDeployment_held:
  assumes "queue_inv s" and "slot_of s a = Held i c" and "\<not> active_status st"
  shows "\<exists>s'. FinishDeployment now i st s = (s', Inr ()) \<and> queue_inv s' \<and>
    slot_of s' = (slot_of s)(a := Free) \<and>
    (\<exists>r\<in>set (deployments s'). dr_id r = i \<and> dr_application_id r = a \<and>
       dr_finished_at r = Some now \<and> dr_status r = (if c then ''cancelled'' else st))"
proof -
  let ?P = "\<lambda>r. dr_id r = i" and ?u = "finish_row now st"
  obtain r where r: "r \<in> set (deployments s)" "dr_application_id r = a" "dr_id r = i"
      "dr_status r = ''running''" "c = (dr_cancellation_requested_at r \<noteq> None)"
    using assms(1,2) by (auto simp: held_running)
  have "queue_inv (set_deployments (update_where ?P ?u (deployments s)) s) \<and>
      slot_of (set_deployments (update_where ?P ?u (deployments s)) s) =
      (slot_of s)(dr_application_id r := if active_row (?u r) then slot_row (?u r) else Free)"
    by (rule update_one_slot [OF assms(1) r(1)])
      (use r assms(3) in \<open>simp_all add: finish_row_def row_ok_def active_status_def\<close>)
  moreover have "\<not> active_row (?u r)" using assms(3) by (simp add: finish_row_def)
  moreover have "?u r \<in> set (update_where ?P ?u (deployments s))"
    using r(1,3) by (simp add: in_update_where_changed)
  moreover have "dr_id (?u r) = i \<and> dr_application_id (?u r) = a \<and> dr_finished_at (?u r) = Some now \<and>
      dr_status (?u r) = (if c then ''cancelled'' else st)"
    using r by (simp add: finish_row_def)
  ultimately show ?thesis using finish_keeps_inv [OF assms(1,3)] r(2) by auto
qed

lemma RecoverInterruptedDeployments_slots:
  assumes "queue_inv s"
  shows "\<exists>s' n. RecoverInterruptedDeployments now s = (s', Inr n) \<and> queue_inv s' \<and>
    slot_of s' = (\<lambda>a. case slot_of s a of Held _ _ \<Rightarrow> Free | x \<Rightarrow> x)"
proof -
  let ?P = "\<lambda>r. dr_status r = ''running''"
  let ?u = "\<lambda>r. r\<lparr>dr_status := ''failed'', dr_finished_at := Some now,
                     dr_failure_stage := ''start'', dr_failure_code := ''worker_restarted'',
                     dr_failure_detail := ''MiniDock restarted before this job completed'',
                     dr_lease_expires_at := None\<rparr>"
  let ?s = "set_deployments (update_where ?P ?u (deployments s)) s"
  have inv: "queue_inv ?s"
    by (rule queue_inv_update [OF assms]) (simp_all add: row_ok_def)
  have "slot_of ?s = (\<lambda>a. case slot_of s a of Held _ _ \<Rightarrow> Free | x \<Rightarrow> x)"
  proof (rule slot_of_eqI)
    show "one_active (deployments ?s)" using inv by (simp add: queue_inv_def)
  next
    fix r assume "r \<in> set (deployments ?s)" "active_row r"
    then have "r \<in> set (deployments s)" "dr_status r = ''queued''" "active_row r"
      by (auto simp: active_status_def elim!: in_update_whereE)
    then show "(case slot_of s (dr_application_id r) of Held _ _ \<Rightarrow> Free | x \<Rightarrow> x) = slot_row r"
      using assms slot_of_active [of s r] by (simp add: queue_inv_def slot_row_def)
  next
    fix a assume free: "\<forall>r\<in>set (deployments ?s). dr_application_id r = a \<longrightarrow> \<not> active_row r"
    have "slot_of s a \<noteq> Waiting i" for i
    proof
      assume "slot_of s a = Waiting i"
      then obtain r where r: "r \<in> set (deployments s)" "dr_application_id r = a" "dr_status r = ''queued''"
        using assms by (auto simp: waiting_queued)
      then have "r \<in> set (deployments ?s)" by (simp add: in_update_where_other)
      with free r(2) have "\<not> active_row r" by blast
      with r(3) show False by (simp add: active_status_def)
    qed
    then show "(case slot_of s a of Held _ _ \<Rightarrow> Free | x \<Rightarrow> x) = Free" by (cases "slot_of s a") auto
  qed
  with inv show ?thesis by (simp add: RecoverInterruptedDeployments_def Let_def)
qed

section \<open>The contract holds\<close>

interpretation jq: job_slots slot_of queue_inv
  "\<lambda>(now, action, logPath) a. QueueDeployment now a action logPath" NextQueuedDeployment
  CancelDeployment FinishDeployment RecoverInterruptedDeployments d_application_id d_id
proof (unfold_locales, goal_cases)
  case (1 s q a s' d)
  obtain now action lp where q: "q = (now, action, lp)" by (cases q)
  from 1 q have "QueueDeployment now a action lp s = (s', Inr d)" by simp
  then show ?case by (rule QueueDeployment_cases [OF 1(1)]) auto
next
  case (2 s q a s' e)
  obtain now action lp where q: "q = (now, action, lp)" by (cases q)
  from 2 q have "QueueDeployment now a action lp s = (s', Inl e)" by simp
  then show ?case by (rule QueueDeployment_cases [OF 2(1)]) auto
next
  case (3 s t s' d)
  from 3(2) show ?case by (rule NextQueuedDeployment_cases [OF 3(1)]) auto
next
  case (4 s t s' e)
  from 4(2) show ?case by (rule NextQueuedDeployment_cases [OF 4(1)]) auto
next
  case (5 s t a i s')
  then show ?case
    using CancelDeployment_queued [OF 5(1), of a i t] CancelDeployment_held [OF 5(1), of a i t]
      CancelDeployment_other [OF 5(1), of a i t]
    by (cases "slot_of s a = Waiting i"; cases "slot_of s a = Held i False") auto
next
  case (6 s t a i s' e)
  then show ?case
    using CancelDeployment_queued [OF 6(1), of a i t] CancelDeployment_held [OF 6(1), of a i t]
      CancelDeployment_other [OF 6(1), of a i t]
    by (cases "slot_of s a = Waiting i"; cases "slot_of s a = Held i False") auto
next
  case (7 s a i c st t)
  from FinishDeployment_held [OF this] show ?case by blast
next
  case (8 s t)
  from RecoverInterruptedDeployments_slots [OF this] show ?case by blast
qed

end
