(* ===== verification/Queue_Steps.thy ===== *)
theory Queue_Steps
  imports Queue_Refines
begin

text \<open>
  Reachable states of the deployment queue. \<open>queue_step\<close> is one call of a store operation;
  every step keeps \<open>queue_inv\<close> and is a transition of the abstract slots, so what the
  slots promise holds in every state a database created by the migrations can reach. The second
  part is about the history: which releases retention may delete and which release a rollback
  restores.
\<close>

section \<open>The history of an application\<close>

lemma set_app_history [simp]:
  "set (app_history a s) = {r \<in> set (deployments s). dr_application_id r = a}"
  by (auto simp: app_history_def order_desc_def)

lemma app_history_sorted:
  assumes "queue_inv s"
  shows "sorted_wrt (\<lambda>x y. dr_id y < dr_id x) (app_history a s)"
proof -
  let ?rows = "filter (\<lambda>r. dr_application_id r = a) (deployments s)"
  have "sorted (map dr_id ?rows)" using queue_inv_sorted [OF assms] by (rule sorted_filter)
  then have "sort_key dr_id ?rows = ?rows" by (rule sort_key_id_if_sorted)
  moreover have "sorted_wrt (<) (map dr_id ?rows)"
    using assms by (simp add: queue_inv_def sorted_wrt_map sorted_wrt_filter)
  ultimately show ?thesis
    by (simp add: app_history_def order_desc_def sorted_wrt_rev sorted_wrt_map)
qed

lemma scan_simps [simp]:
  "d_id (scan_release r) = dr_id r" "d_application_id (scan_release r) = dr_application_id r"
  "d_status (scan_release r) = dr_status r" "d_image (scan_release r) = dr_image r"
  "d_finished_at (scan_release r) = time_or_zero (dr_finished_at r)"
  "d_id (scan_deployment r) = dr_id r" "d_application_id (scan_deployment r) = dr_application_id r"
  "d_status (scan_deployment r) = dr_status r" "d_image (scan_deployment r) = dr_image r"
  "d_finished_at (scan_deployment r) = time_or_zero (dr_finished_at r)"
  by (simp_all add: scan_deployment_def scan_release_def)

section \<open>Retention\<close>

definition successes :: "deployment list \<Rightarrow> deployment list" where
  "successes ds = filter (\<lambda>d. d_status d = ''successful'') ds"

text \<open>
  Counting from \<open>n\<close> releases already seen, the candidates never include one of the next
  releases within the bound, and include only finished rows older than the cut-off.
\<close>

lemma retention_loop_old:
  "d \<in> set (retention_loop before k n ds) \<Longrightarrow>
    d \<in> set ds \<and> \<not> active_status (d_status d) \<and> d_finished_at d \<noteq> zero_time \<and> d_finished_at d < before"
  by (induction before k n ds rule: retention_loop.induct)
    (auto simp: Let_def active_status_def split: if_splits)

lemma retention_loop_keeps:
  assumes "distinct (map d_id ds)" and "d \<in> set (take (nat (k - n)) (successes ds))"
  shows "d_id d \<notin> d_id ` set (retention_loop before k n ds)"
  using assms
proof (induction ds arbitrary: n)
  case (Cons e ds)
  let ?n = "if d_status e = ''successful'' then n + 1 else n"
  have step: "set (retention_loop before k n (e # ds)) \<subseteq> insert e (set (retention_loop before k ?n ds))"
    by (auto simp: Let_def)
  have fresh: "d_id e \<notin> d_id ` set (retention_loop before k ?n ds)"
    using Cons.prems(1) retention_loop_old [of _ before k ?n ds] by auto
  have later: "d_id d \<notin> d_id ` set (retention_loop before k n (e # ds))"
    if d: "d \<in> set (take (nat (k - ?n)) (successes ds))"
  proof -
    have "d \<in> set ds" using d set_take_subset [of "nat (k - ?n)" "successes ds"]
      by (auto simp: successes_def)
    with Cons.prems(1) have "d_id d \<noteq> d_id e" by (auto simp: image_iff)
    with Cons.IH [of ?n] Cons.prems(1) d step show ?thesis by auto
  qed
  show ?case
  proof (cases "d_status e = ''successful'' \<and> d = e \<and> n < k")
    case True
    then have "retention_loop before k n (e # ds) = retention_loop before k ?n ds"
      by (simp add: Let_def)
    with True fresh show ?thesis by simp
  next
    case False
    have "nat (k - (n + 1)) = nat (k - n) - 1" by simp
    with False Cons.prems(2) have "d \<in> set (take (nat (k - ?n)) (successes ds))"
      by (cases "d_status e = ''successful''") (auto simp: successes_def take_Cons' split: if_splits)
    then show ?thesis by (rule later)
  qed
qed (simp add: successes_def)

lemma Deployments_distinct:
  assumes "queue_inv s"
  shows "distinct (map d_id (Deployments a s))"
proof -
  have "sorted_wrt (\<lambda>x y. y < x) (map dr_id (app_history a s))"
    using app_history_sorted [OF assms, of a] by (simp add: sorted_wrt_map)
  then have "sorted_wrt (<) (rev (map dr_id (app_history a s)))" by (simp add: sorted_wrt_rev)
  then have "distinct (map dr_id (app_history a s))"
    unfolding strict_sorted_iff by (metis distinct_rev)
  then show ?thesis by (simp add: Deployments_def comp_def)
qed

lemma RetentionCandidates_inactive:
  "d \<in> set (RetentionCandidates a before k s) \<Longrightarrow>
    \<exists>r\<in>set (deployments s). dr_id r = d_id d \<and> dr_application_id r = a \<and> \<not> active_row r"
  using retention_loop_old [of d before k 0 "Deployments a s"]
  by (auto simp: RetentionCandidates_def Deployments_def)

section \<open>Steps and reachable states\<close>

text \<open>
  One call of package store. \<open>other\<close> stands for the operations that do not write table
  \<^verbatim>\<open>deployments\<close>: no operation of the store deletes an application.
\<close>

inductive queue_step :: "db \<Rightarrow> db \<Rightarrow> bool" where
  queue: "QueueDeployment now a action lp s = (s', x) \<Longrightarrow> queue_step s s'"
| start: "StartDeployment now a img lp s = (s', Inr d) \<Longrightarrow> queue_step s s'"
| claim: "NextQueuedDeployment now s = (s', x) \<Longrightarrow> queue_step s s'"
| heartbeat: "HeartbeatDeployment now i s = (s', u) \<Longrightarrow> queue_step s s'"
| cancel: "CancelDeployment now a i s = (s', u) \<Longrightarrow> queue_step s s'"
| finish: "\<not> active_status st \<Longrightarrow> FinishDeployment now i st s = (s', u) \<Longrightarrow> queue_step s s'"
| recover: "RecoverInterruptedDeployments now s = (s', n) \<Longrightarrow> queue_step s s'"
| set_image: "SetDeploymentImage i img s = (s', u) \<Longrightarrow> queue_step s s'"
| set_metadata: "SetDeploymentReleaseMetadata i m s = (s', u) \<Longrightarrow> queue_step s s'"
| set_failure: "SetDeploymentFailure i stage code detail s = (s', u) \<Longrightarrow> queue_step s s'"
| set_stage: "SetDeploymentStage i stage s = (s', u) \<Longrightarrow> queue_step s s'"
| set_durations: "SetDeploymentStageDurations i q b c d e f s = (s', u) \<Longrightarrow> queue_step s s'"
| retention: "set ids \<subseteq> d_id ` set (RetentionCandidates a before k s) \<Longrightarrow>
    DeleteDeployments a ids s = (s', u) \<Longrightarrow> queue_step s s'"
| other: "deployments s' = deployments s \<Longrightarrow> (\<And>a. app_exists s a \<Longrightarrow> app_exists s' a) \<Longrightarrow>
    queue_step s s'"

text \<open>Operations that write columns neither the invariant nor a slot depends on.\<close>

lemma frame_step:
  assumes "queue_inv s"
    and "\<And>r. dr_id (u r) = dr_id r \<and> dr_application_id (u r) = dr_application_id r \<and>
      dr_status (u r) = dr_status r \<and> dr_attempt (u r) = dr_attempt r \<and>
      dr_finished_at (u r) = dr_finished_at r \<and> dr_heartbeat_at (u r) = dr_heartbeat_at r \<and>
      dr_lease_expires_at (u r) = dr_lease_expires_at r \<and>
      dr_cancellation_requested_at (u r) = dr_cancellation_requested_at r"
  shows "queue_inv (set_deployments (update_where P u (deployments s)) s) \<and>
    slot_step (slot_of s) (slot_of (set_deployments (update_where P u (deployments s)) s))"
proof
  show "queue_inv (set_deployments (update_where P u (deployments s)) s)"
    by (rule queue_inv_update [OF assms(1)]) (use assms(2) in \<open>auto simp: row_ok_def\<close>)
  have "slot_of (set_deployments (update_where P u (deployments s)) s) = slot_of s"
    by (rule slot_of_frame [OF assms(1)]) (use assms(2) in auto)
  then show "slot_step (slot_of s) (slot_of (set_deployments (update_where P u (deployments s)) s))"
    by (simp add: slot_step.stay)
qed

lemma same_table_step:
  assumes "queue_inv s" and "deployments s' = deployments s" and "\<And>a. app_exists s a \<Longrightarrow> app_exists s' a"
  shows "queue_inv s' \<and> slot_step (slot_of s) (slot_of s')"
proof -
  have "slot_of s' = slot_of s" using assms(2) by (simp add: slot_of_def fun_eq_iff)
  with assms slot_step.stay [of "slot_of s"] show ?thesis by (auto simp: queue_inv_def)
qed

lemma finish_step:
  assumes "queue_inv s" and "\<not> active_status st" and "FinishDeployment now i st s = (s', u)"
  shows "queue_inv s' \<and> slot_step (slot_of s) (slot_of s')"
proof -
  let ?P = "\<lambda>r. dr_id r = i" and ?u = "finish_row now st"
  have s': "s' = set_deployments (update_where ?P ?u (deployments s)) s"
    and inv: "queue_inv s'"
    using finish_keeps_inv(1) [OF assms(1,2), of now i] finish_keeps_inv(2) [OF assms(1,2), of i now]
      assms(3) by auto
  have inactive: "\<not> active_row (?u r)" for r using assms(2) by (simp add: finish_row_def)
  show ?thesis
  proof (cases "\<exists>r\<in>set (deployments s). dr_id r = i \<and> active_row r")
    case True
    then obtain r where r: "r \<in> set (deployments s)" "dr_id r = i" "active_row r" by blast
    have "queue_inv (set_deployments (update_where ?P ?u (deployments s)) s) \<and>
        slot_of (set_deployments (update_where ?P ?u (deployments s)) s) =
        (slot_of s)(dr_application_id r := if active_row (?u r) then slot_row (?u r) else Free)"
      by (rule update_one_slot [OF assms(1) r(1,3)])
        (use r assms(2) in \<open>auto simp: finish_row_def row_ok_def active_status_def\<close>)
    with s' inactive have eq: "slot_of s' = (slot_of s)(dr_application_id r := Free)" by simp
    have "slot_of s (dr_application_id r) = slot_row r"
      using assms(1) r slot_of_active by (simp add: queue_inv_def)
    then have "slot_step (slot_of s) ((slot_of s)(dr_application_id r := Free))"
      by (cases "slot_row r") (auto intro: slot_step.intros simp: slot_row_def split: if_splits)
    with inv eq show ?thesis by simp
  next
    case False
    have "slot_of s' = slot_of s"
    proof (rule slot_of_eqI)
      show "one_active (deployments s')" using inv by (simp add: queue_inv_def)
    next
      fix r assume "r \<in> set (deployments s')" "active_row r"
      then have "r \<in> set (deployments s)"
        using s' inactive by (auto elim!: in_update_whereE)
      then show "slot_of s (dr_application_id r) = slot_row r"
        using slot_of_active \<open>active_row r\<close> assms(1) by (simp add: queue_inv_def)
    next
      fix a assume free: "\<forall>r\<in>set (deployments s'). dr_application_id r = a \<longrightarrow> \<not> active_row r"
      have "r \<in> set (deployments s')" if "r \<in> set (deployments s)" "active_row r" for r
        using that False s' by (auto intro: in_update_where_other)
      with free show "slot_of s a = Free" by (auto simp: slot_of_Free)
    qed
    with inv show ?thesis by (simp add: slot_step.stay)
  qed
qed

lemma retention_step:
  assumes "queue_inv s" and "set ids \<subseteq> d_id ` set (RetentionCandidates a before k s)"
    and "DeleteDeployments a ids s = (s', u)"
  shows "queue_inv s' \<and> slot_step (slot_of s) (slot_of s')"
proof (cases "ids = []")
  case True
  with assms same_table_step [of s s'] show ?thesis by (simp add: DeleteDeployments_def)
next
  case False
  let ?gone = "\<lambda>r. dr_application_id r = a \<and> dr_id r \<in> set ids"
  have rows: "deployments s' = delete_where ?gone (deployments s)"
    and apps: "applications s' = applications s"
    using False assms(3) by (auto simp: DeleteDeployments_def Let_def)
  have keep: "\<not> ?gone r" if r: "r \<in> set (deployments s)" "active_row r" for r
  proof
    assume "?gone r"
    then obtain d where "d \<in> set (RetentionCandidates a before k s)" "d_id d = dr_id r"
      using assms(2) by auto
    with RetentionCandidates_inactive obtain q where
      q: "q \<in> set (deployments s)" "dr_id q = dr_id r" "\<not> active_row q" by metis
    from row_by_id [OF assms(1) r(1) q(1,2)] r(2) q(3) show False by simp
  qed
  then have act: "filter active_row (deployments s') = filter active_row (deployments s)"
    unfolding rows delete_where_def filter_filter by (intro filter_cong) auto
  have one: "one_active (deployments s')"
    using assms(1) act by (simp add: one_active_def queue_inv_def)
  have "queue_inv s'"
    using assms(1) one rows apps
    by (auto simp: queue_inv_def app_exists_def delete_where_def sorted_wrt_map sorted_wrt_filter)
  moreover have "slot_of s' = slot_of s"
  proof (rule slot_of_eqI [OF one])
    fix r assume "r \<in> set (deployments s')" "active_row r"
    then show "slot_of s (dr_application_id r) = slot_row r"
      using slot_of_active [of s r] assms(1) rows by (simp add: queue_inv_def)
  next
    fix b assume "\<forall>r\<in>set (deployments s'). dr_application_id r = b \<longrightarrow> \<not> active_row r"
    then show "slot_of s b = Free" using keep rows by (auto simp: slot_of_Free)
  qed
  ultimately show ?thesis by (simp add: slot_step.stay)
qed

lemma queue_step_ok:
  assumes "queue_inv s" and "queue_step s s'"
  shows "queue_inv s' \<and> slot_step (slot_of s) (slot_of s')"
  using assms(2)
proof cases
  case (queue now a action lp x)
  with assms(1) jq.enqueue_step [of s "(now, action, lp)" a s' x] show ?thesis by simp
next
  case (start now a img lp d)
  then have eq: "slot_of s a = Free" "slot_of s' = (slot_of s)(a := Held (d_id d) False)" "queue_inv s'"
    using StartDeployment_ok [OF assms(1)] by blast+
  then show ?thesis by (auto intro: slot_step.started)
next
  case (claim now x)
  with assms(1) jq.claim_step show ?thesis by blast
next
  case (heartbeat now i u)
  with assms(1) HeartbeatDeployment_frame show ?thesis by (metis slot_step.stay)
next
  case (cancel now a i u)
  with assms(1) jq.cancel_step show ?thesis by blast
next
  case (recover now n)
  with assms(1) jq.recover_step show ?thesis by blast
next
  case (finish st now i u)
  with assms(1) finish_step show ?thesis by blast
next
  case (retention ids a before k u)
  with assms(1) retention_step show ?thesis by blast
next
  case other
  with assms(1) same_table_step show ?thesis by blast
qed (use frame_step [OF assms(1)] in \<open>force simp: SetDeploymentImage_def
      SetDeploymentReleaseMetadata_def SetDeploymentFailure_def SetDeploymentStage_def
      SetDeploymentStageDurations_def\<close>)+

definition queue_reach :: "db \<Rightarrow> db \<Rightarrow> bool" where
  "queue_reach = queue_step\<^sup>*\<^sup>*"

lemma queue_inv_empty: "queue_inv (empty_db t)"
  by (simp add: queue_inv_def empty_db_def one_active_def)

lemma queue_reach_inv: "queue_reach s s' \<Longrightarrow> queue_inv s \<Longrightarrow> queue_inv s'"
  unfolding queue_reach_def by (induction rule: rtranclp_induct) (auto dest: queue_step_ok)

lemma queue_reach_slots:
  "queue_reach s s' \<Longrightarrow> queue_inv s \<Longrightarrow> slot_step\<^sup>*\<^sup>* (slot_of s) (slot_of s')"
  unfolding queue_reach_def
proof (induction rule: rtranclp_induct)
  case (step s1 s2)
  then have "queue_inv s1" using queue_reach_inv by (simp add: queue_reach_def)
  with step show ?case using queue_step_ok [of s1 s2] by (auto intro: rtranclp.rtrancl_into_rtrancl)
qed simp

end
