(* ===== verification/Queue_Props.thy ===== *)
theory Queue_Props
  imports Queue_Steps
begin

text \<open>
  The properties of the deployment queue, each over the operations of package store and shown
  at work on a small database: application 1 has two releases and a running job, application 2
  has a waiting one.
\<close>

section \<open>A small database\<close>

definition demo_app :: "int \<Rightarrow> string \<Rightarrow> application" where
  "demo_app i n =
     \<lparr>app_id = i, app_name = n, app_repository = ''https://git.example/r'', app_branch = ''main'',
      app_work_dir = ''.'', app_type = ''go'', app_build_command = '''', app_run_command = '''',
      app_internal_port = 8080, app_domain = n @ ''.example'', app_runtime = ''auto'', app_deploy_on_push = True,
      app_require_confirmation = False, app_auto_rollback = False, app_github_installation_id = 0,
      app_health_endpoint = '''', app_created_at = 1\<rparr>"

definition demo_release :: "int \<Rightarrow> string \<Rightarrow> time \<Rightarrow> deployment_row" where
  "demo_release i img t = (new_deployment_row i 1 ''successful'' img ''log'' t)\<lparr>dr_finished_at := Some t\<rparr>"

definition demo_db :: db where
  "demo_db = (empty_db 1)
     \<lparr>applications := [demo_app 1 ''web'', demo_app 2 ''api''],
      deployments :=
        [demo_release 1 ''img1'' 10, demo_release 2 ''img2'' 20,
         (new_deployment_row 3 1 ''running'' '''' ''log'' 30)
           \<lparr>dr_attempt := 1, dr_heartbeat_at := Some 30, dr_lease_expires_at := Some 60\<rparr>,
         new_deployment_row 4 2 ''queued'' '''' ''log'' 40]\<rparr>"


lemma demo_release_simps:
  "dr_id (demo_release i img t) = i" "dr_application_id (demo_release i img t) = 1"
  "dr_status (demo_release i img t) = ''successful''" "dr_image (demo_release i img t) = img"
  by (simp_all add: demo_release_def new_deployment_row_def)

lemma demo_rows:
  "deployments demo_db =
     [demo_release 1 ''img1'' 10, demo_release 2 ''img2'' 20,
      (new_deployment_row 3 1 ''running'' '''' ''log'' 30)
        \<lparr>dr_attempt := 1, dr_heartbeat_at := Some 30, dr_lease_expires_at := Some 60\<rparr>,
      new_deployment_row 4 2 ''queued'' '''' ''log'' 40]"
  by (simp add: demo_db_def)

lemma demo_app_exists: "app_exists demo_db 1" "app_exists demo_db 2"
  by (simp_all add: demo_db_def app_exists_def demo_app_def)

lemma demo_inv: "queue_inv demo_db"
  using demo_app_exists unfolding queue_inv_def demo_rows
  by (simp add: demo_release_def one_active_def active_status_def row_ok_def)

lemma demo_slots: "slot_of demo_db 1 = Held 3 False" "slot_of demo_db 2 = Waiting 4"
  by (simp_all add: slot_of_def demo_rows demo_release_def active_status_def slot_row_def)

section \<open>Refinement and invariant\<close>

text \<open>
  C1: every operation of package store keeps the invariant of table
  \<^verbatim>\<open>deployments\<close> and is, seen through the slots, one of the transitions of the
  abstract queue: the detailed operations implement the specification.
\<close>

theorem queue_refines_slots:
  assumes "queue_inv s" and "queue_step s s'"
  shows "queue_inv s' \<and> slot_step (slot_of s) (slot_of s')"
  using assms by (rule queue_step_ok)

theorem queue_refines_slots_witness:
  "queue_inv (fst (NextQueuedDeployment 50 demo_db)) \<and>
   slot_step (slot_of demo_db) (slot_of (fst (NextQueuedDeployment 50 demo_db)))"
  using demo_inv queue_step.claim [of 50 demo_db "fst (NextQueuedDeployment 50 demo_db)"
      "snd (NextQueuedDeployment 50 demo_db)"]
  by (intro queue_refines_slots) simp_all

text \<open>
  C2: in every state reachable from a freshly migrated database an application has at most one
  queued or running deployment, and a running one always carries a lease and a heartbeat.
\<close>

theorem one_active_deployment:
  assumes "queue_reach (empty_db t) s" and "r \<in> set (deployments s)" and "active_row r"
  shows "(\<forall>q\<in>set (deployments s). active_row q \<and> dr_application_id q = dr_application_id r \<longrightarrow> q = r) \<and>
    (dr_status r = ''running'' \<longrightarrow> dr_lease_expires_at r \<noteq> None \<and> dr_heartbeat_at r \<noteq> None)"
proof -
  have inv: "queue_inv s" using assms(1) queue_inv_empty by (rule queue_reach_inv)
  then have one: "one_active (deployments s)" by (simp add: queue_inv_def)
  have "row_ok r" using inv assms(2) by (simp add: queue_inv_def)
  with one_active_unique [OF one _ assms(2)] assms(3) show ?thesis
    unfolding row_ok_def by blast
qed

definition demo_start :: db where
  "demo_start = (empty_db 1)\<lparr>applications := [demo_app 1 ''web'']\<rparr>"

definition demo_running :: deployment_row where
  "demo_running = (new_deployment_row 1 1 ''running'' ''img'' ''log'' 5)
     \<lparr>dr_attempt := 1, dr_heartbeat_at := Some 5,
      dr_lease_expires_at := Some (5 + DeploymentLeaseDuration)\<rparr>"

lemma demo_start_ok:
  "StartDeployment 5 1 ''img'' ''log'' demo_start =
    (demo_start\<lparr>deployments := [demo_running]\<rparr>,
     Inr (zero_deployment
       \<lparr>d_id := 1, d_application_id := 1, d_status := ''running'', d_image := ''img'',
        d_log_path := ''log'', d_started_at := 5, d_attempt := 1, d_heartbeat_at := 5,
        d_lease_expires_at := 5 + DeploymentLeaseDuration\<rparr>))"
  by (simp add: StartDeployment_def insert_deployment_def demo_start_def empty_db_def next_rowid_def
      app_exists_def demo_app_def demo_running_def Let_def)

lemma demo_start_reach: "queue_reach (empty_db 1) (demo_start\<lparr>deployments := [demo_running]\<rparr>)"
proof -
  have "queue_step (empty_db 1) demo_start"
    by (rule queue_step.other) (simp_all add: demo_start_def empty_db_def app_exists_def)
  moreover have "queue_step demo_start (demo_start\<lparr>deployments := [demo_running]\<rparr>)"
    by (rule queue_step.start [OF demo_start_ok])
  ultimately show ?thesis unfolding queue_reach_def by (meson rtranclp.simps)
qed

theorem one_active_deployment_witness:
  "dr_status demo_running = ''running'' \<and> dr_lease_expires_at demo_running \<noteq> None"
  using one_active_deployment [OF demo_start_reach, of demo_running]
  by (simp add: demo_running_def)

section \<open>Claiming\<close>

text \<open>
  C12: whenever a job is waiting, the worker gets one: the oldest. It comes back as running, with
  its attempt counted and a lease of 30 seconds, and its application is held from then on while
  every other application keeps its slot.
\<close>

theorem claim_oldest_first:
  assumes "queue_inv s" and "r \<in> set (deployments s)" and "dr_status r = ''queued''"
  shows "\<exists>s' d. NextQueuedDeployment now s = (s', Inr d) \<and> d_id d \<le> dr_id r \<and>
    d_status d = ''running'' \<and> d_attempt d = 1 \<and> d_lease_expires_at d = now + DeploymentLeaseDuration \<and>
    slot_of s (d_application_id d) = Waiting (d_id d) \<and>
    slot_of s' = (slot_of s)(d_application_id d := Held (d_id d) False)"
proof -
  from assms(2,3) obtain q where q: "oldest_queued s = Some q"
    by (cases "oldest_queued s") (auto simp: oldest_queued_None)
  note props = oldest_queued_Some [OF q]
  from props(1,2) assms(1) have "dr_attempt q = 0" by (simp add: queue_inv_def row_ok_def)
  with NextQueuedDeployment_Some [OF assms(1) q, of now] props(3) [OF assms(2,3)]
  show ?thesis by auto
qed

theorem claim_oldest_first_witness:
  "\<exists>s' d. NextQueuedDeployment 50 demo_db = (s', Inr d) \<and> d_id d \<le> 4 \<and> d_attempt d = 1"
  using claim_oldest_first [of demo_db "new_deployment_row 4 2 ''queued'' '''' ''log'' 40" 50] demo_inv
  by (auto simp: demo_rows)

text \<open>
  Two claims never hand out work for the same application unless the first job was released
  in between, so one application is never deployed by two workers at once.
\<close>

theorem claims_exclude_each_other:
  assumes "queue_inv s" and "NextQueuedDeployment t s = (s1, Inr d1)"
    and "NextQueuedDeployment t' s1 = (s2, Inr d2)"
  shows "d_application_id d1 \<noteq> d_application_id d2"
  using assms by (rule jq.claim_claim_distinct)

definition demo_two :: db where
  "demo_two = demo_db\<lparr>deployments :=
     [new_deployment_row 1 1 ''queued'' '''' ''log'' 30, new_deployment_row 2 2 ''queued'' '''' ''log'' 40]\<rparr>"

lemma demo_two_inv: "queue_inv demo_two"
  using demo_app_exists
  by (simp add: queue_inv_def demo_two_def one_active_def active_status_def row_ok_def app_exists_def)

theorem claims_exclude_each_other_witness:
  "\<exists>s1 d1 s2 d2. NextQueuedDeployment 50 demo_two = (s1, Inr d1) \<and>
     NextQueuedDeployment 51 s1 = (s2, Inr d2) \<and> d_application_id d1 \<noteq> d_application_id d2"
proof -
  obtain s1 d1 where 1: "NextQueuedDeployment 50 demo_two = (s1, Inr d1)" "d_id d1 \<le> 1"
      "slot_of s1 = (slot_of demo_two)(d_application_id d1 := Held (d_id d1) False)"
      "slot_of demo_two (d_application_id d1) = Waiting (d_id d1)"
    using claim_oldest_first [of demo_two "new_deployment_row 1 1 ''queued'' '''' ''log'' 30" 50] demo_two_inv
    by (auto simp: demo_two_def)
  have sl: "slot_of demo_two a = (if a = 1 then Waiting 1 else if a = 2 then Waiting 2 else Free)" for a
    by (simp add: slot_of_def demo_two_def active_status_def slot_row_def)
  have inv1: "queue_inv s1" using jq.claim_step [OF demo_two_inv 1(1)] by blast
  have "d_application_id d1 = 1" using 1(2,4) sl [of "d_application_id d1"] by (auto split: if_splits)
  then have "slot_of s1 2 = Waiting 2" using 1(3) sl by simp
  then obtain r where "r \<in> set (deployments s1)" "dr_status r = ''queued''"
    using waiting_queued [OF inv1] by blast
  then obtain s2 d2 where 2: "NextQueuedDeployment 51 s1 = (s2, Inr d2)"
    using claim_oldest_first [OF inv1, of r 51] by blast
  from claims_exclude_each_other [OF demo_two_inv 1(1) 2] 1(1) 2 show ?thesis by blast
qed

section \<open>Cancelling, finishing and recovery\<close>

text \<open>
  C13: once cancellation of a running job was requested, its next heartbeat answers
  \<^verbatim>\<open>ErrDeploymentCancelled\<close>, and whatever outcome the worker reports, the job is
  recorded as cancelled and its application is free again.
\<close>

theorem cancellation_wins:
  assumes "queue_inv s" and "slot_of s a = Held i False" and "\<not> active_status st"
  shows "\<exists>s1 s2. CancelDeployment now a i s = (s1, Inr ()) \<and>
    snd (HeartbeatDeployment now1 i s1) = Inl ErrDeploymentCancelled \<and>
    FinishDeployment now2 i st s1 = (s2, Inr ()) \<and> slot_of s2 = (slot_of s)(a := Free) \<and>
    (\<exists>d. Deployment a i s2 = Inr d \<and> d_status d = ''cancelled'')"
proof -
  obtain s1 where 1: "CancelDeployment now a i s = (s1, Inr ())" "queue_inv s1"
      "slot_of s1 = (slot_of s)(a := Held i True)"
    using CancelDeployment_held [OF assms(1,2)] by blast
  then have held: "slot_of s1 a = Held i True" by simp
  then obtain r where r: "r \<in> set (deployments s1)" "dr_application_id r = a" "dr_id r = i"
      "dr_cancellation_requested_at r \<noteq> None"
    using 1(2) by (auto simp: held_running)
  have "\<not> (\<exists>b. slot_of s1 b = Held i False)"
  proof
    assume "\<exists>b. slot_of s1 b = Held i False"
    then obtain q where "q \<in> set (deployments s1)" "dr_id q = i" "dr_cancellation_requested_at q = None"
      using 1(2) by (auto simp: held_running)
    with row_by_id [OF 1(2) r(1)] r(3,4) show False by auto
  qed
  moreover have "DeploymentCancellationRequested i s1 = Inr True"
    using row_find [OF 1(2) r(1)] r(3,4) by (simp add: DeploymentCancellationRequested_def)
  ultimately have hb: "snd (HeartbeatDeployment now1 i s1) = Inl ErrDeploymentCancelled"
    using HeartbeatDeployment_result [OF 1(2), of now1 i] by simp
  obtain s2 q where 2: "FinishDeployment now2 i st s1 = (s2, Inr ())" "queue_inv s2"
      "slot_of s2 = (slot_of s1)(a := Free)"
      and q: "q \<in> set (deployments s2)" "dr_id q = i" "dr_application_id q = a" "dr_status q = ''cancelled''"
    using FinishDeployment_held [OF 1(2) held assms(3), of now2] by auto
  obtain p where p: "find (\<lambda>r. dr_application_id r = a \<and> dr_id r = i) (deployments s2) = Some p"
    using q by (cases "find (\<lambda>r. dr_application_id r = a \<and> dr_id r = i) (deployments s2)")
      (auto simp: find_None_iff)
  then have "p = q" using row_by_id [OF 2(2) q(1)] q(2) by (auto dest: find_SomeD)
  with p q(4) have "\<exists>d. Deployment a i s2 = Inr d \<and> d_status d = ''cancelled''"
    by (simp add: Deployment_def)
  with 1 2 hb show ?thesis by auto
qed

theorem cancellation_wins_witness:
  "\<exists>s1. CancelDeployment 50 1 3 demo_db = (s1, Inr ()) \<and>
    snd (HeartbeatDeployment 51 3 s1) = Inl ErrDeploymentCancelled \<and>
    (\<exists>d. Deployment 1 3 (fst (FinishDeployment 52 3 ''successful'' s1)) = Inr d \<and> d_status d = ''cancelled'')"
  using cancellation_wins [OF demo_inv demo_slots(1), of "''successful''" 50 51 52] by fastforce

text \<open>
  C14: a job whose worker died does not block its application: after
  \<^verbatim>\<open>RecoverInterruptedDeployments\<close> the job is failed and the next deployment of the
  application can be queued.
\<close>

theorem recovery_unblocks:
  assumes "queue_inv s" and "slot_of s a = Held i c"
    and "action = ''deploy'' \<or> action = ''rollback'' \<or> action = ''auto_rollback''"
  shows "\<exists>s1 n s2 d. RecoverInterruptedDeployments now s = (s1, Inr n) \<and>
    (\<forall>b j k. slot_of s1 b \<noteq> Held j k) \<and>
    QueueDeployment now1 a action lp s1 = (s2, Inr d) \<and> slot_of s2 a = Waiting (d_id d)"
proof -
  obtain s1 n where 1: "RecoverInterruptedDeployments now s = (s1, Inr n)" "queue_inv s1"
      "slot_of s1 = (\<lambda>a. case slot_of s a of Held _ _ \<Rightarrow> Free | x \<Rightarrow> x)"
    using RecoverInterruptedDeployments_slots [OF assms(1)] by blast
  have free: "slot_of s1 a = Free" using 1(3) assms(2) by simp
  have "app_exists s a" using assms(1,2) by (auto simp: held_running queue_inv_def)
  moreover have "applications s1 = applications s"
    using 1(1) by (auto simp: RecoverInterruptedDeployments_def Let_def)
  ultimately have ex: "app_exists s1 a" by (simp add: app_exists_def)
  obtain s2 x where "QueueDeployment now1 a action lp s1 = (s2, x)" by fastforce
  from this 1 have "\<exists>d. x = Inr d \<and> slot_of s2 a = Waiting (d_id d)"
    by (cases rule: QueueDeployment_cases [OF 1(2)])
      (use free ex assms(3) in \<open>auto simp: queue_action_def\<close>)
  with 1(1) \<open>QueueDeployment now1 a action lp s1 = (s2, x)\<close>
    jq.recover_not_held [OF assms(1) 1(1)] show ?thesis by blast
qed

theorem recovery_unblocks_witness:
  "\<exists>s1 n s2 d. RecoverInterruptedDeployments 50 demo_db = (s1, Inr n) \<and>
    QueueDeployment 51 1 ''deploy'' ''log'' s1 = (s2, Inr d) \<and> slot_of s2 1 = Waiting (d_id d)"
  using recovery_unblocks [OF demo_inv demo_slots(1), of "''deploy''" 50 51 "''log''"] by auto

section \<open>History\<close>

text \<open>
  C15: retention never selects one of the newest \<open>k\<close> successful releases of an
  application, a queued or running job, or anything that finished at or after the cut-off.
\<close>

theorem retention_keeps_newest:
  assumes "queue_inv s"
  shows "(\<forall>d\<in>set (take (nat k) (filter (\<lambda>d. d_status d = ''successful'') (Deployments a s))).
      d_id d \<notin> d_id ` set (RetentionCandidates a before k s)) \<and>
    (\<forall>d\<in>set (RetentionCandidates a before k s). d_application_id d = a \<and>
      \<not> active_status (d_status d) \<and> d_finished_at d \<noteq> zero_time \<and> d_finished_at d < before)"
proof
  show "\<forall>d\<in>set (take (nat k) (filter (\<lambda>d. d_status d = ''successful'') (Deployments a s))).
      d_id d \<notin> d_id ` set (RetentionCandidates a before k s)"
    using retention_loop_keeps [OF Deployments_distinct [OF assms, of a], of _ k 0 before]
    by (simp add: RetentionCandidates_def successes_def)
  show "\<forall>d\<in>set (RetentionCandidates a before k s). d_application_id d = a \<and>
      \<not> active_status (d_status d) \<and> d_finished_at d \<noteq> zero_time \<and> d_finished_at d < before"
    using retention_loop_old [of _ before k 0 "Deployments a s"]
    by (fastforce simp: RetentionCandidates_def Deployments_def)
qed

theorem retention_keeps_newest_witness:
  "map d_id (RetentionCandidates 1 1000 1 demo_db) = [1] \<and>
   list_all (\<lambda>d. d_id d \<notin> d_id ` set (RetentionCandidates 1 1000 1 demo_db))
     (take 1 (filter (\<lambda>d. d_status d = ''successful'') (Deployments 1 demo_db)))"
proof
  show "map d_id (RetentionCandidates 1 1000 1 demo_db) = [1]"
    by (simp add: RetentionCandidates_def Deployments_def app_history_def order_desc_def demo_rows
        demo_release_def time_or_zero_def)
  show "list_all (\<lambda>d. d_id d \<notin> d_id ` set (RetentionCandidates 1 1000 1 demo_db))
     (take 1 (filter (\<lambda>d. d_status d = ''successful'') (Deployments 1 demo_db)))"
    using retention_keeps_newest [OF demo_inv, of 1 1 1000] by (simp add: list_all_iff)
qed

lemma successful_images_sorted:
  "queue_inv s \<Longrightarrow> sorted_wrt (\<lambda>x y. dr_id y < dr_id x) (successful_images a s)"
  unfolding successful_images_def by (intro sorted_wrt_filter app_history_sorted)

lemma set_successful_images:
  "set (successful_images a s) = {r \<in> set (deployments s). dr_application_id r = a \<and>
     dr_status r = ''successful'' \<and> dr_image r \<noteq> ''''}"
  by (auto simp: successful_images_def)

text \<open>
  The release a rollback restores is the one before the current: a successful release with an
  image of the same application, older than the latest one, with no other in between.
\<close>

theorem rollback_target:
  assumes "queue_inv s" and "PreviousSuccessfulDeployment a s = Inr p"
  shows "\<exists>l. LatestSuccessfulDeployment a s = Inr l \<and> d_id p < d_id l \<and>
    d_application_id p = a \<and> d_status p = ''successful'' \<and> d_image p \<noteq> '''' \<and>
    (\<forall>r\<in>set (deployments s). dr_application_id r = a \<and> dr_status r = ''successful'' \<and> dr_image r \<noteq> '''' \<longrightarrow>
       dr_id r = d_id l \<or> dr_id r \<le> d_id p)"
proof -
  obtain l r rs where eq: "successful_images a s = l # r # rs" and p: "p = scan_release r"
    using assms(2) unfolding PreviousSuccessfulDeployment_def
    by (cases "successful_images a s"; cases "tl (successful_images a s)") auto
  have mem: "set (l # r # rs) = {r \<in> set (deployments s). dr_application_id r = a \<and>
     dr_status r = ''successful'' \<and> dr_image r \<noteq> ''''}"
    using eq set_successful_images [of a s] by simp
  have srt: "sorted_wrt (\<lambda>x y. dr_id y < dr_id x) (l # r # rs)"
    using successful_images_sorted [OF assms(1), of a] eq by simp
  have latest: "LatestSuccessfulDeployment a s = Inr (scan_release l)"
    using eq by (simp add: LatestSuccessfulDeployment_def)
  have between: "dr_id q = dr_id l \<or> dr_id q \<le> dr_id r" if "q \<in> set (l # r # rs)" for q
    using that srt by auto
  have "r \<in> set (l # r # rs)" by simp
  with mem have r: "dr_application_id r = a" "dr_status r = ''successful''" "dr_image r \<noteq> ''''" by blast+
  have "dr_id q = d_id (scan_release l) \<or> dr_id q \<le> d_id p" if "q \<in> set (deployments s)"
    "dr_application_id q = a \<and> dr_status q = ''successful'' \<and> dr_image q \<noteq> ''''" for q
    unfolding p scan_simps by (rule between) (unfold mem, use that in simp)
  moreover have "d_id p < d_id (scan_release l)" using srt p by simp
  moreover have "d_application_id p = a" "d_status p = ''successful''" "d_image p \<noteq> ''''"
    using r p by simp_all
  ultimately show ?thesis using latest by blast
qed

theorem rollback_target_witness:
  "\<exists>p l. PreviousSuccessfulDeployment 1 demo_db = Inr p \<and> d_image p = ''img1'' \<and>
    LatestSuccessfulDeployment 1 demo_db = Inr l \<and> d_id p < d_id l"
proof -
  have p: "PreviousSuccessfulDeployment 1 demo_db = Inr (scan_release (demo_release 1 ''img1'' 10))"
    by (simp add: PreviousSuccessfulDeployment_def successful_images_def app_history_def order_desc_def
        demo_rows demo_release_simps)
  from rollback_target [OF demo_inv p] obtain l where
    "LatestSuccessfulDeployment 1 demo_db = Inr l" "d_id (scan_release (demo_release 1 ''img1'' 10)) < d_id l"
    by blast
  with p show ?thesis by (simp add: demo_release_simps)
qed

end
