(* ===== verification/Table_Spec.thy ===== *)
theory Table_Spec
  imports Prelude
begin

text \<open>
  The contract of a keyed table: a lookup after a write, and after a deletion. The tables of
  package store whose rows are reached by a unique key (settings, secrets, configuration, health
  evidence, unlock attempts) are interpretations, so each refines a finite map.
\<close>

locale kv_table =
  fixes get :: "'k \<Rightarrow> 's \<Rightarrow> 'v option"
    and put :: "'k \<Rightarrow> 'v \<Rightarrow> 's \<Rightarrow> 's"
  assumes get_put: "get k' (put k v s) = (if k' = k then Some v else get k' s)"
begin

definition contents :: "'s \<Rightarrow> 'k \<Rightarrow> 'v option" where
  "contents s = (\<lambda>k. get k s)"

lemma contents_put: "contents (put k v s) = (contents s)(k \<mapsto> v)"
  by (simp add: contents_def get_put fun_eq_iff)

lemma put_overwrites: "contents (put k v (put k w s)) = contents (put k v s)"
  by (simp add: contents_put)

lemma put_commute: "k \<noteq> k' \<Longrightarrow> contents (put k v (put k' w s)) = contents (put k' w (put k v s))"
  by (simp add: contents_put fun_upd_twist)

text \<open>Writing a list of entries: the last entry of a key wins.\<close>

lemma contents_puts:
  "contents (fold (\<lambda>(k, v). put k v) kvs s) = contents s ++ map_of (rev kvs)"
  by (induction kvs arbitrary: s) (auto simp: contents_put)

lemma get_puts: "get k (fold (\<lambda>(k, v). put k v) kvs s) =
    (case map_of (rev kvs) k of None \<Rightarrow> get k s | Some v \<Rightarrow> Some v)"
  using fun_cong [OF contents_puts [of kvs s], of k] by (simp add: contents_def map_add_def)

end

locale kv_table_del = kv_table get put
  for get :: "'k \<Rightarrow> 's \<Rightarrow> 'v option" and put :: "'k \<Rightarrow> 'v \<Rightarrow> 's \<Rightarrow> 's" +
  fixes del :: "'k \<Rightarrow> 's \<Rightarrow> 's"
  assumes get_del: "get k' (del k s) = (if k' = k then None else get k' s)"
begin

lemma contents_del: "contents (del k s) = (contents s)(k := None)"
  by (simp add: contents_def get_del fun_eq_iff)

lemma put_del: "contents (del k (put k v s)) = (contents s)(k := None)"
  by (simp add: contents_del contents_put)

end

text \<open>Rows found by key in a list kept by \<open>upsert_by\<close> and \<open>delete_where\<close>.\<close>

lemma find_upsert_replace:
  "find (\<lambda>r. key r = k) (upsert_by key (\<lambda>_ new. new) new rows) =
    (if k = key new then Some new else find (\<lambda>r. key r = k) rows)"
proof (cases "k = key new")
  case True
  then show ?thesis using find_upsert_by_same [of key new "\<lambda>_ new. new" rows]
    by (simp split: option.splits)
next
  case False
  then show ?thesis using find_upsert_by_other [of key new "\<lambda>_ new. new" k rows] by simp
qed

lemma list_ex_find: "list_ex P xs \<longleftrightarrow> find P xs \<noteq> None"
  by (induction xs) auto

end
