(* ===== verification/Store_Apps.thy ===== *)
theory Store_Apps
  imports Db Table_Spec
begin

text \<open>
  Applications, settings, secrets and public configuration of package store. Secrets are stored
  as the nonce and ciphertext that package security produces; this theory never looks inside
  them. The clock readings of an operation are its arguments.
\<close>

section \<open>Settings and the security configuration\<close>

definition put_setting :: "string \<Rightarrow> bytes \<Rightarrow> db \<Rightarrow> db" where
  "put_setting key v s = s\<lparr>settings := upsert_by fst (\<lambda>_ new. new) (key, v) (settings s)\<rparr>"

definition get_setting :: "string \<Rightarrow> db \<Rightarrow> bytes option" where
  "get_setting key s = map_option snd (find (\<lambda>r. fst r = key) (settings s))"

definition IsInitialized :: "db \<Rightarrow> bool" where
  "IsInitialized s \<longleftrightarrow> count_where (\<lambda>r. fst r = ''security.salt'') (settings s) = 1"

definition security_values :: "security_config \<Rightarrow> (string \<times> bytes) list" where
  "security_values config =
     [(''security.salt'', sc_salt config), (''security.verifier_nonce'', sc_verifier_nonce config),
      (''security.verifier_cipher'', sc_verifier_cipher config)]"

text \<open>A transaction: a key that is already present makes the whole initialization fail.\<close>

definition InitializeSecurity :: "security_config \<Rightarrow> unit store_op" where
  "InitializeSecurity config s =
     (if list_ex (\<lambda>kv. list_ex (\<lambda>r. fst r = fst kv) (settings s)) (security_values config)
      then (s, Inl (ErrUnique ''settings.key''))
      else (s\<lparr>settings := settings s @ security_values config\<rparr>, Inr ()))"

definition UpdateSecurityConfig :: "security_config \<Rightarrow> unit store_op" where
  "UpdateSecurityConfig config s =
     (s\<lparr>settings := fold (\<lambda>(key, v). update_where (\<lambda>r. fst r = key) (\<lambda>r. (key, v)))
          (security_values config) (settings s)\<rparr>, Inr ())"

definition SecurityConfig :: "db \<Rightarrow> security_config result" where
  "SecurityConfig s =
     (case (get_setting ''security.salt'' s, get_setting ''security.verifier_nonce'' s,
            get_setting ''security.verifier_cipher'' s) of
        (Some salt, Some nonce, Some cipher) \<Rightarrow>
          Inr \<lparr>sc_salt = salt, sc_verifier_nonce = nonce, sc_verifier_cipher = cipher\<rparr>
      | _ \<Rightarrow> Inl ErrNotFound)"

definition SetSettingString :: "string \<Rightarrow> string \<Rightarrow> unit store_op" where
  "SetSettingString key v s = (put_setting key (to_bytes v) s, Inr ())"

definition SettingString :: "string \<Rightarrow> db \<Rightarrow> string" where
  "SettingString key s = (case get_setting key s of None \<Rightarrow> '''' | Some v \<Rightarrow> of_bytes v)"

section \<open>Secrets\<close>

definition secret_key :: "secret_row \<Rightarrow> string \<times> string" where
  "secret_key r = (sec_scope r, sec_name r)"

definition PutSecret :: "time \<Rightarrow> string \<Rightarrow> string \<Rightarrow> bytes \<Rightarrow> bytes \<Rightarrow> unit store_op" where
  "PutSecret now scope name nonce ciphertext s =
     (s\<lparr>secrets := upsert_by secret_key (\<lambda>_ new. new)
          \<lparr>sec_scope = scope, sec_name = name, sec_nonce = nonce, sec_ciphertext = ciphertext,
           sec_updated_at = now\<rparr> (secrets s)\<rparr>, Inr ())"

definition Secret :: "string \<Rightarrow> string \<Rightarrow> db \<Rightarrow> (bytes \<times> bytes) result" where
  "Secret scope name s =
     (case find (\<lambda>r. secret_key r = (scope, name)) (secrets s) of
        None \<Rightarrow> Inl ErrNotFound | Some r \<Rightarrow> Inr (sec_nonce r, sec_ciphertext r))"

definition secret_exists :: "string \<Rightarrow> string \<Rightarrow> db \<Rightarrow> bool" where
  "secret_exists scope name s \<longleftrightarrow> list_ex (\<lambda>r. secret_key r = (scope, name)) (secrets s)"

definition applicationSecretScope :: "int \<Rightarrow> string \<Rightarrow> string \<Rightarrow> string" where
  "applicationSecretScope applicationID environment target =
     ''application:'' @ show_int applicationID @ '':'' @ environment @ '':'' @ target"

definition validEnvironmentAndTarget :: "string \<Rightarrow> string \<Rightarrow> bool" where
  "validEnvironmentAndTarget environment target \<longleftrightarrow>
     (environment = ''production'' \<or> environment = ''staging'') \<and> (target = ''runtime'' \<or> target = ''build'')"

definition configuration_key :: "configuration_row \<Rightarrow> int \<times> string \<times> string \<times> string" where
  "configuration_key r = (conf_application_id r, conf_environment r, conf_target r, conf_name r)"

definition configuration_exists :: "int \<Rightarrow> string \<Rightarrow> string \<Rightarrow> string \<Rightarrow> db \<Rightarrow> bool" where
  "configuration_exists a environment target name s \<longleftrightarrow>
     list_ex (\<lambda>r. configuration_key r = (a, environment, target, name)) (configurations s)"

text \<open>The \<^verbatim>\<open>INSERT INTO secret_audit\<close> of every operation, with its foreign key.\<close>

definition audit_secret :: "time \<Rightarrow> int \<Rightarrow> string \<Rightarrow> string \<Rightarrow> string \<Rightarrow> string \<Rightarrow> unit store_op" where
  "audit_secret now a environment target name action s =
     (if \<not> app_exists s a then (s, Inl ErrForeignKey)
      else (s\<lparr>secret_audits := secret_audits s @
               [\<lparr>sa_id = next_rowid sa_id (secret_audits s), sa_application_id = a,
                 sa_environment = environment, sa_target = target, sa_name = name,
                 sa_action = action, sa_created_at = now\<rparr>]\<rparr>, Inr ()))"

definition PutApplicationSecret ::
    "time \<Rightarrow> time \<Rightarrow> int \<Rightarrow> string \<Rightarrow> string \<Rightarrow> string \<Rightarrow> bytes \<Rightarrow> bytes \<Rightarrow> unit store_op" where
  "PutApplicationSecret now now' applicationID environment target name nonce ciphertext s =
     (if \<not> validEnvironmentAndTarget environment target
      then (s, Inl (ErrMsg ''invalid secret environment or target''))
      else let scope = applicationSecretScope applicationID environment target
      in if configuration_exists applicationID environment target name s
      then (s, Inl (ErrMsg ''a public configuration already uses this name''))
      else let exists = secret_exists scope name s;
               s1 = fst (PutSecret now scope name nonce ciphertext s)
      in audit_secret now' applicationID environment target name
           (if exists then ''rotated'' else ''created'') s1)"

record secret_metadata =
  sm_name :: string
  sm_environment :: string
  sm_target :: string
  sm_updated_at :: time

definition ApplicationSecrets :: "int \<Rightarrow> string \<Rightarrow> string \<Rightarrow> db \<Rightarrow> secret_metadata list" where
  "ApplicationSecrets applicationID environment target s =
     map (\<lambda>r. \<lparr>sm_name = sec_name r, sm_environment = environment, sm_target = target,
                sm_updated_at = sec_updated_at r\<rparr>)
       (sort_key sec_name
         (filter (\<lambda>r. sec_scope r = applicationSecretScope applicationID environment target) (secrets s)))"

definition ApplicationSecret :: "int \<Rightarrow> string \<Rightarrow> string \<Rightarrow> string \<Rightarrow> db \<Rightarrow> (bytes \<times> bytes) result" where
  "ApplicationSecret applicationID environment target name s =
     Secret (applicationSecretScope applicationID environment target) name s"

definition HasSecrets :: "int \<Rightarrow> db \<Rightarrow> bool" where
  "HasSecrets applicationID s \<longleftrightarrow>
     list_ex (\<lambda>r. sql_like (''application:'' @ show_int applicationID @ '':%'') (sec_scope r)) (secrets s)"

definition DeleteApplicationSecret :: "time \<Rightarrow> int \<Rightarrow> string \<Rightarrow> string \<Rightarrow> string \<Rightarrow> unit store_op" where
  "DeleteApplicationSecret now applicationID environment target name s =
     (let sel = (\<lambda>r. secret_key r = (applicationSecretScope applicationID environment target, name));
          s1 = s\<lparr>secrets := delete_where sel (secrets s)\<rparr>
      in if count_where sel (secrets s) = 0 then (s1, Inl ErrNotFound)
         else audit_secret now applicationID environment target name ''deleted'' s1)"

text \<open>The loop of \<^verbatim>\<open>RecordSecretUse\<close>, one audit row and one clock reading per name.\<close>

fun RecordSecretUse :: "(nat \<Rightarrow> time) \<Rightarrow> int \<Rightarrow> string \<Rightarrow> string \<Rightarrow> string list \<Rightarrow> unit store_op" where
  "RecordSecretUse now applicationID environment target [] s = (s, Inr ())"
| "RecordSecretUse now applicationID environment target (name # names) s =
     (case audit_secret (now 0) applicationID environment target name ''used'' s of
        (s1, Inl e) \<Rightarrow> (s1, Inl e)
      | (s1, Inr _) \<Rightarrow> RecordSecretUse (\<lambda>k. now (Suc k)) applicationID environment target names s1)"

record secret_audit =
  au_action :: string
  au_name :: string
  au_environment :: string
  au_target :: string
  au_created_at :: time

definition SecretAudit :: "int \<Rightarrow> db \<Rightarrow> secret_audit list" where
  "SecretAudit applicationID s =
     map (\<lambda>r. \<lparr>au_action = sa_action r, au_name = sa_name r, au_environment = sa_environment r,
                au_target = sa_target r, au_created_at = sa_created_at r\<rparr>)
       (take 30 (order_desc sa_id (filter (\<lambda>r. sa_application_id r = applicationID) (secret_audits s))))"

section \<open>Public configuration\<close>

definition PutApplicationConfiguration ::
    "time \<Rightarrow> int \<Rightarrow> string \<Rightarrow> string \<Rightarrow> string \<Rightarrow> string \<Rightarrow> unit store_op" where
  "PutApplicationConfiguration now applicationID environment target name v s =
     (if \<not> validEnvironmentAndTarget environment target
      then (s, Inl (ErrMsg ''invalid configuration environment or target''))
      else if secret_exists (applicationSecretScope applicationID environment target) name s
      then (s, Inl (ErrMsg ''a secret already uses this name''))
      else if \<not> app_exists s applicationID then (s, Inl ErrForeignKey)
      else (s\<lparr>configurations := upsert_by configuration_key (\<lambda>_ new. new)
                \<lparr>conf_application_id = applicationID, conf_environment = environment,
                 conf_target = target, conf_name = name, conf_value = v, conf_updated_at = now\<rparr>
                (configurations s)\<rparr>, Inr ()))"

definition ApplicationConfiguration :: "int \<Rightarrow> string \<Rightarrow> string \<Rightarrow> db \<Rightarrow> configuration_row list" where
  "ApplicationConfiguration applicationID environment target s =
     sort_key conf_name
       (filter (\<lambda>r. conf_application_id r = applicationID \<and> conf_environment r = environment \<and>
                    conf_target r = target) (configurations s))"

definition DeleteApplicationConfiguration :: "int \<Rightarrow> string \<Rightarrow> string \<Rightarrow> string \<Rightarrow> unit store_op" where
  "DeleteApplicationConfiguration applicationID environment target name s =
     (let sel = (\<lambda>r. configuration_key r = (applicationID, environment, target, name))
      in (s\<lparr>configurations := delete_where sel (configurations s)\<rparr>,
          if count_where sel (configurations s) = 0 then Inl ErrNotFound else Inr ()))"

section \<open>Applications\<close>

definition CreateApplication :: "time \<Rightarrow> application \<Rightarrow> application store_op" where
  "CreateApplication now application s =
     (if app_deploy_on_push application \<and> app_require_confirmation application
      then (s, Inl (ErrMsg ''push deployments require production confirmation to be disabled''))
      else if list_ex (\<lambda>r. app_name r = app_name application) (applications s)
      then (s, Inl (ErrUnique ''applications.name''))
      else if list_ex (\<lambda>r. app_domain r = app_domain application) (applications s)
      then (s, Inl (ErrUnique ''applications.domain''))
      else let i = next_rowid app_id (applications s)
      in (s\<lparr>applications := applications s @ [application\<lparr>app_id := i, app_created_at := now\<rparr>]\<rparr>,
          Inr (application\<lparr>app_id := i\<rparr>)))"

definition Applications :: "db \<Rightarrow> application list" where
  "Applications s = sort_key app_name (applications s)"

definition Application :: "int \<Rightarrow> db \<Rightarrow> application result" where
  "Application i s =
     (case find (\<lambda>r. app_id r = i) (applications s) of None \<Rightarrow> Inl ErrNotFound | Some r \<Rightarrow> Inr r)"

definition UpdateApplicationAutomation :: "int \<Rightarrow> bool \<Rightarrow> bool \<Rightarrow> bool \<Rightarrow> unit store_op" where
  "UpdateApplicationAutomation applicationID deployOnPush requireConfirmation autoRollback s =
     (if deployOnPush \<and> requireConfirmation
      then (s, Inl (ErrMsg ''push deployments require production confirmation to be disabled''))
      else (s\<lparr>applications := update_where (\<lambda>r. app_id r = applicationID)
               (\<lambda>r. r\<lparr>app_deploy_on_push := deployOnPush,
                     app_require_confirmation := requireConfirmation,
                     app_auto_rollback := autoRollback\<rparr>) (applications s)\<rparr>,
            if count_where (\<lambda>r. app_id r = applicationID) (applications s) = 0
            then Inl ErrNotFound else Inr ()))"

definition UpdateApplicationDomain :: "int \<Rightarrow> string \<Rightarrow> unit store_op" where
  "UpdateApplicationDomain applicationID domain s =
     (if count_where (\<lambda>r. app_id r = applicationID) (applications s) = 0 then (s, Inl ErrNotFound)
      else if list_ex (\<lambda>r. app_id r \<noteq> applicationID \<and> app_domain r = domain) (applications s)
      then (s, Inl (ErrUnique ''applications.domain''))
      else (s\<lparr>applications := update_where (\<lambda>r. app_id r = applicationID)
               (\<lambda>r. r\<lparr>app_domain := domain\<rparr>) (applications s)\<rparr>, Inr ()))"

definition AutomationSettings :: "db \<Rightarrow> string" where
  "AutomationSettings s = (case automation_settings s of None \<Rightarrow> ''manual'' | Some schedule \<Rightarrow> schedule)"

definition UpdateCleanupSchedule :: "string \<Rightarrow> unit store_op" where
  "UpdateCleanupSchedule schedule s =
     (if schedule \<noteq> ''manual'' \<and> schedule \<noteq> ''daily'' \<and> schedule \<noteq> ''weekly''
      then (s, Inl (ErrMsg ''invalid cleanup schedule''))
      else (s\<lparr>automation_settings := Some schedule\<rparr>, Inr ()))"

end
