(* ===== verification/Store_Apps_Props.thy ===== *)
theory Store_Apps_Props
  imports Store_Apps
begin

text \<open>
  What package store promises about settings, secrets, configuration and applications: the
  tables refine maps, a name is never both a secret and a public value, and push deployments
  exclude interactive confirmation.
\<close>

section \<open>The tables are maps\<close>

interpretation set_kv: kv_table get_setting put_setting
  by unfold_locales (auto simp: get_setting_def put_setting_def find_upsert_replace)

definition secret_at :: "string \<times> string \<Rightarrow> db \<Rightarrow> (bytes \<times> bytes) option" where
  "secret_at k s = (case Secret (fst k) (snd k) s of Inl _ \<Rightarrow> None | Inr v \<Rightarrow> Some v)"

definition put_secret_at :: "time \<Rightarrow> string \<times> string \<Rightarrow> bytes \<times> bytes \<Rightarrow> db \<Rightarrow> db" where
  "put_secret_at now k v s = fst (PutSecret now (fst k) (snd k) (fst v) (snd v) s)"

definition del_secret_at :: "string \<times> string \<Rightarrow> db \<Rightarrow> db" where
  "del_secret_at k s = s\<lparr>secrets := delete_where (\<lambda>r. secret_key r = k) (secrets s)\<rparr>"

lemma secret_at_find:
  "secret_at k s = map_option (\<lambda>r. (sec_nonce r, sec_ciphertext r)) (find (\<lambda>r. secret_key r = k) (secrets s))"
  by (simp add: secret_at_def Secret_def split: option.splits)

lemma secret_key_new [simp]:
  "secret_key \<lparr>sec_scope = sc, sec_name = n, sec_nonce = no, sec_ciphertext = ci, sec_updated_at = t\<rparr> = (sc, n)"
  by (simp add: secret_key_def)

interpretation sec_kv: kv_table_del secret_at "put_secret_at now" del_secret_at
  for now :: time
proof
  show "secret_at k' (put_secret_at now k v s) = (if k' = k then Some v else secret_at k' s)" for k' k v s
    by (simp add: secret_at_find put_secret_at_def PutSecret_def find_upsert_replace)
  show "secret_at k' (del_secret_at k s) = (if k' = k then None else secret_at k' s)" for k' k s
    by (simp add: secret_at_find del_secret_at_def find_delete_where)
qed

lemma secret_exists_at: "secret_exists scope name s \<longleftrightarrow> secret_at (scope, name) s \<noteq> None"
  by (auto simp: secret_exists_def secret_at_def Secret_def list_ex_find split: option.splits)

definition configuration_at :: "int \<times> string \<times> string \<times> string \<Rightarrow> db \<Rightarrow> configuration_row option" where
  "configuration_at k s = find (\<lambda>r. configuration_key r = k) (configurations s)"

lemma configuration_exists_at:
  "configuration_exists a e t n s \<longleftrightarrow> configuration_at (a, e, t, n) s \<noteq> None"
  by (simp add: configuration_exists_def configuration_at_def list_ex_find)

section \<open>Scopes\<close>

lemma split_colon:
  assumes "\<forall>c\<in>set xs. c \<noteq> CHR '':''" and "\<forall>c\<in>set ys. c \<noteq> CHR '':''"
    and "xs @ CHR '':'' # us = ys @ CHR '':'' # vs"
  shows "xs = ys \<and> us = vs"
  using assms
proof (induction xs arbitrary: ys)
  case Nil
  then show ?case by (cases ys) auto
next
  case (Cons x xs)
  then show ?case by (cases ys) auto
qed

lemma show_int_no_colon: "\<forall>c\<in>set (show_int i). c \<noteq> CHR '':''"
  using show_int_chars by (fastforce simp: is_digit_def)

text \<open>Different applications, environments and targets never share a scope.\<close>

lemma scope_inj:
  assumes "validEnvironmentAndTarget e t" and "validEnvironmentAndTarget e' t'"
    and "applicationSecretScope a e t = applicationSecretScope a' e' t'"
  shows "a = a' \<and> e = e' \<and> t = t'"
proof -
  have eq: "show_int a @ CHR '':'' # (e @ '':'' @ t) = show_int a' @ CHR '':'' # (e' @ '':'' @ t')"
    using assms(3) by (simp add: applicationSecretScope_def)
  from split_colon [OF show_int_no_colon show_int_no_colon eq]
  have "show_int a = show_int a'" and rest: "e @ CHR '':'' # t = e' @ CHR '':'' # t'" by simp_all
  moreover have "\<forall>c\<in>set e. c \<noteq> CHR '':''" "\<forall>c\<in>set e'. c \<noteq> CHR '':''"
    using assms(1,2) by (auto simp: validEnvironmentAndTarget_def)
  ultimately show ?thesis using split_colon [of e e' t t'] by (simp add: show_int_inj)
qed

section \<open>Frames\<close>

lemma audit_secret_frame:
  assumes "audit_secret now a e t n act s = (s', x)"
  shows "secrets s' = secrets s \<and> configurations s' = configurations s \<and> applications s' = applications s"
  using assms by (auto simp: audit_secret_def split: if_splits)

lemma secret_at_cong: "secrets s' = secrets s \<Longrightarrow> secret_at k s' = secret_at k s"
  by (simp add: secret_at_def Secret_def)

lemma configuration_at_cong: "configurations s' = configurations s \<Longrightarrow> configuration_at k s' = configuration_at k s"
  by (simp add: configuration_at_def)

lemma put_secret_at_frame [simp]:
  "configurations (put_secret_at now k v s) = configurations s"
  "applications (put_secret_at now k v s) = applications s"
  "secret_audits (put_secret_at now k v s) = secret_audits s"
  by (simp_all add: put_secret_at_def PutSecret_def)

lemma PutApplicationSecret_unfold:
  "PutApplicationSecret now now' a e t n no ci s =
     (if \<not> validEnvironmentAndTarget e t then (s, Inl (ErrMsg ''invalid secret environment or target''))
      else if configuration_at (a, e, t, n) s \<noteq> None
      then (s, Inl (ErrMsg ''a public configuration already uses this name''))
      else audit_secret now' a e t n
        (if secret_at (applicationSecretScope a e t, n) s \<noteq> None then ''rotated'' else ''created'')
        (put_secret_at now (applicationSecretScope a e t, n) (no, ci) s))"
  by (simp add: PutApplicationSecret_def configuration_exists_at secret_exists_at put_secret_at_def)

lemma PutApplicationSecret_secrets:
  assumes "PutApplicationSecret now now' a e t n no ci s = (s', x)"
    and "validEnvironmentAndTarget e t" and "configuration_at (a, e, t, n) s = None"
  shows "secret_at k s' = (if k = (applicationSecretScope a e t, n) then Some (no, ci) else secret_at k s) \<and>
    configurations s' = configurations s"
proof -
  let ?s1 = "put_secret_at now (applicationSecretScope a e t, n) (no, ci) s"
  from assms have "audit_secret now' a e t n
        (if secret_at (applicationSecretScope a e t, n) s \<noteq> None then ''rotated'' else ''created'') ?s1 = (s', x)"
    by (simp add: PutApplicationSecret_unfold)
  then have "secrets s' = secrets ?s1" "configurations s' = configurations ?s1"
    by (auto dest: audit_secret_frame)
  then show ?thesis using secret_at_cong [of s' ?s1 k] sec_kv.get_put [of k now _ _ s] by simp
qed

lemma PutApplicationSecret_invalid:
  assumes "PutApplicationSecret now now' a e t n no ci s = (s', x)"
    and "\<not> (validEnvironmentAndTarget e t \<and> configuration_at (a, e, t, n) s = None)"
  shows "s' = s"
  using assms by (auto simp: PutApplicationSecret_unfold split: if_splits)

lemma DeleteApplicationSecret_frame:
  assumes "DeleteApplicationSecret now a e t n s = (s', x)"
  shows "secrets s' = secrets (del_secret_at (applicationSecretScope a e t, n) s) \<and>
    configurations s' = configurations s"
proof -
  let ?s1 = "del_secret_at (applicationSecretScope a e t, n) s"
  have "s' = ?s1 \<or> audit_secret now a e t n ''deleted'' ?s1 = (s', x)"
    using assms by (auto simp: DeleteApplicationSecret_def del_secret_at_def Let_def split: if_splits)
  then show ?thesis by (auto dest: audit_secret_frame simp: del_secret_at_def)
qed

lemma configuration_key_new [simp]:
  "configuration_key \<lparr>conf_application_id = a, conf_environment = e, conf_target = t, conf_name = n,
     conf_value = v, conf_updated_at = u\<rparr> = (a, e, t, n)"
  by (simp add: configuration_key_def)

lemma PutApplicationConfiguration_cases:
  assumes "PutApplicationConfiguration now a e t n v s = (s', x)"
  shows "secrets s' = secrets s \<and>
    (s' = s \<or> validEnvironmentAndTarget e t \<and> secret_at (applicationSecretScope a e t, n) s = None \<and>
       (\<forall>k. k \<noteq> (a, e, t, n) \<longrightarrow> configuration_at k s' = configuration_at k s))"
  using assms
  by (auto simp: PutApplicationConfiguration_def configuration_at_def find_upsert_replace secret_exists_at
      split: if_splits)
    (metis not_None_eq surj_pair)+

lemma DeleteApplicationConfiguration_at:
  assumes "DeleteApplicationConfiguration a e t n s = (s', x)"
  shows "secrets s' = secrets s \<and>
    configuration_at k s' = (if k = (a, e, t, n) then None else configuration_at k s)"
  using assms by (auto simp: DeleteApplicationConfiguration_def configuration_at_def find_delete_where)

lemma RecordSecretUse_frame:
  "RecordSecretUse now a e t ns s = (s', x) \<Longrightarrow>
    secrets s' = secrets s \<and> configurations s' = configurations s \<and> applications s' = applications s"
  by (induction now a e t ns s arbitrary: s' rule: RecordSecretUse.induct)
    (fastforce split: prod.splits sum.splits dest: audit_secret_frame)+

section \<open>Secrets and public values\<close>

definition names_disjoint :: "db \<Rightarrow> bool" where
  "names_disjoint s \<longleftrightarrow>
     (\<forall>a e t n. validEnvironmentAndTarget e t \<and> configuration_at (a, e, t, n) s \<noteq> None \<longrightarrow>
        secret_at (applicationSecretScope a e t, n) s = None)"

text \<open>
  One call that changes secrets or configuration; \<open>system\<close> is the credential that the
  Cloudflare integration stores under its own scope.
\<close>

inductive secret_step :: "db \<Rightarrow> db \<Rightarrow> bool" where
  put: "PutApplicationSecret now now' a e t n no ci s = (s', x) \<Longrightarrow> secret_step s s'"
| delete: "DeleteApplicationSecret now a e t n s = (s', x) \<Longrightarrow> secret_step s s'"
| put_public: "PutApplicationConfiguration now a e t n v s = (s', x) \<Longrightarrow> secret_step s s'"
| delete_public: "DeleteApplicationConfiguration a e t n s = (s', x) \<Longrightarrow> secret_step s s'"
| used: "RecordSecretUse nows a e t ns s = (s', x) \<Longrightarrow> secret_step s s'"
| system: "PutSecret now ''system:cloudflare'' n no ci s = (s', x) \<Longrightarrow> secret_step s s'"
| create: "CreateApplication now app s = (s', y) \<Longrightarrow> secret_step s s'"

lemma names_disjointI:
  "(\<And>a e t n. validEnvironmentAndTarget e t \<Longrightarrow> configuration_at (a, e, t, n) s \<noteq> None \<Longrightarrow>
    secret_at (applicationSecretScope a e t, n) s = None) \<Longrightarrow> names_disjoint s"
  unfolding names_disjoint_def by blast

lemma names_disjointD:
  "names_disjoint s \<Longrightarrow> validEnvironmentAndTarget e t \<Longrightarrow> configuration_at (a, e, t, n) s \<noteq> None \<Longrightarrow>
    secret_at (applicationSecretScope a e t, n) s = None"
  unfolding names_disjoint_def by blast

lemma names_disjoint_cong:
  "secrets s' = secrets s \<Longrightarrow> configurations s' = configurations s \<Longrightarrow> names_disjoint s' = names_disjoint s"
  by (simp add: names_disjoint_def secret_at_find configuration_at_def)

lemma scope_not_system: "applicationSecretScope a e t \<noteq> ''system:cloudflare''"
  by (simp add: applicationSecretScope_def)

lemma secret_step_disjoint:
  assumes "secret_step s s'" and "names_disjoint s"
  shows "names_disjoint s'"
  using assms(1)
proof cases
  case (put now now' a e t n no ci x)
  show ?thesis
  proof (cases "validEnvironmentAndTarget e t \<and> configuration_at (a, e, t, n) s = None")
    case True
    then have sec: "secret_at k s' = (if k = (applicationSecretScope a e t, n) then Some (no, ci) else secret_at k s)"
      and conf: "configurations s' = configurations s" for k
      using PutApplicationSecret_secrets [OF put] by blast+
    show ?thesis
    proof (rule names_disjointI)
      fix b d u m assume v: "validEnvironmentAndTarget d u" and c: "configuration_at (b, d, u, m) s' \<noteq> None"
      have c': "configuration_at (b, d, u, m) s \<noteq> None" using c configuration_at_cong [OF conf] by simp
      then have "(applicationSecretScope b d u, m) \<noteq> (applicationSecretScope a e t, n)"
        using True scope_inj [OF v] by (metis Pair_inject)
      then show "secret_at (applicationSecretScope b d u, m) s' = None"
        using sec names_disjointD [OF assms(2) v c'] by simp
    qed
  next
    case False
    with PutApplicationSecret_invalid [OF put] assms(2) show ?thesis by simp
  qed
next
  case (delete now a e t n x)
  let ?k = "(applicationSecretScope a e t, n)"
  have "secrets s' = secrets (del_secret_at ?k s)" "configurations s' = configurations (del_secret_at ?k s)"
    using DeleteApplicationSecret_frame [OF delete] by (auto simp: del_secret_at_def)
  then have "names_disjoint s' = names_disjoint (del_secret_at ?k s)" by (rule names_disjoint_cong)
  moreover have "configuration_at k (del_secret_at ?k s) = configuration_at k s" for k
    by (simp add: configuration_at_def del_secret_at_def)
  ultimately show ?thesis using assms(2) by (simp add: names_disjoint_def sec_kv.get_del)
next
  case (put_public now a e t n v x)
  note eff = PutApplicationConfiguration_cases [OF put_public]
  show ?thesis
  proof (rule names_disjointI)
    fix b d u m assume v: "validEnvironmentAndTarget d u" and c: "configuration_at (b, d, u, m) s' \<noteq> None"
    have "secret_at (applicationSecretScope b d u, m) s = None"
      using eff c names_disjointD [OF assms(2) v, of b m] by (cases "(b, d, u, m) = (a, e, t, n)") auto
    then show "secret_at (applicationSecretScope b d u, m) s' = None" using eff secret_at_cong by metis
  qed
next
  case (delete_public a e t n x)
  have "secrets s' = secrets s" using DeleteApplicationConfiguration_at [OF delete_public] by blast
  then have "secret_at k s' = secret_at k s" for k by (rule secret_at_cong)
  with DeleteApplicationConfiguration_at [OF delete_public] assms(2) show ?thesis
    by (simp add: names_disjoint_def)
next
  case (used nows a e t ns x)
  with RecordSecretUse_frame assms(2) names_disjoint_cong show ?thesis by blast
next
  case (system now n no ci x)
  then have "s' = put_secret_at now (''system:cloudflare'', n) (no, ci) s"
    by (simp add: put_secret_at_def)
  moreover from this have "secret_at (applicationSecretScope a e t, m) s' = secret_at (applicationSecretScope a e t, m) s" for a e t m
    using sec_kv.get_put [of "(applicationSecretScope a e t, m)" now "(''system:cloudflare'', n)" "(no, ci)" s]
      scope_not_system by simp
  moreover have "configuration_at k (put_secret_at now (''system:cloudflare'', n) (no, ci) s) = configuration_at k s" for k
    by (simp add: configuration_at_def)
  ultimately show ?thesis using assms(2) by (simp add: names_disjoint_def)
next
  case (create now app y)
  then have "secrets s' = secrets s" "configurations s' = configurations s"
    by (auto simp: CreateApplication_def Let_def split: if_splits)
  with assms(2) names_disjoint_cong show ?thesis by blast
qed


definition demo_application :: application where
  "demo_application =
     \<lparr>app_id = 0, app_name = ''web'', app_repository = ''https://git.example/r'', app_branch = ''main'',
      app_work_dir = ''.'', app_type = ''go'', app_build_command = '''', app_run_command = '''',
      app_internal_port = 8080, app_domain = ''web.example'', app_runtime = ''auto'',
      app_deploy_on_push = True, app_require_confirmation = False, app_auto_rollback = False,
      app_github_installation_id = 0, app_health_endpoint = '''', app_created_at = 0\<rparr>"

definition demo_secret_db :: db where
  "demo_secret_db = fst (PutApplicationSecret 7 8 1 ''production'' ''runtime'' ''TOKEN'' [1] [2]
     (fst (CreateApplication 5 demo_application (empty_db 1))))"

lemma demo_secret_reach: "secret_step\<^sup>*\<^sup>* (empty_db 1) demo_secret_db"
proof -
  let ?s1 = "fst (CreateApplication 5 demo_application (empty_db 1))"
  have "secret_step (empty_db 1) ?s1"
    by (rule secret_step.create [of 5 demo_application _ _ "snd (CreateApplication 5 demo_application (empty_db 1))"]) simp
  moreover have "secret_step ?s1 demo_secret_db"
    unfolding demo_secret_db_def
    by (rule secret_step.put [of 7 8 1 "''production''" "''runtime''" "''TOKEN''" "[1]" "[2]" _ _
          "snd (PutApplicationSecret 7 8 1 ''production'' ''runtime'' ''TOKEN'' [1] [2] ?s1)"]) simp
  ultimately show ?thesis by (meson rtranclp.simps)
qed


text \<open>
  Storing a secret of an application makes exactly that secret readable: reading it back gives
  the nonce and ciphertext stored, every other secret of every application, environment and target
  is untouched, and one audit row says whether it was created or rotated.
\<close>

theorem application_secret_roundtrip:
  assumes "PutApplicationSecret now now' a e t n no ci s = (s', Inr ())"
  shows "ApplicationSecret a e t n s' = Inr (no, ci) \<and>
    (\<forall>a' e' t' n'. validEnvironmentAndTarget e' t' \<and> (a', e', t', n') \<noteq> (a, e, t, n) \<longrightarrow>
       ApplicationSecret a' e' t' n' s' = ApplicationSecret a' e' t' n' s) \<and>
    (\<exists>i. secret_audits s' = secret_audits s @
       [\<lparr>sa_id = i, sa_application_id = a, sa_environment = e, sa_target = t, sa_name = n,
         sa_action = (case ApplicationSecret a e t n s of Inl _ \<Rightarrow> ''created'' | Inr _ \<Rightarrow> ''rotated''),
         sa_created_at = now'\<rparr>])"
proof -
  let ?k = "(applicationSecretScope a e t, n)"
  have valid: "validEnvironmentAndTarget e t" and free: "configuration_at (a, e, t, n) s = None"
    using assms by (auto simp: PutApplicationSecret_unfold split: if_splits)
  have at: "secret_at k s' = (if k = ?k then Some (no, ci) else secret_at k s)" for k
    using PutApplicationSecret_secrets [OF assms valid free] by blast
  have read: "ApplicationSecret a' e' t' n' s = (case secret_at (applicationSecretScope a' e' t', n') s of
      None \<Rightarrow> Inl ErrNotFound | Some v \<Rightarrow> Inr v)" for a' e' t' n' s
    by (simp add: ApplicationSecret_def secret_at_find Secret_def split: option.splits)
  have "(\<exists>i. secret_audits s' = secret_audits s @
       [\<lparr>sa_id = i, sa_application_id = a, sa_environment = e, sa_target = t, sa_name = n,
         sa_action = (if secret_at ?k s \<noteq> None then ''rotated'' else ''created''), sa_created_at = now'\<rparr>])"
    using assms valid free by (auto simp: PutApplicationSecret_unfold audit_secret_def split: if_splits)
  moreover have "(case ApplicationSecret a e t n s of Inl _ \<Rightarrow> ''created'' | Inr _ \<Rightarrow> ''rotated'') =
      (if secret_at ?k s \<noteq> None then ''rotated'' else ''created'')"
    by (simp add: read split: option.splits)
  moreover have "ApplicationSecret a' e' t' n' s' = ApplicationSecret a' e' t' n' s"
    if v: "validEnvironmentAndTarget e' t'" and ne: "(a', e', t', n') \<noteq> (a, e, t, n)" for a' e' t' n'
  proof -
    have "(applicationSecretScope a' e' t', n') \<noteq> ?k"
      using scope_inj [OF v valid, of a' a] ne by auto
    then have "secret_at (applicationSecretScope a' e' t', n') s' = secret_at (applicationSecretScope a' e' t', n') s"
      using at by metis
    then show ?thesis by (simp add: read)
  qed
  ultimately show ?thesis using at [of ?k] by (auto simp: read)
qed

theorem application_secret_roundtrip_witness:
  "\<exists>s'. PutApplicationSecret 9 10 1 ''production'' ''runtime'' ''TOKEN'' [3] [4] demo_secret_db = (s', Inr ()) \<and>
     ApplicationSecret 1 ''production'' ''runtime'' ''TOKEN'' s' = Inr ([3], [4])"
proof -
  have "snd (PutApplicationSecret 9 10 1 ''production'' ''runtime'' ''TOKEN'' [3] [4] demo_secret_db) = Inr ()"
    by (simp add: demo_secret_db_def PutApplicationSecret_def validEnvironmentAndTarget_def
        CreateApplication_def empty_db_def demo_application_def configuration_exists_def
        secret_exists_def PutSecret_def audit_secret_def app_exists_def next_rowid_def upsert_by_def)
  then obtain s' where s': "PutApplicationSecret 9 10 1 ''production'' ''runtime'' ''TOKEN'' [3] [4] demo_secret_db = (s', Inr ())"
    by (metis prod.collapse)
  from application_secret_roundtrip [OF s'] s' show ?thesis by blast
qed

section \<open>The security configuration\<close>

lemma InitializeSecurity_reads:
  assumes "InitializeSecurity config s = (s', Inr ())"
  shows "SecurityConfig s' = Inr config"
proof -
  have s': "s' = s\<lparr>settings := settings s @ security_values config\<rparr>"
    and fresh: "\<And>k. k \<in> {''security.salt'', ''security.verifier_nonce'', ''security.verifier_cipher''} \<Longrightarrow>
      find (\<lambda>r. fst r = k) (settings s) = None"
    using assms by (auto simp: InitializeSecurity_def security_values_def list_ex_iff find_None_iff split: if_splits)
  then have "get_setting ''security.salt'' s' = Some (sc_salt config)"
    "get_setting ''security.verifier_nonce'' s' = Some (sc_verifier_nonce config)"
    "get_setting ''security.verifier_cipher'' s' = Some (sc_verifier_cipher config)"
    by (simp_all add: get_setting_def find_append security_values_def)
  then show ?thesis by (simp add: SecurityConfig_def)
qed

text \<open>
  The first setup is the only one: initialization stores the configuration that is read back
  afterwards, and every later initialization fails and changes nothing.
\<close>

theorem security_initialized_once:
  assumes "InitializeSecurity config s = (s', Inr ())"
  shows "SecurityConfig s' = Inr config \<and> IsInitialized s' \<and>
    (\<forall>other. InitializeSecurity other s' = (s', Inl (ErrUnique ''settings.key'')))"
proof -
  have s': "s' = s\<lparr>settings := settings s @ security_values config\<rparr>"
    and fresh: "\<forall>r\<in>set (settings s). fst r \<noteq> ''security.salt''"
    using assms by (auto simp: InitializeSecurity_def security_values_def list_ex_iff split: if_splits)
  then have "filter (\<lambda>r. fst r = ''security.salt'') (settings s) = []" by (simp add: filter_empty_conv)
  then have "IsInitialized s'"
    by (simp add: IsInitialized_def count_where_def s' security_values_def)
  moreover have "InitializeSecurity other s' = (s', Inl (ErrUnique ''settings.key''))" for other
    by (simp add: InitializeSecurity_def security_values_def s')
  ultimately show ?thesis using InitializeSecurity_reads [OF assms] by simp
qed

theorem security_initialized_once_witness:
  "\<exists>s'. InitializeSecurity \<lparr>sc_salt = [1], sc_verifier_nonce = [2], sc_verifier_cipher = [3]\<rparr> (empty_db 1) = (s', Inr ()) \<and>
    SecurityConfig s' = Inr \<lparr>sc_salt = [1], sc_verifier_nonce = [2], sc_verifier_cipher = [3]\<rparr>"
proof -
  let ?c = "\<lparr>sc_salt = [1::byte], sc_verifier_nonce = [2::byte], sc_verifier_cipher = [3::byte]\<rparr>"
  have i: "InitializeSecurity ?c (empty_db 1) = (fst (InitializeSecurity ?c (empty_db 1)), Inr ())"
    by (simp add: InitializeSecurity_def empty_db_def security_values_def)
  from security_initialized_once [OF i] i show ?thesis by blast
qed

section \<open>Automation of applications\<close>

definition automation_safe :: "db \<Rightarrow> bool" where
  "automation_safe s \<longleftrightarrow> (\<forall>r\<in>set (applications s). \<not> (app_deploy_on_push r \<and> app_require_confirmation r))"

definition names_unique :: "db \<Rightarrow> bool" where
  "names_unique s \<longleftrightarrow> distinct (map app_id (applications s)) \<and> distinct (map app_name (applications s)) \<and>
     distinct (map app_domain (applications s))"

text \<open>The operations that write table \<^verbatim>\<open>applications\<close>.\<close>

inductive app_step :: "db \<Rightarrow> db \<Rightarrow> bool" where
  create: "CreateApplication now app s = (s', x) \<Longrightarrow> app_step s s'"
| automate: "UpdateApplicationAutomation a push confirm auto s = (s', u) \<Longrightarrow> app_step s s'"
| rename: "UpdateApplicationDomain a d s = (s', u) \<Longrightarrow> app_step s s'"

lemma app_step_safe: "app_step s s' \<Longrightarrow> automation_safe s \<Longrightarrow> automation_safe s'"
proof (induction rule: app_step.induct)
  case (create now app s s' x)
  then show ?case
    by (auto simp: CreateApplication_def automation_safe_def Let_def split: if_splits)
next
  case (automate a push confirm auto s s' u)
  then show ?case
    by (auto simp: UpdateApplicationAutomation_def automation_safe_def split: if_splits elim!: in_update_whereE)
next
  case (rename a d s s' u)
  then show ?case
    by (auto simp: UpdateApplicationDomain_def automation_safe_def split: if_splits elim!: in_update_whereE)
qed

lemma update_domain_distinct:
  assumes "distinct (map app_id rows)" and "distinct (map app_domain rows)"
    and "\<forall>r\<in>set rows. app_id r \<noteq> a \<longrightarrow> app_domain r \<noteq> d"
  shows "distinct (map app_domain (update_where (\<lambda>r. app_id r = a) (\<lambda>r. r\<lparr>app_domain := d\<rparr>) rows))"
  using assms
proof (induction rows)
  case (Cons r rows)
  show ?case
  proof (cases "app_id r = a")
    case True
    with Cons.prems(1) have "\<forall>q\<in>set rows. app_id q \<noteq> a" by (auto simp: image_iff)
    with True Cons.prems show ?thesis by (auto simp: image_iff)
  next
    case False
    with Cons show ?thesis by (auto simp: image_iff elim!: in_update_whereE)
  qed
qed simp

lemma app_step_unique: "app_step s s' \<Longrightarrow> names_unique s \<Longrightarrow> names_unique s'"
proof (induction rule: app_step.induct)
  case (create now app s s' x)
  show ?case
  proof (cases "applications s' = applications s")
    case False
    with create have eq: "applications s' = applications s @
        [app\<lparr>app_id := next_rowid app_id (applications s), app_created_at := now\<rparr>]"
      and "\<forall>r\<in>set (applications s). app_name r \<noteq> app_name app \<and> app_domain r \<noteq> app_domain app"
      by (auto simp: CreateApplication_def Let_def list_ex_iff split: if_splits)
    with create show ?thesis using next_rowid_fresh [of app_id "applications s"]
      by (auto simp: names_unique_def image_iff)
  qed (use create in \<open>simp add: names_unique_def\<close>)
next
  case (automate a push confirm auto s s' u)
  then show ?case
    by (auto simp: UpdateApplicationAutomation_def names_unique_def map_update_where split: if_splits)
next
  case (rename a d s s' u)
  show ?case
  proof (cases "applications s' = applications s")
    case False
    with rename have "applications s' = update_where (\<lambda>r. app_id r = a) (\<lambda>r. r\<lparr>app_domain := d\<rparr>) (applications s)"
      and "\<forall>r\<in>set (applications s). app_id r \<noteq> a \<longrightarrow> app_domain r \<noteq> d"
      by (auto simp: UpdateApplicationDomain_def list_ex_iff split: if_splits)
    with rename(2) update_domain_distinct [of "applications s" a d] show ?thesis
      by (simp add: names_unique_def map_update_where)
  qed (use rename in \<open>simp add: names_unique_def\<close>)
qed

text \<open>
  In every reachable state no application deploys on push while it requires an interactive
  confirmation, and identifiers, names and domains of applications are unique.
\<close>

theorem push_excludes_confirmation:
  assumes "app_step\<^sup>*\<^sup>* (empty_db t) s"
  shows "(\<forall>r\<in>set (Applications s). \<not> (app_deploy_on_push r \<and> app_require_confirmation r)) \<and>
    distinct (map app_id (applications s)) \<and> distinct (map app_name (applications s)) \<and>
    distinct (map app_domain (applications s))"
proof -
  have "automation_safe s \<and> names_unique s"
    using assms
  proof (induction rule: rtranclp_induct)
    case base
    show ?case by (simp add: automation_safe_def names_unique_def empty_db_def)
  next
    case (step s1 s2)
    then show ?case using app_step_safe app_step_unique by blast
  qed
  then show ?thesis by (simp add: automation_safe_def names_unique_def Applications_def)
qed

theorem push_excludes_confirmation_witness:
  "list_all (\<lambda>r. \<not> (app_deploy_on_push r \<and> app_require_confirmation r))
     (Applications (fst (CreateApplication 5 demo_application (empty_db 1))))"
proof -
  let ?s = "fst (CreateApplication 5 demo_application (empty_db 1))"
  have "app_step (empty_db 1) ?s"
    by (rule app_step.create [of 5 demo_application _ _ "snd (CreateApplication 5 demo_application (empty_db 1))"]) simp
  with push_excludes_confirmation [of 1 ?s] show ?thesis by (simp add: list_all_iff r_into_rtranclp)
qed

end
