(* ===== verification/Store_Guards.thy ===== *)
theory Store_Guards
  imports Db Table_Spec
begin

text \<open>
  The durable guards of package store: replay protection and rate limits of webhooks, the
  lockout after failed unlocks, the binding of remote nodes to their certificates, federated
  identities and roles.
\<close>

section \<open>Webhooks\<close>

definition ClaimWebhookDelivery :: "string \<Rightarrow> string \<Rightarrow> bool store_op" where
  "ClaimWebhookDelivery provider deliveryHash s =
     (if (provider, deliveryHash) \<in> set (webhook_deliveries s) then (s, Inr False)
      else (s\<lparr>webhook_deliveries := webhook_deliveries s @ [(provider, deliveryHash)]\<rparr>, Inr True))"

definition rate_limit_merge :: "time \<Rightarrow> rate_limit_row \<Rightarrow> rate_limit_row \<Rightarrow> rate_limit_row" where
  "rate_limit_merge cutoff old new = old
     \<lparr>rl_window_started_at := (if rl_window_started_at old \<le> cutoff then rl_window_started_at new
                               else rl_window_started_at old),
      rl_requests := (if rl_window_started_at old \<le> cutoff then 1 else rl_requests old + 1)\<rparr>"

definition AllowWebhookRequest :: "time \<Rightarrow> string \<Rightarrow> int \<Rightarrow> duration \<Rightarrow> bool store_op" where
  "AllowWebhookRequest now scope limit window s =
     (if scope = '''' \<or> limit < 1 \<or> window \<le> 0
      then (s, Inl (ErrMsg ''invalid webhook rate limit''))
      else let cutoff = now - window;
               s1 = s\<lparr>webhook_rate_limits := upsert_by rl_scope (rate_limit_merge cutoff)
                        \<lparr>rl_scope = scope, rl_window_started_at = now, rl_requests = 1\<rparr>
                        (webhook_rate_limits s)\<rparr>
      in case find (\<lambda>r. rl_scope r = scope) (webhook_rate_limits s1) of
           None \<Rightarrow> (s1, Inl ErrNotFound)
         | Some r \<Rightarrow> (s1, Inr (rl_requests r \<le> limit)))"

section \<open>Unlock attempts\<close>

definition UnlockLockoutUntil :: "string \<Rightarrow> time \<Rightarrow> db \<Rightarrow> time result" where
  "UnlockLockoutUntil scope now s =
     (if scope = '''' then Inl (ErrMsg ''unlock scope is required'')
      else case find (\<lambda>r. ua_scope r = scope) (unlock_attempts s) of
             None \<Rightarrow> Inr zero_time
           | Some r \<Rightarrow> (case ua_lockout_until r of
                 Some t \<Rightarrow> if now < t then Inr t else Inr zero_time
               | None \<Rightarrow> Inr zero_time))"

definition RegisterFailedUnlock :: "string \<Rightarrow> time \<Rightarrow> time store_op" where
  "RegisterFailedUnlock scope now s =
     (if scope = '''' then (s, Inl (ErrMsg ''unlock scope is required''))
      else let (failures, until) =
                 (case find (\<lambda>r. ua_scope r = scope) (unlock_attempts s) of
                    None \<Rightarrow> (0, None) | Some r \<Rightarrow> (ua_failed_attempts r, ua_lockout_until r))
      in if (case until of Some t \<Rightarrow> now < t | None \<Rightarrow> False) then (s, Inr (the until))
         else let failures = failures + 1;
                  lockedUntil = (if 5 \<le> failures then now + 5 * minute else zero_time);
                  failures = (if 5 \<le> failures then 0 else failures)
         in (s\<lparr>unlock_attempts := upsert_by ua_scope (\<lambda>_ new. new)
                 \<lparr>ua_scope = scope, ua_failed_attempts = failures,
                  ua_lockout_until = nullTime lockedUntil\<rparr> (unlock_attempts s)\<rparr>,
             Inr lockedUntil))"

definition ClearUnlockFailures :: "string \<Rightarrow> unit store_op" where
  "ClearUnlockFailures scope s =
     (if scope = '''' then (s, Inl (ErrMsg ''unlock scope is required''))
      else (s\<lparr>unlock_attempts := delete_where (\<lambda>r. ua_scope r = scope) (unlock_attempts s)\<rparr>, Inr ()))"

section \<open>Nodes\<close>

text \<open>
  The capabilities column holds the JSON text of the list; writing and reading it is the
  identity on lists of strings, so the row keeps the list.
\<close>

definition UpsertNode :: "time \<Rightarrow> node \<Rightarrow> unit store_op" where
  "UpsertNode now nd s =
     (if node_id nd = '''' \<or> node_name nd = '''' \<or> node_version nd = '''' \<or> node_fingerprint nd = ''''
      then (s, Inl (ErrMsg ''node identity, name, version and certificate fingerprint are required''))
      else let sel = (\<lambda>r. node_id r = node_id nd \<and> node_fingerprint r = node_fingerprint nd);
               s1 = s\<lparr>nodes := update_where sel
                        (\<lambda>r. r\<lparr>node_name := node_name nd, node_version := node_version nd,
                              node_capabilities := node_capabilities nd, node_last_seen_at := now\<rparr>)
                        (nodes s)\<rparr>
      in if count_where sel (nodes s) > 0 then (s1, Inr ())
         else if list_ex (\<lambda>r. node_id r = node_id nd) (nodes s1)
         then (s1, Inl (ErrMsg ''node certificate fingerprint does not match enrolled identity''))
         else (s1\<lparr>nodes := nodes s1 @ [nd\<lparr>node_created_at := now, node_last_seen_at := now\<rparr>]\<rparr>, Inr ()))"

definition Nodes :: "db \<Rightarrow> node list" where
  "Nodes s = sort_key node_name (sort_key node_id (nodes s))"

section \<open>Identities and roles\<close>

definition roles :: "string list" where
  "roles = [''viewer'', ''operator'', ''deployer'', ''admin'', ''security_admin'']"

definition insert_identity_audit :: "time \<Rightarrow> int \<Rightarrow> string \<Rightarrow> db \<Rightarrow> db" where
  "insert_identity_audit now userID action s = s\<lparr>identity_audits := identity_audits s @
     [\<lparr>ia_id = next_rowid ia_id (identity_audits s), ia_user_id = Some userID, ia_action = action,
       ia_detail = '''', ia_created_at = now\<rparr>]\<rparr>"

text \<open>
  A transaction with three clock readings; the identity references a row of
  \<^verbatim>\<open>identity_providers\<close>, and a failing statement rolls everything back.
\<close>

definition UpsertFederatedIdentity :: "time \<Rightarrow> time \<Rightarrow> time \<Rightarrow> federated_identity \<Rightarrow> int store_op" where
  "UpsertFederatedIdentity t1 t2 t3 identity s =
     (if fi_provider_id identity = '''' \<or> fi_subject identity = ''''
      then (s, Inl (ErrMsg ''provider and subject are required''))
      else case find (\<lambda>r. id_provider_id r = fi_provider_id identity \<and> id_subject r = fi_subject identity)
                  (federated_identities s) of
        None \<Rightarrow>
          (let userID = next_rowid us_id (users s);
               s1 = s\<lparr>users := users s @
                      [\<lparr>us_id = userID, us_email = fi_email identity,
                        us_display_name = fi_display_name identity, us_created_at = t1,
                        us_disabled_at = None\<rparr>]\<rparr>
           in if \<not> list_ex (\<lambda>p. ip_id p = fi_provider_id identity) (identity_providers s)
              then (s, Inl ErrForeignKey)
              else let s2 = s1\<lparr>federated_identities := federated_identities s1 @
                        [\<lparr>id_provider_id = fi_provider_id identity, id_subject = fi_subject identity,
                          id_user_id = userID, id_created_at = t2\<rparr>]\<rparr>
                   in (insert_identity_audit t3 userID ''federated_login'' s2, Inr userID))
      | Some r \<Rightarrow>
          (let s1 = s\<lparr>users := update_where (\<lambda>u. us_id u = id_user_id r)
                      (\<lambda>u. u\<lparr>us_email := fi_email identity, us_display_name := fi_display_name identity\<rparr>)
                      (users s)\<rparr>
           in (insert_identity_audit t3 (id_user_id r) ''federated_login'' s1, Inr (id_user_id r))))"

definition SetRole :: "int \<Rightarrow> string \<Rightarrow> unit store_op" where
  "SetRole userID role s =
     (if role \<notin> set roles then (s, Inl (ErrMsg ''invalid role''))
      else if (userID, role) \<in> set (role_bindings s) then (s, Inr ())
      else if \<not> list_ex (\<lambda>u. us_id u = userID) (users s) then (s, Inl ErrForeignKey)
      else (s\<lparr>role_bindings := role_bindings s @ [(userID, role)]\<rparr>, Inr ()))"

end
