(* ===== verification/Store_Alerts.thy ===== *)
theory Store_Alerts
  imports Db Table_Spec
begin

text \<open>
  Observations kept by package store: alerts and their deduplication, the health evidence of an
  application, route probes and their service level, and the Cloudflare configuration row.
\<close>

section \<open>Alerts\<close>

definition GetActiveAlerts :: "db \<Rightarrow> alert list" where
  "GetActiveAlerts s = order_desc al_created_at (rev (filter (\<lambda>a. \<not> al_resolved a) (alerts s)))"

definition GetResolvedAlerts :: "db \<Rightarrow> alert list" where
  "GetResolvedAlerts s =
     take 50 (order_desc (\<lambda>a. time_or_zero (al_resolved_at a)) (rev (filter al_resolved (alerts s))))"

definition UpsertAlert :: "time \<Rightarrow> string \<Rightarrow> string \<Rightarrow> int option \<Rightarrow> int option \<Rightarrow> unit store_op" where
  "UpsertAlert now severity message appID depID s =
     (if list_ex (\<lambda>a. \<not> al_resolved a \<and> al_message a = message \<and> al_application_id a = appID) (alerts s)
      then (s, Inr ())
      else if (case appID of None \<Rightarrow> False | Some i \<Rightarrow> \<not> app_exists s i) \<or>
              (case depID of None \<Rightarrow> False | Some i \<Rightarrow> \<not> list_ex (\<lambda>r. dr_id r = i) (deployments s))
      then (s, Inl ErrForeignKey)
      else (s\<lparr>alerts := alerts s @
               [\<lparr>al_id = next_rowid al_id (alerts s), al_severity = severity, al_message = message,
                 al_application_id = appID, al_deployment_id = depID, al_resolved = False,
                 al_created_at = now, al_resolved_at = None\<rparr>]\<rparr>, Inr ()))"

definition resolve_alert :: "time \<Rightarrow> alert \<Rightarrow> alert" where
  "resolve_alert now a = a\<lparr>al_resolved := True, al_resolved_at := Some now\<rparr>"

definition ResolveAlert :: "time \<Rightarrow> int option \<Rightarrow> string \<Rightarrow> unit store_op" where
  "ResolveAlert now appID messagePrefix s =
     (s\<lparr>alerts := update_where
          (\<lambda>a. \<not> al_resolved a \<and> al_application_id a = appID \<and> sql_like (messagePrefix @ ''%'') (al_message a))
          (resolve_alert now) (alerts s)\<rparr>, Inr ())"

definition ResolveAllAlertsExcept :: "time \<Rightarrow> string list \<Rightarrow> unit store_op" where
  "ResolveAllAlertsExcept now activeAlertMessages s =
     (if activeAlertMessages = []
      then (s\<lparr>alerts := update_where (\<lambda>a. \<not> al_resolved a) (resolve_alert now) (alerts s)\<rparr>, Inr ())
      else (s\<lparr>alerts := update_where (\<lambda>a. \<not> al_resolved a \<and> al_message a \<notin> set activeAlertMessages)
                 (resolve_alert now) (alerts s)\<rparr>, Inr ()))"

section \<open>Health evidence and probes\<close>

text \<open>The Go struct \<^verbatim>\<open>HealthEvidence\<close>, whose times are not optional.\<close>

record evidence =
  eh_application_id :: int
  eh_internal_status :: string
  eh_route_status :: string
  eh_external_status :: string
  eh_internal_checked_at :: time
  eh_route_checked_at :: time
  eh_external_checked_at :: time
  eh_external_observer :: string
  eh_external_detail :: string
  eh_external_http_status :: int

definition evidence_row :: "evidence \<Rightarrow> health_evidence" where
  "evidence_row e =
     \<lparr>he_application_id = eh_application_id e, he_internal_status = eh_internal_status e,
      he_internal_checked_at = nullTime (eh_internal_checked_at e), he_route_status = eh_route_status e,
      he_route_checked_at = nullTime (eh_route_checked_at e), he_external_status = eh_external_status e,
      he_external_checked_at = nullTime (eh_external_checked_at e),
      he_external_observer = eh_external_observer e, he_external_http_status = eh_external_http_status e,
      he_external_detail = eh_external_detail e\<rparr>"

definition UpsertHealthEvidence :: "evidence \<Rightarrow> unit store_op" where
  "UpsertHealthEvidence e s =
     (if \<not> app_exists s (eh_application_id e) then (s, Inl ErrForeignKey)
      else (s\<lparr>application_health := upsert_by he_application_id (\<lambda>_ new. new) (evidence_row e)
                (application_health s)\<rparr>, Inr ()))"

text \<open>
  The three times are scanned into \<^verbatim>\<open>time.Time\<close> fields, and scanning a NULL there
  is an error of \<^verbatim>\<open>database/sql\<close>.
\<close>

definition HealthEvidence :: "int \<Rightarrow> db \<Rightarrow> evidence result" where
  "HealthEvidence applicationID s =
     (case find (\<lambda>r. he_application_id r = applicationID) (application_health s) of
        None \<Rightarrow> Inr \<lparr>eh_application_id = applicationID, eh_internal_status = '''', eh_route_status = '''',
                 eh_external_status = '''', eh_internal_checked_at = zero_time,
                 eh_route_checked_at = zero_time, eh_external_checked_at = zero_time,
                 eh_external_observer = '''', eh_external_detail = '''', eh_external_http_status = 0\<rparr>
      | Some r \<Rightarrow>
          (case (he_internal_checked_at r, he_route_checked_at r, he_external_checked_at r) of
             (Some t1, Some t2, Some t3) \<Rightarrow>
               Inr \<lparr>eh_application_id = he_application_id r, eh_internal_status = he_internal_status r,
                    eh_route_status = he_route_status r, eh_external_status = he_external_status r,
                    eh_internal_checked_at = t1, eh_route_checked_at = t2, eh_external_checked_at = t3,
                    eh_external_observer = he_external_observer r, eh_external_detail = he_external_detail r,
                    eh_external_http_status = he_external_http_status r\<rparr>
           | _ \<Rightarrow> Inl (ErrMsg ''unsupported Scan, storing driver.Value type <nil> into type *time.Time'')))"

definition RecordRouteProbe :: "int \<Rightarrow> bool \<Rightarrow> time \<Rightarrow> string \<Rightarrow> int \<Rightarrow> string \<Rightarrow> unit store_op" where
  "RecordRouteProbe applicationID success checkedAt observer status detail s =
     (if \<not> app_exists s applicationID then (s, Inl ErrForeignKey)
      else (s\<lparr>route_probes := route_probes s @
               [\<lparr>rp_id = next_rowid rp_id (route_probes s), rp_application_id = applicationID,
                 rp_success = success, rp_checked_at = checkedAt, rp_observer = observer,
                 rp_http_status = status, rp_detail = detail\<rparr>]\<rparr>, Inr ()))"

definition RoutingSLO :: "time \<Rightarrow> db \<Rightarrow> rat" where
  "RoutingSLO since s =
     (let total = count_where (\<lambda>p. since \<le> rp_checked_at p) (route_probes s);
          successful = count_where (\<lambda>p. since \<le> rp_checked_at p \<and> rp_success p) (route_probes s)
      in if total = 0 then 0 else of_nat successful * 100 / of_nat total)"

section \<open>Cloudflare configuration\<close>

definition CloudflareConfig :: "time \<Rightarrow> db \<Rightarrow> cloudflare_config" where
  "CloudflareConfig now s =
     (case cloudflare s of
        None \<Rightarrow> \<lparr>cf_mode = ''disabled'', cf_account_id = '''', cf_tunnel_id = '''', cf_tunnel_name = '''',
                 cf_status = ''disabled'', cf_last_health_check = None, cf_error_message = '''',
                 cf_updated_at = now\<rparr>
      | Some c \<Rightarrow> c)"

definition SaveCloudflareConfig :: "time \<Rightarrow> cloudflare_config \<Rightarrow> unit store_op" where
  "SaveCloudflareConfig now cfg s = (s\<lparr>cloudflare := Some (cfg\<lparr>cf_updated_at := now\<rparr>)\<rparr>, Inr ())"

definition UpdateCloudflareStatus :: "time \<Rightarrow> string \<Rightarrow> string \<Rightarrow> unit store_op" where
  "UpdateCloudflareStatus now status errorMessage s =
     (s\<lparr>cloudflare := map_option
          (\<lambda>c. c\<lparr>cf_status := status, cf_error_message := errorMessage,
                cf_last_health_check := Some now, cf_updated_at := now\<rparr>) (cloudflare s)\<rparr>, Inr ())"

end
