(* ===== verification/Store_Guards_Props.thy ===== *)
theory Store_Guards_Props
  imports Store_Guards Store_Alerts
begin

text \<open>
  What the durable guards promise: a webhook delivery is accepted once, a burst of requests is
  cut at its limit, five failed unlocks lock a scope for five minutes, a node keeps the
  certificate it enrolled with, and alerts are not repeated.
\<close>

section \<open>Webhook deliveries\<close>

text \<open>A sequence of claims, with the answers in order.\<close>

fun claim_all :: "(string \<times> string) list \<Rightarrow> db \<Rightarrow> db \<times> bool list" where
  "claim_all [] s = (s, [])"
| "claim_all (c # cs) s =
     (let r = ClaimWebhookDelivery (fst c) (snd c) s; rest = claim_all cs (fst r)
      in (fst rest, (snd r = Inr True) # snd rest))"

lemma claim_known:
  "d \<in> set (webhook_deliveries s) \<Longrightarrow>
    filter (\<lambda>(c, b). c = d \<and> b) (zip cs (snd (claim_all cs s))) = []"
  by (induction cs arbitrary: s) (auto simp: ClaimWebhookDelivery_def Let_def)

lemma claim_all_keeps: "d \<in> set (webhook_deliveries s) \<Longrightarrow> d \<in> set (webhook_deliveries (fst (claim_all cs s)))"
  by (induction cs arbitrary: s) (auto simp: ClaimWebhookDelivery_def Let_def)

text \<open>
  However often a delivery is repeated, and whatever other deliveries come in between, it is
  accepted exactly once: the first time it is claimed on a database that has not seen it.
\<close>

theorem delivery_accepted_once:
  assumes "d \<in> set cs" and "d \<notin> set (webhook_deliveries s)"
  shows "length (filter (\<lambda>(c, b). c = d \<and> b) (zip cs (snd (claim_all cs s)))) = 1 \<and>
    d \<in> set (webhook_deliveries (fst (claim_all cs s)))"
  using assms
proof (induction cs arbitrary: s)
  case (Cons c cs)
  obtain s1 x where cl: "ClaimWebhookDelivery (fst c) (snd c) s = (s1, x)" by fastforce

  show ?case
  proof (cases "c = d")
    case True
    with cl Cons.prems(2) have "x = Inr True" "d \<in> set (webhook_deliveries s1)"
      by (auto simp: ClaimWebhookDelivery_def)
    with claim_known [of d s1 cs] claim_all_keeps [of d s1 cs] True cl show ?thesis
      by (simp add: Let_def)
  next
    case False
    with cl Cons.prems(2) have "d \<notin> set (webhook_deliveries s1)"
      by (auto simp: ClaimWebhookDelivery_def split: if_splits)
    with Cons.IH [of s1] Cons.prems(1) False cl show ?thesis by (simp add: Let_def)
  qed
qed simp

theorem delivery_accepted_once_witness:
  "length (filter (\<lambda>(c, b). c = (''github'', ''h'') \<and> b)
     (zip [(''github'', ''h''), (''github'', ''i''), (''github'', ''h'')]
       (snd (claim_all [(''github'', ''h''), (''github'', ''i''), (''github'', ''h'')] (empty_db 1))))) = 1"
  using delivery_accepted_once [of "(''github'', ''h'')"
      "[(''github'', ''h''), (''github'', ''i''), (''github'', ''h'')]" "empty_db 1"]
  by (simp add: empty_db_def)

section \<open>Rate limits\<close>

definition limit_row :: "string \<Rightarrow> db \<Rightarrow> rate_limit_row option" where
  "limit_row scope s = find (\<lambda>r. rl_scope r = scope) (webhook_rate_limits s)"

lemma rate_limit_merge_scope [simp]: "rl_scope (rate_limit_merge c old new) = rl_scope old"
  by (simp add: rate_limit_merge_def)

lemma AllowWebhookRequest_row:
  assumes "scope \<noteq> ''''" and "1 \<le> limit" and "0 < window"
  shows "\<exists>s' r. AllowWebhookRequest now scope limit window s = (s', Inr (rl_requests r \<le> limit)) \<and>
    limit_row scope s' = Some r \<and>
    r = (case limit_row scope s of
           None \<Rightarrow> \<lparr>rl_scope = scope, rl_window_started_at = now, rl_requests = 1\<rparr>
         | Some old \<Rightarrow> rate_limit_merge (now - window) old
             \<lparr>rl_scope = scope, rl_window_started_at = now, rl_requests = 1\<rparr>)"
proof -
  let ?new = "\<lparr>rl_scope = scope, rl_window_started_at = now, rl_requests = 1\<rparr>"
  have "find (\<lambda>r. rl_scope r = scope)
      (upsert_by rl_scope (rate_limit_merge (now - window)) ?new (webhook_rate_limits s)) =
    Some (case limit_row scope s of None \<Rightarrow> ?new | Some old \<Rightarrow> rate_limit_merge (now - window) old ?new)"
    using find_upsert_by_same [of rl_scope ?new "rate_limit_merge (now - window)"]
    by (simp add: limit_row_def)
  with assms show ?thesis by (simp add: AllowWebhookRequest_def limit_row_def Let_def)
qed

fun allow_all :: "time list \<Rightarrow> string \<Rightarrow> int \<Rightarrow> duration \<Rightarrow> db \<Rightarrow> db \<times> bool list" where
  "allow_all [] scope limit window s = (s, [])"
| "allow_all (t # ts) scope limit window s =
     (let r = AllowWebhookRequest t scope limit window s;
          rest = allow_all ts scope limit window (fst r)
      in (fst rest, (snd r = Inr True) # snd rest))"

lemma allow_all_in_window:
  assumes "scope \<noteq> ''''" and "1 \<le> limit" and "0 < window"
    and "limit_row scope s = Some r" and "rl_window_started_at r = t0" and "rl_requests r = int n"
    and "\<forall>t\<in>set ts. t0 \<le> t \<and> t < t0 + window"
  shows "snd (allow_all ts scope limit window s) = map (\<lambda>i. int (n + i) < limit) [0..<length ts]"
  using assms(4-7)
proof (induction ts arbitrary: s r n)
  case (Cons t ts)
  obtain s' q where q: "AllowWebhookRequest t scope limit window s = (s', Inr (rl_requests q \<le> limit))"
      "limit_row scope s' = Some q"
      "q = rate_limit_merge (t - window) r \<lparr>rl_scope = scope, rl_window_started_at = t, rl_requests = 1\<rparr>"
    using AllowWebhookRequest_row [OF assms(1-3), of t s] Cons.prems(1) by auto
  have "\<not> t0 \<le> t - window" using Cons.prems(4) by simp
  with q(3) Cons.prems(2,3) have "rl_window_started_at q = t0" "rl_requests q = int (Suc n)"
    by (simp_all add: rate_limit_merge_def)
  with Cons.IH [OF q(2), of "Suc n"] Cons.prems(4) q(1) show ?case
    by (auto simp: Let_def upt_conv_Cons map_Suc_upt [symmetric] comp_def simp del: upt_Suc)
qed simp

text \<open>
  Of the requests that reach a fresh scope within one window, exactly the first
  \<open>limit\<close> are allowed.
\<close>

theorem rate_limit_burst:
  assumes "scope \<noteq> ''''" and "1 \<le> limit" and "0 < window" and "limit_row scope s = None"
    and "\<forall>t\<in>set ts. t0 \<le> t \<and> t < t0 + window"
  shows "snd (allow_all (t0 # ts) scope limit window s) = map (\<lambda>i. int i < limit) [0..<Suc (length ts)]"
proof -
  obtain s' where s': "AllowWebhookRequest t0 scope limit window s = (s', Inr True)"
      "limit_row scope s' = Some \<lparr>rl_scope = scope, rl_window_started_at = t0, rl_requests = 1\<rparr>"
    using AllowWebhookRequest_row [OF assms(1-3), of t0 s] assms(2,4) by auto
  have "snd (allow_all ts scope limit window s') = map (\<lambda>i. int (1 + i) < limit) [0..<length ts]"
    by (rule allow_all_in_window [OF assms(1-3) s'(2)]) (use assms(5) in simp_all)
  then have "snd (allow_all (t0 # ts) scope limit window s) =
      True # map (\<lambda>i. int (1 + i) < limit) [0..<length ts]"
    using s'(1) by (simp add: Let_def)
  also have "\<dots> = map (\<lambda>i. int i < limit) [0..<Suc (length ts)]"
    using assms(2) by (simp add: upt_conv_Cons map_Suc_upt [symmetric] comp_def del: upt_Suc)
  finally show ?thesis .
qed

theorem rate_limit_burst_witness:
  "snd (allow_all [100, 101, 102] ''app:1'' 2 60 (empty_db 1)) = [True, True, False]"
  using rate_limit_burst [of "''app:1''" 2 60 "empty_db 1" "[101, 102]" 100]
  by (simp add: limit_row_def empty_db_def upt_rec numeral_2_eq_2)

section \<open>Unlock attempts\<close>

definition attempts_at :: "string \<Rightarrow> db \<Rightarrow> (int \<times> time option) option" where
  "attempts_at scope s =
     map_option (\<lambda>r. (ua_failed_attempts r, ua_lockout_until r))
       (find (\<lambda>r. ua_scope r = scope) (unlock_attempts s))"

definition put_attempts :: "string \<Rightarrow> int \<times> time option \<Rightarrow> db \<Rightarrow> db" where
  "put_attempts scope v s = s\<lparr>unlock_attempts := upsert_by ua_scope (\<lambda>_ new. new)
     \<lparr>ua_scope = scope, ua_failed_attempts = fst v, ua_lockout_until = snd v\<rparr> (unlock_attempts s)\<rparr>"

definition del_attempts :: "string \<Rightarrow> db \<Rightarrow> db" where
  "del_attempts scope s =
     s\<lparr>unlock_attempts := delete_where (\<lambda>r. ua_scope r = scope) (unlock_attempts s)\<rparr>"

interpretation lock_kv: kv_table_del attempts_at put_attempts del_attempts
  by unfold_locales
    (simp_all add: attempts_at_def put_attempts_def del_attempts_def find_upsert_replace find_delete_where)

lemma UnlockLockoutUntil_at:
  "scope \<noteq> '''' \<Longrightarrow> UnlockLockoutUntil scope now s =
    Inr (case attempts_at scope s of Some (_, Some t) \<Rightarrow> if now < t then t else zero_time | _ \<Rightarrow> zero_time)"
  by (auto simp: UnlockLockoutUntil_def attempts_at_def split: option.splits)

lemma RegisterFailedUnlock_open:
  assumes "scope \<noteq> ''''" and "attempts_at scope s = None \<and> n = 0 \<or> attempts_at scope s = Some (n, None)"
  shows "RegisterFailedUnlock scope now s =
    (if 5 \<le> n + 1 then (put_attempts scope (0, nullTime (now + 5 * minute)) s, Inr (now + 5 * minute))
     else (put_attempts scope (n + 1, None) s, Inr zero_time))"
proof -
  have look: "(case find (\<lambda>r. ua_scope r = scope) (unlock_attempts s) of
      None \<Rightarrow> (0, None) | Some r \<Rightarrow> (ua_failed_attempts r, ua_lockout_until r)) =
      (case attempts_at scope s of None \<Rightarrow> (0, None) | Some v \<Rightarrow> v)"
    by (simp add: attempts_at_def split: option.splits)
  have "(case attempts_at scope s of None \<Rightarrow> (0, None) | Some v \<Rightarrow> v) = (n, None)" using assms(2) by auto
  with assms(1) look show ?thesis
    by (simp add: RegisterFailedUnlock_def put_attempts_def nullTime_def Let_def)
qed

lemma RegisterFailedUnlock_locked:
  assumes "scope \<noteq> ''''" and "attempts_at scope s = Some (n, Some t)" and "now < t"
  shows "RegisterFailedUnlock scope now s = (s, Inr t)"
  using assms by (auto simp: RegisterFailedUnlock_def attempts_at_def Let_def)

fun fail_all :: "time list \<Rightarrow> string \<Rightarrow> db \<Rightarrow> db" where
  "fail_all [] scope s = s"
| "fail_all (t # ts) scope s = fail_all ts scope (fst (RegisterFailedUnlock scope t s))"

lemma fail_all_counts:
  assumes "scope \<noteq> ''''" and "attempts_at scope s = None \<and> n = 0 \<or> attempts_at scope s = Some (n, None)"
    and "n + int (length ts) < 5" and "0 < length ts" and "0 \<le> n"
  shows "attempts_at scope (fail_all ts scope s) = Some (n + int (length ts), None)"
  using assms(2-5)
proof (induction ts arbitrary: s n)
  case (Cons t ts)
  let ?s = "put_attempts scope (n + 1, None) s"
  have "RegisterFailedUnlock scope t s = (?s, Inr zero_time)"
    using RegisterFailedUnlock_open [OF assms(1) Cons.prems(1)] Cons.prems(2) by auto
  moreover have "attempts_at scope ?s = Some (n + 1, None)" by (simp add: lock_kv.get_put)
  ultimately show ?case using Cons.IH [of ?s "n + 1"] Cons.prems by (cases ts) auto
qed simp

lemma RegisterFailedUnlock_frame:
  assumes "scope' \<noteq> scope"
  shows "attempts_at scope' (fst (RegisterFailedUnlock scope t s)) = attempts_at scope' s"
proof -
  have "fst (RegisterFailedUnlock scope t s) = s \<or>
      (\<exists>v. fst (RegisterFailedUnlock scope t s) = put_attempts scope v s)"
    by (auto simp: RegisterFailedUnlock_def put_attempts_def Let_def split: prod.splits)
  with assms show ?thesis using lock_kv.get_put by metis
qed

text \<open>
  C17: four failed unlocks from a clean scope never lock it; the fifth locks it for exactly five
  minutes, further failures in that time neither extend the lockout nor count, and other scopes
  are not affected.
\<close>

theorem fifth_failure_locks:
  assumes "scope \<noteq> ''''" and "attempts_at scope s = None" and "length ts = 4" and "0 < t5"
  shows "(\<forall>k\<le>4. \<forall>now. UnlockLockoutUntil scope now (fail_all (take k ts) scope s) = Inr zero_time) \<and>
    (let s5 = fail_all (ts @ [t5]) scope s; until = t5 + 5 * minute
     in (\<forall>now. UnlockLockoutUntil scope now s5 = Inr (if now < until then until else zero_time)) \<and>
        (\<forall>now<until. RegisterFailedUnlock scope now s5 = (s5, Inr until)) \<and>
        (\<forall>other now. other \<noteq> scope \<longrightarrow> attempts_at other s5 = attempts_at other s))"
proof -
  have open4: "UnlockLockoutUntil scope now (fail_all (take k ts) scope s) = Inr zero_time" if "k \<le> 4" for k now
  proof (cases "k = 0")
    case False
    then have "attempts_at scope (fail_all (take k ts) scope s) = Some (int (length (take k ts)), None)"
      using fail_all_counts [OF assms(1), of s 0 "take k ts"] assms(2,3) that by simp
    then show ?thesis using UnlockLockoutUntil_at [OF assms(1)] by simp
  qed (simp add: UnlockLockoutUntil_at [OF assms(1)] assms(2))
  let ?s4 = "fail_all ts scope s" and ?until = "t5 + 5 * minute"
  have app: "fail_all (us @ vs) scope s = fail_all vs scope (fail_all us scope s)" for us vs s
    by (induction us arbitrary: s) auto
  have "attempts_at scope ?s4 = Some (4, None)"
    using fail_all_counts [OF assms(1), of s 0 ts] assms(2,3) by simp
  then have "RegisterFailedUnlock scope t5 ?s4 = (put_attempts scope (0, nullTime ?until) ?s4, Inr ?until)"
    using RegisterFailedUnlock_open [OF assms(1), of ?s4 4 t5] by simp
  then have s5: "fail_all (ts @ [t5]) scope s = put_attempts scope (0, nullTime ?until) ?s4"
    by (simp add: app)
  then have at5: "attempts_at scope (fail_all (ts @ [t5]) scope s) = Some (0, Some ?until)"
    using assms(4) by (simp add: lock_kv.get_put nullTime_def)
  have other: "attempts_at o' (fail_all us scope s) = attempts_at o' s" if "o' \<noteq> scope" for o' us s
    using that by (induction us arbitrary: s) (auto simp: RegisterFailedUnlock_frame)
  show ?thesis
    using open4 at5 other RegisterFailedUnlock_locked [OF assms(1) at5]
      UnlockLockoutUntil_at [OF assms(1), of _ "fail_all (ts @ [t5]) scope s"]
    by (simp add: Let_def)
qed

theorem fifth_failure_locks_witness:
  "UnlockLockoutUntil ''origin'' 100 (fail_all [1, 2, 3, 4, 5] ''origin'' (empty_db 1)) = Inr (5 + 5 * minute)"
  using fifth_failure_locks [of "''origin''" "empty_db 1" "[1, 2, 3, 4]" 5]
  by (simp add: Let_def attempts_at_def empty_db_def)

section \<open>Nodes\<close>

definition enrolled :: "db \<Rightarrow> string \<Rightarrow> string option" where
  "enrolled s i = map_option node_fingerprint (find (\<lambda>r. node_id r = i) (nodes s))"

definition nodes_unique :: "db \<Rightarrow> bool" where
  "nodes_unique s \<longleftrightarrow> distinct (map node_id (nodes s))"

lemma find_update_where:
  "(\<And>r. P r \<Longrightarrow> node_id (u r) = node_id r \<and> node_fingerprint (u r) = node_fingerprint r) \<Longrightarrow>
   map_option node_fingerprint (find (\<lambda>r. node_id r = i) (update_where P u rows)) =
   map_option node_fingerprint (find (\<lambda>r. node_id r = i) rows)"
  by (induction rows) auto

lemma UpsertNode_shape:
  assumes "UpsertNode now nd s = (s', x)"
  obtains (invalid) "s' = s" "\<exists>e. x = Inl e"
    | (updated) r where "r \<in> set (nodes s)" "node_id r = node_id nd" "node_fingerprint r = node_fingerprint nd"
        "s' = s\<lparr>nodes := update_where (\<lambda>r. node_id r = node_id nd \<and> node_fingerprint r = node_fingerprint nd)
           (\<lambda>r. r\<lparr>node_name := node_name nd, node_version := node_version nd,
              node_capabilities := node_capabilities nd, node_last_seen_at := now\<rparr>) (nodes s)\<rparr>" "x = Inr ()"
    | (added) "\<forall>r\<in>set (nodes s). node_id r \<noteq> node_id nd"
        "s' = s\<lparr>nodes := nodes s @ [nd\<lparr>node_created_at := now, node_last_seen_at := now\<rparr>]\<rparr>" "x = Inr ()"
proof -
  let ?sel = "\<lambda>r. node_id r = node_id nd \<and> node_fingerprint r = node_fingerprint nd"
  let ?u = "\<lambda>r. r\<lparr>node_name := node_name nd, node_version := node_version nd,
      node_capabilities := node_capabilities nd, node_last_seen_at := now\<rparr>"
  let ?rows = "update_where ?sel ?u (nodes s)"
  show thesis
  proof (cases "\<exists>r\<in>set (nodes s). ?sel r")
    case True
    then obtain r where r: "r \<in> set (nodes s)" "?sel r" by blast
    then have "0 < count_where ?sel (nodes s)" by (rule count_where_pos)
    then have eq: "UpsertNode now nd s =
        (if node_id nd = '''' \<or> node_name nd = '''' \<or> node_version nd = '''' \<or> node_fingerprint nd = ''''
         then (s, Inl (ErrMsg ''node identity, name, version and certificate fingerprint are required''))
         else (s\<lparr>nodes := ?rows\<rparr>, Inr ()))"
      by (simp add: UpsertNode_def Let_def)
    show thesis
    proof (cases "node_id nd = '''' \<or> node_name nd = '''' \<or> node_version nd = '''' \<or> node_fingerprint nd = ''''")
      case True
      with eq assms show thesis by (intro that(1)) auto
    next
      case False
      with eq assms r show thesis by (intro that(2) [of r]) simp_all
    qed
  next
    case False
    then have none: "\<forall>r\<in>set (nodes s). \<not> ?sel r" by blast
    then have rows: "?rows = nodes s" "count_where ?sel (nodes s) = 0" by simp_all
    let ?missing = "node_id nd = '''' \<or> node_name nd = '''' \<or> node_version nd = '''' \<or> node_fingerprint nd = ''''"
    have eq: "UpsertNode now nd s =
        (if ?missing then (s, Inl (ErrMsg ''node identity, name, version and certificate fingerprint are required''))
         else if list_ex (\<lambda>r. node_id r = node_id nd) (nodes s)
         then (s, Inl (ErrMsg ''node certificate fingerprint does not match enrolled identity''))
         else (s\<lparr>nodes := nodes s @ [nd\<lparr>node_created_at := now, node_last_seen_at := now\<rparr>]\<rparr>, Inr ()))"
      unfolding UpsertNode_def Let_def rows by simp
    show thesis
    proof (cases "?missing \<or> list_ex (\<lambda>r. node_id r = node_id nd) (nodes s)")
      case True
      with eq assms show thesis by (intro that(1)) (auto split: if_splits)
    next
      case False
      with eq assms show thesis by (intro that(3)) (simp_all add: list_ex_iff)
    qed
  qed
qed

lemma UpsertNode_enrolled:
  assumes "nodes_unique s" and "UpsertNode now nd s = (s', x)"
  shows "nodes_unique s' \<and> (\<forall>i f. enrolled s i = Some f \<longrightarrow> enrolled s' i = Some f) \<and>
    (x = Inr () \<longrightarrow> enrolled s' (node_id nd) = Some (node_fingerprint nd)) \<and>
    (\<forall>e. x = Inl e \<longrightarrow> s' = s)"
proof -
  let ?sel = "\<lambda>r. node_id r = node_id nd \<and> node_fingerprint r = node_fingerprint nd"
  let ?u = "\<lambda>r. r\<lparr>node_name := node_name nd, node_version := node_version nd,
      node_capabilities := node_capabilities nd, node_last_seen_at := now\<rparr>"
  let ?rows = "update_where ?sel ?u (nodes s)"
  have ids: "map node_id ?rows = map node_id (nodes s)" by (intro map_update_where) simp
  have fps: "map_option node_fingerprint (find (\<lambda>r. node_id r = i) ?rows) =
      map_option node_fingerprint (find (\<lambda>r. node_id r = i) (nodes s))" for i
    by (rule find_update_where) simp
  show ?thesis
    using assms(2)
  proof (cases rule: UpsertNode_shape)
    case invalid
    with assms(1) show ?thesis by auto
  next
    case (updated r)
    have "find (\<lambda>q. node_id q = node_id nd) (nodes s) = Some r"
      using find_key_Some [of node_id "nodes s" r] assms(1) updated by (simp add: nodes_unique_def)
    with updated assms(1) ids fps show ?thesis
      by (simp add: nodes_unique_def enrolled_def)
  next
    case added
    have "find (\<lambda>r. node_id r = node_id nd) (nodes s) = None"
      using added(1) by (auto simp: find_None_iff)
    with added assms(1) show ?thesis
      by (auto simp: nodes_unique_def enrolled_def find_append split: option.splits)
  qed
qed

text \<open>
  Whatever heartbeats follow, a node keeps the certificate fingerprint it enrolled with; a
  heartbeat for its identity with another certificate is refused and changes nothing.
\<close>

theorem node_identity_is_bound:
  assumes "nodes_unique s" and "enrolled s i = Some f"
  shows "enrolled (fold (\<lambda>(t, nd) s. fst (UpsertNode t nd s)) calls s) i = Some f \<and>
    (\<forall>t nd. node_id nd = i \<and> node_fingerprint nd \<noteq> f \<longrightarrow> (\<exists>e. UpsertNode t nd s = (s, Inl e)))"
proof -
  have "nodes_unique s' \<and> enrolled s' i = Some f \<longrightarrow>
      enrolled (fold (\<lambda>(t, nd) s. fst (UpsertNode t nd s)) calls s') i = Some f" for s'
  proof (induction calls arbitrary: s')
    case (Cons c calls)
    obtain t nd where c: "c = (t, nd)" by (cases c)
    show ?case
      using UpsertNode_enrolled [of s' t nd "fst (UpsertNode t nd s')" "snd (UpsertNode t nd s')"]
        Cons.IH [of "fst (UpsertNode t nd s')"] c by simp
  qed simp
  moreover have "\<exists>e. UpsertNode t nd s = (s, Inl e)" if "node_id nd = i" "node_fingerprint nd \<noteq> f" for t nd
  proof -
    obtain s' x where "UpsertNode t nd s = (s', x)" by fastforce
    with UpsertNode_enrolled [OF assms(1) this] assms(2) that show ?thesis by (cases x) auto
  qed
  ultimately show ?thesis using assms by blast
qed

definition demo_node :: node where
  "demo_node = \<lparr>node_id = ''n1'', node_name = ''edge'', node_version = ''1.0'', node_capabilities = [''docker''],
     node_fingerprint = ''sha256:aa'', node_created_at = 0, node_last_seen_at = 0\<rparr>"

theorem node_identity_is_bound_witness:
  "\<exists>e. UpsertNode 9 (demo_node\<lparr>node_fingerprint := ''sha256:bb''\<rparr>) (fst (UpsertNode 5 demo_node (empty_db 1)))
     = (fst (UpsertNode 5 demo_node (empty_db 1)), Inl e)"
proof -
  let ?s = "fst (UpsertNode 5 demo_node (empty_db 1))"
  have "nodes_unique ?s" "enrolled ?s ''n1'' = Some ''sha256:aa''"
    by (simp_all add: UpsertNode_def demo_node_def empty_db_def nodes_unique_def enrolled_def Let_def)
  from node_identity_is_bound [OF this, of "[]"] show ?thesis by (simp add: demo_node_def)
qed

section \<open>Alerts\<close>

lemma distinct_map_filter_sub:
  "distinct (map f (filter P xs)) \<Longrightarrow> (\<And>x. Q x \<Longrightarrow> P x) \<Longrightarrow> distinct (map f (filter Q xs))"
  by (induction xs) (auto split: if_splits)

definition active_keys :: "db \<Rightarrow> (string \<times> int option) list" where
  "active_keys s = map (\<lambda>a. (al_message a, al_application_id a)) (filter (\<lambda>a. \<not> al_resolved a) (alerts s))"

lemma active_resolve:
  "filter (\<lambda>a. \<not> al_resolved a) (update_where P (resolve_alert now) rows) =
    filter (\<lambda>a. \<not> al_resolved a \<and> \<not> P a) rows"
  by (induction rows) (auto simp: resolve_alert_def)

lemma distinct_resolve:
  "distinct (map f (filter (\<lambda>a. \<not> al_resolved a) rows)) \<Longrightarrow>
    distinct (map f (filter (\<lambda>a. \<not> al_resolved a) (update_where P (resolve_alert now) rows)))"
  unfolding active_resolve by (rule distinct_map_filter_sub [of f "\<lambda>a. \<not> al_resolved a"]) auto

inductive alert_step :: "db \<Rightarrow> db \<Rightarrow> bool" where
  raise: "UpsertAlert now sev msg app dep s = (s', x) \<Longrightarrow> alert_step s s'"
| resolve: "ResolveAlert now app pre s = (s', x) \<Longrightarrow> alert_step s s'"
| resolve_others: "ResolveAllAlertsExcept now msgs s = (s', x) \<Longrightarrow> alert_step s s'"


lemma alert_step_distinct: "alert_step s s' \<Longrightarrow> distinct (active_keys s) \<Longrightarrow> distinct (active_keys s')"
proof (induction rule: alert_step.induct)
  case (raise now sev msg app dep s s' x)
  then show ?case
    by (auto simp: UpsertAlert_def active_keys_def list_ex_iff image_iff split: if_splits)
next
  case (resolve now app pre s s' x)
  then show ?case
    by (auto simp: ResolveAlert_def active_keys_def distinct_resolve)
next
  case (resolve_others now msgs s s' x)
  then show ?case
    by (auto simp: ResolveAllAlertsExcept_def active_keys_def distinct_resolve split: if_splits)
qed

text \<open>
  An alert that is still open is never raised a second time for the same application, in any
  reachable state, and a collection run that reports \<open>msgs\<close> leaves open exactly the alerts
  that were open and are still reported.
\<close>

theorem alerts_deduplicated:
  assumes "alert_step\<^sup>*\<^sup>* (empty_db t) s"
  shows "distinct (map (\<lambda>a. (al_message a, al_application_id a)) (filter (\<lambda>a. \<not> al_resolved a) (alerts s))) \<and>
    set (map al_message (GetActiveAlerts (fst (ResolveAllAlertsExcept now msgs s)))) =
      set (map al_message (GetActiveAlerts s)) \<inter> set msgs"
proof
  have "distinct (active_keys s)"
    using assms
  proof (induction rule: rtranclp_induct)
    case base
    show ?case by (simp add: active_keys_def empty_db_def)
  qed (rule alert_step_distinct)
  then show "distinct (map (\<lambda>a. (al_message a, al_application_id a)) (filter (\<lambda>a. \<not> al_resolved a) (alerts s)))"
    by (simp add: active_keys_def)
  have active: "set (map al_message (GetActiveAlerts u)) = al_message ` set (filter (\<lambda>a. \<not> al_resolved a) (alerts u))" for u
    by (simp add: GetActiveAlerts_def order_desc_def)
  show "set (map al_message (GetActiveAlerts (fst (ResolveAllAlertsExcept now msgs s)))) =
      set (map al_message (GetActiveAlerts s)) \<inter> set msgs"
    unfolding active by (cases "msgs = []") (auto simp: ResolveAllAlertsExcept_def active_resolve)
qed

theorem alerts_deduplicated_witness:
  "distinct (map (\<lambda>a. (al_message a, al_application_id a))
     (filter (\<lambda>a. \<not> al_resolved a) (alerts (fst (UpsertAlert 9 ''critical'' ''down'' None None (empty_db 1))))))"
  using alerts_deduplicated [of 1 "fst (UpsertAlert 9 ''critical'' ''down'' None None (empty_db 1))" 10 "[]"]
    alert_step.raise [of 9 "''critical''" "''down''" None None "empty_db 1" _
      "snd (UpsertAlert 9 ''critical'' ''down'' None None (empty_db 1))"]
  by (simp add: r_into_rtranclp)

end
