(* ===== verification/Migrations.thy ===== *)
theory Migrations
  imports Prelude
begin

text \<open>
  The schema migrations of package store. The state is what they change: the tables with their
  columns, the indexes, \<^verbatim>\<open>PRAGMA user_version\<close>, the two automation flags of the
  rows of \<^verbatim>\<open>applications\<close>, the application of every queued or running row of
  \<^verbatim>\<open>deployments\<close> and whether the row of \<^verbatim>\<open>cloudflare_config\<close>
  exists. Every statement of \<^verbatim>\<open>applyMigrationV1\<close> to
  \<^verbatim>\<open>applyMigrationV10\<close> is a value of \<open>stmt\<close> with its SQLite meaning,
  errors included.
\<close>

section \<open>Statements\<close>

datatype stmt =
    CreateTable string "string list"
  | AddColumn string string
  | CreateIndex string string string
  | CreateActiveIndex
  | ClearUnsafePush
  | SeedCloudflare

record schema =
  sc_version :: nat
  sc_tables :: "(string \<times> string list) list"
  sc_indexes :: "string list"
  sc_flags :: "(bool \<times> bool) list"
  sc_active :: "int list"
  sc_cloudflare :: bool

type_synonym 'a mig_op = "(schema, 'a) op"

definition columns :: "schema \<Rightarrow> string \<Rightarrow> string list option" where
  "columns s t = map_of (sc_tables s) t"

definition has_column :: "schema \<Rightarrow> string \<Rightarrow> string \<Rightarrow> bool" where
  "has_column s t c \<longleftrightarrow> (case columns s t of None \<Rightarrow> False | Some cs \<Rightarrow> c \<in> set cs)"

text \<open>
  A new column of \<^verbatim>\<open>applications\<close> gives every row its default, which is
  \<^verbatim>\<open>1\<close> for both automation flags.
\<close>

definition default_flags :: "string \<Rightarrow> string \<Rightarrow> bool \<times> bool \<Rightarrow> bool \<times> bool" where
  "default_flags t c f =
     (if t \<noteq> ''applications'' then f
      else if c = ''deploy_on_push'' then (True, snd f)
      else if c = ''require_confirmation'' then (fst f, True) else f)"

definition active_index :: string where
  "active_index = ''one_active_deployment_per_application''"

fun exec :: "stmt \<Rightarrow> unit mig_op" where
  "exec (CreateTable t cs) s =
     (if columns s t = None then (s\<lparr>sc_tables := (t, cs) # sc_tables s\<rparr>, Inr ()) else (s, Inr ()))"
| "exec (AddColumn t c) s =
     (case columns s t of
        None \<Rightarrow> (s, Inl (ErrMsg (''no such table: '' @ t)))
      | Some cs \<Rightarrow>
          if c \<in> set cs then (s, Inl (ErrMsg (''duplicate column name: '' @ c)))
          else (s\<lparr>sc_tables := (t, cs @ [c]) # sc_tables s,
                 sc_flags := map (default_flags t c) (sc_flags s)\<rparr>, Inr ()))"
| "exec (CreateIndex i t c) s =
     (if i \<in> set (sc_indexes s) then (s, Inr ())
      else if \<not> has_column s t c then (s, Inl (ErrMsg (''no such column: '' @ c)))
      else (s\<lparr>sc_indexes := i # sc_indexes s\<rparr>, Inr ()))"
| "exec CreateActiveIndex s =
     (if active_index \<in> set (sc_indexes s) then (s, Inr ())
      else if \<not> has_column s ''deployments'' ''application_id''
      then (s, Inl (ErrMsg ''no such table: deployments''))
      else if \<not> distinct (sc_active s) then (s, Inl (ErrUnique ''deployments.application_id''))
      else (s\<lparr>sc_indexes := active_index # sc_indexes s\<rparr>, Inr ()))"
| "exec ClearUnsafePush s =
     (if \<not> (has_column s ''applications'' ''deploy_on_push'' \<and>
             has_column s ''applications'' ''require_confirmation'')
      then (s, Inl (ErrMsg ''no such column: deploy_on_push''))
      else (s\<lparr>sc_flags := map (\<lambda>(push, confirm). (push \<and> \<not> confirm, confirm)) (sc_flags s)\<rparr>, Inr ()))"
| "exec SeedCloudflare s =
     (if columns s ''cloudflare_config'' = None then (s, Inl (ErrMsg ''no such table: cloudflare_config''))
      else (s\<lparr>sc_cloudflare := True\<rparr>, Inr ()))"

text \<open>A script stops at its first error.\<close>

fun exec_script :: "stmt list \<Rightarrow> unit mig_op" where
  "exec_script [] s = (s, Inr ())"
| "exec_script (st # sts) s =
     (case exec st s of (s1, Inl e) \<Rightarrow> (s1, Inl e) | (s1, Inr _) \<Rightarrow> exec_script sts s1)"

text \<open>The loops of V2 go on when the column is already there.\<close>

fun exec_tolerant :: "stmt list \<Rightarrow> unit mig_op" where
  "exec_tolerant [] s = (s, Inr ())"
| "exec_tolerant (st # sts) s =
     (case exec st s of
        (s1, Inl e) \<Rightarrow>
          if contains_str (error_text e) ''duplicate column name'' then exec_tolerant sts s1
          else (s1, Inl e)
      | (s1, Inr _) \<Rightarrow> exec_tolerant sts s1)"

section \<open>The ten migrations\<close>

definition stmtsV1 :: "stmt list" where
  "stmtsV1 =
     [CreateTable ''settings'' [''key'', ''value''],
      CreateTable ''secrets'' [''scope'', ''name'', ''nonce'', ''ciphertext'', ''updated_at''],
      CreateTable ''secret_audit'' [''id'', ''application_id'', ''environment'', ''name'', ''action'', ''created_at''],
      CreateTable ''application_configuration''
        [''application_id'', ''environment'', ''target'', ''name'', ''value'', ''updated_at''],
      CreateTable ''applications''
        [''id'', ''name'', ''repository'', ''branch'', ''work_dir'', ''type'', ''build_command'',
         ''run_command'', ''internal_port'', ''domain'', ''created_at''],
      CreateTable ''automation_settings'' [''id'', ''cleanup_schedule''],
      CreateTable ''deployments''
        [''id'', ''application_id'', ''status'', ''image'', ''log_path'', ''started_at'', ''finished_at'']]"

definition applyMigrationV1 :: "unit mig_op" where
  "applyMigrationV1 = exec_script stmtsV1"

definition stmtsV2_applications :: "stmt list" where
  "stmtsV2_applications =
     map (AddColumn ''applications'')
       [''runtime'', ''deploy_on_push'', ''require_confirmation'', ''auto_rollback'',
        ''github_installation_id'', ''health_endpoint'']"

definition stmtsV2_deployments :: "stmt list" where
  "stmtsV2_deployments =
     map (AddColumn ''deployments'')
       [''action'', ''requested_ref'', ''source_revision'', ''source_fingerprint'', ''artifact_digest'',
        ''runtime'', ''internal_port'', ''health_endpoint'', ''manifest'', ''configuration_digest'',
        ''failure_stage'', ''failure_code'', ''failure_detail'', ''attempt'', ''heartbeat_at'',
        ''lease_expires_at'', ''cancellation_requested_at'', ''queue_duration_ms'',
        ''source_duration_ms'', ''build_duration_ms'', ''start_duration_ms'', ''health_duration_ms'',
        ''route_duration_ms'', ''current_stage'']"

definition stmtsV2 :: "stmt list" where
  "stmtsV2 = stmtsV2_applications @ [AddColumn ''secret_audit'' ''target''] @ stmtsV2_deployments"

definition applyMigrationV2 :: "unit mig_op" where
  "applyMigrationV2 = exec_tolerant stmtsV2"

definition stmtsV3 :: "stmt list" where
  "stmtsV3 =
     [CreateTable ''deployment_events'' [''id'', ''deployment_id'', ''stage'', ''event_type'', ''message'', ''created_at''],
      CreateTable ''alerts''
        [''id'', ''severity'', ''message'', ''application_id'', ''deployment_id'', ''resolved'', ''created_at'', ''resolved_at''],
      CreateIndex ''deployment_events_deployment_id'' ''deployment_events'' ''deployment_id'',
      CreateIndex ''alerts_application_id'' ''alerts'' ''application_id'',
      ClearUnsafePush,
      CreateActiveIndex]"

definition applyMigrationV3 :: "unit mig_op" where
  "applyMigrationV3 = exec_script stmtsV3"

definition stmtsV4 :: "stmt list" where
  "stmtsV4 =
     [CreateTable ''application_health''
        [''application_id'', ''internal_status'', ''internal_checked_at'', ''route_status'', ''route_checked_at'',
         ''external_status'', ''external_checked_at'', ''external_observer'', ''external_http_status'', ''external_detail''],
      CreateTable ''route_probes''
        [''id'', ''application_id'', ''success'', ''checked_at'', ''observer'', ''http_status'', ''detail''],
      CreateIndex ''route_probes_checked_at'' ''route_probes'' ''checked_at'']"

definition applyMigrationV4 :: "unit mig_op" where
  "applyMigrationV4 = exec_script stmtsV4"

definition stmtsV5 :: "stmt list" where
  "stmtsV5 = [CreateTable ''webhook_deliveries'' [''provider'', ''delivery_hash'', ''received_at'']]"

definition applyMigrationV5 :: "unit mig_op" where
  "applyMigrationV5 = exec_script stmtsV5"

definition stmtsV6 :: "stmt list" where
  "stmtsV6 =
     [CreateTable ''identity_providers'' [''id'', ''issuer'', ''client_id'', ''enabled'', ''created_at''],
      CreateTable ''users'' [''id'', ''email'', ''display_name'', ''created_at'', ''disabled_at''],
      CreateTable ''federated_identities'' [''provider_id'', ''subject'', ''user_id'', ''created_at''],
      CreateTable ''role_bindings'' [''user_id'', ''role'', ''created_at''],
      CreateTable ''identity_audit'' [''id'', ''user_id'', ''action'', ''detail'', ''created_at'']]"

definition applyMigrationV6 :: "unit mig_op" where
  "applyMigrationV6 = exec_script stmtsV6"

definition stmtsV7 :: "stmt list" where
  "stmtsV7 =
     [CreateTable ''nodes''
        [''id'', ''name'', ''version'', ''capabilities'', ''certificate_fingerprint'', ''created_at'', ''last_seen_at''],
      CreateIndex ''nodes_last_seen_at'' ''nodes'' ''last_seen_at'']"

definition applyMigrationV7 :: "unit mig_op" where
  "applyMigrationV7 = exec_script stmtsV7"

definition stmtsV8 :: "stmt list" where
  "stmtsV8 = [CreateTable ''webhook_rate_limits'' [''scope'', ''window_started_at'', ''requests'']]"

definition applyMigrationV8 :: "unit mig_op" where
  "applyMigrationV8 = exec_script stmtsV8"

definition stmtsV9 :: "stmt list" where
  "stmtsV9 = [CreateTable ''unlock_attempts'' [''scope'', ''failed_attempts'', ''lockout_until'']]"

definition applyMigrationV9 :: "unit mig_op" where
  "applyMigrationV9 = exec_script stmtsV9"

definition stmtsV10 :: "stmt list" where
  "stmtsV10 =
     [CreateTable ''cloudflare_config''
        [''id'', ''mode'', ''account_id'', ''tunnel_id'', ''tunnel_name'', ''status'', ''last_health_check'',
         ''error_message'', ''updated_at''],
      SeedCloudflare]"

definition applyMigrationV10 :: "unit mig_op" where
  "applyMigrationV10 = exec_script stmtsV10"

section \<open>The migration run\<close>

definition applyMigration :: "nat \<Rightarrow> unit mig_op" where
  "applyMigration k =
     (if k = 1 then applyMigrationV1 else if k = 2 then applyMigrationV2
      else if k = 3 then applyMigrationV3 else if k = 4 then applyMigrationV4
      else if k = 5 then applyMigrationV5 else if k = 6 then applyMigrationV6
      else if k = 7 then applyMigrationV7 else if k = 8 then applyMigrationV8
      else if k = 9 then applyMigrationV9 else applyMigrationV10)"

text \<open>The legacy branch: all migrations, then the version.\<close>

fun migrate_all :: "nat list \<Rightarrow> unit mig_op" where
  "migrate_all [] s = (s\<lparr>sc_version := 10\<rparr>, Inr ())"
| "migrate_all (k # ks) s =
     (case applyMigration k s of (s1, Inl e) \<Rightarrow> (s1, Inl e) | (s1, Inr _) \<Rightarrow> migrate_all ks s1)"

text \<open>The sequential branch; \<open>version\<close> is the value read at the start.\<close>

fun migrate_sequential :: "nat \<Rightarrow> nat list \<Rightarrow> unit mig_op" where
  "migrate_sequential version [] s = (s, Inr ())"
| "migrate_sequential version (k # ks) s =
     (if version < k then
        (case applyMigration k s of
           (s1, Inl e) \<Rightarrow> (s1, Inl e)
         | (s1, Inr _) \<Rightarrow> migrate_sequential version ks (s1\<lparr>sc_version := k\<rparr>))
      else migrate_sequential version ks s)"

definition migrate :: "unit mig_op" where
  "migrate s =
     (let version = sc_version s
      in if version = 0 \<and> columns s ''settings'' \<noteq> None then migrate_all [1..<11] s
         else migrate_sequential version [1..<11] s)"

section \<open>What every statement keeps\<close>

definition all_stmts :: "nat \<Rightarrow> stmt list" where
  "all_stmts k =
     (if k = 1 then stmtsV1 else if k = 2 then stmtsV2 else if k = 3 then stmtsV3
      else if k = 4 then stmtsV4 else if k = 5 then stmtsV5 else if k = 6 then stmtsV6
      else if k = 7 then stmtsV7 else if k = 8 then stmtsV8 else if k = 9 then stmtsV9 else stmtsV10)"

text \<open>The columns a table has from its creation on.\<close>

definition base_columns :: "string \<Rightarrow> string list" where
  "base_columns t =
     concat (map (\<lambda>st. case st of CreateTable t' cs \<Rightarrow> if t' = t then cs else [] | _ \<Rightarrow> [])
       (concat (map all_stmts [1..<11])))"

definition schema_ok :: "schema \<Rightarrow> bool" where
  "schema_ok s \<longleftrightarrow> distinct (sc_active s) \<and>
     (\<forall>t cs. columns s t = Some cs \<longrightarrow> set (base_columns t) \<subseteq> set cs)"

text \<open>The effect a statement must have had.\<close>

definition in_effect :: "schema \<Rightarrow> stmt \<Rightarrow> bool" where
  "in_effect s st \<longleftrightarrow>
     (case st of CreateTable t cs \<Rightarrow> columns s t \<noteq> None \<and> (\<forall>c\<in>set cs. has_column s t c)
      | AddColumn t c \<Rightarrow> has_column s t c
      | CreateIndex i t c \<Rightarrow> i \<in> set (sc_indexes s)
      | CreateActiveIndex \<Rightarrow> active_index \<in> set (sc_indexes s)
      | ClearUnsafePush \<Rightarrow> True
      | SeedCloudflare \<Rightarrow> sc_cloudflare s)"

definition grows :: "schema \<Rightarrow> schema \<Rightarrow> bool" where
  "grows s s' \<longleftrightarrow> sc_active s' = sc_active s \<and> set (sc_indexes s) \<subseteq> set (sc_indexes s') \<and>
     (sc_cloudflare s \<longrightarrow> sc_cloudflare s') \<and> (\<forall>t. columns s t \<noteq> None \<longrightarrow> columns s' t \<noteq> None) \<and>
     (\<forall>t c. has_column s t c \<longrightarrow> has_column s' t c)"

lemma columns_cons [simp]:
  "columns (s\<lparr>sc_tables := (t, cs) # sc_tables s\<rparr>) u = (if u = t then Some cs else columns s u)"
  "columns (s\<lparr>sc_tables := (t, cs) # sc_tables s, sc_flags := f\<rparr>) u = (if u = t then Some cs else columns s u)"
  by (auto simp: columns_def)

lemma columns_other [simp]:
  "columns (s\<lparr>sc_indexes := i\<rparr>) u = columns s u" "columns (s\<lparr>sc_flags := f\<rparr>) u = columns s u"
  "columns (s\<lparr>sc_cloudflare := b\<rparr>) u = columns s u" "columns (s\<lparr>sc_version := v\<rparr>) u = columns s u"
  by (simp_all add: columns_def)

lemma grows_refl [simp]: "grows s s"
  by (simp add: grows_def)

lemma grows_trans: "grows s1 s2 \<Longrightarrow> grows s2 s3 \<Longrightarrow> grows s1 s3"
  unfolding grows_def by auto

lemma grows_version [simp]: "grows s (s\<lparr>sc_version := v\<rparr>)"
  by (simp add: grows_def has_column_def)

lemma exec_grows: "grows s (fst (exec st s))"
  by (cases st) (auto simp: grows_def has_column_def split: option.splits)

lemma in_effect_grows: "grows s s' \<Longrightarrow> in_effect s st \<Longrightarrow> in_effect s' st"
  by (cases st) (auto simp: in_effect_def grows_def)

text \<open>The statements of the migrations create every table with exactly its base columns.\<close>

definition known :: "stmt \<Rightarrow> bool" where
  "known st \<longleftrightarrow> (case st of CreateTable t cs \<Rightarrow> set (base_columns t) = set cs | _ \<Rightarrow> True)"

lemma exec_schema_ok: "schema_ok s \<Longrightarrow> known st \<Longrightarrow> schema_ok (fst (exec st s))"
  by (cases st) (fastforce simp: schema_ok_def known_def split: option.splits)+

lemma exec_in_effect:
  "schema_ok s \<Longrightarrow> known st \<Longrightarrow> exec st s = (s', Inr ()) \<Longrightarrow> in_effect s' st"
  by (cases st) (auto simp: in_effect_def has_column_def schema_ok_def known_def split: if_splits option.splits)

text \<open>What a statement needs to be executed, among the statements already in effect.\<close>

fun supported :: "stmt list \<Rightarrow> stmt \<Rightarrow> bool" where
  "supported seen (CreateTable t cs) = True"
| "supported seen (AddColumn t c) = list_ex (\<lambda>st. case st of CreateTable t' _ \<Rightarrow> t' = t | _ \<Rightarrow> False) seen"
| "supported seen (CreateIndex i t c) =
     list_ex (\<lambda>st. case st of CreateTable t' cs \<Rightarrow> t' = t \<and> c \<in> set cs | _ \<Rightarrow> False) seen"
| "supported seen CreateActiveIndex =
     list_ex (\<lambda>st. case st of CreateTable t cs \<Rightarrow> t = ''deployments'' \<and> ''application_id'' \<in> set cs | _ \<Rightarrow> False) seen"
| "supported seen ClearUnsafePush =
     (AddColumn ''applications'' ''deploy_on_push'' \<in> set seen \<and>
      AddColumn ''applications'' ''require_confirmation'' \<in> set seen)"
| "supported seen SeedCloudflare =
     list_ex (\<lambda>st. case st of CreateTable t _ \<Rightarrow> t = ''cloudflare_config'' | _ \<Rightarrow> False) seen"

lemma seen_table:
  assumes "list_ex (\<lambda>st. case st of CreateTable t cs \<Rightarrow> P t cs | _ \<Rightarrow> False) seen"
    and "\<forall>st\<in>set seen. in_effect s st"
  shows "\<exists>t cs. P t cs \<and> columns s t \<noteq> None \<and> (\<forall>c\<in>set cs. has_column s t c)"
proof -
  obtain st where st: "st \<in> set seen" "case st of CreateTable t cs \<Rightarrow> P t cs | _ \<Rightarrow> False"
    using assms(1) by (auto simp: list_ex_iff)
  with assms(2) have "in_effect s st" by blast
  with st(2) show ?thesis by (cases st) (auto simp: in_effect_def)
qed

text \<open>A supported statement succeeds, or reports the column that is already there.\<close>

lemma exec_supported:
  assumes "schema_ok s" and "\<forall>st\<in>set seen. in_effect s st" and "supported seen st"
  shows "snd (exec st s) = Inr () \<or>
    (\<exists>t c. st = AddColumn t c \<and> has_column s t c \<and>
       exec st s = (s, Inl (ErrMsg (''duplicate column name: '' @ c))))"
proof (cases st)
  case (AddColumn t c)
  with seen_table [of "\<lambda>t' _. t' = t" seen s] assms(2,3) have "columns s t \<noteq> None" by auto
  with AddColumn show ?thesis by (auto simp: has_column_def split: if_splits)
next
  case (CreateIndex i t c)
  with seen_table [of "\<lambda>t' cs. t' = t \<and> c \<in> set cs" seen s] assms(2,3) have "has_column s t c" by auto
  with CreateIndex show ?thesis by simp
next
  case CreateActiveIndex
  with seen_table [of "\<lambda>t cs. t = ''deployments'' \<and> ''application_id'' \<in> set cs" seen s] assms
  have "has_column s ''deployments'' ''application_id''" "distinct (sc_active s)"
    by (auto simp: schema_ok_def)
  with CreateActiveIndex show ?thesis by simp
next
  case ClearUnsafePush
  with assms(2,3) have "has_column s ''applications'' ''deploy_on_push''"
    "has_column s ''applications'' ''require_confirmation''" by (auto simp: in_effect_def)
  with ClearUnsafePush show ?thesis by simp
next
  case SeedCloudflare
  with seen_table [of "\<lambda>t _. t = ''cloudflare_config''" seen s] assms(2,3)
  have "columns s ''cloudflare_config'' \<noteq> None" by auto
  with SeedCloudflare show ?thesis by simp
qed simp

fun closed :: "stmt list \<Rightarrow> stmt list \<Rightarrow> bool" where
  "closed seen [] = True"
| "closed seen (st # sts) = (supported seen st \<and> closed (st # seen) sts)"

definition no_add :: "stmt \<Rightarrow> bool" where
  "no_add st \<longleftrightarrow> (case st of AddColumn _ _ \<Rightarrow> False | _ \<Rightarrow> True)"

lemma duplicate_swallowed: "contains_str (error_text (ErrMsg (''duplicate column name: '' @ c))) ''duplicate column name''"
  by (simp add: has_prefix_def error_text_def)

text \<open>Both ways of running a list of statements bring all of them into effect.\<close>

lemma exec_step:
  assumes "schema_ok s" and "\<forall>st\<in>set seen. in_effect s st" and "supported seen st" and "known st"
  shows "schema_ok (fst (exec st s)) \<and> grows s (fst (exec st s)) \<and>
    (\<forall>x\<in>set (st # seen). in_effect (fst (exec st s)) x) \<and>
    (snd (exec st s) = Inr () \<or>
     \<not> no_add st \<and> (\<exists>c. snd (exec st s) = Inl (ErrMsg (''duplicate column name: '' @ c))))"
proof -
  have ok: "schema_ok (fst (exec st s))" using assms(1,4) by (rule exec_schema_ok)
  have seen: "\<forall>x\<in>set seen. in_effect (fst (exec st s)) x"
    using assms(2) in_effect_grows [OF exec_grows] by blast
  from exec_supported [OF assms(1-3)] show ?thesis
  proof
    assume "snd (exec st s) = Inr ()"
    moreover from this have "in_effect (fst (exec st s)) st"
      using exec_in_effect [OF assms(1,4), of "fst (exec st s)"] by (simp add: prod_eq_iff)
    ultimately show ?thesis using ok seen exec_grows [of s st] by simp
  next
    assume "\<exists>t c. st = AddColumn t c \<and> has_column s t c \<and>
       exec st s = (s, Inl (ErrMsg (''duplicate column name: '' @ c)))"
    then have "in_effect (fst (exec st s)) st \<and> \<not> no_add st \<and>
        (\<exists>c. snd (exec st s) = Inl (ErrMsg (''duplicate column name: '' @ c)))"
      by (auto simp: in_effect_def no_add_def simp del: exec.simps)
    then show ?thesis using ok seen exec_grows [of s st] by simp
  qed
qed

lemma exec_tolerant_ok:
  assumes "schema_ok s" and "\<forall>st\<in>set seen. in_effect s st" and "closed seen sts" and "list_all known sts"
  shows "\<exists>s'. exec_tolerant sts s = (s', Inr ()) \<and> schema_ok s' \<and> grows s s' \<and> (\<forall>st\<in>set sts. in_effect s' st)"
  using assms
proof (induction sts arbitrary: s seen)
  case (Cons st sts)
  obtain s1 x where ex: "exec st s = (s1, x)" by fastforce
  have st: "supported seen st" "closed (st # seen) sts" "known st" "list_all known sts"
    using Cons.prems(3,4) by simp_all
  from exec_step [OF Cons.prems(1,2) st(1,3)] ex have
    s1: "schema_ok s1" "grows s s1" "\<forall>y\<in>set (st # seen). in_effect s1 y" and
    x: "x = Inr () \<or> (\<exists>c. x = Inl (ErrMsg (''duplicate column name: '' @ c)))" by auto
  from x ex have "exec_tolerant (st # sts) s = exec_tolerant sts s1"
    using duplicate_swallowed by auto
  moreover obtain s' where s': "exec_tolerant sts s1 = (s', Inr ())" "schema_ok s'" "grows s1 s'"
      "\<forall>y\<in>set sts. in_effect s' y"
    using Cons.IH [OF s1(1,3) st(2,4)] by blast
  moreover have "in_effect s' st" using s1(3) in_effect_grows [OF s'(3)] by simp
  ultimately show ?case using grows_trans [OF s1(2) s'(3)] by simp
qed simp

lemma exec_script_ok:
  assumes "schema_ok s" and "\<forall>st\<in>set seen. in_effect s st" and "closed seen sts" and "list_all known sts"
    and "list_all no_add sts"
  shows "\<exists>s'. exec_script sts s = (s', Inr ()) \<and> schema_ok s' \<and> grows s s' \<and> (\<forall>st\<in>set sts. in_effect s' st)"
  using assms
proof (induction sts arbitrary: s seen)
  case (Cons st sts)
  obtain s1 x where ex: "exec st s = (s1, x)" by fastforce
  have st: "supported seen st" "closed (st # seen) sts" "known st" "list_all known sts" "list_all no_add sts"
    using Cons.prems(3-5) by simp_all
  from exec_step [OF Cons.prems(1,2) st(1,3)] ex Cons.prems(5) have
    s1: "schema_ok s1" "grows s s1" "\<forall>y\<in>set (st # seen). in_effect s1 y" and x: "x = Inr ()" by auto
  from x ex have "exec_script (st # sts) s = exec_script sts s1" by simp
  moreover obtain s' where s': "exec_script sts s1 = (s', Inr ())" "schema_ok s'" "grows s1 s'"
      "\<forall>y\<in>set sts. in_effect s' y"
    using Cons.IH [OF s1(1,3) st(2,4,5)] by blast
  moreover have "in_effect s' st" using s1(3) in_effect_grows [OF s'(3)] by simp
  ultimately show ?case using grows_trans [OF s1(2) s'(3)] by simp
qed simp

definition stmts_upto :: "nat \<Rightarrow> stmt list" where
  "stmts_upto k = concat (map all_stmts [1..<Suc k])"

lemmas all_stmts_defs = all_stmts_def stmtsV1_def stmtsV2_def stmtsV2_applications_def
  stmtsV2_deployments_def stmtsV3_def stmtsV4_def stmtsV5_def stmtsV6_def stmtsV7_def stmtsV8_def
  stmtsV9_def stmtsV10_def

lemma stmts_known: "\<forall>k\<in>set [1..<11]. list_all known (all_stmts k)"
  by code_simp

lemma stmts_closed: "\<forall>k\<in>set [1..<11]. closed (stmts_upto (k - 1)) (all_stmts k)"
  by code_simp

lemma stmts_no_add: "\<forall>k\<in>set [1..<11]. k = 2 \<or> list_all no_add (all_stmts k)"
  by code_simp

text \<open>One migration, on a schema where the earlier ones are in effect.\<close>

lemma applyMigration_ok:
  assumes "schema_ok s" and "1 \<le> k" and "k \<le> 10" and "\<forall>st\<in>set (stmts_upto (k - 1)). in_effect s st"
  shows "\<exists>s'. applyMigration k s = (s', Inr ()) \<and> schema_ok s' \<and> grows s s' \<and>
    (\<forall>st\<in>set (stmts_upto k). in_effect s' st)"
proof -
  have k: "k \<in> set [1..<11]" using assms(2,3) by simp
  have kn: "list_all known (all_stmts k)" and cl: "closed (stmts_upto (k - 1)) (all_stmts k)"
    and na: "k = 2 \<or> list_all no_add (all_stmts k)"
    using k stmts_known stmts_closed stmts_no_add by blast+
  have run: "applyMigration k = (if k = 2 then exec_tolerant (all_stmts k) else exec_script (all_stmts k))"
    by (simp add: applyMigration_def all_stmts_def applyMigrationV1_def applyMigrationV2_def
        applyMigrationV3_def applyMigrationV4_def applyMigrationV5_def applyMigrationV6_def
        applyMigrationV7_def applyMigrationV8_def applyMigrationV9_def applyMigrationV10_def)
  have upto: "stmts_upto k = stmts_upto (k - 1) @ all_stmts k"
    using assms(2) by (cases k) (simp_all add: stmts_upto_def)
  have "\<exists>s'. applyMigration k s = (s', Inr ()) \<and> schema_ok s' \<and> grows s s' \<and>
      (\<forall>st\<in>set (all_stmts k). in_effect s' st)"
    using exec_tolerant_ok [OF assms(1,4) cl kn] exec_script_ok [OF assms(1,4) cl kn] na run by auto
  then show ?thesis using assms(4) upto in_effect_grows by fastforce
qed

lemma grows_set_version: "grows s s' \<Longrightarrow> grows s (s'\<lparr>sc_version := v\<rparr>)"
  using grows_trans grows_version by blast

lemma schema_ok_version [simp]: "schema_ok (s\<lparr>sc_version := v\<rparr>) = schema_ok s"
  by (simp add: schema_ok_def)

lemma in_effect_version [simp]: "in_effect (s\<lparr>sc_version := v\<rparr>) st = in_effect s st"
  by (cases st) (simp_all add: in_effect_def has_column_def)

lemma migrate_all_ok:
  assumes "schema_ok s" and "1 \<le> k" and "k \<le> 11" and "\<forall>st\<in>set (stmts_upto (k - 1)). in_effect s st"
  shows "\<exists>s'. migrate_all [k..<11] s = (s', Inr ()) \<and> schema_ok s' \<and> sc_version s' = 10 \<and>
    (\<forall>st\<in>set (stmts_upto 10). in_effect s' st)"
  using assms
proof (induction "11 - k" arbitrary: k s)
  case 0
  then have "k = 11" by simp
  with 0 show ?case by simp
next
  case (Suc n)
  then have k: "k \<le> 10" by simp
  obtain s1 where s1: "applyMigration k s = (s1, Inr ())" "schema_ok s1"
      "\<forall>st\<in>set (stmts_upto k). in_effect s1 st"
    using applyMigration_ok [OF Suc.prems(1,2) k Suc.prems(4)] by blast
  have "[k..<11] = k # [Suc k..<11]" using k by (simp add: upt_conv_Cons)
  with s1 Suc.hyps(1) [of "Suc k" s1] Suc.hyps(2) k show ?case by simp
qed

lemma migrate_sequential_ok:
  assumes "schema_ok s" and "1 \<le> k" and "k \<le> 11" and "v \<le> 10"
    and "\<forall>st\<in>set (stmts_upto (max v (k - 1))). in_effect s st" and "sc_version s = max v (k - 1)"
  shows "\<exists>s'. migrate_sequential v [k..<11] s = (s', Inr ()) \<and> schema_ok s' \<and> sc_version s' = 10 \<and>
    (\<forall>st\<in>set (stmts_upto 10). in_effect s' st)"
  using assms
proof (induction "11 - k" arbitrary: k s)
  case 0
  then have "k = 11" by simp
  with 0 show ?case by (simp add: max_def)
next
  case (Suc n)
  then have k: "k \<le> 10" by simp
  have cons: "[k..<11] = k # [Suc k..<11]" using k by (simp add: upt_conv_Cons)
  show ?case
  proof (cases "v < k")
    case True
    then have "max v (k - 1) = k - 1" "max v (Suc k - 1) = k" by simp_all
    moreover from this obtain s1 where s1: "applyMigration k s = (s1, Inr ())" "schema_ok s1"
        "\<forall>st\<in>set (stmts_upto k). in_effect s1 st"
      using applyMigration_ok [OF Suc.prems(1,2) k] Suc.prems(5) by auto
    ultimately show ?thesis
      using Suc.hyps(1) [of "Suc k" "s1\<lparr>sc_version := k\<rparr>"] Suc.hyps(2) Suc.prems(4) k True cons by simp
  next
    case False
    then have "max v (k - 1) = v" "max v (Suc k - 1) = v" by simp_all
    with Suc.hyps(1) [of "Suc k" s] Suc.hyps(2) Suc.prems k False cons show ?thesis by simp
  qed
qed

lemma migrate_ok:
  assumes "schema_ok s" and "sc_version s \<le> 10" and "\<forall>st\<in>set (stmts_upto (sc_version s)). in_effect s st"
  shows "\<exists>s'. migrate s = (s', Inr ()) \<and> schema_ok s' \<and> sc_version s' = 10 \<and>
    (\<forall>st\<in>set (stmts_upto 10). in_effect s' st)"
proof (cases "sc_version s = 0 \<and> columns s ''settings'' \<noteq> None")
  case True
  with migrate_all_ok [OF assms(1), of 1] show ?thesis by (simp add: migrate_def stmts_upto_def)
next
  case False
  with migrate_sequential_ok [OF assms(1), of 1 "sc_version s"] assms(2,3) show ?thesis
    by (auto simp: migrate_def)
qed

section \<open>Automation flags\<close>

definition safe_flags :: "schema \<Rightarrow> bool" where
  "safe_flags s \<longleftrightarrow> (\<forall>(push, confirm)\<in>set (sc_flags s). \<not> (push \<and> confirm))"

lemma exec_safe: "no_add st \<Longrightarrow> safe_flags s \<or> st = ClearUnsafePush \<Longrightarrow> exec st s = (s', Inr ()) \<Longrightarrow> safe_flags s'"
  by (cases st) (auto simp: safe_flags_def no_add_def split: if_splits)

lemma exec_script_safe:
  assumes "list_all no_add sts" and "safe_flags s \<or> ClearUnsafePush \<in> set sts" and "exec_script sts s = (s', Inr ())"
  shows "safe_flags s'"
  using assms
proof (induction sts arbitrary: s)
  case (Cons st sts)
  obtain s1 x where ex: "exec st s = (s1, x)" by fastforce
  with Cons.prems(3) have "x = Inr ()" "exec_script sts s1 = (s', Inr ())" by (auto split: sum.splits)
  with Cons ex exec_safe [of st s s1] show ?case by auto
qed simp

lemma applyMigration_safe:
  assumes "3 \<le> k" and "k \<le> 10" and "k = 3 \<or> safe_flags s" and "applyMigration k s = (s', Inr ())"
  shows "safe_flags s'"
proof -
  have "k \<in> set [1..<11]" "k \<noteq> 2" using assms(1,2) by simp_all
  with stmts_no_add have na: "list_all no_add (all_stmts k)" by blast
  have "applyMigration k = exec_script (all_stmts k)"
    using assms(1) by (simp add: applyMigration_def all_stmts_def applyMigrationV1_def
        applyMigrationV3_def applyMigrationV4_def applyMigrationV5_def applyMigrationV6_def
        applyMigrationV7_def applyMigrationV8_def applyMigrationV9_def applyMigrationV10_def)
  moreover have "safe_flags s \<or> ClearUnsafePush \<in> set (all_stmts k)"
    using assms(3) by (auto simp: all_stmts_def stmtsV3_def)
  ultimately show ?thesis using exec_script_safe [OF na] assms(4) by metis
qed

lemma safe_flags_version [simp]: "safe_flags (s\<lparr>sc_version := v\<rparr>) = safe_flags s"
  by (simp add: safe_flags_def)

lemma migrate_all_safe:
  "k \<le> 11 \<Longrightarrow> k \<le> 3 \<or> safe_flags s \<Longrightarrow> migrate_all [k..<11] s = (s', Inr ()) \<Longrightarrow> safe_flags s'"
proof (induction "11 - k" arbitrary: k s)
  case 0
  then have "k = 11" by simp
  with 0 show ?case by auto
next
  case (Suc n)
  then have k: "k \<le> 10" by simp
  have cons: "[k..<11] = k # [Suc k..<11]" using k by (simp add: upt_conv_Cons)
  obtain s1 x where ex: "applyMigration k s = (s1, x)" by fastforce
  with Suc.prems(3) cons have x: "x = Inr ()" "migrate_all [Suc k..<11] s1 = (s', Inr ())"
    by (auto split: sum.splits)
  have "Suc k \<le> 3 \<or> safe_flags s1"
    using applyMigration_safe [of k s s1] Suc.prems(2) k ex x(1) by (cases "k < 3") auto
  with Suc.hyps(1) [of "Suc k" s1] Suc.hyps(2) k x(2) show ?case by simp
qed

lemma migrate_sequential_safe:
  "k \<le> 11 \<Longrightarrow> (v < 3 \<and> k \<le> 3) \<or> safe_flags s \<Longrightarrow> migrate_sequential v [k..<11] s = (s', Inr ()) \<Longrightarrow>
   (3 \<le> v \<longrightarrow> safe_flags s) \<Longrightarrow> safe_flags s'"
proof (induction "11 - k" arbitrary: k s)
  case 0
  then have "k = 11" by simp
  with 0 show ?case by auto
next
  case (Suc n)
  then have k: "k \<le> 10" by simp
  have cons: "[k..<11] = k # [Suc k..<11]" using k by (simp add: upt_conv_Cons)
  show ?case
  proof (cases "v < k")
    case True
    obtain s1 x where ex: "applyMigration k s = (s1, x)" by fastforce
    with Suc.prems(3) cons True have x: "x = Inr ()"
        "migrate_sequential v [Suc k..<11] (s1\<lparr>sc_version := k\<rparr>) = (s', Inr ())"
      by (auto split: sum.splits)
    have safe: "k < 3 \<or> safe_flags s1"
      using applyMigration_safe [of k s s1] Suc.prems(2) k ex x(1) by (cases "k < 3") auto
    show ?thesis
      by (rule Suc.hyps(1) [OF _ _ _ x(2)]) (use Suc.hyps(2) Suc.prems(2) k True safe in auto)
  next
    case False
    with Suc.prems(3) cons have m: "migrate_sequential v [Suc k..<11] s = (s', Inr ())" by simp
    show ?thesis
      by (rule Suc.hyps(1) [OF _ _ _ m]) (use Suc.hyps(2) Suc.prems k False in auto)
  qed
qed

lemma migrate_safe:
  assumes "3 \<le> sc_version s \<longrightarrow> safe_flags s" and "migrate s = (s', Inr ())"
  shows "safe_flags s'"
proof (cases "sc_version s = 0 \<and> columns s ''settings'' \<noteq> None")
  case True
  then have "migrate_all [1..<11] s = (s', Inr ())" using assms(2) by (simp add: migrate_def)
  then show ?thesis by (rule migrate_all_safe [rotated 2]) simp_all
next
  case False
  then have m: "migrate_sequential (sc_version s) [1..<11] s = (s', Inr ())"
    using assms(2) by (auto simp: migrate_def)
  show ?thesis by (rule migrate_sequential_safe [OF _ _ m]) (use assms(1) in auto)
qed

section \<open>Properties\<close>

text \<open>A run that stopped after the first \<open>n\<close> statements of the next migration.\<close>

definition interrupted :: "nat \<Rightarrow> schema \<Rightarrow> schema" where
  "interrupted n s = fold (\<lambda>st s. fst (exec st s)) (take n (all_stmts (Suc (sc_version s)))) s"

lemma exec_version [simp]: "sc_version (fst (exec st s)) = sc_version s"
  by (cases st) (auto split: option.splits)

lemma fold_exec:
  "schema_ok s \<Longrightarrow> list_all known sts \<Longrightarrow>
    schema_ok (fold (\<lambda>st s. fst (exec st s)) sts s) \<and> grows s (fold (\<lambda>st s. fst (exec st s)) sts s) \<and>
    sc_version (fold (\<lambda>st s. fst (exec st s)) sts s) = sc_version s"
proof (induction sts arbitrary: s)
  case (Cons st sts)
  then show ?case using Cons.IH [of "fst (exec st s)"] exec_schema_ok exec_grows [of s st] grows_trans
    by fastforce
qed simp

text \<open>
  C18: a migration run that was interrupted after any statement is completed by the next start:
  from a database at version \<open>v\<close> that also has a prefix of migration \<open>v + 1\<close>,
  \<^verbatim>\<open>migrate\<close> succeeds, ends at version 10 and leaves every table, column and index
  of the ten migrations in place.
\<close>

theorem migration_resumes:
  assumes "schema_ok s" and "sc_version s < 10" and "\<forall>st\<in>set (stmts_upto (sc_version s)). in_effect s st"
  shows "\<exists>s'. migrate (interrupted n s) = (s', Inr ()) \<and> sc_version s' = 10 \<and>
    (\<forall>st\<in>set (stmts_upto 10). in_effect s' st)"
proof -
  have "Suc (sc_version s) \<in> set [1..<11]" using assms(2) by simp
  with stmts_known have "list_all known (all_stmts (Suc (sc_version s)))" by blast
  then have "list_all known (take n (all_stmts (Suc (sc_version s))))"
    by (auto simp: list_all_iff dest: in_set_takeD)
  with fold_exec [OF assms(1)] have "schema_ok (interrupted n s)" "grows s (interrupted n s)"
    "sc_version (interrupted n s) = sc_version s" by (simp_all add: interrupted_def)
  with assms(2,3) migrate_ok [of "interrupted n s"] show ?thesis using in_effect_grows by fastforce
qed

definition fresh_schema :: schema where
  "fresh_schema = \<lparr>sc_version = 0, sc_tables = [], sc_indexes = [], sc_flags = [], sc_active = [],
     sc_cloudflare = False\<rparr>"

theorem migration_resumes_witness:
  "\<exists>s'. migrate (interrupted 5 fresh_schema) = (s', Inr ()) \<and> sc_version s' = 10"
  using migration_resumes [of fresh_schema 5]
  by (auto simp: fresh_schema_def schema_ok_def columns_def stmts_upto_def)

text \<open>
  After a successful migration no application has push deployments enabled while it requires
  an interactive confirmation, whatever an older release of MiniDock had stored.
\<close>

theorem migration_clears_unsafe_push:
  assumes "3 \<le> sc_version s \<longrightarrow> safe_flags s" and "migrate s = (s', Inr ())"
  shows "\<forall>(push, confirm)\<in>set (sc_flags s'). \<not> (push \<and> confirm)"
  using migrate_safe [OF assms] by (simp add: safe_flags_def)

definition legacy_schema :: schema where
  "legacy_schema = \<lparr>sc_version = 0,
     sc_tables = [(''settings'', [''key'', ''value'']), (''applications'', base_columns ''applications'')],
     sc_indexes = [], sc_flags = [(False, False)], sc_active = [], sc_cloudflare = False\<rparr>"

theorem migration_clears_unsafe_push_witness:
  "\<exists>s'. migrate legacy_schema = (s', Inr ()) \<and> list_all (\<lambda>(push, confirm). \<not> (push \<and> confirm)) (sc_flags s')"
proof -
  have "schema_ok legacy_schema"
    by (simp add: schema_ok_def legacy_schema_def columns_def) code_simp
  then obtain s' where "migrate legacy_schema = (s', Inr ())"
    using migrate_ok [of legacy_schema] by (auto simp: legacy_schema_def stmts_upto_def)
  with migration_clears_unsafe_push [of legacy_schema s'] show ?thesis
    by (auto simp: legacy_schema_def list_all_iff)
qed

end
