(* ===== verification/Security.thy ===== *)
theory Security
  imports Prelude
begin

text \<open>
  Packages security and backup: AES-GCM envelopes, the password verifier and the backup file
  format. GCM is written out over byte lists (counter mode, GHASH over GF(2^128), the
  constant-time comparison of the tag); the block cipher \<open>E\<close> is an argument, so every
  statement holds for AES and for any other block cipher with 16-byte blocks. The random nonce
  and salt, and the key derivation \<open>kdf\<close> (PBKDF2 with SHA-256, 600000 iterations, 32
  bytes), are arguments too.
\<close>

unbundle bit_operations_syntax

section \<open>Bytes and blocks\<close>

type_synonym block_cipher = "bytes \<Rightarrow> bytes \<Rightarrow> bytes"

definition from_be :: "bytes \<Rightarrow> nat" where
  "from_be bs = foldl (\<lambda>n b. 256 * n + unat b) 0 bs"

fun to_be :: "nat \<Rightarrow> nat \<Rightarrow> bytes" where
  "to_be 0 n = []"
| "to_be (Suc k) n = to_be k (n div 256) @ [of_nat (n mod 256)]"

definition xor_bytes :: "bytes \<Rightarrow> bytes \<Rightarrow> bytes" where
  "xor_bytes xs ys = map2 (\<lambda>x y. x XOR y) xs ys"

text \<open>\<^verbatim>\<open>binary.BigEndian.PutUint64\<close> and \<^verbatim>\<open>Uint64\<close>.\<close>

definition put_uint64 :: "64 word \<Rightarrow> bytes" where
  "put_uint64 w = to_be 8 (unat w)"

definition get_uint64 :: "bytes \<Rightarrow> 64 word" where
  "get_uint64 bs = of_nat (from_be bs)"

section \<open>GCM\<close>

definition gcm_nonce_size :: nat where "gcm_nonce_size = 12"

definition gcm_tag_size :: nat where "gcm_tag_size = 16"

text \<open>The product of GF(2^128) with the reflected polynomial of GCM.\<close>

fun gf_mul_loop :: "nat \<Rightarrow> 128 word \<Rightarrow> 128 word \<Rightarrow> 128 word \<Rightarrow> 128 word" where
  "gf_mul_loop 0 x v z = z"
| "gf_mul_loop (Suc i) x v z =
     gf_mul_loop i x
       (if bit v 0 then drop_bit 1 v XOR push_bit 120 225 else drop_bit 1 v)
       (if bit x i then z XOR v else z)"

definition gf_mul :: "128 word \<Rightarrow> 128 word \<Rightarrow> 128 word" where
  "gf_mul x y = gf_mul_loop 128 x y 0"

definition block_word :: "bytes \<Rightarrow> 128 word" where
  "block_word b = of_nat (from_be b)"

fun chunks :: "nat \<Rightarrow> bytes \<Rightarrow> bytes list" where
  "chunks 0 xs = []"
| "chunks (Suc n) xs = (if xs = [] then [] else take 16 xs # chunks n (drop 16 xs))"

definition pad16 :: "bytes \<Rightarrow> bytes" where
  "pad16 xs = xs @ replicate ((16 - length xs mod 16) mod 16) 0"

definition ghash :: "128 word \<Rightarrow> bytes \<Rightarrow> 128 word" where
  "ghash h xs = foldl (\<lambda>y b. gf_mul (y XOR block_word b) h) 0 (chunks (length xs) xs)"

definition inc32 :: "bytes \<Rightarrow> bytes" where
  "inc32 cb = take 12 cb @ to_be 4 (Suc (from_be (drop 12 cb)) mod 2 ^ 32)"

function gctr :: "(bytes \<Rightarrow> bytes) \<Rightarrow> bytes \<Rightarrow> bytes \<Rightarrow> bytes" where
  "gctr e cb xs =
     (if xs = [] then [] else xor_bytes (take 16 xs) (e cb) @ gctr e (inc32 cb) (drop 16 xs))"
  by pat_completeness auto
termination by (relation "measure (\<lambda>(_, _, xs). length xs)") auto

declare gctr.simps [simp del]

definition gcm_tag :: "(bytes \<Rightarrow> bytes) \<Rightarrow> bytes \<Rightarrow> bytes \<Rightarrow> bytes \<Rightarrow> bytes" where
  "gcm_tag e j0 aad c =
     (let h = block_word (e (replicate 16 0));
          lens = to_be 8 (8 * length aad) @ to_be 8 (8 * length c);
          s = ghash h (pad16 aad @ pad16 c @ lens)
      in xor_bytes (to_be 16 (unat s)) (e j0))"

definition initial_counter :: "bytes \<Rightarrow> bytes" where
  "initial_counter nonce = nonce @ [0, 0, 0, 1]"

text \<open>\<^verbatim>\<open>cipher.AEAD.Seal\<close> and \<^verbatim>\<open>Open\<close>, with the panics of the Go implementation.\<close>

definition gcm_seal :: "(bytes \<Rightarrow> bytes) \<Rightarrow> bytes \<Rightarrow> bytes \<Rightarrow> bytes \<Rightarrow> bytes result" where
  "gcm_seal e nonce plaintext aad =
     (if length nonce \<noteq> gcm_nonce_size
      then Inl (ErrPanic ''crypto/cipher: incorrect nonce length given to GCM'')
      else if length plaintext > (2 ^ 32 - 2) * 16
      then Inl (ErrPanic ''crypto/cipher: message too large for GCM'')
      else let j0 = initial_counter nonce; c = gctr e (inc32 j0) plaintext
      in Inr (c @ gcm_tag e j0 aad c))"

definition gcm_open :: "(bytes \<Rightarrow> bytes) \<Rightarrow> bytes \<Rightarrow> bytes \<Rightarrow> bytes \<Rightarrow> bytes result" where
  "gcm_open e nonce ciphertext aad =
     (if length nonce \<noteq> gcm_nonce_size
      then Inl (ErrPanic ''crypto/cipher: incorrect nonce length given to GCM'')
      else if length ciphertext < gcm_tag_size
      then Inl (ErrMsg ''cipher: message authentication failed'')
      else if length ciphertext > (2 ^ 32 - 2) * 16 + gcm_tag_size
      then Inl (ErrMsg ''cipher: message authentication failed'')
      else let j0 = initial_counter nonce;
               n = length ciphertext - gcm_tag_size; c = take n ciphertext; tag = drop n ciphertext
      in if gcm_tag e j0 aad c \<noteq> tag then Inl (ErrMsg ''cipher: message authentication failed'')
         else Inr (gctr e (inc32 j0) c))"

section \<open>Package security\<close>

definition keyLength :: nat where "keyLength = 32"

definition verifier :: string where "verifier = ''minidock/master-key/verifier/v1''"

text \<open>\<^verbatim>\<open>io.ReadFull(rand.Reader, make([]byte, 32))\<close>: 32 bytes of the random source, or its error.\<close>

definition NewSalt :: "(nat \<Rightarrow> bytes result) \<Rightarrow> bytes result" where
  "NewSalt rand = rand 32"

definition DeriveKey :: "(string \<Rightarrow> bytes \<Rightarrow> bytes) \<Rightarrow> string \<Rightarrow> bytes \<Rightarrow> bytes result" where
  "DeriveKey kdf password salt =
     (if length salt < 16 then Inl (ErrMsg ''salt is too short'') else Inr (kdf password salt))"

text \<open>\<^verbatim>\<open>aes.NewCipher\<close> accepts keys of 16, 24 and 32 bytes.\<close>

definition new_cipher :: "block_cipher \<Rightarrow> bytes \<Rightarrow> (bytes \<Rightarrow> bytes) result" where
  "new_cipher E key =
     (if length key = 16 \<or> length key = 24 \<or> length key = 32 then Inr (E key)
      else Inl (ErrMsg (''crypto/aes: invalid key size '' @ show_nat (length key))))"

definition EncryptWithAAD ::
    "block_cipher \<Rightarrow> (nat \<Rightarrow> bytes result) \<Rightarrow> bytes \<Rightarrow> bytes \<Rightarrow> bytes \<Rightarrow> (bytes \<times> bytes) result" where
  "EncryptWithAAD E rand key plaintext additionalData =
     (case new_cipher E key of
        Inl e \<Rightarrow> Inl (ErrMsg (''create cipher: '' @ error_text e))
      | Inr block \<Rightarrow>
          (case rand gcm_nonce_size of
             Inl e \<Rightarrow> Inl e
           | Inr nonce \<Rightarrow>
               (case gcm_seal block nonce plaintext additionalData of
                  Inl e \<Rightarrow> Inl e | Inr ciphertext \<Rightarrow> Inr (nonce, ciphertext))))"

definition Encrypt :: "block_cipher \<Rightarrow> (nat \<Rightarrow> bytes result) \<Rightarrow> bytes \<Rightarrow> bytes \<Rightarrow> (bytes \<times> bytes) result" where
  "Encrypt E rand key plaintext = EncryptWithAAD E rand key plaintext []"

definition GCMParameters :: "block_cipher \<Rightarrow> bytes \<Rightarrow> (nat \<times> nat) result" where
  "GCMParameters E key =
     (case new_cipher E key of
        Inl e \<Rightarrow> Inl (ErrMsg (''create cipher: '' @ error_text e))
      | Inr _ \<Rightarrow> Inr (gcm_nonce_size, gcm_tag_size))"

definition DecryptWithAAD :: "block_cipher \<Rightarrow> bytes \<Rightarrow> bytes \<Rightarrow> bytes \<Rightarrow> bytes \<Rightarrow> bytes result" where
  "DecryptWithAAD E key nonce ciphertext additionalData =
     (case new_cipher E key of Inl e \<Rightarrow> Inl e | Inr block \<Rightarrow> gcm_open block nonce ciphertext additionalData)"

definition Decrypt :: "block_cipher \<Rightarrow> bytes \<Rightarrow> bytes \<Rightarrow> bytes \<Rightarrow> bytes result" where
  "Decrypt E key nonce ciphertext = DecryptWithAAD E key nonce ciphertext []"

definition NewVerifier :: "block_cipher \<Rightarrow> (nat \<Rightarrow> bytes result) \<Rightarrow> bytes \<Rightarrow> (bytes \<times> bytes) result" where
  "NewVerifier E rand key = Encrypt E rand key (to_bytes verifier)"

definition ValidateKey :: "block_cipher \<Rightarrow> bytes \<Rightarrow> bytes \<Rightarrow> bytes \<Rightarrow> unit result" where
  "ValidateKey E key nonce ciphertext =
     (case Decrypt E key nonce ciphertext of
        Inl e \<Rightarrow> Inl e
      | Inr plaintext \<Rightarrow>
          if of_bytes plaintext \<noteq> verifier then Inl (ErrMsg ''invalid master password'') else Inr ())"

fun Zero :: "bytes \<Rightarrow> bytes" where
  "Zero [] = []"
| "Zero (b # bs) = 0 # Zero bs"

section \<open>Package backup\<close>

definition magic :: bytes where "magic = to_bytes ''MDBK''"

definition format_version :: byte where "format_version = 1"

definition headerSize :: nat where "headerSize = 14"

definition backup_header :: "nat \<Rightarrow> nat \<Rightarrow> bytes" where
  "backup_header nonceSize ciphertextLen =
     magic @ [format_version, of_nat nonceSize] @ put_uint64 (of_nat ciphertextLen)"

definition Seal :: "block_cipher \<Rightarrow> (nat \<Rightarrow> bytes result) \<Rightarrow> bytes \<Rightarrow> bytes \<Rightarrow> bytes result" where
  "Seal E rand key database =
     (if database = [] then Inl (ErrMsg ''empty database backup'')
      else case GCMParameters E key of
        Inl e \<Rightarrow> Inl e
      | Inr (nonceSize, overhead) \<Rightarrow>
          if nonceSize > 255 then Inl (ErrMsg ''backup nonce too long'')
          else let header = backup_header nonceSize (length database + overhead)
          in case EncryptWithAAD E rand key database header of
               Inl e \<Rightarrow> Inl e
             | Inr (nonce, ciphertext) \<Rightarrow> Inr (header @ nonce @ ciphertext))"

definition Open :: "block_cipher \<Rightarrow> bytes \<Rightarrow> bytes \<Rightarrow> bytes result" where
  "Open E key encoded =
     (if length encoded < headerSize \<or> take 4 encoded \<noteq> magic
      then Inl (ErrMsg ''invalid MiniDock backup magic'')
      else if encoded ! 4 \<noteq> format_version
      then Inl (ErrMsg (''unsupported MiniDock backup format version '' @ show_nat (unat (encoded ! 4))))
      else let nonceLen = unat (encoded ! 5);
               ciphertextLen = get_uint64 (take 8 (drop 6 encoded));
               prefixLen = headerSize + nonceLen
      in if nonceLen = 0 \<or> ciphertextLen = 0 \<or> ciphertextLen > of_nat (length encoded) \<or>
            of_nat prefixLen + ciphertextLen \<noteq> (of_nat (length encoded) :: 64 word)
         then Inl (ErrMsg ''invalid MiniDock backup lengths'')
         else DecryptWithAAD E key (take nonceLen (drop headerSize encoded))
                (drop (headerSize + nonceLen) encoded) (take headerSize encoded))"

end
