(* ===== verification/Security_Props.thy ===== *)
theory Security_Props
  imports Security
begin

text \<open>
  Envelopes open to what was sealed: the round trips of AES-GCM, of the password verifier and of
  the backup format, for every block cipher with 16-byte blocks, and the files the backup format
  rejects.
\<close>

section \<open>Numbers\<close>

lemma length_to_be [simp]: "length (to_be k n) = k"
  by (induction k arbitrary: n) auto

lemma from_be_snoc: "from_be (bs @ [b]) = 256 * from_be bs + unat b"
  by (simp add: from_be_def)

lemma from_to_be: "from_be (to_be k n) = n mod 256 ^ k"
proof (induction k arbitrary: n)
  case (Suc k)
  have "from_be (to_be (Suc k) n) = 256 * ((n div 256) mod 256 ^ k) + n mod 256"
    by (simp add: from_be_snoc Suc unat_of_nat)
  also have "\<dots> = n mod (256 * 256 ^ k)" by (simp add: mod_mult2_eq)
  finally show ?case by simp
qed (simp add: from_be_def)

lemma unat_of_nat64: "n < 2 ^ 64 \<Longrightarrow> unat (of_nat n :: 64 word) = n"
  by (simp add: unat_of_nat)

lemma unat_of_nat_plus: "unat (of_nat n + w) = (n + unat w) mod 2 ^ 64" for w :: "64 word"
proof -
  have "of_nat n + w = (of_nat (n + unat w) :: 64 word)" by simp
  then have "unat (of_nat n + w) = unat (of_nat (n + unat w) :: 64 word)" by (rule arg_cong)
  also have "\<dots> = (n + unat w) mod 2 ^ 64" unfolding unat_of_nat by simp
  finally show ?thesis .
qed

lemma get_put_uint64 [simp]: "get_uint64 (put_uint64 w) = w"
proof -
  have "unat w < 2 ^ 64" using unsigned_less [of w] by simp
  then show ?thesis by (simp add: get_uint64_def put_uint64_def from_to_be)
qed

lemma length_put_uint64 [simp]: "length (put_uint64 w) = 8"
  by (simp add: put_uint64_def)

section \<open>Counter mode\<close>

definition block_fun :: "(bytes \<Rightarrow> bytes) \<Rightarrow> bool" where
  "block_fun e \<longleftrightarrow> (\<forall>b. length b = 16 \<longrightarrow> length (e b) = 16)"

lemma length_xor_bytes [simp]: "length (xor_bytes xs ys) = min (length xs) (length ys)"
  by (simp add: xor_bytes_def)

lemma xor_xor_bytes: "length xs \<le> length ys \<Longrightarrow> xor_bytes (xor_bytes xs ys) ys = xs"
proof (induction xs arbitrary: ys)
  case (Cons x xs)
  then show ?case by (cases ys) (auto simp: xor_bytes_def xor.assoc)
qed (simp add: xor_bytes_def)

lemma length_inc32: "length cb = 16 \<Longrightarrow> length (inc32 cb) = 16"
  by (simp add: inc32_def)

lemma gctr_step:
  "ys \<noteq> [] \<Longrightarrow> gctr e cb ys = xor_bytes (take 16 ys) (e cb) @ gctr e (inc32 cb) (drop 16 ys)"
  by (subst gctr.simps) simp

lemma gctr_props:
  assumes "block_fun e" and "length cb = 16"
  shows "length (gctr e cb xs) = length xs \<and> gctr e cb (gctr e cb xs) = xs"
  using assms
proof (induction e cb xs rule: gctr.induct)
  case (1 e cb xs)
  show ?case
  proof (cases "xs = []")
    case False
    let ?p = "xor_bytes (take 16 xs) (e cb)" and ?r = "gctr e (inc32 cb) (drop 16 xs)"
    have k: "length (e cb) = 16" using 1(2,3) by (simp add: block_fun_def)
    have ih: "length ?r = length (drop 16 xs)" "gctr e (inc32 cb) ?r = drop 16 xs"
      using 1(1) [OF False 1(2) length_inc32 [OF 1(3)]] by auto
    have eq: "gctr e cb xs = ?p @ ?r" using False by (simp add: gctr.simps [of e cb xs])
    have len: "length (?p @ ?r) = length xs" using k ih(1) by simp
    then have "?p @ ?r \<noteq> []" using False by (metis length_0_conv)
    moreover have "take 16 (?p @ ?r) = ?p" "drop 16 (?p @ ?r) = ?r"
      using k ih(1) by (cases "length xs \<ge> 16"; simp)+
    ultimately have "gctr e cb (?p @ ?r) = xor_bytes ?p (e cb) @ gctr e (inc32 cb) ?r"
      using gctr_step [of "?p @ ?r" e cb] by metis
    also have "\<dots> = xs" using ih(2) k by (simp add: xor_xor_bytes)
    finally show ?thesis using eq len by simp
  qed (simp add: gctr.simps)
qed

lemma length_gcm_tag: "block_fun e \<Longrightarrow> length j0 = 16 \<Longrightarrow> length (gcm_tag e j0 aad c) = 16"
  by (simp add: gcm_tag_def Let_def block_fun_def)

lemma gcm_roundtrip:
  assumes "block_fun e" and "gcm_seal e nonce p aad = Inr c"
  shows "gcm_open e nonce c aad = Inr p \<and> length c = length p + 16"
proof -
  let ?j0 = "initial_counter nonce"
  let ?c = "gctr e (inc32 ?j0) p"
  have n: "length nonce = gcm_nonce_size" and size: "length p \<le> (2 ^ 32 - 2) * 16"
    and c: "c = ?c @ gcm_tag e ?j0 aad ?c"
    using assms(2) by (auto simp: gcm_seal_def Let_def split: if_splits)
  have j0: "length ?j0 = 16" using n by (simp add: initial_counter_def gcm_nonce_size_def)
  note ctr = gctr_props [OF assms(1) length_inc32 [OF j0], of p]
  have "length c = length p + 16" using c ctr length_gcm_tag [OF assms(1) j0] by simp
  then show ?thesis using n size c ctr length_gcm_tag [OF assms(1) j0]
    by (simp add: gcm_open_def gcm_tag_size_def Let_def)
qed

definition cipher_ok :: "block_cipher \<Rightarrow> bool" where
  "cipher_ok E \<longleftrightarrow> (\<forall>key b. length b = 16 \<longrightarrow> length (E key b) = 16)"

definition key_ok :: "bytes \<Rightarrow> bool" where
  "key_ok key \<longleftrightarrow> length key = 16 \<or> length key = 24 \<or> length key = 32"

lemma new_cipher_ok: "key_ok key \<Longrightarrow> new_cipher E key = Inr (E key)"
  by (auto simp: key_ok_def new_cipher_def)

lemma EncryptWithAAD_ok:
  assumes "cipher_ok E" and "key_ok key" and "rand gcm_nonce_size = Inr nonce"
    and "length nonce = gcm_nonce_size" and "length p \<le> (2 ^ 32 - 2) * 16"
  shows "\<exists>c. EncryptWithAAD E rand key p aad = Inr (nonce, c) \<and> DecryptWithAAD E key nonce c aad = Inr p \<and>
    length c = length p + 16"
proof -
  have e: "block_fun (E key)" using assms(1) by (simp add: cipher_ok_def block_fun_def)
  obtain c where c: "gcm_seal (E key) nonce p aad = Inr c"
    using assms(4,5) by (simp add: gcm_seal_def Let_def)
  from gcm_roundtrip [OF e c] c assms(2,3) show ?thesis
    by (simp add: EncryptWithAAD_def DecryptWithAAD_def new_cipher_ok)
qed

section \<open>The backup format\<close>

lemma length_magic [simp]: "length magic = 4"
  by (simp add: magic_def to_bytes_def)

lemma length_header [simp]: "length (backup_header n l) = headerSize"
  by (simp add: backup_header_def headerSize_def)

lemma header_fields:
  assumes "length m = 4"
  shows "take 4 (m @ [v, k] @ put_uint64 w @ rest) = m" "(m @ [v, k] @ put_uint64 w @ rest) ! 4 = v"
    "(m @ [v, k] @ put_uint64 w @ rest) ! 5 = k"
    "take 8 (drop 6 (m @ [v, k] @ put_uint64 w @ rest)) = put_uint64 w"
    "take 14 (m @ [v, k] @ put_uint64 w @ rest) = m @ [v, k] @ put_uint64 w"
    "drop 14 (m @ [v, k] @ put_uint64 w @ rest) = rest"
  using assms by (simp_all add: nth_append)

text \<open>What \<^verbatim>\<open>Open\<close> does with a file whose header has the right magic and version.\<close>

lemma Open_header:
  assumes "length rest + 14 < 2 ^ 64"
  shows "Open E key (magic @ [format_version, k] @ put_uint64 w @ rest) =
    (if unat k = 0 \<or> w = 0 \<or> unat k + unat w \<noteq> length rest
     then Inl (ErrMsg ''invalid MiniDock backup lengths'')
     else DecryptWithAAD E key (take (unat k) rest) (drop (unat k) rest)
            (magic @ [format_version, k] @ put_uint64 w))"
proof -
  let ?enc = "magic @ [format_version, k] @ put_uint64 w @ rest"
  have len: "length ?enc = 14 + length rest" by simp
  have k: "unat k < 256" using unsigned_less [of k] by simp
  have w: "unat w < 2 ^ 64" using unsigned_less [of w] by simp
  have ul: "unat (of_nat (length ?enc) :: 64 word) = 14 + length rest"
    using assms len by (subst unat_of_nat64) simp_all
  have sum: "(of_nat (14 + unat k) + w = (of_nat (length ?enc) :: 64 word) \<and> \<not> w > of_nat (length ?enc)) \<longleftrightarrow>
      unat k + unat w = length rest"
  proof
    assume "of_nat (14 + unat k) + w = (of_nat (length ?enc) :: 64 word) \<and> \<not> w > of_nat (length ?enc)"
    then have eq: "of_nat (14 + unat k) + w = (of_nat (length ?enc) :: 64 word)"
      and le: "unat w \<le> 14 + length rest" using ul by (auto simp: word_less_nat_alt)
    have "unat (of_nat (14 + unat k) + w) = (14 + unat k + unat w) mod 2 ^ 64"
      by (rule unat_of_nat_plus)
    with eq ul have m: "(14 + unat k + unat w) mod 2 ^ 64 = 14 + length rest" by metis
    show "unat k + unat w = length rest"
    proof (cases "14 + unat k + unat w < 2 ^ 64")
      case False
      then have "(14 + unat k + unat w) mod 2 ^ 64 = 14 + unat k + unat w - 2 ^ 64"
        using k w by (simp add: mod_if)
      with m le k show ?thesis by simp
    qed (use m in simp)
  next
    assume eq: "unat k + unat w = length rest"
    then have "unat (of_nat (14 + unat k) + w) = 14 + length rest"
      using assms by (subst unat_of_nat_plus) simp
    with ul have "of_nat (14 + unat k) + w = (of_nat (length ?enc) :: 64 word)"
      by (metis word_unat_eq_iff)
    moreover have "\<not> w > of_nat (length ?enc)" using ul eq by (simp add: word_less_nat_alt)
    ultimately show "of_nat (14 + unat k) + w = (of_nat (length ?enc) :: 64 word) \<and> \<not> w > of_nat (length ?enc)"
      by simp
  qed
  have d: "drop (14 + unat k) ?enc = drop (unat k) rest"
    using header_fields(6) [OF length_magic, of format_version k w rest] by (metis drop_drop add.commute)
  show ?thesis
    unfolding Open_def headerSize_def Let_def header_fields [OF length_magic] get_put_uint64 d
    using len sum by auto
qed

lemma header_split: "backup_header n l = magic @ [format_version, of_nat n] @ put_uint64 (of_nat l)"
  by (simp add: backup_header_def)

lemma Seal_structure:
  assumes "cipher_ok E" and "key_ok key" and "database \<noteq> []" and "length database \<le> (2 ^ 32 - 2) * 16"
    and "rand gcm_nonce_size = Inr nonce" and "length nonce = gcm_nonce_size"
  shows "\<exists>c. Seal E rand key database =
      Inr (magic @ [format_version, 12] @ put_uint64 (of_nat (length database + 16)) @ nonce @ c) \<and>
    length c = length database + 16 \<and>
    DecryptWithAAD E key nonce c (magic @ [format_version, 12] @ put_uint64 (of_nat (length database + 16))) =
      Inr database"
proof -
  let ?h = "backup_header gcm_nonce_size (length database + gcm_tag_size)"
  obtain c where c: "EncryptWithAAD E rand key database ?h = Inr (nonce, c)"
      "DecryptWithAAD E key nonce c ?h = Inr database" "length c = length database + 16"
    using EncryptWithAAD_ok [where rand = rand, OF assms(1,2,5,6,4)] by blast
  have h: "?h = magic @ [format_version, 12] @ put_uint64 (of_nat (length database + 16))"
    by (simp add: header_split gcm_nonce_size_def gcm_tag_size_def)
  have "Seal E rand key database = Inr (?h @ nonce @ c)"
    using assms(2,3) c(1) by (simp add: Seal_def GCMParameters_def new_cipher_ok gcm_nonce_size_def Let_def)
  then show ?thesis using c(2,3) unfolding h by (intro exI [of _ c]) simp
qed

lemma seal_open:
  assumes "cipher_ok E" and "key_ok key" and "database \<noteq> []" and "length database \<le> (2 ^ 32 - 2) * 16"
    and "rand gcm_nonce_size = Inr nonce" and "length nonce = gcm_nonce_size"
  shows "\<exists>encoded. Seal E rand key database = Inr encoded \<and> Open E key encoded = Inr database \<and>
    length encoded = length database + 42"
proof -
  let ?w = "of_nat (length database + 16) :: 64 word"
  obtain c where c: "Seal E rand key database = Inr (magic @ [format_version, 12] @ put_uint64 ?w @ nonce @ c)"
      "length c = length database + 16"
      "DecryptWithAAD E key nonce c (magic @ [format_version, 12] @ put_uint64 ?w) = Inr database"
    using Seal_structure [where rand = rand, OF assms] by blast
  have w: "unat ?w = length database + 16" using assms(4) by (subst unat_of_nat64) simp_all
  then have "?w \<noteq> 0" by (metis add_eq_0_iff_both_eq_0 unsigned_0 zero_neq_numeral)
  have n: "length nonce = 12" using assms(6) by (simp add: gcm_nonce_size_def)
  have "Open E key (magic @ [format_version, 12] @ put_uint64 ?w @ nonce @ c) =
      DecryptWithAAD E key nonce c (magic @ [format_version, 12] @ put_uint64 ?w)"
    using Open_header [of "nonce @ c" E key 12 ?w] c(2) w n \<open>?w \<noteq> 0\<close> assms(4) by simp
  then show ?thesis using c n by simp
qed

text \<open>Whatever \<^verbatim>\<open>Seal\<close> produces can be opened again with the same key.\<close>

lemma Seal_opens:
  assumes "cipher_ok E" and "Seal E rand key database = Inr encoded"
  shows "Open E key encoded = Inr database"
proof -
  from assms(2) have "database \<noteq> []" "key_ok key"
    by (auto simp: Seal_def GCMParameters_def new_cipher_def key_ok_def split: if_splits sum.splits)
  moreover from assms(2) obtain nonce where "rand gcm_nonce_size = Inr nonce" "length nonce = gcm_nonce_size"
      "length database \<le> (2 ^ 32 - 2) * 16"
    by (auto simp: Seal_def EncryptWithAAD_def gcm_seal_def Let_def split: if_splits sum.splits prod.splits)
  ultimately show ?thesis using seal_open [of E key database rand nonce] assms by auto
qed

text \<open>
  A backup of any database within the size limit of GCM can be written with a valid key, and
  opening it with that key returns exactly the database.
\<close>

theorem backup_roundtrip:
  assumes "cipher_ok E" and "key_ok key" and "database \<noteq> []" and "length database \<le> (2 ^ 32 - 2) * 16"
    and "rand gcm_nonce_size = Inr nonce" and "length nonce = gcm_nonce_size"
  shows "\<exists>encoded. Seal E rand key database = Inr encoded \<and> Open E key encoded = Inr database \<and>
    length encoded = length database + 42"
  using assms by (rule seal_open)

definition demo_cipher :: block_cipher where
  "demo_cipher key b = xor_bytes b (take 16 (key @ replicate 16 0))"

lemma demo_cipher_ok: "cipher_ok demo_cipher"
  by (simp add: cipher_ok_def demo_cipher_def)

theorem backup_roundtrip_witness:
  "\<exists>encoded. Seal demo_cipher (\<lambda>n. Inr (replicate n 7)) (replicate 32 1) [10, 20, 30] = Inr encoded \<and>
     Open demo_cipher (replicate 32 1) encoded = Inr [10, 20, 30]"
  using backup_roundtrip [OF demo_cipher_ok, of "replicate 32 1" "[10, 20, 30]" "\<lambda>n. Inr (replicate n 7)"
      "replicate 12 7"]
  by (auto simp: key_ok_def gcm_nonce_size_def)



text \<open>
  C26: a file whose header announces a nonce of a length other than 12 is not rejected with an
  error: with consistent lengths it reaches \<^verbatim>\<open>gcm.Open\<close>, which panics.
\<close>

theorem backup_nonce_length_panics:
  assumes "key_ok key" and "unat k \<noteq> 0" and "unat k \<noteq> 12" and "length nonce = unat k" and "cs \<noteq> []"
    and "length cs < 2 ^ 63"
  shows "Open E key (magic @ [format_version, k] @ put_uint64 (of_nat (length cs)) @ nonce @ cs) =
    Inl (ErrPanic ''crypto/cipher: incorrect nonce length given to GCM'')"
proof -
  let ?w = "of_nat (length cs) :: 64 word"
  have k: "unat k < 256" using unsigned_less [of k] by simp
  have w: "unat ?w = length cs" using assms(6) by (subst unat_of_nat64) simp_all
  then have "?w \<noteq> 0" using assms(5) by (metis length_0_conv unsigned_0)
  then show ?thesis
    using Open_header [of "nonce @ cs" E key k ?w] assms w k
    by (simp add: DecryptWithAAD_def new_cipher_ok gcm_open_def gcm_nonce_size_def)
qed

theorem backup_nonce_length_panics_witness:
  "Open demo_cipher (replicate 32 1) (magic @ [format_version, 13] @ put_uint64 2 @ replicate 13 0 @ [1, 2]) =
     Inl (ErrPanic ''crypto/cipher: incorrect nonce length given to GCM'')"
  using backup_nonce_length_panics [of "replicate 32 1" 13 "replicate 13 0" "[1, 2]" demo_cipher]
  by (simp add: key_ok_def)

text \<open>
  The verifier stored at setup accepts the key it was made with, so the same password unlocks
  MiniDock again.
\<close>

theorem verifier_accepts_key:
  assumes "cipher_ok E" and "\<And>p s. length (kdf p s) = keyLength" and "length salt \<ge> 16"
    and "rand gcm_nonce_size = Inr nonce" and "length nonce = gcm_nonce_size"
  shows "\<exists>key n c. DeriveKey kdf password salt = Inr key \<and> NewVerifier E rand key = Inr (n, c) \<and>
    ValidateKey E key n c = Inr ()"
proof -
  let ?key = "kdf password salt"
  have k: "key_ok ?key" using assms(2) by (simp add: key_ok_def keyLength_def)
  have "length (to_bytes verifier) \<le> (2 ^ 32 - 2) * 16" by (simp add: verifier_def to_bytes_def)
  then obtain c where "EncryptWithAAD E rand ?key (to_bytes verifier) [] = Inr (nonce, c)"
      "DecryptWithAAD E ?key nonce c [] = Inr (to_bytes verifier)"
    using EncryptWithAAD_ok [where rand = rand, OF assms(1) k assms(4,5)] by blast
  with assms(3) show ?thesis
    by (simp add: DeriveKey_def NewVerifier_def Encrypt_def ValidateKey_def Decrypt_def)
qed

theorem verifier_accepts_key_witness:
  "\<exists>key n c. DeriveKey (\<lambda>p s. take 32 (s @ replicate 32 0)) ''password'' (replicate 32 5) = Inr key \<and>
     NewVerifier demo_cipher (\<lambda>n. Inr (replicate n 7)) key = Inr (n, c) \<and> ValidateKey demo_cipher key n c = Inr ()"
  by (rule verifier_accepts_key [OF demo_cipher_ok, of _ _ _ "replicate 12 7"])
    (simp_all add: keyLength_def gcm_nonce_size_def)

end
