(* ===== verification/Paths.thy ===== *)
theory Paths
  imports Prelude
begin

text \<open>
  Package \<^verbatim>\<open>path/filepath\<close> on Unix, as far as MiniDock uses it: lexical cleaning
  and joining of slash-separated paths, and the containment test that the deployer and the
  repository browser write with \<^verbatim>\<open>strings.HasPrefix\<close>.
\<close>

definition join_with :: "string \<Rightarrow> string list \<Rightarrow> string" where
  "join_with sep xs = (case xs of [] \<Rightarrow> '''' | y # ys \<Rightarrow> y @ concat (map (\<lambda>z. sep @ z) ys))"

text \<open>
  The stack of path elements that \<^verbatim>\<open>filepath.Clean\<close> builds, top first: empty
  elements and dots vanish, a double dot removes the element before it and is kept only at the
  start of a relative path.
\<close>

fun clean_elements :: "bool \<Rightarrow> string list \<Rightarrow> string list \<Rightarrow> string list" where
  "clean_elements rooted stack [] = stack"
| "clean_elements rooted stack (x # xs) =
     (if x = '''' \<or> x = ''.'' then clean_elements rooted stack xs
      else if x = ''..'' then
        (case stack of
           [] \<Rightarrow> clean_elements rooted (if rooted then [] else [''..'']) xs
         | y # ys \<Rightarrow> if y = ''..'' then clean_elements rooted (''..'' # stack) xs
                     else clean_elements rooted ys xs)
      else clean_elements rooted (x # stack) xs)"

definition is_abs :: "string \<Rightarrow> bool" where
  "is_abs path = has_prefix path ''/''"

definition path_elements :: "string \<Rightarrow> string list" where
  "path_elements path = rev (clean_elements (is_abs path) [] (split_on CHR ''/'' path))"

definition clean_path :: "string \<Rightarrow> string" where
  "clean_path path =
     (let els = path_elements path
      in if is_abs path then ''/'' @ join_with ''/'' els
         else if els = [] then ''.'' else join_with ''/'' els)"

definition join_path :: "string list \<Rightarrow> string" where
  "join_path parts =
     (let ne = filter (\<lambda>p. p \<noteq> '''') parts in if ne = [] then '''' else clean_path (join_with ''/'' ne))"

text \<open>\<^verbatim>\<open>work == root || strings.HasPrefix(work, root + "/")\<close>.\<close>

definition path_within :: "string \<Rightarrow> string \<Rightarrow> bool" where
  "path_within base path \<longleftrightarrow> path = base \<or> has_prefix path (base @ ''/'')"

section \<open>Lemmas\<close>

lemma split_on_no_sep: "w \<in> set (split_on c s) \<Longrightarrow> c \<notin> set w"
  by (induction s arbitrary: w) (auto split: if_splits list.splits)

lemma clean_elements_good:
  assumes "\<forall>x\<in>set stack. x \<noteq> '''' \<and> CHR ''/'' \<notin> set x" and "\<forall>x\<in>set xs. CHR ''/'' \<notin> set x"
  shows "\<forall>x\<in>set (clean_elements rooted stack xs). x \<noteq> '''' \<and> CHR ''/'' \<notin> set x"
  using assms
proof (induction xs arbitrary: stack)
  case (Cons x xs)
  from Cons.prems(2) have rest: "\<forall>y\<in>set xs. CHR ''/'' \<notin> set y" by simp
  let ?good = "\<lambda>st. \<forall>y\<in>set st. y \<noteq> '''' \<and> CHR ''/'' \<notin> set y"
  have "\<exists>st. clean_elements rooted stack (x # xs) = clean_elements rooted st xs \<and> ?good st"
  proof (cases "x = '''' \<or> x = ''.''")
    case True
    with Cons.prems show ?thesis by auto
  next
    case False
    show ?thesis
    proof (cases "x = ''..''")
      case True
      have "clean_elements rooted stack (x # xs) = clean_elements rooted
          (case stack of [] \<Rightarrow> if rooted then [] else [''..''] | y # ys \<Rightarrow> if y = ''..'' then ''..'' # stack else ys) xs"
        using True by (cases stack) simp_all
      moreover have "?good (case stack of [] \<Rightarrow> if rooted then [] else [''..''] | y # ys \<Rightarrow> if y = ''..'' then ''..'' # stack else ys)"
        using Cons.prems(1) by (cases stack) auto
      ultimately show ?thesis by blast
    next
      case other: False
      with Cons.prems False show ?thesis by (intro exI [of _ "x # stack"]) simp
    qed
  qed
  with Cons.IH rest show ?case by metis
qed simp

lemma path_elements_good: "x \<in> set (path_elements p) \<Longrightarrow> x \<noteq> '''' \<and> CHR ''/'' \<notin> set x"
  using clean_elements_good [of "[]" "split_on CHR ''/'' p" "is_abs p"] split_on_no_sep
  by (auto simp: path_elements_def)

lemma rooted_no_dotdot:
  "''..'' \<notin> set stack \<Longrightarrow> ''..'' \<notin> set (clean_elements True stack xs)"
  by (induction True stack xs rule: clean_elements.induct) (auto split: list.splits if_splits)

lemma join_with_Cons: "xs \<noteq> [] \<Longrightarrow> join_with sep (x # xs) = x @ sep @ join_with sep xs"
  by (cases xs) (auto simp: join_with_def)

lemma split_on_prefix:
  "CHR ''/'' \<notin> set x \<Longrightarrow> split_on CHR ''/'' (x @ CHR ''/'' # s) = x # split_on CHR ''/'' s"
  by (induction x) auto

lemma split_on_single: "c \<notin> set x \<Longrightarrow> split_on c x = [x]"
  by (induction x) auto

lemma split_join:
  assumes "\<forall>x\<in>set xs. CHR ''/'' \<notin> set x" and "xs \<noteq> []"
  shows "split_on CHR ''/'' (join_with ''/'' xs) = xs"
  using assms
proof (induction xs)
  case (Cons x xs)
  show ?case
  proof (cases "xs = []")
    case True
    with Cons.prems show ?thesis by (simp add: join_with_def split_on_single)
  next
    case False
    with Cons show ?thesis by (simp add: join_with_Cons split_on_prefix)
  qed
qed simp

end
