(* ===== verification/Runtime.thy ===== *)
theory Runtime
  imports Paths
begin

text \<open>
  Package runtime: the container templates, the generated Dockerfiles, the detection of a
  project's type and the check of its minimum requirements. The file system is an argument: what
  stands at a path, if anything.
\<close>

section \<open>Templates\<close>

definition text_lines :: "string list \<Rightarrow> string" where
  "text_lines ls = concat (map (\<lambda>l. l @ [CHR 0x0A]) ls)"

record template =
  tp_type :: string
  tp_name :: string
  tp_port :: int
  tp_cpus :: string
  tp_memory :: string
  tp_dockerfile :: string
  tp_health_endpoint :: string
  tp_command :: string
  tp_user :: string

definition make_template ::
    "string \<Rightarrow> string \<Rightarrow> int \<Rightarrow> string \<Rightarrow> string \<Rightarrow> string \<Rightarrow> string \<Rightarrow> string \<Rightarrow> string \<Rightarrow> template" where
  "make_template kind name port cpus memory dockerfile endpoint command user =
     \<lparr>tp_type = kind, tp_name = name, tp_port = port, tp_cpus = cpus, tp_memory = memory,
      tp_dockerfile = dockerfile, tp_health_endpoint = endpoint, tp_command = command, tp_user = user\<rparr>"

definition staticDockerfile :: string where
  \<open>staticDockerfile = text_lines
     [''FROM node:22-alpine AS build'',
      ''WORKDIR /app'',
      ''COPY package.json package-lock.json* ./'',
      ''RUN npm ci'',
      ''COPY . .'',
      ''RUN npm run build'',
      '''',
      ''FROM caddy:2.10-alpine'',
      ''ARG PORT={{PORT}}'',
      ''COPY --from=build /app/dist /srv'',
      (''RUN printf ':%s { root * /srv; try_files {path} /index.html; file_server }'' @ [CHR 0x5C] @ ''n' "$PORT" > /etc/caddy/Caddyfile''),
      ''EXPOSE {{PORT}}'',
      ''HEALTHCHECK --interval=30s --timeout=5s --start-period=10s --retries=3 CMD wget -q -O /dev/null http://127.0.0.1:{{PORT}}{{HEALTH_ENDPOINT}} || exit 1'']\<close>

definition nextDockerfile :: string where
  \<open>nextDockerfile = text_lines
     [''FROM node:22-alpine AS build'',
      ''WORKDIR /app'',
      ''COPY package.json package-lock.json* ./'',
      ''RUN npm ci'',
      ''COPY . .'',
      ''ENV NEXT_TELEMETRY_DISABLED=1'',
      ''RUN npm run build'',
      '''',
      ''FROM node:22-alpine'',
      ''WORKDIR /app'',
      ''ENV NODE_ENV=production NEXT_TELEMETRY_DISABLED=1 HOSTNAME=0.0.0.0 PORT={{PORT}}'',
      ''COPY --from=build /app/public ./public'',
      ''COPY --from=build /app/.next/standalone ./'',
      ''COPY --from=build /app/.next/static ./.next/static'',
      ''EXPOSE {{PORT}}'',
      ''HEALTHCHECK --interval=30s --timeout=5s --start-period=15s --retries=3 CMD node -e "require('http').get('http://127.0.0.1:'+process.env.PORT+'{{HEALTH_ENDPOINT}}',r=>process.exit(r.statusCode<400?0:1)).on('error',()=>process.exit(1))"'',
      ''CMD ["node", "server.js"]'']\<close>

definition angularStaticDockerfile :: string where
  \<open>angularStaticDockerfile = text_lines
     [''FROM node:22-alpine AS build'',
      ''WORKDIR /app'',
      ''COPY package.json package-lock.json* ./'',
      ''RUN npm ci'',
      ''COPY . .'',
      ''RUN npm run build && index=$(find dist -type f -name index.html -print -quit) && test -n "$index" && mkdir /out && cp -R "$(dirname "$index")"/. /out/'',
      '''',
      ''FROM caddy:2.10-alpine'',
      ''ARG PORT={{PORT}}'',
      ''COPY --from=build /out /srv'',
      (''RUN printf ':%s { root * /srv; try_files {path} /index.html; file_server }'' @ [CHR 0x5C] @ ''n' "$PORT" > /etc/caddy/Caddyfile''),
      ''EXPOSE {{PORT}}'',
      ''HEALTHCHECK --interval=30s --timeout=5s --start-period=10s --retries=3 CMD wget -q -O /dev/null http://127.0.0.1:{{PORT}}{{HEALTH_ENDPOINT}} || exit 1'']\<close>

definition nodeSSRDockerfile :: string where
  \<open>nodeSSRDockerfile = text_lines
     [''FROM node:22-alpine AS build'',
      ''WORKDIR /app'',
      ''COPY package.json package-lock.json* ./'',
      ''RUN npm ci'',
      ''COPY . .'',
      ''RUN npm run build'',
      '''',
      ''FROM node:22-alpine'',
      ''WORKDIR /app'',
      ''ENV NODE_ENV=production HOSTNAME=0.0.0.0 PORT={{PORT}}'',
      ''COPY package.json package-lock.json* ./'',
      ''RUN npm ci --omit=dev'',
      ''COPY --from=build /app/dist ./dist'',
      ''EXPOSE {{PORT}}'',
      ''HEALTHCHECK --interval=30s --timeout=5s --start-period=15s --retries=3 CMD node -e "require('http').get('http://127.0.0.1:'+process.env.PORT+'{{HEALTH_ENDPOINT}}',r=>process.exit(r.statusCode<400?0:1)).on('error',()=>process.exit(1))"'',
      ''CMD ["sh", "-c", "npm run start -- --host 0.0.0.0 --port $PORT"]'']\<close>

definition viteSSRDockerfile :: string where
  \<open>viteSSRDockerfile = text_lines
     [''FROM node:22-alpine AS build'',
      ''WORKDIR /app'',
      ''COPY package.json package-lock.json* ./'',
      ''RUN npm ci'',
      ''COPY . .'',
      ''RUN npm run build'',
      '''',
      ''FROM node:22-alpine'',
      ''WORKDIR /app'',
      ''ENV NODE_ENV=production HOSTNAME=0.0.0.0 PORT={{PORT}}'',
      ''COPY package.json package-lock.json* ./'',
      ''RUN npm ci --omit=dev'',
      ''COPY --from=build /app/dist ./dist'',
      ''COPY --from=build /app/server.js ./server.js'',
      ''EXPOSE {{PORT}}'',
      ''HEALTHCHECK --interval=30s --timeout=5s --start-period=15s --retries=3 CMD node -e "require('http').get('http://127.0.0.1:'+process.env.PORT+'{{HEALTH_ENDPOINT}}',r=>process.exit(r.statusCode<400?0:1)).on('error',()=>process.exit(1))"'',
      ''CMD ["node", "server.js"]'']\<close>

definition astroSSRDockerfile :: string where
  \<open>astroSSRDockerfile = text_lines
     [''FROM node:22-alpine AS build'',
      ''WORKDIR /app'',
      ''COPY package.json package-lock.json* ./'',
      ''RUN npm ci'',
      ''COPY . .'',
      ''RUN npm run build'',
      '''',
      ''FROM node:22-alpine'',
      ''WORKDIR /app'',
      ''ENV NODE_ENV=production HOST=0.0.0.0 PORT={{PORT}}'',
      ''COPY package.json package-lock.json* ./'',
      ''RUN npm ci --omit=dev'',
      ''COPY --from=build /app/dist ./dist'',
      ''EXPOSE {{PORT}}'',
      ''HEALTHCHECK --interval=30s --timeout=5s --start-period=15s --retries=3 CMD node -e "require('http').get('http://127.0.0.1:'+process.env.PORT+'{{HEALTH_ENDPOINT}}',r=>process.exit(r.statusCode<400?0:1)).on('error',()=>process.exit(1))"'',
      ''CMD ["node", "./dist/server/entry.mjs"]'']\<close>

definition nuxtStaticDockerfile :: string where
  \<open>nuxtStaticDockerfile = text_lines
     [''FROM node:22-alpine AS build'',
      ''WORKDIR /app'',
      ''COPY package.json package-lock.json* ./'',
      ''RUN npm ci'',
      ''COPY . .'',
      ''RUN npm run generate'',
      '''',
      ''FROM caddy:2.10-alpine'',
      ''ARG PORT={{PORT}}'',
      ''COPY --from=build /app/.output/public /srv'',
      (''RUN printf ':%s { root * /srv; try_files {path} /200.html; file_server }'' @ [CHR 0x5C] @ ''n' "$PORT" > /etc/caddy/Caddyfile''),
      ''EXPOSE {{PORT}}'',
      ''HEALTHCHECK --interval=30s --timeout=5s --start-period=10s --retries=3 CMD wget -q -O /dev/null http://127.0.0.1:{{PORT}}{{HEALTH_ENDPOINT}} || exit 1'']\<close>

definition nuxtSSRDockerfile :: string where
  \<open>nuxtSSRDockerfile = text_lines
     [''FROM node:22-alpine AS build'',
      ''WORKDIR /app'',
      ''COPY package.json package-lock.json* ./'',
      ''RUN npm ci'',
      ''COPY . .'',
      ''ENV NITRO_PRESET=node-server'',
      ''RUN npm run build'',
      '''',
      ''FROM node:22-alpine'',
      ''WORKDIR /app'',
      ''ENV NODE_ENV=production NITRO_HOST=0.0.0.0 NITRO_PORT={{PORT}}'',
      ''COPY --from=build /app/.output ./.output'',
      ''EXPOSE {{PORT}}'',
      ''HEALTHCHECK --interval=30s --timeout=5s --start-period=15s --retries=3 CMD node -e "require('http').get('http://127.0.0.1:'+process.env.NITRO_PORT+'{{HEALTH_ENDPOINT}}',r=>process.exit(r.statusCode<400?0:1)).on('error',()=>process.exit(1))"'',
      ''CMD ["node", ".output/server/index.mjs"]'']\<close>

definition svelteStaticDockerfile :: string where
  \<open>svelteStaticDockerfile = text_lines
     [''FROM node:22-alpine AS build'',
      ''WORKDIR /app'',
      ''COPY package.json package-lock.json* ./'',
      ''RUN npm ci'',
      ''COPY . .'',
      ''RUN npm run build'',
      '''',
      ''FROM caddy:2.10-alpine'',
      ''ARG PORT={{PORT}}'',
      ''COPY --from=build /app/build /srv'',
      (''RUN printf ':%s { root * /srv; try_files {path} /index.html; file_server }'' @ [CHR 0x5C] @ ''n' "$PORT" > /etc/caddy/Caddyfile''),
      ''EXPOSE {{PORT}}'',
      ''HEALTHCHECK --interval=30s --timeout=5s --start-period=10s --retries=3 CMD wget -q -O /dev/null http://127.0.0.1:{{PORT}}{{HEALTH_ENDPOINT}} || exit 1'']\<close>

definition svelteSSRDockerfile :: string where
  \<open>svelteSSRDockerfile = text_lines
     [''FROM node:22-alpine AS build'',
      ''WORKDIR /app'',
      ''COPY package.json package-lock.json* ./'',
      ''RUN npm ci'',
      ''COPY . .'',
      ''RUN npm run build'',
      '''',
      ''FROM node:22-alpine'',
      ''WORKDIR /app'',
      ''ENV NODE_ENV=production HOST=0.0.0.0 PORT={{PORT}}'',
      ''COPY package.json package-lock.json* ./'',
      ''RUN npm ci --omit=dev'',
      ''COPY --from=build /app/build ./build'',
      ''EXPOSE {{PORT}}'',
      ''HEALTHCHECK --interval=30s --timeout=5s --start-period=15s --retries=3 CMD node -e "require('http').get('http://127.0.0.1:'+process.env.PORT+'{{HEALTH_ENDPOINT}}',r=>process.exit(r.statusCode<400?0:1)).on('error',()=>process.exit(1))"'',
      ''CMD ["node", "build"]'']\<close>

definition goDockerfile :: string where
  \<open>goDockerfile = text_lines
     [''FROM golang:1.26-alpine AS build'',
      ''WORKDIR /src'',
      ''COPY go.mod go.sum* ./'',
      ''RUN go mod download'',
      ''COPY . .'',
      ''RUN CGO_ENABLED=0 go build -trimpath -ldflags='-s -w' -o /out/app .'',
      '''',
      ''FROM busybox:1.37-musl'',
      ''COPY --from=build /out/app /app'',
      ''ENV PORT={{PORT}}'',
      ''EXPOSE {{PORT}}'',
      ''HEALTHCHECK --interval=30s --timeout=5s --start-period=10s --retries=3 CMD ["/bin/busybox", "wget", "-q", "-O", "/dev/null", "http://127.0.0.1:{{PORT}}{{HEALTH_ENDPOINT}}"]'',
      ''USER 65532:65532'',
      ''ENTRYPOINT ["/app"]'']\<close>

definition rustDockerfile :: string where
  \<open>rustDockerfile = text_lines
     [''FROM rust:1.88-alpine AS build'',
      ''RUN apk add --no-cache musl-dev'',
      ''WORKDIR /src'',
      ''COPY . .'',
      (''RUN cargo build --release && find target/release -maxdepth 1 -type f -perm -111 -exec cp {} /out-app '' @ [CHR 0x5C] @ ''; -quit''),
      '''',
      ''FROM busybox:1.37-musl'',
      ''COPY --from=build /out-app /app'',
      ''ENV PORT={{PORT}}'',
      ''EXPOSE {{PORT}}'',
      ''HEALTHCHECK --interval=30s --timeout=5s --start-period=10s --retries=3 CMD ["/bin/busybox", "wget", "-q", "-O", "/dev/null", "http://127.0.0.1:{{PORT}}{{HEALTH_ENDPOINT}}"]'',
      ''USER 65532:65532'',
      ''ENTRYPOINT ["/app"]'']\<close>

definition javaDockerfile :: string where
  \<open>javaDockerfile = text_lines
     [''FROM eclipse-temurin:21-jdk-alpine AS build'',
      ''WORKDIR /src'',
      ''COPY . .'',
      (''RUN if [ -f gradlew ]; then chmod +x gradlew && ./gradlew --no-daemon build -x test; elif [ -f mvnw ]; then chmod +x mvnw && ./mvnw -DskipTests package; elif [ -f pom.xml ]; then mvn -DskipTests package; else gradle --no-daemon build -x test; fi && find . '' @ [CHR 0x5C] @ ''( -path '*/target/*.jar' -o -path '*/build/libs/*.jar' '' @ [CHR 0x5C] @ '') | grep -v -E '(sources|javadoc|plain)'' @ [CHR 0x5C] @ ''.jar$' | head -n 1 | xargs -r -I{} cp '{}' /app.jar''),
      '''',
      ''FROM eclipse-temurin:21-jre-alpine'',
      ''RUN apk add --no-cache busybox-extras'',
      ''COPY --from=build /app.jar /app.jar'',
      ''ENV SERVER_PORT={{PORT}} PORT={{PORT}}'',
      ''EXPOSE {{PORT}}'',
      ''HEALTHCHECK --interval=30s --timeout=5s --start-period=20s --retries=3 CMD wget -q -O /dev/null http://127.0.0.1:{{PORT}}{{HEALTH_ENDPOINT}} || exit 1'',
      ''USER 10001:10001'',
      ''ENTRYPOINT ["java", "-jar", "/app.jar"]'']\<close>

definition For :: "string \<Rightarrow> template option" where
  \<open>For kind = (
     if kind = ''static'' then Some (make_template kind (''Est'' @ [CHR 0xC3, CHR 0xA1] @ ''tica (Node + Caddy)'') 8080 ''0.50'' ''128m'' staticDockerfile ''/'' ''caddy run'' ''caddy'')
     else if kind = ''angular_static'' then Some (make_template kind (''Angular est'' @ [CHR 0xC3, CHR 0xA1] @ ''tico'') 8080 ''0.50'' ''192m'' angularStaticDockerfile ''/'' ''caddy run'' ''caddy'')
     else if kind = ''node_ssr'' then Some (make_template kind ''Node SSR (start)'' 8080 ''0.75'' ''512m'' nodeSSRDockerfile ''/healthz'' ''npm run start'' ''node'')
     else if kind = ''vite_ssr'' then Some (make_template kind ''Vite SSR (servidor Node)'' 8080 ''0.75'' ''512m'' viteSSRDockerfile ''/healthz'' ''node server.js'' ''node'')
     else if kind = ''astro_static'' then Some (make_template kind (''Astro est'' @ [CHR 0xC3, CHR 0xA1] @ ''tico'') 8080 ''0.50'' ''128m'' staticDockerfile ''/'' ''caddy run'' ''caddy'')
     else if kind = ''astro_ssr'' then Some (make_template kind ''Astro SSR (Node)'' 8080 ''0.75'' ''384m'' astroSSRDockerfile ''/'' ''node ./dist/server/entry.mjs'' ''node'')
     else if kind = ''nuxt_static'' then Some (make_template kind (''Nuxt est'' @ [CHR 0xC3, CHR 0xA1] @ ''tico'') 8080 ''0.50'' ''192m'' nuxtStaticDockerfile ''/'' ''caddy run'' ''caddy'')
     else if kind = ''nuxt_ssr'' then Some (make_template kind ''Nuxt SSR (Nitro)'' 8080 ''0.75'' ''512m'' nuxtSSRDockerfile ''/'' ''node .output/server/index.mjs'' ''node'')
     else if kind = ''svelte_static'' then Some (make_template kind (''SvelteKit est'' @ [CHR 0xC3, CHR 0xA1] @ ''tico'') 8080 ''0.50'' ''128m'' svelteStaticDockerfile ''/'' ''caddy run'' ''caddy'')
     else if kind = ''svelte_ssr'' then Some (make_template kind ''SvelteKit SSR (Node)'' 8080 ''0.75'' ''384m'' svelteSSRDockerfile ''/'' ''node build'' ''node'')
     else if kind = ''nextjs'' then Some (make_template kind ''Next.js standalone'' 8080 ''0.75'' ''512m'' nextDockerfile ''/healthz'' ''node server.js'' ''node'')
     else if kind = ''go'' then Some (make_template kind ''API Go'' 8080 ''0.50'' ''256m'' goDockerfile ''/healthz'' ''/app'' ''65532:65532'')
     else if kind = ''rust'' then Some (make_template kind ''API Rust'' 8080 ''0.50'' ''256m'' rustDockerfile ''/healthz'' ''/app'' ''65532:65532'')
     else if kind = ''java'' then Some (make_template kind ''API Java'' 8080 ''1.00'' ''768m'' javaDockerfile ''/healthz'' ''java -jar /app.jar'' ''10001:10001'')
     else None)\<close>

definition Types :: "string list" where
  "Types = [''static'', ''angular_static'', ''node_ssr'', ''vite_ssr'', ''astro_static'', ''astro_ssr'', ''nuxt_static'', ''nuxt_ssr'', ''svelte_static'', ''svelte_ssr'', ''nextjs'', ''go'', ''rust'', ''java'', ''custom'']"

definition IsSupported :: "string \<Rightarrow> bool" where
  "IsSupported kind = list_ex (\<lambda>candidate. kind = candidate) Types"

definition Dockerfile :: "string \<Rightarrow> int \<Rightarrow> string \<Rightarrow> string option" where
  "Dockerfile kind port healthEndpoint =
     (case For kind of
        None \<Rightarrow> None
      | Some t \<Rightarrow>
          (let port = (if port < 1 \<or> port > 65535 then tp_port t else port);
               healthEndpoint = (if healthEndpoint = [] then tp_health_endpoint t else healthEndpoint);
               contents = replace_all (tp_dockerfile t) ''{{PORT}}'' (show_int port)
           in Some (replace_all contents ''{{HEALTH_ENDPOINT}}'' healthEndpoint)))"

section \<open>Detection\<close>

datatype fs_entry = File string | Directory

type_synonym file_system = "string \<Rightarrow> fs_entry option"

record detection =
  det_type :: string
  det_confidence :: string
  det_reason :: string

record package_manifest =
  pm_dependencies :: "(string \<times> string) list"
  pm_dev_dependencies :: "(string \<times> string) list"
  pm_scripts :: "(string \<times> string) list"

definition fs_exists :: "file_system \<Rightarrow> string \<Rightarrow> bool" where
  "fs_exists fs path \<longleftrightarrow> fs path \<noteq> None"

text \<open>\<open>decode\<close> is the JSON decoder for the manifest; a directory cannot be read.\<close>

definition readPackageManifest ::
    "(string \<Rightarrow> package_manifest option) \<Rightarrow> file_system \<Rightarrow> string \<Rightarrow> package_manifest option" where
  "readPackageManifest decode fs path =
     (case fs path of Some (File contents) \<Rightarrow> decode contents | _ \<Rightarrow> None)"

definition dependency :: "package_manifest \<Rightarrow> string \<Rightarrow> bool" where
  "dependency m name \<longleftrightarrow> name \<in> set (map fst (pm_dependencies m)) \<or> name \<in> set (map fst (pm_dev_dependencies m))"

definition scriptContains :: "package_manifest \<Rightarrow> string \<Rightarrow> bool" where
  "scriptContains m text = list_ex (\<lambda>s. contains_str (to_lower (snd s)) (to_lower text)) (pm_scripts m)"

fun projectConfig :: "file_system \<Rightarrow> string \<Rightarrow> string list \<Rightarrow> string" where
  "projectConfig fs path [] = []"
| "projectConfig fs path (name # names) =
     (case fs (join_path [path, name]) of Some (File contents) \<Rightarrow> contents | _ \<Rightarrow> projectConfig fs path names)"

definition Detect :: "(string \<Rightarrow> package_manifest option) \<Rightarrow> file_system \<Rightarrow> string \<Rightarrow> detection" where
  \<open>Detect decode fs path =
     (if fs_exists fs (join_path [path, ''Dockerfile''])
      then \<lparr>det_type = ''custom'', det_confidence = ''high'', det_reason = ''El proyecto ya incluye un Dockerfile.''\<rparr>
      else if fs_exists fs (join_path [path, ''go.mod''])
      then \<lparr>det_type = ''go'', det_confidence = ''high'', det_reason = (''Se encontr'' @ [CHR 0xC3, CHR 0xB3] @ '' go.mod.'')\<rparr>
      else if fs_exists fs (join_path [path, ''Cargo.toml''])
      then \<lparr>det_type = ''rust'', det_confidence = ''high'', det_reason = (''Se encontr'' @ [CHR 0xC3, CHR 0xB3] @ '' Cargo.toml.'')\<rparr>
      else if fs_exists fs (join_path [path, ''pom.xml'']) \<or> fs_exists fs (join_path [path, ''build.gradle'']) \<or>
              fs_exists fs (join_path [path, ''build.gradle.kts''])
      then \<lparr>det_type = ''java'', det_confidence = ''high'', det_reason = (''Se encontr'' @ [CHR 0xC3, CHR 0xB3] @ '' configuraci'' @ [CHR 0xC3, CHR 0xB3] @ ''n Maven o Gradle.'')\<rparr>
      else case readPackageManifest decode fs (join_path [path, ''package.json'']) of
        None \<Rightarrow> \<lparr>det_type = ''custom'', det_confidence = ''low'', det_reason = (''No se encontr'' @ [CHR 0xC3, CHR 0xB3] @ '' un manifiesto reconocible; revisa la configuraci'' @ [CHR 0xC3, CHR 0xB3] @ ''n manual.'')\<rparr>
      | Some manifest \<Rightarrow>
          if dependency manifest ''astro'' then
            (let config = projectConfig fs path [''astro.config.mjs'', ''astro.config.js'', ''astro.config.ts'']
             in if contains_str config (''output: '' @ [CHR 0x27] @ ''server'' @ [CHR 0x27]) \<or>
                   contains_str config ''output: "server"'' \<or> contains_str config ''@astrojs/node''
                then \<lparr>det_type = ''astro_ssr'', det_confidence = ''high'', det_reason = ''Astro SSR con adaptador Node detectado.''\<rparr>
                else \<lparr>det_type = ''astro_static'', det_confidence = ''high'', det_reason = (''Astro est'' @ [CHR 0xC3, CHR 0xA1] @ ''tico detectado.'')\<rparr>)
          else if dependency manifest ''nuxt'' then
            (let config = projectConfig fs path [''nuxt.config.ts'', ''nuxt.config.js'', ''nuxt.config.mjs'']
             in if contains_str config ''ssr: false'' \<or> contains_str config ''ssr:false'' \<or>
                   scriptContains manifest ''nuxt generate''
                then \<lparr>det_type = ''nuxt_static'', det_confidence = ''medium'', det_reason = (''Nuxt est'' @ [CHR 0xC3, CHR 0xA1] @ ''tico detectado; confirma que el proyecto use generate.'')\<rparr>
                else \<lparr>det_type = ''nuxt_ssr'', det_confidence = ''high'', det_reason = ''Nuxt SSR/Nitro detectado.''\<rparr>)
          else if dependency manifest ''@sveltejs/kit'' then
            (let config = projectConfig fs path [''svelte.config.js'', ''svelte.config.ts'']
             in if contains_str config ''adapter-static''
                then \<lparr>det_type = ''svelte_static'', det_confidence = ''high'', det_reason = ''SvelteKit con adapter-static detectado.''\<rparr>
                else if contains_str config ''adapter-node''
                then \<lparr>det_type = ''svelte_ssr'', det_confidence = ''high'', det_reason = ''SvelteKit con adapter-node detectado.''\<rparr>
                else \<lparr>det_type = ''custom'', det_confidence = ''medium'', det_reason = ''SvelteKit detectado; selecciona adapter-static o adapter-node en svelte.config.''\<rparr>)
          else if dependency manifest ''next''
          then \<lparr>det_type = ''nextjs'', det_confidence = ''high'', det_reason = (''Se encontr'' @ [CHR 0xC3, CHR 0xB3] @ '' Next.js; confirma que output: standalone est'' @ [CHR 0xC3, CHR 0xA9] @ '' habilitado.'')\<rparr>
          else let angular = fs_exists fs (join_path [path, ''angular.json'']) \<or> dependency manifest ''@angular/core''
          in if angular \<and> (dependency manifest ''@angular/ssr'' \<or>
                 dependency manifest ''@nguniversal/express-engine'' \<or> scriptContains manifest ''ssr'')
          then \<lparr>det_type = ''node_ssr'', det_confidence = ''medium'', det_reason = ''Angular SSR detectado; revisa que el script start inicie el servidor SSR.''\<rparr>
          else if angular
          then \<lparr>det_type = ''angular_static'', det_confidence = ''high'', det_reason = (''Angular est'' @ [CHR 0xC3, CHR 0xA1] @ ''tico detectado.'')\<rparr>
          else if dependency manifest ''vite'' \<and>
                 (scriptContains manifest ''--ssr'' \<or> scriptContains manifest ''serve:ssr'' \<or>
                  fs_exists fs (join_path [path, ''src'', ''entry-server.ts'']) \<or>
                  fs_exists fs (join_path [path, ''src'', ''entry-server.tsx'']) \<or>
                  fs_exists fs (join_path [path, ''src'', ''entry-server.js'']) \<or>
                  fs_exists fs (join_path [path, ''src'', ''entry-server.jsx'']))
          then (if fs_exists fs (join_path [path, ''server.js''])
                then \<lparr>det_type = ''vite_ssr'', det_confidence = ''high'', det_reason = ''Vite SSR con servidor Node propio detectado (server.js).''\<rparr>
                else \<lparr>det_type = ''node_ssr'', det_confidence = ''medium'', det_reason = ''Vite SSR detectado; revisa que npm run start inicie el servidor.''\<rparr>)
          else if dependency manifest ''vite''
          then \<lparr>det_type = ''static'', det_confidence = ''high'', det_reason = (''Vite est'' @ [CHR 0xC3, CHR 0xA1] @ ''tico detectado.'')\<rparr>
          else \<lparr>det_type = ''custom'', det_confidence = ''low'', det_reason = (''Se encontr'' @ [CHR 0xC3, CHR 0xB3] @ '' package.json, pero no una configuraci'' @ [CHR 0xC3, CHR 0xB3] @ ''n de runtime concluyente.'')\<rparr>)\<close>

text \<open>The types whose templates build with Node.\<close>

definition node_types :: "string list" where
  "node_types = [''static'', ''angular_static'', ''node_ssr'', ''vite_ssr'', ''astro_static'', ''astro_ssr'',
     ''nuxt_static'', ''nuxt_ssr'', ''svelte_static'', ''svelte_ssr'', ''nextjs'']"

definition Validate :: "file_system \<Rightarrow> string \<Rightarrow> string \<Rightarrow> string list" where
  "Validate fs path kind =
     (if kind = ''go'' then
        (if fs_exists fs (join_path [path, ''go.mod'']) then []
         else [''Falta el archivo go.mod en el directorio del proyecto.''])
      else if kind = ''rust'' then
        (if fs_exists fs (join_path [path, ''Cargo.toml'']) then []
         else [''Falta el archivo Cargo.toml en el directorio del proyecto.''])
      else if kind = ''java'' then
        (if fs_exists fs (join_path [path, ''pom.xml'']) \<or> fs_exists fs (join_path [path, ''build.gradle'']) \<or>
            fs_exists fs (join_path [path, ''build.gradle.kts'']) then []
         else [''Falta el archivo pom.xml o build.gradle en el directorio del proyecto.''])
      else if kind = ''custom'' then
        (if fs_exists fs (join_path [path, ''Dockerfile'']) then []
         else [''Falta el archivo Dockerfile en el directorio del proyecto.''])
      else if kind \<in> set node_types then
        (if fs_exists fs (join_path [path, ''package.json'']) then []
         else [''Falta el archivo package.json para este runtime basado en Node.''])
      else [])"

end
