(* ===== verification/Runtime_Props.thy ===== *)
theory Runtime_Props
  imports Runtime
begin

text \<open>
  Properties of package runtime: generated Dockerfiles have no placeholder left, and the type a
  project is detected as passes the check of its own requirements.
\<close>

section \<open>Replacing placeholders\<close>

lemma replace_all_Nil [simp]: "replace_all [] old new = []"
  by (simp add: replace_all.simps)

lemma replace_all_hit:
  "old \<noteq> [] \<Longrightarrow> replace_all (old @ s) old new = new @ replace_all s old new"
  by (subst replace_all.simps) auto

lemma replace_all_miss:
  "old \<noteq> [] \<Longrightarrow> \<not> has_prefix (c # s) old \<Longrightarrow> replace_all (c # s) old new = c # replace_all s old new"
  by (subst replace_all.simps) auto

text \<open>
  Text of \<open>p\<close>'s characters that starts the result already started the input, when the
  replacement begins with another character.
\<close>

lemma replace_all_prefix:
  assumes "old \<noteq> []" and "new \<noteq> []" and "hd new \<notin> set p"
    and "set u \<subseteq> set p" and "has_prefix (replace_all s old new) u"
  shows "has_prefix s u"
  using assms(4,5)
proof (induction u arbitrary: s)
  case (Cons x u)
  show ?case
  proof (cases s)
    case Nil
    with Cons.prems(2) show ?thesis by (simp add: has_prefix_iff)
  next
    case (Cons c t)
    show ?thesis
    proof (cases "has_prefix s old")
      case True
      then obtain r where "s = old @ r" by (auto simp: has_prefix_iff)
      then have "replace_all s old new = new @ replace_all r old new" using assms(1) by (simp add: replace_all_hit)
      with Cons.prems(2) have "x = hd new" using assms(2) by (cases new) (auto simp: has_prefix_iff)
      with Cons.prems(1) assms(3) show ?thesis by simp
    next
      case False
      with Cons assms(1) have "replace_all s old new = c # replace_all t old new" by (simp add: replace_all_miss)
      with Cons.prems(2) have "x = c" "has_prefix (replace_all t old new) u" by (auto simp: has_prefix_iff)
      with Cons.IH [of t] Cons.prems(1) Cons show ?thesis by (auto simp: has_prefix_iff)
    qed
  qed
qed (simp add: has_prefix_iff)

lemma contains_append:
  assumes "p \<noteq> []" and "hd p \<notin> set xs"
  shows "contains_str (xs @ ys) p = contains_str ys p"
  using assms(2)
proof (induction xs)
  case (Cons x xs)
  then have "\<not> has_prefix (x # xs @ ys) p" using assms(1) by (cases p) (auto simp: has_prefix_iff)
  with Cons show ?case by simp
qed simp

lemma contains_prefix: "has_prefix s p \<Longrightarrow> contains_str s p"
  by (cases s) (auto simp: has_prefix_iff)

text \<open>A replacement leaves no occurrence of \<open>p\<close> that was not in the input.\<close>

lemma replace_all_no_new:
  assumes "old \<noteq> []" and "new \<noteq> []" and "hd new \<notin> set p" and "p \<noteq> []" and "hd p \<notin> set new"
    and "p = old \<or> \<not> contains_str s p"
  shows "\<not> contains_str (replace_all s old new) p"
  using assms(6)
proof (induction s rule: length_induct)
  case (1 s)
  show ?case
  proof (cases s)
    case Nil
    with assms(4) show ?thesis by simp
  next
    case (Cons c t)
    show ?thesis
    proof (cases "has_prefix s old")
      case True
      then obtain r where r: "s = old @ r" by (auto simp: has_prefix_iff)
      have "contains_str r p \<Longrightarrow> contains_str s p" unfolding r by (induction old) auto
      with 1(2) have "p = old \<or> \<not> contains_str r p" by blast
      moreover have "length r < length s" using r assms(1) by simp
      ultimately have "\<not> contains_str (replace_all r old new) p" using 1(1) by blast
      then show ?thesis using r assms(1,4,5) by (simp add: replace_all_hit contains_append)
    next
      case False
      then have eq: "replace_all s old new = c # replace_all t old new"
        using Cons assms(1) by (simp add: replace_all_miss)
      have "p = old \<or> \<not> contains_str t p" using 1(2) Cons by auto
      moreover have "length t < length s" using Cons by simp
      ultimately have "\<not> contains_str (replace_all t old new) p" using 1(1) by blast
      moreover have "\<not> has_prefix (replace_all s old new) p"
      proof
        assume "has_prefix (replace_all s old new) p"
        then have "has_prefix s p" using replace_all_prefix [OF assms(1-3), of p s] by simp
        with 1(2) False contains_prefix show False by blast
      qed
      ultimately show ?thesis using eq by simp
    qed
  qed
qed

lemma show_int_hd: "0 \<le> i \<Longrightarrow> show_int i \<noteq> [] \<and> is_digit (hd (show_int i))"
  using show_nat_digits [of "nat i"] by (cases "show_nat (nat i)") (auto simp: show_int_def)

lemma digit_not: "is_digit c \<Longrightarrow> c \<notin> set ''{{PORT}}{{HEALTH_ENDPOINT}}''"
  by (auto simp: is_digit_def)

section \<open>Properties\<close>

text \<open>
  Every supported type other than custom has a template, and the Dockerfile generated from it
  has no placeholder left, whatever port is asked for and whatever health endpoint that starts
  with a slash and has no opening brace.
\<close>

theorem dockerfile_is_complete:
  assumes "IsSupported kind" and "kind \<noteq> ''custom''"
    and "endpoint = [] \<or> hd endpoint = CHR ''/'' \<and> CHR ''{'' \<notin> set endpoint"
  shows "\<exists>text. Dockerfile kind port endpoint = Some text \<and>
    \<not> contains_str text ''{{PORT}}'' \<and> \<not> contains_str text ''{{HEALTH_ENDPOINT}}''"
proof -
  have "\<forall>k\<in>set Types. k = ''custom'' \<or> (case For k of None \<Rightarrow> False | Some t \<Rightarrow> 0 \<le> tp_port t \<and>
      tp_health_endpoint t \<noteq> [] \<and> hd (tp_health_endpoint t) = CHR ''/'' \<and> CHR ''{'' \<notin> set (tp_health_endpoint t))"
    by code_simp
  moreover have "kind \<in> set Types" using assms(1) by (auto simp: IsSupported_def list_ex_iff)
  ultimately obtain t where t: "For kind = Some t" "0 \<le> tp_port t" "tp_health_endpoint t \<noteq> []"
      "hd (tp_health_endpoint t) = CHR ''/''" "CHR ''{'' \<notin> set (tp_health_endpoint t)"
    using assms(2) by (auto split: option.splits)
  define i where "i = (if port < 1 \<or> port > 65535 then tp_port t else port)"
  define e where "e = (if endpoint = [] then tp_health_endpoint t else endpoint)"
  define c where "c = replace_all (tp_dockerfile t) ''{{PORT}}'' (show_int i)"
  have "0 \<le> i" using t(2) by (simp add: i_def)
  then have d: "show_int i \<noteq> []" "hd (show_int i) \<notin> set ''{{PORT}}''"
    using show_int_hd [of i] digit_not by auto
  have brace: "CHR ''{'' \<notin> set (show_int i)" using show_int_chars [of "CHR ''{''" i] by (auto simp: is_digit_def)
  have e: "e \<noteq> []" "hd e = CHR ''/''" "CHR ''{'' \<notin> set e" using t(3-5) assms(3) by (auto simp: e_def)
  have c1: "\<not> contains_str c ''{{PORT}}''"
    unfolding c_def by (rule replace_all_no_new) (use d brace in simp_all)
  have "\<not> contains_str (replace_all c ''{{HEALTH_ENDPOINT}}'' e) ''{{PORT}}''"
    by (rule replace_all_no_new) (use e c1 in simp_all)
  moreover have "\<not> contains_str (replace_all c ''{{HEALTH_ENDPOINT}}'' e) ''{{HEALTH_ENDPOINT}}''"
    by (rule replace_all_no_new) (use e in simp_all)
  ultimately show ?thesis using t(1) by (simp add: Dockerfile_def Let_def c_def i_def e_def)
qed

theorem dockerfile_is_complete_witness:
  "\<exists>text. Dockerfile ''go'' 3000 ''/ready'' = Some text \<and> \<not> contains_str text ''{{PORT}}''"
  using dockerfile_is_complete [of "''go''" "''/ready''" 3000] by (auto simp: IsSupported_def Types_def)

lemma Validate_node:
  assumes "k \<in> set node_types" and "fs_exists fs (join_path [path, ''package.json''])"
  shows "Validate fs path k = []"
proof -
  have "\<forall>k\<in>set node_types. k \<noteq> ''go'' \<and> k \<noteq> ''rust'' \<and> k \<noteq> ''java'' \<and> k \<noteq> ''custom''" by code_simp
  with assms show ?thesis by (simp add: Validate_def)
qed

lemma supported_literals: "\<forall>k\<in>set (node_types @ [''custom'', ''go'', ''rust'', ''java'']). IsSupported k"
  by code_simp

definition type_ok :: "file_system \<Rightarrow> string \<Rightarrow> string \<Rightarrow> bool" where
  "type_ok fs path k \<longleftrightarrow> IsSupported k \<and> (k = ''custom'' \<or> Validate fs path k = [])"

lemma type_ok_node:
  "readPackageManifest decode fs (join_path [path, ''package.json'']) = Some m \<Longrightarrow> k \<in> set node_types \<Longrightarrow>
    type_ok fs path k"
  using Validate_node [of k fs path] supported_literals
  by (auto simp: type_ok_def readPackageManifest_def fs_exists_def split: option.splits fs_entry.splits)

lemma type_ok_custom: "type_ok fs path ''custom''"
  using supported_literals by (simp add: type_ok_def)

lemma type_ok_go: "fs_exists fs (join_path [path, ''go.mod'']) \<Longrightarrow> type_ok fs path ''go''"
  using supported_literals by (simp add: type_ok_def Validate_def)

lemma type_ok_rust: "fs_exists fs (join_path [path, ''Cargo.toml'']) \<Longrightarrow> type_ok fs path ''rust''"
  using supported_literals by (simp add: type_ok_def Validate_def)

lemma type_ok_java:
  "fs_exists fs (join_path [path, ''pom.xml'']) \<or> fs_exists fs (join_path [path, ''build.gradle'']) \<or>
   fs_exists fs (join_path [path, ''build.gradle.kts'']) \<Longrightarrow> type_ok fs path ''java''"
  using supported_literals by (simp add: type_ok_def Validate_def)

lemma det_type_if:
  "(b \<Longrightarrow> type_ok fs path (det_type x)) \<Longrightarrow> (\<not> b \<Longrightarrow> type_ok fs path (det_type y)) \<Longrightarrow>
    type_ok fs path (det_type (if b then x else y))"
  by simp

lemma Detect_type_ok: "type_ok fs path (det_type (Detect decode fs path))"
proof (cases "readPackageManifest decode fs (join_path [path, ''package.json''])")
  case None
  show ?thesis
    unfolding Detect_def Let_def None option.case
    by (intro det_type_if; unfold detection.select_convs;
        (rule type_ok_custom | erule type_ok_go type_ok_rust type_ok_java))
next
  case (Some m)
  have node: "type_ok fs path ''static''" "type_ok fs path ''angular_static''" "type_ok fs path ''node_ssr''"
    "type_ok fs path ''vite_ssr''" "type_ok fs path ''astro_static''" "type_ok fs path ''astro_ssr''"
    "type_ok fs path ''nuxt_static''" "type_ok fs path ''nuxt_ssr''" "type_ok fs path ''svelte_static''"
    "type_ok fs path ''svelte_ssr''" "type_ok fs path ''nextjs''"
    by (rule type_ok_node [OF Some]; simp add: node_types_def)+
  show ?thesis
    unfolding Detect_def Let_def Some option.case
    by (intro det_type_if; unfold detection.select_convs;
        (rule node type_ok_custom | erule type_ok_go type_ok_rust type_ok_java))
qed

text \<open>
  A project is only ever detected as a supported type, and unless it is custom its directory
  meets the minimum requirements of the detected type.
\<close>

theorem detected_type_validates:
  "IsSupported (det_type (Detect decode fs path)) \<and>
   (det_type (Detect decode fs path) = ''custom'' \<or> Validate fs path (det_type (Detect decode fs path)) = [])"
  using Detect_type_ok unfolding type_ok_def .

end
