(* ===== verification/Executor_Base.thy ===== *)
theory Executor_Base
  imports Runtime Db "HOL-Library.State_Monad"
begin

text \<open>
  What the deployer (\<^verbatim>\<open>internal/deploy/executor.go\<close>) exchanges with its
  surroundings. Docker, Git, Caddy, the file system, the clock and the request context are not
  part of MiniDock: they are the \<open>world\<close>, which answers every action and may take the whole
  history of actions into account, so nothing is assumed about them beyond what a theorem states.
  A computation of the deployer runs in the state monad over that history; the history is the
  trace the safety properties speak about. Text written to the release log is not part of the
  trace.
\<close>

section \<open>Actions and the world\<close>

datatype disk_call =
    MkdirAll string
  | Stat string
  | EvalSymlinks string
  | ReadFile string
  | WriteFile string string
  | RemoveFile string
  | CreateTemp string string
  | Chmod string
  | FileWrite string string
  | FileClose string
  | ReadDir string
  | LookPath string
  | Mkdir string
  | MkdirTemp string
  | RemoveAll string
  | OpenFile string

datatype action =
    Exec string "string list" "(string \<times> string) list"
  | HttpCall string string "(string \<times> string) list" string
  | ReadClock
  | Sleep duration
  | Disk disk_call
  | WalkTree string
  | Statfs string
  | ReadProject string
  | StageChange string
  | Event string string string
  | Took string duration
  | TlsDial string
  | LookupCNAME string
  | Hostname
  | PutObject string string string
  | Sqlite string string

type_synonym history = "action list"

record http_response =
  hr_status :: int
  hr_status_text :: string
  hr_body :: string
  hr_read_error :: "string option"
  hr_location :: "(string \<times> string \<times> string) option"

record docker_network =
  dn_name :: string
  dn_driver :: string
  dn_internal :: bool
  dn_subnets :: "string list"

text \<open>
  A directory tree as \<^verbatim>\<open>filepath.WalkDir\<close> meets it: an entry that cannot be
  listed or described carries its error.
\<close>

datatype tree =
    Regular string string
  | Special string
  | Folder string "tree list"
  | Unreadable string string

text \<open>
  A failed call answers with its error text on the left; the output it printed all the same is
  \<open>w_printed\<close>. \<open>w_sleep\<close> answers with the error of the context when the context
  ended before the timer. \<open>w_tree\<close>, \<open>w_statfs\<close> (blocks, available blocks and block
  size) and \<open>w_files\<close> describe the file system at that moment. The remaining fields do not
  depend on the history: the environment variables, the decoders of packages
  \<^verbatim>\<open>encoding/json\<close>, \<^verbatim>\<open>net/url\<close>, \<^verbatim>\<open>encoding/pem\<close> and
  \<^verbatim>\<open>crypto/x509\<close>, the SHA-256 hash as hexadecimal text, the RSA signature, and
  the text of a rounded duration and of a quotient with two decimals.
\<close>

record world =
  w_exec :: "history \<Rightarrow> string \<Rightarrow> string list \<Rightarrow> (string \<times> string) list \<Rightarrow> string + string"
  w_printed :: "history \<Rightarrow> string \<Rightarrow> string list \<Rightarrow> string"
  w_http :: "history \<Rightarrow> string \<Rightarrow> string \<Rightarrow> (string \<times> string) list \<Rightarrow> string \<Rightarrow> string + http_response"
  w_now :: "history \<Rightarrow> time"
  w_sleep :: "history \<Rightarrow> duration \<Rightarrow> string option"
  w_disk :: "history \<Rightarrow> disk_call \<Rightarrow> string + string"
  w_tree :: "history \<Rightarrow> string \<Rightarrow> tree"
  w_statfs :: "history \<Rightarrow> string \<Rightarrow> (nat \<times> nat \<times> nat) option"
  w_files :: "history \<Rightarrow> file_system"
  w_getenv :: "string \<Rightarrow> string"
  w_networks :: "string \<Rightarrow> docker_network list option"
  w_route :: "string \<Rightarrow> string + (string \<times> string list) list"
  w_manifest :: "string \<Rightarrow> package_manifest option"
  w_token :: "string \<Rightarrow> string option"
  w_url :: "string \<Rightarrow> string + (string \<times> string \<times> string)"
  w_pem :: "string \<Rightarrow> string option"
  w_pkcs1 :: "string \<Rightarrow> string option"
  w_pkcs8 :: "string \<Rightarrow> string + (bool \<times> string)"
  w_sha256 :: "string \<Rightarrow> string"
  w_sign :: "string \<Rightarrow> string \<Rightarrow> string + string"
  w_duration :: "duration \<Rightarrow> string"
  w_quotient :: "int \<Rightarrow> int \<Rightarrow> string"

type_synonym 'a prog = "(history, 'a) state"

definition perform :: "action \<Rightarrow> (history \<Rightarrow> 'a) \<Rightarrow> 'a prog" where
  "perform a answer = State (\<lambda>h. (answer h, a # h))"

definition exec_cmd :: "world \<Rightarrow> string \<Rightarrow> string list \<Rightarrow> (string \<times> string) list \<Rightarrow> (string + string) prog" where
  "exec_cmd w name args env = perform (Exec name args env) (\<lambda>h. w_exec w h name args env)"

definition combined_output :: "world \<Rightarrow> string \<Rightarrow> string list \<Rightarrow> ((string + string) \<times> string) prog" where
  "combined_output w name args = perform (Exec name args []) (\<lambda>h. (w_exec w h name args [], w_printed w h name args))"

definition http_do ::
    "world \<Rightarrow> string \<Rightarrow> string \<Rightarrow> (string \<times> string) list \<Rightarrow> string \<Rightarrow> (string + http_response) prog" where
  "http_do w meth url headers body = perform (HttpCall meth url headers body) (\<lambda>h. w_http w h meth url headers body)"

definition now :: "world \<Rightarrow> time prog" where
  "now w = perform ReadClock (w_now w)"

definition sleep :: "world \<Rightarrow> duration \<Rightarrow> string option prog" where
  "sleep w d = perform (Sleep d) (\<lambda>h. w_sleep w h d)"

definition disk :: "world \<Rightarrow> disk_call \<Rightarrow> (string + string) prog" where
  "disk w c = perform (Disk c) (\<lambda>h. w_disk w h c)"

definition notify :: "action \<Rightarrow> unit prog" where
  "notify a = perform a (\<lambda>_. ())"

text \<open>
  The stage tracker may be absent from the context (\<open>tracked = False\<close>); with one, stage
  changes and events reach the callbacks of the queue worker.
\<close>

definition on_stage :: "bool \<Rightarrow> string \<Rightarrow> unit prog" where
  "on_stage tracked stage = (if tracked then notify (StageChange stage) else State_Monad.return ())"

definition on_event :: "bool \<Rightarrow> string \<Rightarrow> string \<Rightarrow> string \<Rightarrow> unit prog" where
  "on_event tracked stage kind message = (if tracked then notify (Event stage kind message) else State_Monad.return ())"

definition took :: "bool \<Rightarrow> string \<Rightarrow> duration \<Rightarrow> unit prog" where
  "took tracked stage d = (if tracked then notify (Took stage d) else State_Monad.return ())"

text \<open>\<^verbatim>\<open>os.IsNotExist\<close> on the text of the error that wraps ENOENT.\<close>

definition is_not_exist :: "string \<Rightarrow> bool" where
  "is_not_exist err = has_suffix err ''no such file or directory''"

section \<open>Errors\<close>

text \<open>
  An error is a plain text or a classified \<^verbatim>\<open>Failure\<close>; \<open>Diverged\<close> is not an
  error of the program but the answer of a polling loop whose fuel ran out.
\<close>

datatype dep_error =
    Plain string
  | Failure string string string
  | Diverged

fun detail_text :: "dep_error \<Rightarrow> string" where
  "detail_text (Plain t) = t"
| "detail_text (Failure stage code t) = t"
| "detail_text Diverged = ''''"

definition failure :: "string \<Rightarrow> string \<Rightarrow> dep_error \<Rightarrow> dep_error" where
  "failure stage code e = (if e = Diverged then Diverged else Failure stage code (detail_text e))"

fun FailureDetails :: "dep_error option \<Rightarrow> string \<times> string \<times> string" where
  "FailureDetails None = ('''', '''', '''')"
| "FailureDetails (Some (Failure stage code t)) = (stage, code, t)"
| "FailureDetails (Some (Plain t)) = (''start'', ''runtime_error'', t)"
| "FailureDetails (Some Diverged) = (''start'', ''runtime_error'', '''')"

section \<open>The executor\<close>

record executor =
  ex_workspace :: string
  ex_log_path :: string
  ex_network :: string
  ex_network_subnet :: string
  ex_runtime :: string
  ex_local_repositories :: string
  ex_github_app_id :: string
  ex_github_key_path :: string
  ex_github_api_url :: string
  ex_proxy_url :: string
  ex_caddy_admin_url :: string
  ex_expected_status :: int
  ex_expected_content :: string
  ex_source_timeout :: duration
  ex_build_timeout :: duration
  ex_start_timeout :: duration
  ex_health_timeout :: duration
  ex_workspace_max_bytes :: int

definition sourceTimeout :: "executor \<Rightarrow> duration" where
  "sourceTimeout e = (if ex_source_timeout e > 0 then ex_source_timeout e else 5 * minute)"

definition buildTimeout :: "executor \<Rightarrow> duration" where
  "buildTimeout e = (if ex_build_timeout e > 0 then ex_build_timeout e else 20 * minute)"

definition startTimeout :: "executor \<Rightarrow> duration" where
  "startTimeout e = (if ex_start_timeout e > 0 then ex_start_timeout e else 2 * minute)"

definition healthTimeout :: "executor \<Rightarrow> duration" where
  "healthTimeout e = (if ex_health_timeout e > 0 then ex_health_timeout e else 30 * second)"

section \<open>Names and values\<close>

definition lower_or_digit :: "char \<Rightarrow> bool" where
  "lower_or_digit c \<longleftrightarrow> CHR ''a'' \<le> c \<and> c \<le> CHR ''z'' \<or> is_digit c"

text \<open>\<^verbatim>\<open>^[a-z0-9][a-z0-9-]{0,62}$\<close> and \<^verbatim>\<open>^[A-Za-z_][A-Za-z0-9_]*$\<close>.\<close>

definition safeName :: "string \<Rightarrow> bool" where
  "safeName s \<longleftrightarrow> s \<noteq> [] \<and> length s \<le> 63 \<and> lower_or_digit (hd s) \<and>
     list_all (\<lambda>c. lower_or_digit c \<or> c = CHR ''-'') (tl s)"

definition is_alpha :: "char \<Rightarrow> bool" where
  "is_alpha c \<longleftrightarrow> CHR ''a'' \<le> lower_char c \<and> lower_char c \<le> CHR ''z''"

definition safeEnvironmentName :: "string \<Rightarrow> bool" where
  "safeEnvironmentName s \<longleftrightarrow> s \<noteq> [] \<and> (is_alpha (hd s) \<or> hd s = CHR ''_'') \<and>
     list_all (\<lambda>c. is_alpha c \<or> is_digit c \<or> c = CHR ''_'') (tl s)"

definition is_hex :: "char \<Rightarrow> bool" where
  "is_hex c \<longleftrightarrow> is_digit c \<or> CHR ''a'' \<le> c \<and> c \<le> CHR ''f'' \<or> CHR ''A'' \<le> c \<and> c \<le> CHR ''F''"

definition isCommitSHA :: "string \<Rightarrow> bool" where
  "isCommitSHA v \<longleftrightarrow> length v = 40 \<and> list_all is_hex v"

text \<open>Maps of configuration values, as association lists without repeated names.\<close>

type_synonym str_map = "(string \<times> string) list"

definition sortedNames :: "str_map \<Rightarrow> string list" where
  "sortedNames values = sort (remdups (map fst values))"

definition lookup :: "str_map \<Rightarrow> string \<Rightarrow> string" where
  "lookup m k = (case map_of m k of None \<Rightarrow> '''' | Some v \<Rightarrow> v)"

section \<open>Network addresses\<close>

definition octet :: "string \<Rightarrow> bool" where
  "octet s \<longleftrightarrow> s \<noteq> [] \<and> list_all is_digit s \<and> read_nat s \<le> 255 \<and> (length s = 1 \<or> hd s \<noteq> CHR ''0'') \<and> length s \<le> 3"

definition is_ipv4 :: "string \<Rightarrow> bool" where
  "is_ipv4 s \<longleftrightarrow> length (split_on CHR ''.'' s) = 4 \<and> list_all octet (split_on CHR ''.'' s)"

definition hex_group :: "string \<Rightarrow> bool" where
  "hex_group s \<longleftrightarrow> s \<noteq> [] \<and> length s \<le> 4 \<and> list_all is_hex s"

text \<open>The number of 16-bit groups of one side of an IPv6 address; the last may be an IPv4 address.\<close>

definition ipv6_groups :: "bool \<Rightarrow> string \<Rightarrow> nat option" where
  "ipv6_groups ends s =
     (if s = [] then Some 0
      else let gs = split_on CHR '':'' s
      in if ends \<and> is_ipv4 (last gs) \<and> list_all hex_group (butlast gs) then Some (length gs + 1)
         else if list_all hex_group gs then Some (length gs) else None)"

fun cut_double_colon :: "string \<Rightarrow> (string \<times> string) option" where
  "cut_double_colon (a # b # s) =
     (if a = CHR '':'' \<and> b = CHR '':'' then Some ([], s)
      else map_option (\<lambda>(l, r). (a # l, r)) (cut_double_colon (b # s)))"
| "cut_double_colon s = None"

definition is_ipv6 :: "string \<Rightarrow> bool" where
  "is_ipv6 s \<longleftrightarrow>
     (case cut_double_colon s of
        None \<Rightarrow> ipv6_groups True s = Some 8
      | Some (l, r) \<Rightarrow>
          (case (ipv6_groups False l, ipv6_groups True r) of
             (Some m, Some n) \<Rightarrow> m + n \<le> 7 | _ \<Rightarrow> False))"

definition ParseIP :: "string \<Rightarrow> bool" where
  "ParseIP s \<longleftrightarrow> is_ipv4 s \<or> CHR '':'' \<in> set s \<and> is_ipv6 s"

definition JoinHostPort :: "string \<Rightarrow> string \<Rightarrow> string" where
  "JoinHostPort host port =
     (if CHR '':'' \<in> set host then ''['' @ host @ '']:'' @ port else host @ '':'' @ port)"

fun last_index :: "char \<Rightarrow> string \<Rightarrow> nat option" where
  "last_index c [] = None"
| "last_index c (x # xs) =
     (case last_index c xs of Some i \<Rightarrow> Some (Suc i) | None \<Rightarrow> if x = c then Some 0 else None)"

fun first_index :: "char \<Rightarrow> string \<Rightarrow> nat option" where
  "first_index c [] = None"
| "first_index c (x # xs) = (if x = c then Some 0 else map_option Suc (first_index c xs))"

definition SplitHostPort :: "string \<Rightarrow> (string \<times> string) option" where
  "SplitHostPort s =
     (case last_index CHR '':'' s of
        None \<Rightarrow> None
      | Some i \<Rightarrow>
          if has_prefix s ''['' then
            (case first_index CHR '']'' s of
               None \<Rightarrow> None
             | Some e \<Rightarrow>
                 if e + 1 \<noteq> i \<or> CHR ''['' \<in> set (drop 1 s) \<or> CHR '']'' \<in> set (drop (e + 1) s) then None
                 else Some (take (e - 1) (drop 1 s), drop (i + 1) s))
          else if CHR '':'' \<in> set (take i s) \<or> CHR ''['' \<in> set s \<or> CHR '']'' \<in> set s then None
          else Some (take i s, drop (i + 1) s))"

section \<open>JSON text\<close>

definition hex_digit :: "nat \<Rightarrow> char" where
  "hex_digit d = (if d < 10 then char_of (48 + d) else char_of (87 + d))"

text \<open>A string as \<^verbatim>\<open>encoding/json\<close> writes it, with its HTML escapes.\<close>

definition json_char :: "char \<Rightarrow> string" where
  "json_char c =
     (let n = (of_char c :: nat) in
      if c = CHR 0x22 then [CHR 0x5C, CHR 0x22] else if c = CHR 0x5C then [CHR 0x5C, CHR 0x5C]
      else if n = 8 then [CHR 0x5C] @ ''b'' else if n = 9 then [CHR 0x5C] @ ''t''
      else if n = 10 then [CHR 0x5C] @ ''n'' else if n = 12 then [CHR 0x5C] @ ''f''
      else if n = 13 then [CHR 0x5C] @ ''r''
      else if n < 32 \<or> c = CHR ''<'' \<or> c = CHR ''>'' \<or> c = CHR ''&''
      then [CHR 0x5C] @ ''u00'' @ [hex_digit (n div 16), hex_digit (n mod 16)] else [c])"

definition json_string :: "string \<Rightarrow> string" where
  "json_string s = [CHR 0x22] @ concat (map json_char s) @ [CHR 0x22]"

end
