(* ===== verification/Executor_Logic.thy ===== *)
theory Executor_Logic
  imports Executor_Base
begin

text \<open>
  Reasoning about computations of the deployer. \<open>ensures m Q h\<close> is the weakest precondition
  of a computation started with history \<open>h\<close>; \<open>emits P m\<close> says that whatever the world
  answers, every action of \<open>m\<close> satisfies \<open>P\<close>; \<open>emits_when C P m\<close> promises this
  only for the runs whose result satisfies \<open>C\<close>; \<open>yields Y m\<close> bounds the results.
  The rules in the collections \<open>emits_rules\<close> and \<open>yields_rules\<close> follow the syntax of
  the monad.
\<close>

named_theorems emits_rules
named_theorems yields_rules
named_theorems wp_simps

definition ensures :: "'a prog \<Rightarrow> ('a \<Rightarrow> history \<Rightarrow> bool) \<Rightarrow> history \<Rightarrow> bool" where
  "ensures m Q h = (case run_state m h of (x, h') \<Rightarrow> Q x h')"

definition emits :: "(action \<Rightarrow> bool) \<Rightarrow> 'a prog \<Rightarrow> bool" where
  "emits P m \<longleftrightarrow> (\<forall>h. \<exists>t. snd (run_state m h) = t @ h \<and> list_all P t)"

definition yields :: "('a \<Rightarrow> bool) \<Rightarrow> 'a prog \<Rightarrow> bool" where
  "yields Y m \<longleftrightarrow> (\<forall>h. Y (fst (run_state m h)))"

definition emits_when :: "('a \<Rightarrow> bool) \<Rightarrow> (action \<Rightarrow> bool) \<Rightarrow> 'a prog \<Rightarrow> bool" where
  "emits_when C P m \<longleftrightarrow>
     (\<forall>h. \<exists>t. snd (run_state m h) = t @ h \<and> (C (fst (run_state m h)) \<longrightarrow> list_all P t))"

section \<open>Running the monad\<close>

lemma run_bind [simp]:
  "run_state (State_Monad.bind m f) h = (case run_state m h of (x, h') \<Rightarrow> run_state (f x) h')"
  by (simp add: State_Monad.bind_def)

lemma run_return [simp]: "run_state (State_Monad.return x) h = (x, h)"
  by (simp add: State_Monad.return_def)

lemma run_perform [simp]: "run_state (perform a answer) h = (answer h, a # h)"
  by (simp add: perform_def)

lemmas action_defs = exec_cmd_def combined_output_def http_do_def now_def sleep_def disk_def notify_def
  on_stage_def on_event_def took_def

section \<open>Weakest preconditions\<close>

lemma ensures_return [simp, wp_simps]: "ensures (State_Monad.return x) Q h \<longleftrightarrow> Q x h"
  by (simp add: ensures_def)

lemma ensures_bind [simp, wp_simps]:
  "ensures (State_Monad.bind m f) Q h \<longleftrightarrow> ensures m (\<lambda>x. ensures (f x) Q) h"
  by (simp add: ensures_def split: prod.splits)

lemma ensures_perform [simp, wp_simps]: "ensures (perform a answer) Q h \<longleftrightarrow> Q (answer h) (a # h)"
  by (simp add: ensures_def)

lemma ensures_if [wp_simps]:
  "ensures (if b then m else m') Q h \<longleftrightarrow> (if b then ensures m Q h else ensures m' Q h)"
  by simp

lemma ensures_mono: "ensures m Q h \<Longrightarrow> (\<And>x h'. Q x h' \<Longrightarrow> R x h') \<Longrightarrow> ensures m R h"
  by (auto simp: ensures_def split: prod.splits)

lemma ensures_conj: "ensures m (\<lambda>x h'. Q x h' \<and> R x h') h \<longleftrightarrow> ensures m Q h \<and> ensures m R h"
  by (auto simp: ensures_def split: prod.splits)

lemma ensures_run: "ensures m Q h \<Longrightarrow> Q (fst (run_state m h)) (snd (run_state m h))"
  by (auto simp: ensures_def split: prod.splits)

lemma run_ensures: "Q (fst (run_state m h)) (snd (run_state m h)) \<Longrightarrow> ensures m Q h"
  by (auto simp: ensures_def split: prod.splits)

lemma ensures_yields: "yields Y m \<Longrightarrow> (\<And>x h'. Y x \<Longrightarrow> Q x h') \<Longrightarrow> ensures m Q h"
  by (auto simp: ensures_def yields_def split: prod.splits dest: spec [of _ h])

lemma emits_ensures: "emits P m \<Longrightarrow> ensures m (\<lambda>x h'. \<exists>t. h' = t @ h \<and> list_all P t) h"
  by (auto simp: ensures_def emits_def split: prod.splits dest: spec [of _ h])

section \<open>Actions emitted\<close>

lemma emits_return [emits_rules]: "emits P (State_Monad.return x)"
  by (simp add: emits_def)

lemma emits_perform [emits_rules]: "P a \<Longrightarrow> emits P (perform a answer)"
  by (simp add: emits_def)

lemma emits_bind [emits_rules]:
  assumes m: "emits P m" and f: "\<And>x. emits P (f x)"
  shows "emits P (State_Monad.bind m f)"
  unfolding emits_def
proof
  fix h
  obtain x h1 where 1: "run_state m h = (x, h1)" by fastforce
  with m obtain t where t: "h1 = t @ h" "list_all P t" unfolding emits_def by (metis snd_conv)
  from f [of x] obtain u where u: "snd (run_state (f x) h1) = u @ h1" "list_all P u"
    unfolding emits_def by blast
  from 1 t u show "\<exists>t. snd (run_state (State_Monad.bind m f) h) = t @ h \<and> list_all P t"
    by (intro exI [of _ "u @ t"]) simp
qed

lemma emits_if [emits_rules]: "(b \<Longrightarrow> emits P m) \<Longrightarrow> (\<not> b \<Longrightarrow> emits P m') \<Longrightarrow> emits P (if b then m else m')"
  by simp

lemma emits_option [emits_rules]:
  "(r = None \<Longrightarrow> emits P m) \<Longrightarrow> (\<And>x. r = Some x \<Longrightarrow> emits P (f x)) \<Longrightarrow> emits P (case r of None \<Rightarrow> m | Some x \<Rightarrow> f x)"
  by (cases r) auto

lemma emits_sum [emits_rules]:
  "(\<And>x. r = Inl x \<Longrightarrow> emits P (f x)) \<Longrightarrow> (\<And>x. r = Inr x \<Longrightarrow> emits P (g x)) \<Longrightarrow> emits P (case r of Inl x \<Rightarrow> f x | Inr x \<Rightarrow> g x)"
  by (cases r) auto

lemma emits_prod [emits_rules]: "(\<And>x y. r = (x, y) \<Longrightarrow> emits P (f x y)) \<Longrightarrow> emits P (case r of (x, y) \<Rightarrow> f x y)"
  by (cases r) auto

lemma emits_Let [emits_rules]: "(\<And>x. x = v \<Longrightarrow> emits P (f x)) \<Longrightarrow> emits P (Let v f)"
  by simp

lemma emits_mono: "emits P m \<Longrightarrow> (\<And>a. P a \<Longrightarrow> P' a) \<Longrightarrow> emits P' m"
  unfolding emits_def by (metis list_all_iff)

section \<open>Results and conditional promises\<close>

lemma yields_return [yields_rules]: "Y x \<Longrightarrow> yields Y (State_Monad.return x)"
  by (simp add: yields_def)

lemma yields_bind [yields_rules]: "(\<And>x. yields Y (f x)) \<Longrightarrow> yields Y (State_Monad.bind m f)"
  by (simp add: yields_def split: prod.splits)

lemma yields_if [yields_rules]: "(b \<Longrightarrow> yields P m) \<Longrightarrow> (\<not> b \<Longrightarrow> yields P m') \<Longrightarrow> yields P (if b then m else m')"
  by simp

lemma yields_option [yields_rules]:
  "(r = None \<Longrightarrow> yields P m) \<Longrightarrow> (\<And>x. r = Some x \<Longrightarrow> yields P (f x)) \<Longrightarrow> yields P (case r of None \<Rightarrow> m | Some x \<Rightarrow> f x)"
  by (cases r) auto

lemma yields_sum [yields_rules]:
  "(\<And>x. r = Inl x \<Longrightarrow> yields P (f x)) \<Longrightarrow> (\<And>x. r = Inr x \<Longrightarrow> yields P (g x)) \<Longrightarrow> yields P (case r of Inl x \<Rightarrow> f x | Inr x \<Rightarrow> g x)"
  by (cases r) auto

lemma emits_when_all: "emits P m \<Longrightarrow> emits_when C P m"
  by (auto simp: emits_def emits_when_def)

lemma emits_when_never: "emits Q m \<Longrightarrow> yields (\<lambda>x. \<not> C x) m \<Longrightarrow> emits_when C P m"
  unfolding emits_def emits_when_def yields_def by blast

lemma emits_when_bind:
  assumes m: "emits P m" and f: "\<And>x. emits_when C P (f x)"
  shows "emits_when C P (State_Monad.bind m f)"
  unfolding emits_when_def
proof
  fix h
  obtain x h1 where 1: "run_state m h = (x, h1)" by fastforce
  with m obtain t where t: "h1 = t @ h" "list_all P t" unfolding emits_def by (metis snd_conv)
  from f [of x] obtain u where u: "snd (run_state (f x) h1) = u @ h1"
    "C (fst (run_state (f x) h1)) \<longrightarrow> list_all P u"
    unfolding emits_when_def by blast
  from 1 t u show "\<exists>t. snd (run_state (State_Monad.bind m f) h) = t @ h \<and>
      (C (fst (run_state (State_Monad.bind m f) h)) \<longrightarrow> list_all P t)"
    by (intro exI [of _ "u @ t"]) simp
qed

lemma emits_when_option:
  "(r = None \<Longrightarrow> emits_when C P m) \<Longrightarrow> (\<And>x. r = Some x \<Longrightarrow> emits_when C P (f x)) \<Longrightarrow>
   emits_when C P (case r of None \<Rightarrow> m | Some x \<Rightarrow> f x)"
  by (cases r) auto

lemma emits_when_sum:
  "(\<And>x. r = Inl x \<Longrightarrow> emits_when C P (f x)) \<Longrightarrow> (\<And>x. r = Inr x \<Longrightarrow> emits_when C P (g x)) \<Longrightarrow>
   emits_when C P (case r of Inl x \<Rightarrow> f x | Inr x \<Rightarrow> g x)"
  by (cases r) auto

lemma emits_when_if:
  "(b \<Longrightarrow> emits_when C P m) \<Longrightarrow> (\<not> b \<Longrightarrow> emits_when C P m') \<Longrightarrow> emits_when C P (if b then m else m')"
  by simp

lemma emits_when_Let: "(\<And>x. x = v \<Longrightarrow> emits_when C P (f x)) \<Longrightarrow> emits_when C P (Let v f)"
  by simp

lemma emits_whenD:
  "emits_when C P m \<Longrightarrow> C (fst (run_state m h)) \<Longrightarrow> \<exists>t. snd (run_state m h) = t @ h \<and> list_all P t"
  unfolding emits_when_def by blast

text \<open>A result that is known may be used in what follows.\<close>

lemma yields_bind_via:
  "yields X m \<Longrightarrow> (\<And>x. X x \<Longrightarrow> yields Y (f x)) \<Longrightarrow> yields Y (State_Monad.bind m f)"
  by (auto simp: yields_def split: prod.splits) (metis fst_conv)

lemma emits_bind_via:
  assumes m: "emits P m" "yields X m" and f: "\<And>x. X x \<Longrightarrow> emits P (f x)"
  shows "emits P (State_Monad.bind m f)"
proof -
  have "emits P (State_Monad.bind m (\<lambda>x. if X x then f x else State_Monad.return undefined))"
    by (intro emits_bind m emits_if emits_return f)
  moreover have "State_Monad.bind m (\<lambda>x. if X x then f x else State_Monad.return undefined) = State_Monad.bind m f"
    using m(2) by (intro state_ext) (auto simp: yields_def split: prod.splits, metis fst_conv)
  ultimately show ?thesis by simp
qed

end
