(* ===== verification/Executor_Caddy.thy ===== *)
theory Executor_Caddy
  imports Executor_Logic
begin

text \<open>
  The reverse proxy of \<^verbatim>\<open>internal/deploy/executor.go\<close>: the client of Caddy's
  private Admin API (\<^verbatim>\<open>caddyClient\<close>), which replaces one route by its id and reads
  it back, and \<^verbatim>\<open>CaddyProxyAdapter\<close>, which probes the public route until it
  answers as configured or the health timeout passes. The probe loop takes fuel; theorem
  \<open>verify_returns\<close> of \<open>Executor_Props\<close> gives a fuel that is always enough.
\<close>

section \<open>Host names and status\<close>

definition routeServerName :: "string \<Rightarrow> string" where
  "routeServerName domain =
     (let domain = trim_space domain
      in case SplitHostPort domain of
           Some (host, port) \<Rightarrow> trim_suffix host ''.''
         | None \<Rightarrow> trim_suffix domain ''.'')"

definition expectedProxyStatus :: "executor \<Rightarrow> int" where
  "expectedProxyStatus e = (if ex_expected_status e > 0 then ex_expected_status e else 200)"

definition validCaddyHTTPSRedirect :: "http_response \<Rightarrow> application \<Rightarrow> string \<Rightarrow> bool" where
  "validCaddyHTTPSRedirect response a endpoint =
     (if hr_status response \<noteq> 308 then False
      else case hr_location response of
          None \<Rightarrow> False
        | Some (scheme, host, path) \<Rightarrow>
            if scheme \<noteq> ''https'' \<or> path \<noteq> endpoint then False
            else to_lower (routeServerName host) = to_lower (routeServerName (app_domain a)))"

section \<open>Routes\<close>

definition caddyRouteID :: "int \<Rightarrow> string" where
  "caddyRouteID applicationID = ''minidock-app-'' @ show_int applicationID"

definition endpoint :: "world \<Rightarrow> string \<Rightarrow> string \<Rightarrow> dep_error + string" where
  "endpoint w baseURL path =
     (let base = trim_right (\<lambda>c. c = CHR ''/'') (trim_space baseURL)
      in if base = '''' then Inl (Plain ''Caddy Admin API URL is not configured'')
         else case w_url w base of
             Inl _ \<Rightarrow> Inl (Plain ''invalid Caddy Admin API URL'')
           | Inr (scheme, host, _) \<Rightarrow>
               if scheme \<noteq> ''http'' \<or> host = '''' then Inl (Plain ''invalid Caddy Admin API URL'')
               else Inr (base @ path))"

text \<open>
  \<^verbatim>\<open>http.NewRequestWithContext\<close> followed by \<^verbatim>\<open>Do\<close>: a URL that does not
  parse fails before anything is sent.
\<close>

datatype sent = BadRequest string | NoAnswer string | Answer http_response

definition send ::
    "world \<Rightarrow> string \<Rightarrow> string \<Rightarrow> (string \<times> string) list \<Rightarrow> string \<Rightarrow> sent prog" where
  "send w meth url headers body =
     (case w_url w url of
        Inl err \<Rightarrow> State_Monad.return (BadRequest err)
      | Inr _ \<Rightarrow> do {
          r \<leftarrow> http_do w meth url headers body;
          State_Monad.return (case r of Inl err \<Rightarrow> NoAnswer err | Inr response \<Rightarrow> Answer response)
        })"

definition ok_status :: "http_response \<Rightarrow> bool" where
  "ok_status response \<longleftrightarrow> hr_status response \<ge> 200 \<and> hr_status response < 300"

definition body_limit :: nat where
  "body_limit = 65536"

definition quoted :: "string \<Rightarrow> string" where
  "quoted s = [CHR 0x22] @ s @ [CHR 0x22]"

definition has_upstream :: "(string \<times> string list) list \<Rightarrow> string \<Rightarrow> bool" where
  "has_upstream handle target =
     list_ex (\<lambda>(handler, dials). handler = ''reverse_proxy'' \<and> list_ex (\<lambda>dial. dial = target) dials) handle"

definition verifyRouteTarget ::
    "world \<Rightarrow> string \<Rightarrow> string \<Rightarrow> string \<Rightarrow> dep_error option prog" where
  "verifyRouteTarget w baseURL endpointOrPath target =
     (case (if has_prefix endpointOrPath ''/'' then endpoint w baseURL endpointOrPath else Inr endpointOrPath) of
        Inl err \<Rightarrow> State_Monad.return (Some err)
      | Inr url \<Rightarrow> do {
          r \<leftarrow> send w ''GET'' url [] '''';
          State_Monad.return (case r of
              BadRequest err \<Rightarrow> Some (Plain err)
            | NoAnswer err \<Rightarrow> Some (Plain (''read applied Caddy route: '' @ err))
            | Answer response \<Rightarrow>
                if \<not> ok_status response
                then Some (Plain (''read applied Caddy route: HTTP '' @ show_int (hr_status response)))
                else (case w_route w (take body_limit (hr_body response)) of
                    Inl err \<Rightarrow> Some (Plain (''decode applied Caddy route: '' @ err))
                  | Inr handle \<Rightarrow>
                      if has_upstream handle target then None
                      else Some (Plain (''Caddy route did not retain candidate upstream '' @ quoted target))))
        })"

text \<open>The JSON text of the route, with the keys of every object in order.\<close>

definition route_body :: "application \<Rightarrow> string \<Rightarrow> string" where
  "route_body a target =
     ''{'' @ json_string ''@id'' @ '':'' @ json_string (caddyRouteID (app_id a)) @ '','' @
     json_string ''handle'' @ '':[{'' @ json_string ''handler'' @ '':'' @ json_string ''reverse_proxy'' @ '','' @
     json_string ''upstreams'' @ '':[{'' @ json_string ''dial'' @ '':'' @ json_string target @ ''}]}],'' @
     json_string ''match'' @ '':[{'' @ json_string ''host'' @ '':['' @ json_string (app_domain a) @ '']}]}''"

definition json_header :: "(string \<times> string) list" where
  "json_header = [(''Content-Type'', ''application/json'')]"

definition UpsertRoute :: "world \<Rightarrow> string \<Rightarrow> application \<Rightarrow> string \<Rightarrow> dep_error option prog" where
  "UpsertRoute w baseURL a target =
     (let body = route_body a target; path = ''/id/'' @ caddyRouteID (app_id a)
      in case endpoint w baseURL path of
           Inl err \<Rightarrow> State_Monad.return (Some err)
         | Inr url \<Rightarrow> do {
             r \<leftarrow> send w ''PATCH'' url json_header body;
             case r of
               BadRequest err \<Rightarrow> State_Monad.return (Some (Plain err))
             | NoAnswer err \<Rightarrow> State_Monad.return (Some (Plain (''replace Caddy route: '' @ err)))
             | Answer response \<Rightarrow>
                 if ok_status response then verifyRouteTarget w baseURL url target
                 else if hr_status response \<noteq> 404
                 then State_Monad.return (Some (Plain (''replace Caddy route: HTTP '' @ show_int (hr_status response))))
                 else (case endpoint w baseURL ''/config/apps/http/servers/srv0/routes'' of
                     Inl err \<Rightarrow> State_Monad.return (Some err)
                   | Inr url' \<Rightarrow> do {
                       r' \<leftarrow> send w ''POST'' url' json_header body;
                       case r' of
                         BadRequest err \<Rightarrow> State_Monad.return (Some (Plain err))
                       | NoAnswer err \<Rightarrow> State_Monad.return (Some (Plain (''create Caddy route: '' @ err)))
                       | Answer response' \<Rightarrow>
                           if \<not> ok_status response'
                           then State_Monad.return (Some (Plain (''create Caddy route: HTTP '' @ show_int (hr_status response'))))
                           else verifyRouteTarget w baseURL path target
                     })
           })"

definition Apply :: "world \<Rightarrow> executor \<Rightarrow> application \<Rightarrow> string \<Rightarrow> dep_error option prog" where
  "Apply w e a target =
     (if trim_space target = '''' then State_Monad.return (Some (Plain ''caddy target is empty''))
      else UpsertRoute w (ex_caddy_admin_url e) a target)"

section \<open>Probing the public route\<close>

record route_probe =
  rp_success :: bool
  rp_status_code :: int
  rp_checked_at :: time
  rp_observer :: string
  rp_detail :: string

definition proxy_url :: "executor \<Rightarrow> string" where
  "proxy_url e = (if ex_proxy_url e = '''' then ''http://localhost'' else ex_proxy_url e)"

definition health_path :: "application \<Rightarrow> string" where
  "health_path a = (let p = trim_space (app_health_endpoint a) in if p = '''' then ''/'' else p)"

definition status_error :: "executor \<Rightarrow> string \<Rightarrow> http_response \<Rightarrow> string" where
  "status_error e path response =
     ''caddy proxy returned status '' @ show_int (hr_status response) @ '' for '' @ path @ ''; expected '' @
     show_int (expectedProxyStatus e)"

text \<open>The judgement of one answer: \<open>None\<close> when the route is proven, else the error to remember.\<close>

definition probe_answer :: "executor \<Rightarrow> application \<Rightarrow> string \<Rightarrow> http_response \<Rightarrow> string option" where
  "probe_answer e a path response =
     (case hr_read_error response of
        Some err \<Rightarrow> Some (''read proxy health response: '' @ err)
      | None \<Rightarrow>
          if validCaddyHTTPSRedirect response a path \<and> expectedProxyStatus e = 200 \<and> ex_expected_content e = ''''
          then None
          else if hr_status response \<noteq> expectedProxyStatus e then Some (status_error e path response)
          else if ex_expected_content e \<noteq> '''' \<and>
                  \<not> contains_str (take body_limit (hr_body response)) (ex_expected_content e)
          then Some (''caddy proxy response for '' @ path @ '' does not contain configured expected content'')
          else None)"

text \<open>
  One turn of the loop after the deadline test; \<open>Inl\<close> is the final result and \<open>Inr\<close>
  the result so far with the last error, to be tried again.
\<close>

definition probe_turn ::
    "world \<Rightarrow> executor \<Rightarrow> application \<Rightarrow> route_probe \<Rightarrow> (route_probe + route_probe \<times> string) prog" where
  "probe_turn w e a result =
     (let path = health_path a
      in if \<not> has_prefix path ''/''
         then State_Monad.return (Inl (result\<lparr>rp_detail := ''proxy health endpoint must start with /: '' @ quoted path\<rparr>))
         else do {
           r \<leftarrow> send w ''GET'' (trim_right (\<lambda>c. c = CHR ''/'') (proxy_url e) @ path) [(''Host'', app_domain a)] '''';
           case r of
             BadRequest err \<Rightarrow> State_Monad.return (Inl (result\<lparr>rp_detail := err\<rparr>))
           | NoAnswer err \<Rightarrow> do {
               stop \<leftarrow> sleep w (500 * millisecond);
               State_Monad.return (case stop of
                   Some reason \<Rightarrow> Inl (result\<lparr>rp_detail := reason\<rparr>)
                 | None \<Rightarrow> Inr (result, err))
             }
           | Answer response \<Rightarrow>
               (let result' = result\<lparr>rp_status_code := hr_status response\<rparr>
                in case probe_answer e a path response of
                     None \<Rightarrow> State_Monad.return (Inl (result'\<lparr>rp_success := True\<rparr>))
                   | Some err \<Rightarrow> do {
                       stop \<leftarrow> sleep w (500 * millisecond);
                       State_Monad.return (case stop of
                           Some reason \<Rightarrow> Inl (result'\<lparr>rp_detail := reason\<rparr>)
                         | None \<Rightarrow> Inr (result', err))
                     })
         })"

fun probe_loop ::
    "world \<Rightarrow> executor \<Rightarrow> application \<Rightarrow> time \<Rightarrow> nat \<Rightarrow> route_probe \<Rightarrow> string option \<Rightarrow> route_probe option prog" where
  "probe_loop w e a deadline 0 result lastErr = State_Monad.return None"
| "probe_loop w e a deadline (Suc fuel) result lastErr = do {
     t \<leftarrow> now w;
     if t < deadline then do {
       r \<leftarrow> probe_turn w e a result;
       case r of
         Inl final \<Rightarrow> State_Monad.return (Some final)
       | Inr (result', err) \<Rightarrow> probe_loop w e a deadline fuel result' (Some err)
     }
     else State_Monad.return (Some (case lastErr of
         Some err \<Rightarrow> result\<lparr>rp_detail := err\<rparr>
       | None \<Rightarrow> result\<lparr>rp_detail := ''caddy proxy route verification timed out for domain '' @ quoted (app_domain a)\<rparr>))
   }"

definition Probe :: "world \<Rightarrow> nat \<Rightarrow> executor \<Rightarrow> application \<Rightarrow> route_probe option prog" where
  "Probe w fuel e a = do {
     start \<leftarrow> now w;
     checked \<leftarrow> now w;
     probe_loop w e a (start + healthTimeout e) fuel
       \<lparr>rp_success = False, rp_status_code = 0, rp_checked_at = checked,
        rp_observer = ''caddy via '' @ proxy_url e, rp_detail = ''''\<rparr> None
   }"

definition Verify :: "world \<Rightarrow> nat \<Rightarrow> executor \<Rightarrow> application \<Rightarrow> dep_error option prog" where
  "Verify w fuel e a = do {
     probe \<leftarrow> Probe w fuel e a;
     State_Monad.return (case probe of
         None \<Rightarrow> Some Diverged
       | Some p \<Rightarrow>
           if rp_success p then None
           else Some (Plain (''caddy proxy route verification failed for domain '' @ quoted (app_domain a) @ '': '' @ rp_detail p)))
   }"

definition ProbeRoute :: "world \<Rightarrow> nat \<Rightarrow> executor \<Rightarrow> application \<Rightarrow> route_probe option prog" where
  "ProbeRoute w fuel e a = Probe w fuel e a"

end
