(* ===== verification/Executor_Docker.thy ===== *)
theory Executor_Docker
  imports Executor_Caddy
begin

text \<open>
  The runtimes of \<^verbatim>\<open>internal/deploy/executor.go\<close>: diagnostics and selection of the
  adapter, the Docker commands, the network, the environment file, the health loop, the
  blue-green switch \<^verbatim>\<open>DockerAdapter.Start\<close>, and the Apple Container adapter. The
  executor is the one MiniDock builds: its map of custom adapters is empty, so the adapters are
  the two built-in ones.
\<close>

section \<open>Running commands\<close>

definition runWithEnv :: "world \<Rightarrow> str_map \<Rightarrow> string \<Rightarrow> string list \<Rightarrow> dep_error option prog" where
  "runWithEnv w environment name args = do {
     r \<leftarrow> exec_cmd w name args (map (\<lambda>key. (key, lookup environment key)) (sortedNames environment));
     State_Monad.return (case r of Inl err \<Rightarrow> Some (Plain err) | Inr _ \<Rightarrow> None)
   }"

definition run :: "world \<Rightarrow> string \<Rightarrow> string list \<Rightarrow> dep_error option prog" where
  "run w name args = runWithEnv w [] name args"

section \<open>Diagnostics\<close>

record runtime_diagnostic =
  rd_name :: string
  rd_detail :: string
  rd_setup_command :: string
  rd_installed :: bool
  rd_ready :: bool

fun containerAppRoot_lines :: "string list \<Rightarrow> string" where
  "containerAppRoot_lines [] = ''''"
| "containerAppRoot_lines (line # lines) =
     (if has_prefix (trim_space line) ''appRoot''
      then trim_space (trim_prefix (trim_space line) ''appRoot'')
      else containerAppRoot_lines lines)"

definition containerAppRoot :: "string \<Rightarrow> string" where
  "containerAppRoot status = containerAppRoot_lines (split_on (CHR 0x0A) status)"

text \<open>The answer to \<^verbatim>\<open>ReadDir\<close> is the listing, empty for an empty directory.\<close>

definition hasContainerKernel :: "world \<Rightarrow> string \<Rightarrow> bool prog" where
  "hasContainerKernel w base = do {
     entries \<leftarrow> disk w (ReadDir (join_path [base, ''kernels'']));
     State_Monad.return (case entries of Inl _ \<Rightarrow> False | Inr names \<Rightarrow> names \<noteq> '''')
   }"

definition not_ready :: "string \<Rightarrow> string \<Rightarrow> runtime_diagnostic" where
  "not_ready detail setup =
     \<lparr>rd_name = ''apple'', rd_detail = detail, rd_setup_command = setup, rd_installed = True, rd_ready = False\<rparr>"

definition appleRuntimeDiagnostic :: "world \<Rightarrow> runtime_diagnostic prog" where
  "appleRuntimeDiagnostic w = do {
     found \<leftarrow> disk w (LookPath ''container'');
     case found of
       Inl _ \<Rightarrow> State_Monad.return
         \<lparr>rd_name = ''apple'', rd_detail = ''Apple Container no est'' @ [CHR 0xC3, CHR 0xA1] @ '' instalado.'',
          rd_setup_command = '''', rd_installed = False, rd_ready = False\<rparr>
     | Inr path \<Rightarrow> do {
         r \<leftarrow> exec_cmd w path [''system'', ''status''] [];
         case r of
           Inl _ \<Rightarrow> State_Monad.return (not_ready
             (''Apple Container est'' @ [CHR 0xC3, CHR 0xA1] @ '' instalado, pero a'' @ [CHR 0xC3, CHR 0xBA] @ ''n no est'' @
              [CHR 0xC3, CHR 0xA1] @ '' preparado. Inicia su servicio; si solicita un kernel predeterminado, completa esa instalaci'' @
              [CHR 0xC3, CHR 0xB3] @ ''n.'') ''container system start'')
         | Inr status \<Rightarrow>
             (let base = containerAppRoot status
              in do {
                kernel \<leftarrow> (if base = '''' then State_Monad.return False else hasContainerKernel w base);
                State_Monad.return (if \<not> kernel
                  then not_ready
                    (''Apple Container est'' @ [CHR 0xC3, CHR 0xA1] @ '' activo, pero no tiene un kernel predeterminado. Config'' @
                     [CHR 0xC3, CHR 0xBA] @ ''ralo antes de desplegar.'') ''container system kernel set --recommended''
                  else \<lparr>rd_name = ''apple'', rd_detail = ''Apple Container est'' @ [CHR 0xC3, CHR 0xA1] @ '' listo.'',
                        rd_setup_command = '''', rd_installed = True, rd_ready = True\<rparr>)
              })
       }
   }"

definition runtimeDiagnostic ::
    "world \<Rightarrow> string \<Rightarrow> string \<Rightarrow> string list \<Rightarrow> string \<Rightarrow> string \<Rightarrow> runtime_diagnostic prog" where
  "runtimeDiagnostic w name command arguments setup label = do {
     found \<leftarrow> disk w (LookPath command);
     case found of
       Inl _ \<Rightarrow> State_Monad.return
         \<lparr>rd_name = name, rd_detail = label @ '' no est'' @ [CHR 0xC3, CHR 0xA1] @ '' instalado.'', rd_setup_command = '''',
          rd_installed = False, rd_ready = False\<rparr>
     | Inr path \<Rightarrow> do {
         (r, printed) \<leftarrow> combined_output w path arguments;
         State_Monad.return (case r of
             Inr _ \<Rightarrow> \<lparr>rd_name = name, rd_detail = label @ '' est'' @ [CHR 0xC3, CHR 0xA1] @ '' listo.'',
                       rd_setup_command = '''', rd_installed = True, rd_ready = True\<rparr>
           | Inl _ \<Rightarrow>
               (let detail = trim_space printed
                in \<lparr>rd_name = name, rd_detail = (if detail = '''' then label @ '' no responde.'' else detail),
                    rd_setup_command = setup, rd_installed = True, rd_ready = False\<rparr>))
       }
   }"

definition RuntimeDiagnostics :: "world \<Rightarrow> runtime_diagnostic list prog" where
  "RuntimeDiagnostics w = do {
     apple \<leftarrow> appleRuntimeDiagnostic w;
     docker \<leftarrow> runtimeDiagnostic w ''docker'' ''docker'' [''info''] '''' ''Docker'';
     State_Monad.return [apple, docker]
   }"

definition Available :: "world \<Rightarrow> (string \<Rightarrow> bool) prog" where
  "Available w = do {
     diagnostics \<leftarrow> RuntimeDiagnostics w;
     State_Monad.return (foldl (\<lambda>available d. available(rd_name d := rd_ready d)) (\<lambda>_. False) diagnostics)
   }"

definition DockerProxyConfigured :: "world \<Rightarrow> bool \<Rightarrow> dep_error option" where
  "DockerProxyConfigured w socket =
     (if w_getenv w ''MINIDOCK_ENVIRONMENT'' = ''development'' then None
      else if \<not> has_prefix (trim_space (w_getenv w ''DOCKER_HOST'')) ''tcp://''
      then Some (Plain ''DOCKER_HOST must point to the private Docker socket proxy using tcp://'')
      else if socket then Some (Plain ''raw Docker socket is present; remove the mount and use the socket proxy'')
      else None)"

text \<open>\<open>socket\<close> tells whether \<^verbatim>\<open>/var/run/docker.sock\<close> is present and a socket.\<close>

definition DockerReady :: "world \<Rightarrow> bool \<Rightarrow> dep_error option prog" where
  "DockerReady w socket =
     (case DockerProxyConfigured w socket of
        Some err \<Rightarrow> State_Monad.return (Some err)
      | None \<Rightarrow> do {
          (r, printed) \<leftarrow> combined_output w ''docker'' [''info''];
          State_Monad.return (case r of
              Inr _ \<Rightarrow> None
            | Inl err \<Rightarrow>
                (let detail = trim_space printed
                 in Some (Plain (''Docker socket or daemon is not usable: '' @ (if detail = '''' then err else detail)))))
        })"

section \<open>Adapters\<close>

datatype runtime_adapter = DockerAdapter | AppleContainerAdapter

fun Name :: "runtime_adapter \<Rightarrow> string" where
  "Name DockerAdapter = ''docker''"
| "Name AppleContainerAdapter = ''apple''"

fun BuildCommand :: "runtime_adapter \<Rightarrow> string" where
  "BuildCommand DockerAdapter = ''docker''"
| "BuildCommand AppleContainerAdapter = ''container''"

fun SupportsBuildSecrets :: "runtime_adapter \<Rightarrow> bool" where
  "SupportsBuildSecrets DockerAdapter = True"
| "SupportsBuildSecrets AppleContainerAdapter = False"

definition adapters :: "(string \<times> runtime_adapter) list" where
  "adapters = [(''docker'', DockerAdapter), (''apple'', AppleContainerAdapter)]"

definition SupportsRuntime :: "string \<Rightarrow> bool" where
  "SupportsRuntime name \<longleftrightarrow> map_of adapters name \<noteq> None"

definition selectRuntime :: "string \<Rightarrow> (string \<Rightarrow> bool) \<Rightarrow> dep_error + string" where
  "selectRuntime wanted available =
     (if wanted = ''auto'' then
        (if available ''docker'' then Inr ''docker''
         else Inl (Plain ''Docker is the only supported runtime; Apple Container is experimental until it implements equivalent route and health verification''))
      else if wanted = ''apple''
      then Inl (Plain ''Apple Container is experimental and cannot create a supported release: route, health, digest, metrics and retention verification are unavailable'')
      else if \<not> available wanted
      then Inl (Plain (''requested runtime '' @ quoted wanted @ '' is not available''))
      else Inr wanted)"

definition wanted_runtime :: "executor \<Rightarrow> application \<Rightarrow> string" where
  "wanted_runtime e a =
     (let wanted = (if app_runtime a = '''' \<or> app_runtime a = ''auto'' then ex_runtime e else app_runtime a)
      in if wanted = '''' then ''auto'' else wanted)"

definition runtime :: "world \<Rightarrow> executor \<Rightarrow> application \<Rightarrow> (dep_error + string) prog" where
  "runtime w e a = do {
     available \<leftarrow> Available w;
     State_Monad.return (selectRuntime (wanted_runtime e a)
       (foldl (\<lambda>available n. available(n := True)) available (map fst adapters)))
   }"

definition adapter :: "world \<Rightarrow> executor \<Rightarrow> application \<Rightarrow> (dep_error + runtime_adapter) prog" where
  "adapter w e a = do {
     r \<leftarrow> runtime w e a;
     State_Monad.return (case r of
         Inl err \<Rightarrow> Inl err
       | Inr name \<Rightarrow>
           (case map_of adapters name of
              None \<Rightarrow> Inl (Plain (''runtime adapter '' @ quoted name @ '' is not configured''))
            | Some ad \<Rightarrow> Inr ad))
   }"

section \<open>Containers\<close>

definition container_name :: "application \<Rightarrow> string" where
  "container_name a = ''minidock-'' @ app_name a"

definition dockerContainerExists :: "world \<Rightarrow> string \<Rightarrow> bool prog" where
  "dockerContainerExists w container = do {
     r \<leftarrow> exec_cmd w ''docker'' [''container'', ''inspect'', container] [];
     State_Monad.return (\<not> isl r)
   }"

definition dockerContainerTarget :: "world \<Rightarrow> string \<Rightarrow> int \<Rightarrow> (dep_error + string) prog" where
  "dockerContainerTarget w container port =
     (if port < 1 \<or> port > 65535 then State_Monad.return (Inl (Plain (''invalid container port '' @ show_int port)))
      else do {
        r \<leftarrow> exec_cmd w ''docker'' [''inspect'', ''--format'', ''{{range .NetworkSettings.Networks}}{{.IPAddress}}{{end}}'', container] [];
        State_Monad.return (case r of
            Inl err \<Rightarrow> Inl (Plain (''inspect candidate address: '' @ err))
          | Inr output \<Rightarrow>
              (let ip = trim_space output
               in if \<not> ParseIP ip then Inl (Plain (''container '' @ container @ '' has no usable network address''))
                  else Inr (JoinHostPort ip (show_int port))))
      })"

definition removeDockerContainerIfPresent :: "world \<Rightarrow> string \<Rightarrow> dep_error option prog" where
  "removeDockerContainerIfPresent w container = do {
     exists \<leftarrow> dockerContainerExists w container;
     if \<not> exists then State_Monad.return None
     else do {
       err \<leftarrow> run w ''docker'' [''rm'', ''--force'', container];
       State_Monad.return (map_option (\<lambda>err. Plain (''remove Docker container '' @ container @ '': '' @ detail_text err)) err)
     }
   }"

definition docker_field :: "world \<Rightarrow> string list \<Rightarrow> string prog" where
  "docker_field w args = do {
     r \<leftarrow> exec_cmd w ''docker'' args [];
     State_Monad.return (case r of Inl _ \<Rightarrow> '''' | Inr output \<Rightarrow> trim_space output)
   }"

definition dockerContainerImage :: "world \<Rightarrow> string \<Rightarrow> string prog" where
  "dockerContainerImage w container = docker_field w [''inspect'', ''--format'', ''{{.Config.Image}}'', container]"

definition dockerContainerID :: "world \<Rightarrow> string \<Rightarrow> string prog" where
  "dockerContainerID w container = docker_field w [''inspect'', ''--format'', ''{{.Id}}'', container]"

section \<open>The network\<close>

definition validateDockerNetwork :: "world \<Rightarrow> string \<Rightarrow> string \<Rightarrow> string \<Rightarrow> dep_error option" where
  "validateDockerNetwork w output name subnet =
     (case w_networks w output of
        Some [network] \<Rightarrow>
          if dn_name network \<noteq> name \<or> dn_driver network \<noteq> ''bridge'' \<or> \<not> dn_internal network
          then Some (Plain (''Docker network '' @ quoted name @ '' must be an internal bridge''))
          else if subnet = '''' then None
          else if list_ex (\<lambda>s. s = subnet) (dn_subnets network) then None
          else Some (Plain (''Docker network '' @ quoted name @ '' must use subnet '' @ subnet))
      | _ \<Rightarrow> Some (Plain (''inspect Docker network '' @ quoted name @ '': invalid response'')))"

definition inspectDockerNetwork :: "world \<Rightarrow> executor \<Rightarrow> dep_error option prog" where
  "inspectDockerNetwork w e = do {
     r \<leftarrow> exec_cmd w ''docker'' [''network'', ''inspect'', ex_network e] [];
     State_Monad.return (case r of
         Inl err \<Rightarrow> Some (Plain err)
       | Inr result \<Rightarrow> validateDockerNetwork w result (ex_network e) (ex_network_subnet e))
   }"

definition ensureDockerNetwork :: "world \<Rightarrow> executor \<Rightarrow> dep_error option prog" where
  "ensureDockerNetwork w e =
     (if trim_space (ex_network e) = '''' then State_Monad.return (Some (Plain ''Docker network is not configured''))
      else do {
        first \<leftarrow> inspectDockerNetwork w e;
        if first = None then State_Monad.return None
        else do {
          created \<leftarrow> run w ''docker'' ([''network'', ''create'', ''--driver'', ''bridge'', ''--internal''] @
            (if trim_space (ex_network_subnet e) \<noteq> '''' then [''--subnet'', ex_network_subnet e] else []) @ [ex_network e]);
          case created of
            None \<Rightarrow> inspectDockerNetwork w e
          | Some err \<Rightarrow> do {
              again \<leftarrow> inspectDockerNetwork w e;
              if again \<noteq> None
              then State_Monad.return (Some (Plain (''create Docker network '' @ quoted (ex_network e) @ '': '' @ detail_text err)))
              else inspectDockerNetwork w e
            }
        }
      })"

section \<open>Health\<close>

definition health_format :: string where
  "health_format = ''{{if .State.Health}}{{.State.Health.Status}}{{else}}{{.State.Running}}{{end}}''"

fun wait_loop :: "world \<Rightarrow> string \<Rightarrow> time \<Rightarrow> nat \<Rightarrow> dep_error option prog" where
  "wait_loop w container deadline 0 = State_Monad.return (Some Diverged)"
| "wait_loop w container deadline (Suc fuel) = do {
     r \<leftarrow> exec_cmd w ''docker'' [''inspect'', ''--format'', health_format, container] [];
     case r of
       Inl err \<Rightarrow> State_Monad.return (Some (Plain err))
     | Inr status \<Rightarrow>
         (let value = trim_space status
          in if value = ''healthy'' \<or> value = ''true'' then State_Monad.return None
             else if value = ''unhealthy'' then State_Monad.return (Some (Plain (''health check failed: '' @ value)))
             else do {
               t \<leftarrow> now w;
               if t > deadline then State_Monad.return (Some (Plain (''health check failed: '' @ value)))
               else do {
                 stop \<leftarrow> sleep w second;
                 case stop of
                   Some reason \<Rightarrow> State_Monad.return (Some (Plain reason))
                 | None \<Rightarrow> wait_loop w container deadline fuel
               }
             })
   }"

definition waitHealthy :: "world \<Rightarrow> nat \<Rightarrow> executor \<Rightarrow> string \<Rightarrow> dep_error option prog" where
  "waitHealthy w fuel e container = do {
     start \<leftarrow> now w;
     wait_loop w container (start + healthTimeout e) fuel
   }"

end
