(* ===== verification/Executor_Switch.thy ===== *)
theory Executor_Switch
  imports Executor_Docker
begin

text \<open>
  Starting a release: the arguments and the environment file of \<^verbatim>\<open>docker run\<close>, the
  blue-green switch of \<^verbatim>\<open>DockerAdapter.Start\<close>, the Apple Container adapter, and the
  control, log, status and image operations of both.
\<close>

section \<open>The container\<close>

text \<open>One pass of the loop over the arguments; the head of the rest is the argument after \<open>arg\<close>.\<close>

fun ValidateDockerContainerSecurityArgs :: "string list \<Rightarrow> dep_error option" where
  "ValidateDockerContainerSecurityArgs [] = None"
| "ValidateDockerContainerSecurityArgs (arg # args) =
     (if arg = ''--privileged'' \<or> has_prefix arg ''--privileged=''
      then Some (failure ''start'' ''forbidden_privileged_mode'' (Plain ''privileged mode is forbidden''))
      else if arg = ''--device'' \<or> has_prefix arg ''--device=''
      then Some (failure ''start'' ''forbidden_device_mapping'' (Plain ''device mapping is forbidden''))
      else if arg = ''--cap-add'' \<or> has_prefix arg ''--cap-add=''
      then Some (failure ''start'' ''forbidden_cap_add'' (Plain ''additional capabilities are forbidden''))
      else if arg = ''--security-opt'' \<or> has_prefix arg ''--security-opt=''
      then Some (failure ''start'' ''forbidden_security_opt'' (Plain ''custom security options are forbidden''))
      else if arg = ''-v'' \<or> arg = ''--volume'' \<or> has_prefix arg ''--volume=''
      then Some (failure ''start'' ''forbidden_host_mount'' (Plain ''host volume mounts are forbidden''))
      else if (arg = ''--net'' \<or> arg = ''--network'' \<or> has_prefix arg ''--network='') \<and>
              (contains_str arg ''host'' \<or> args \<noteq> [] \<and> hd args = ''host'')
      then Some (failure ''start'' ''forbidden_host_network'' (Plain ''host network mode is forbidden''))
      else ValidateDockerContainerSecurityArgs args)"

text \<open>
  The lines of the environment file, or the name of the first entry that is refused: a value may
  not hold a NUL, a carriage return or a line feed.
\<close>

definition unsafe_entry :: "string \<Rightarrow> string \<Rightarrow> bool" where
  "unsafe_entry name value \<longleftrightarrow> \<not> safeEnvironmentName name \<or> contains_any value [CHR 0x00, CHR 0x0D, CHR 0x0A]"

fun env_data :: "str_map \<Rightarrow> string list \<Rightarrow> string + string" where
  "env_data environment [] = Inr ''''"
| "env_data environment (name # names) =
     (if unsafe_entry name (lookup environment name) then Inl name
      else case env_data environment names of
          Inl bad \<Rightarrow> Inl bad
        | Inr data \<Rightarrow> Inr (name @ ''='' @ lookup environment name @ [CHR 0x0A] @ data))"

definition temp_dir :: "world \<Rightarrow> string" where
  "temp_dir w = (if w_getenv w ''TMPDIR'' = '''' then ''/tmp'' else w_getenv w ''TMPDIR'')"

text \<open>Writing and closing the file, with the buffer cleared in between; it is removed on failure.\<close>

definition runtimeEnvFile :: "world \<Rightarrow> string \<Rightarrow> str_map \<Rightarrow> (dep_error + string) prog" where
  "runtimeEnvFile w directory environment =
     (if environment = [] then State_Monad.return (Inr '''')
      else let directory = (if directory = '''' then temp_dir w else directory) in do {
        made \<leftarrow> disk w (MkdirAll directory);
        case made of
          Inl err \<Rightarrow> State_Monad.return (Inl (Plain (''create runtime environment directory: '' @ err)))
        | Inr _ \<Rightarrow> do {
            created \<leftarrow> disk w (CreateTemp directory ''.minidock-runtime-*.env'');
            case created of
              Inl err \<Rightarrow> State_Monad.return (Inl (Plain (''create runtime environment file: '' @ err)))
            | Inr path \<Rightarrow> do {
                protected \<leftarrow> disk w (Chmod path);
                case protected of
                  Inl err \<Rightarrow> do {
                    _ \<leftarrow> disk w (FileClose path);
                    _ \<leftarrow> disk w (RemoveFile path);
                    State_Monad.return (Inl (Plain (''protect runtime environment file: '' @ err)))
                  }
                | Inr _ \<Rightarrow>
                    (case env_data environment (sortedNames environment) of
                       Inl name \<Rightarrow> do {
                         _ \<leftarrow> disk w (FileClose path);
                         _ \<leftarrow> disk w (RemoveFile path);
                         State_Monad.return (Inl (Plain (''invalid runtime environment entry '' @ quoted name)))
                       }
                     | Inr data \<Rightarrow> do {
                         written \<leftarrow> disk w (FileWrite path data);
                         closed \<leftarrow> disk w (FileClose path);
                         case (written, closed) of
                           (Inr _, Inr _) \<Rightarrow> State_Monad.return (Inr path)
                         | _ \<Rightarrow> do {
                             _ \<leftarrow> disk w (RemoveFile path);
                             State_Monad.return (Inl (Plain (case written of
                                 Inl err \<Rightarrow> ''write runtime environment file: '' @ err
                               | Inr _ \<Rightarrow> ''close runtime environment file: '' @ projl closed)))
                           }
                       })
              }
          }
      })"

text \<open>The answer to \<^verbatim>\<open>Stat\<close> is the decimal size of the file; the overwrite has its size.\<close>

definition removeRuntimeEnvFile :: "world \<Rightarrow> string \<Rightarrow> unit prog" where
  "removeRuntimeEnvFile w path =
     (if path = '''' then State_Monad.return ()
      else do {
        info \<leftarrow> disk w (Stat path);
        _ \<leftarrow> (case info of
            Inr bytes \<Rightarrow>
              if read_nat bytes > 0 then disk w (FileWrite path (replicate (read_nat bytes) (CHR 0x00)))
              else State_Monad.return (Inr '''')
          | Inl err \<Rightarrow> State_Monad.return (Inl err));
        _ \<leftarrow> disk w (RemoveFile path);
        State_Monad.return ()
      })"

definition docker_run_args :: "executor \<Rightarrow> application \<Rightarrow> string \<Rightarrow> string \<Rightarrow> string \<Rightarrow> string list" where
  "docker_run_args e a img container envFile =
     [''run'', ''--detach'', ''--name'', container, ''--restart'', ''unless-stopped'', ''--network'', ex_network e,
      ''--label'', ''minidock.application='' @ show_int (app_id a)] @
     (case For (app_type a) of
        Some t \<Rightarrow> [''--cpus'', tp_cpus t, ''--memory'', tp_memory t]
      | None \<Rightarrow> []) @
     (if envFile \<noteq> '''' then [''--env-file'', envFile] else []) @ [img]"

definition runDockerContainer ::
    "world \<Rightarrow> executor \<Rightarrow> application \<Rightarrow> string \<Rightarrow> str_map \<Rightarrow> string \<Rightarrow> dep_error option prog" where
  "runDockerContainer w e a img environment container = do {
     file \<leftarrow> runtimeEnvFile w (ex_log_path e) environment;
     case file of
       Inl err \<Rightarrow> State_Monad.return (Some err)
     | Inr envFile \<Rightarrow>
         (let args = docker_run_args e a img container envFile in do {
            err \<leftarrow> (case ValidateDockerContainerSecurityArgs args of
                Some err \<Rightarrow> State_Monad.return (Some err)
              | None \<Rightarrow> run w ''docker'' args);
            removeRuntimeEnvFile w envFile;
            State_Monad.return err
          })
   }"

section \<open>The blue-green switch\<close>

definition candidate_name :: "application \<Rightarrow> string" where
  "candidate_name a = container_name a @ ''-candidate''"

definition next_name :: "application \<Rightarrow> string" where
  "next_name a = container_name a @ ''-next''"

definition remove_force :: "world \<Rightarrow> string \<Rightarrow> unit prog" where
  "remove_force w container = do {
     _ \<leftarrow> run w ''docker'' [''rm'', ''--force'', container];
     State_Monad.return ()
   }"

text \<open>After a failed public validation the upstream of the active container is put back.\<close>

definition restore_route :: "world \<Rightarrow> executor \<Rightarrow> application \<Rightarrow> string \<Rightarrow> unit prog" where
  "restore_route w e a active = do {
     exists \<leftarrow> dockerContainerExists w active;
     if \<not> exists then State_Monad.return ()
     else do {
       oldTarget \<leftarrow> dockerContainerTarget w active (app_internal_port a);
       case oldTarget of
         Inl _ \<Rightarrow> State_Monad.return ()
       | Inr target \<Rightarrow> do { _ \<leftarrow> Apply w e a target; State_Monad.return () }
     }
   }"

definition retire_active :: "world \<Rightarrow> application \<Rightarrow> string \<Rightarrow> string \<Rightarrow> dep_error option prog" where
  "retire_active w a active staging = do {
     exists \<leftarrow> dockerContainerExists w active;
     removed \<leftarrow> (if exists \<and> active \<noteq> staging then removeDockerContainerIfPresent w active else State_Monad.return None);
     case removed of
       Some err \<Rightarrow> State_Monad.return (Some (failure ''route'' ''previous_cleanup_failed'' err))
     | None \<Rightarrow>
         if staging \<noteq> candidate_name a then do {
           renamed \<leftarrow> run w ''docker'' [''rename'', staging, candidate_name a];
           State_Monad.return (map_option (failure ''route'' ''candidate_promote_failed'') renamed)
         }
         else State_Monad.return None
   }"

definition switch_route ::
    "world \<Rightarrow> nat \<Rightarrow> executor \<Rightarrow> bool \<Rightarrow> application \<Rightarrow> string \<Rightarrow> string \<Rightarrow> dep_error option prog" where
  "switch_route w fuel e tracked a active staging = do {
     on_stage tracked ''route'';
     on_event tracked ''route'' ''info'' ''Health check superado; conmutando la ruta Blue-Green en Caddy'';
     routeStart \<leftarrow> now w;
     target \<leftarrow> dockerContainerTarget w staging (app_internal_port a);
     case target of
       Inl err \<Rightarrow> State_Monad.return (Some (failure ''route'' ''candidate_address_unavailable'' err))
     | Inr target \<Rightarrow> do {
         applied \<leftarrow> Apply w e a target;
         case applied of
           Some err \<Rightarrow> do {
             remove_force w staging;
             State_Monad.return (Some (failure ''route'' ''proxy_switch_failed'' err))
           }
         | None \<Rightarrow> do {
             verified \<leftarrow> Verify w fuel e a;
             case verified of
               Some err \<Rightarrow> do {
                 restore_route w e a active;
                 remove_force w staging;
                 State_Monad.return (Some (failure ''route'' ''proxy_validation_failed'' err))
               }
             | None \<Rightarrow> do {
                 routeEnd \<leftarrow> now w;
                 took tracked ''route'' (routeEnd - routeStart);
                 on_event tracked ''route'' ''info'' (''Dominio enrutado y disponible en '' @ w_duration w (routeEnd - routeStart));
                 retire_active w a active staging
               }
           }
       }
   }"

definition prove_candidate ::
    "world \<Rightarrow> nat \<Rightarrow> executor \<Rightarrow> bool \<Rightarrow> application \<Rightarrow> string \<Rightarrow> str_map \<Rightarrow> string \<Rightarrow> dep_error option prog" where
  "prove_candidate w fuel e tracked a img environment staging = do {
     remove_force w staging;
     on_stage tracked ''start'';
     on_event tracked ''start'' ''info'' (''Creando contenedor candidato para validaci'' @ [CHR 0xC3, CHR 0xB3] @ ''n'');
     startStart \<leftarrow> now w;
     started \<leftarrow> runDockerContainer w e a img environment staging;
     case started of
       Some err \<Rightarrow> State_Monad.return (Some (failure ''start'' ''candidate_start_failed'' err))
     | None \<Rightarrow> do {
         startEnd \<leftarrow> now w;
         took tracked ''start'' (startEnd - startStart);
         on_stage tracked ''health'';
         on_event tracked ''health'' ''info'' ''Ejecutando health check en el contenedor candidato'';
         healthStart \<leftarrow> now w;
         healthy \<leftarrow> waitHealthy w fuel e staging;
         case healthy of
           Some err \<Rightarrow> do {
             remove_force w staging;
             State_Monad.return (Some (failure ''health'' ''health_check_failed'' err))
           }
         | None \<Rightarrow> do {
             healthEnd \<leftarrow> now w;
             took tracked ''health'' (healthEnd - healthStart);
             on_event tracked ''health'' ''info'' (''Health check de candidato exitoso en '' @ w_duration w (healthEnd - healthStart));
             State_Monad.return None
           }
       }
   }"

definition stage_release ::
    "world \<Rightarrow> nat \<Rightarrow> executor \<Rightarrow> bool \<Rightarrow> application \<Rightarrow> string \<Rightarrow> str_map \<Rightarrow> string \<Rightarrow> string \<Rightarrow> dep_error option prog" where
  "stage_release w fuel e tracked a img environment active staging = do {
     proven \<leftarrow> prove_candidate w fuel e tracked a img environment staging;
     case proven of
       Some err \<Rightarrow> State_Monad.return (Some err)
     | None \<Rightarrow> switch_route w fuel e tracked a active staging
   }"

definition DockerStart ::
    "world \<Rightarrow> nat \<Rightarrow> executor \<Rightarrow> bool \<Rightarrow> application \<Rightarrow> string \<Rightarrow> str_map \<Rightarrow> (string \<times> dep_error option) prog" where
  "DockerStart w fuel e tracked a img environment = do {
     network \<leftarrow> ensureDockerNetwork w e;
     case network of
       Some err \<Rightarrow> State_Monad.return (img, Some (failure ''start'' ''network_unavailable'' err))
     | None \<Rightarrow> do {
         live \<leftarrow> dockerContainerExists w (candidate_name a);
         r \<leftarrow> (if live then stage_release w fuel e tracked a img environment (candidate_name a) (next_name a)
                else stage_release w fuel e tracked a img environment (container_name a) (candidate_name a));
         State_Monad.return (img, r)
       }
   }"

section \<open>Apple Container\<close>

text \<open>Go ranges over the environment in an unspecified order; the model takes the order of the list.\<close>

definition runApple ::
    "world \<Rightarrow> application \<Rightarrow> string \<Rightarrow> string \<Rightarrow> str_map \<Rightarrow> (string \<times> dep_error option) prog" where
  "runApple w a img name environment = do {
     err \<leftarrow> run w ''container'' ([''run'', ''--detach'', ''--name'', name, ''--publish'',
       ''127.0.0.1:'' @ show_int (app_internal_port a) @ '':'' @ show_int (app_internal_port a)] @
       concat (map (\<lambda>(key, value). [''--env'', key @ ''='' @ value]) environment) @ [img]);
     State_Monad.return (img, err)
   }"

definition AppleStart ::
    "world \<Rightarrow> bool \<Rightarrow> application \<Rightarrow> string \<Rightarrow> str_map \<Rightarrow> (string \<times> dep_error option) prog" where
  "AppleStart w tracked a img environment = do {
     on_stage tracked ''start'';
     on_event tracked ''start'' ''info'' ''Levantando contenedor Apple'';
     startStart \<leftarrow> now w;
     _ \<leftarrow> run w ''container'' [''delete'', ''--force'', container_name a];
     (result, err) \<leftarrow> runApple w a img (container_name a) environment;
     (if tracked then do {
        startEnd \<leftarrow> now w;
        took tracked ''start'' (startEnd - startStart);
        (if err = None then on_event tracked ''start'' ''info'' ''Contenedor Apple iniciado'' else State_Monad.return ())
      }
      else State_Monad.return ());
     State_Monad.return (result, map_option (failure ''start'' ''container_start_failed'') err)
   }"

fun Start ::
    "runtime_adapter \<Rightarrow> world \<Rightarrow> nat \<Rightarrow> executor \<Rightarrow> bool \<Rightarrow> application \<Rightarrow> string \<Rightarrow> str_map \<Rightarrow> (string \<times> dep_error option) prog" where
  "Start DockerAdapter w fuel e tracked a img environment = DockerStart w fuel e tracked a img environment"
| "Start AppleContainerAdapter w fuel e tracked a img environment = AppleStart w tracked a img environment"

section \<open>Control, logs, status and images\<close>

fun adapter_control :: "runtime_adapter \<Rightarrow> world \<Rightarrow> application \<Rightarrow> string \<Rightarrow> dep_error option prog" where
  "adapter_control DockerAdapter w a action = run w ''docker'' [action, container_name a]"
| "adapter_control AppleContainerAdapter w a action =
     (if action = ''restart'' then do {
        stopped \<leftarrow> run w ''container'' [''stop'', container_name a];
        case stopped of
          Some err \<Rightarrow> State_Monad.return (Some err)
        | None \<Rightarrow> run w ''container'' [''start'', container_name a]
      }
      else run w ''container'' [action, container_name a])"

definition Control :: "world \<Rightarrow> executor \<Rightarrow> application \<Rightarrow> string \<Rightarrow> dep_error option prog" where
  "Control w e a action =
     (if action \<noteq> ''start'' \<and> action \<noteq> ''stop'' \<and> action \<noteq> ''restart''
      then State_Monad.return (Some (Plain ''invalid action''))
      else do {
        r \<leftarrow> adapter w e a;
        case r of Inl err \<Rightarrow> State_Monad.return (Some err) | Inr ad \<Rightarrow> adapter_control ad w a action
      })"

fun adapter_logs :: "runtime_adapter \<Rightarrow> world \<Rightarrow> application \<Rightarrow> dep_error option prog" where
  "adapter_logs DockerAdapter w a = run w ''docker'' [''logs'', ''--tail'', ''200'', container_name a]"
| "adapter_logs AppleContainerAdapter w a = run w ''container'' [''logs'', ''-n'', ''200'', container_name a]"

definition Logs :: "world \<Rightarrow> executor \<Rightarrow> application \<Rightarrow> dep_error option prog" where
  "Logs w e a = do {
     r \<leftarrow> adapter w e a;
     case r of Inl err \<Rightarrow> State_Monad.return (Some err) | Inr ad \<Rightarrow> adapter_logs ad w a
   }"

record container_status =
  cs_state :: string
  cs_health :: string
  cs_image :: string
  cs_started_at :: string
  cs_cpu :: string
  cs_memory :: string

definition parseContainerInspect :: "string \<Rightarrow> dep_error + container_status" where
  "parseContainerInspect output =
     (case split_on (CHR 0x09) (trim_space output) of
        [state, health, img, started] \<Rightarrow>
          if state = '''' \<or> img = '''' then Inl (Plain ''unexpected docker inspect output'')
          else Inr \<lparr>cs_state = state, cs_health = health, cs_image = img, cs_started_at = started,
                    cs_cpu = '''', cs_memory = ''''\<rparr>
      | _ \<Rightarrow> Inl (Plain ''unexpected docker inspect output''))"

definition parseContainerStats :: "string \<Rightarrow> dep_error + (string \<times> string)" where
  "parseContainerStats output =
     (case split_on (CHR 0x09) (trim_space output) of
        [cpu, memory] \<Rightarrow>
          if cpu = '''' \<or> memory = '''' then Inl (Plain ''unexpected docker stats output'') else Inr (cpu, memory)
      | _ \<Rightarrow> Inl (Plain ''unexpected docker stats output''))"

definition tab :: string where
  "tab = [CHR 0x09]"

definition DockerStatus :: "world \<Rightarrow> application \<Rightarrow> (dep_error + container_status) prog" where
  "DockerStatus w a = do {
     inspected \<leftarrow> exec_cmd w ''docker'' [''inspect'', ''--format'',
       ''{{.State.Status}}'' @ tab @ ''{{if .State.Health}}{{.State.Health.Status}}{{else}}none{{end}}'' @ tab @
       ''{{.Config.Image}}'' @ tab @ ''{{.State.StartedAt}}'', container_name a] [];
     case inspected of
       Inl err \<Rightarrow> State_Monad.return (Inl (Plain err))
     | Inr output \<Rightarrow>
         (case parseContainerInspect output of
            Inl err \<Rightarrow> State_Monad.return (Inl err)
          | Inr status \<Rightarrow> do {
              stats \<leftarrow> exec_cmd w ''docker'' [''stats'', ''--no-stream'', ''--format'',
                ''{{.CPUPerc}}'' @ tab @ ''{{.MemUsage}}'', container_name a] [];
              State_Monad.return (case stats of
                  Inl err \<Rightarrow> Inl (Plain err)
                | Inr output \<Rightarrow>
                    (case parseContainerStats output of
                       Inl err \<Rightarrow> Inl err
                     | Inr (cpu, memory) \<Rightarrow> Inr (status\<lparr>cs_cpu := cpu, cs_memory := memory\<rparr>)))
            })
   }"

fun adapter_status :: "runtime_adapter \<Rightarrow> world \<Rightarrow> application \<Rightarrow> (dep_error + container_status) prog" where
  "adapter_status DockerAdapter w a = DockerStatus w a"
| "adapter_status AppleContainerAdapter w a =
     State_Monad.return (Inl (Plain ''resource metrics are not available for Apple Container yet''))"

definition Status :: "world \<Rightarrow> executor \<Rightarrow> application \<Rightarrow> (dep_error + container_status) prog" where
  "Status w e a = do {
     r \<leftarrow> adapter w e a;
     case r of Inl err \<Rightarrow> State_Monad.return (Inl err) | Inr ad \<Rightarrow> adapter_status ad w a
   }"

fun adapter_remove_image :: "runtime_adapter \<Rightarrow> world \<Rightarrow> string \<Rightarrow> dep_error option prog" where
  "adapter_remove_image DockerAdapter w img = run w ''docker'' [''image'', ''rm'', img]"
| "adapter_remove_image AppleContainerAdapter w img =
     State_Monad.return (Some (Plain ''image retention is not available for Apple Container yet''))"

definition RemoveImage :: "world \<Rightarrow> executor \<Rightarrow> application \<Rightarrow> string \<Rightarrow> dep_error option prog" where
  "RemoveImage w e a img = do {
     r \<leftarrow> adapter w e a;
     case r of Inl err \<Rightarrow> State_Monad.return (Some err) | Inr ad \<Rightarrow> adapter_remove_image ad w img
   }"

end
