(* ===== verification/Executor_Source.thy ===== *)
theory Executor_Source
  imports Executor_Switch
begin

text \<open>
  The source stage of a release: local repositories, the size and the fingerprint of a tree, the
  credentials of the GitHub App, and the generated Dockerfile.
\<close>

section \<open>Local repositories\<close>

definition LocalRepositoryPath :: "world \<Rightarrow> string \<Rightarrow> string \<Rightarrow> (dep_error + string) prog" where
  "LocalRepositoryPath w base repository =
     (if base = '''' then State_Monad.return (Inl (Plain ''local repository root is not configured''))
      else let repository = (if has_prefix repository ''file://'' then trim_prefix repository ''file://'' else repository)
      in do {
        resolved \<leftarrow> disk w (EvalSymlinks base);
        case resolved of
          Inl err \<Rightarrow> State_Monad.return (Inl (Plain err))
        | Inr base' \<Rightarrow> do {
            found \<leftarrow> disk w (EvalSymlinks repository);
            State_Monad.return (case found of
                Inl err \<Rightarrow> Inl (Plain err)
              | Inr path \<Rightarrow>
                  if path \<noteq> base' \<and> \<not> has_prefix path (base' @ ''/'')
                  then Inl (Plain ''local repository is outside the configured root'')
                  else Inr path)
          }
      })"

definition ValidLocalRepository :: "world \<Rightarrow> string \<Rightarrow> string \<Rightarrow> bool prog" where
  "ValidLocalRepository w base repository = do {
     r \<leftarrow> LocalRepositoryPath w base repository;
     State_Monad.return (\<not> isl r)
   }"

definition LocalRepositoryIsGit :: "world \<Rightarrow> string \<Rightarrow> string \<Rightarrow> bool prog" where
  "LocalRepositoryIsGit w base repository = do {
     r \<leftarrow> LocalRepositoryPath w base repository;
     case r of
       Inl _ \<Rightarrow> State_Monad.return False
     | Inr path \<Rightarrow> do {
         info \<leftarrow> disk w (Stat (join_path [path, ''.git'']));
         State_Monad.return (\<not> isl info)
       }
   }"

section \<open>Walking a tree\<close>

text \<open>
  The regular files below a directory, with their paths from it, in the order
  \<^verbatim>\<open>filepath.WalkDir\<close> visits them: a folder named \<^verbatim>\<open>.git\<close> is skipped, and the
  first entry that cannot be read ends the walk with its error.
\<close>

fun walk :: "string \<Rightarrow> tree \<Rightarrow> string + (string \<times> string) list"
  and walk_list :: "string \<Rightarrow> tree list \<Rightarrow> string + (string \<times> string) list" where
  "walk dir (Regular name contents) = Inr [(dir @ name, contents)]"
| "walk dir (Special name) = Inr []"
| "walk dir (Unreadable name err) = Inl err"
| "walk dir (Folder name children) =
     (if name = ''.git'' then Inr [] else walk_list (dir @ name @ ''/'') children)"
| "walk_list dir [] = Inr []"
| "walk_list dir (t # ts) =
     (case walk dir t of
        Inl err \<Rightarrow> Inl err
      | Inr files \<Rightarrow>
          (case walk_list dir ts of Inl err \<Rightarrow> Inl err | Inr rest \<Rightarrow> Inr (files @ rest)))"

text \<open>The paths are relative to the root of the walk, which carries its own base name.\<close>

definition tree_files :: "tree \<Rightarrow> string + (string \<times> string) list" where
  "tree_files t =
     (case t of
        Folder name children \<Rightarrow> if name = ''.git'' then Inr [] else walk_list '''' children
      | Regular name contents \<Rightarrow> Inr [(''.'', contents)]
      | Special name \<Rightarrow> Inr []
      | Unreadable name err \<Rightarrow> Inl err)"

definition directorySize :: "tree \<Rightarrow> string + int" where
  "directorySize t =
     (case tree_files t of
        Inl err \<Rightarrow> Inl err
      | Inr files \<Rightarrow> Inr (sum_list (map (\<lambda>(path, contents). int (length contents)) files)))"

text \<open>The bytes that go into the hash: every path with a NUL after it, then the contents.\<close>

definition fingerprint_input :: "(string \<times> string) list \<Rightarrow> string" where
  "fingerprint_input files = concat (map (\<lambda>(path, contents). path @ [CHR 0x00] @ contents) (sort_key fst files))"

definition directoryFingerprint :: "world \<Rightarrow> tree \<Rightarrow> string + string" where
  "directoryFingerprint w t =
     (case tree_files t of
        Inl err \<Rightarrow> Inl err
      | Inr files \<Rightarrow> Inr (''sha256:'' @ w_sha256 w (fingerprint_input files)))"

definition walk_tree :: "world \<Rightarrow> string \<Rightarrow> tree prog" where
  "walk_tree w path = perform (WalkTree path) (\<lambda>h. w_tree w h path)"

definition sourceEvidence :: "world \<Rightarrow> string \<Rightarrow> string \<Rightarrow> (string \<times> (string + string)) prog" where
  "sourceEvidence w repository work = do {
     r \<leftarrow> exec_cmd w ''git'' [''-C'', repository, ''rev-parse'', ''HEAD''] [];
     t \<leftarrow> walk_tree w work;
     State_Monad.return (case r of Inl _ \<Rightarrow> '''' | Inr output \<Rightarrow> trim_space output, directoryFingerprint w t)
   }"

section \<open>GitHub App credentials\<close>

definition base64_digit :: "bool \<Rightarrow> nat \<Rightarrow> char" where
  "base64_digit url d =
     (if d < 26 then char_of (65 + d) else if d < 52 then char_of (71 + d) else if d < 62 then char_of (d - 4)
      else if d = 62 then (if url then CHR ''-'' else CHR ''+'') else (if url then CHR ''_'' else CHR ''/''))"

text \<open>Base64 with the standard or the URL alphabet, padded or raw.\<close>

fun base64 :: "bool \<Rightarrow> bool \<Rightarrow> string \<Rightarrow> string" where
  "base64 url pad [] = []"
| "base64 url pad [a] =
     (let x = (of_char a :: nat) * 16
      in map (base64_digit url) [x div 64, x mod 64] @ (if pad then ''=='' else ''''))"
| "base64 url pad [a, b] =
     (let x = ((of_char a :: nat) * 256 + of_char b) * 4
      in map (base64_digit url) [x div 4096, x div 64 mod 64, x mod 64] @ (if pad then ''='' else ''''))"
| "base64 url pad (a # b # c # s) =
     (let x = ((of_char a :: nat) * 256 + of_char b) * 256 + of_char c
      in map (base64_digit url) [x div 262144, x div 4096 mod 64, x div 64 mod 64, x mod 64] @ base64 url pad s)"

definition parseRSAPrivateKey :: "world \<Rightarrow> string \<Rightarrow> dep_error + string" where
  "parseRSAPrivateKey w value =
     (case w_pem w value of
        None \<Rightarrow> Inl (Plain ''invalid GitHub App private key'')
      | Some block \<Rightarrow>
          (case w_pkcs1 w block of
             Some key \<Rightarrow> Inr key
           | None \<Rightarrow>
               (case w_pkcs8 w block of
                  Inl err \<Rightarrow> Inl (Plain (''parse GitHub App private key: '' @ err))
                | Inr (is_rsa, key) \<Rightarrow>
                    if \<not> is_rsa then Inl (Plain ''GitHub App private key is not RSA'') else Inr key)))"

text \<open>The Unix epoch is 62135596800 seconds after the zero time.\<close>

definition unix_seconds :: "time \<Rightarrow> int" where
  "unix_seconds t = t div second - 62135596800"

definition githubJWT :: "world \<Rightarrow> string \<Rightarrow> string \<Rightarrow> (dep_error + string) prog" where
  "githubJWT w appID key = do {
     t \<leftarrow> now w;
     let header = base64 True False (''{'' @ json_string ''alg'' @ '':'' @ json_string ''RS256'' @ '','' @
                    json_string ''typ'' @ '':'' @ json_string ''JWT'' @ ''}'');
     let payload = ''{'' @ json_string ''exp'' @ '':'' @ show_int (unix_seconds (t + 9 * minute)) @ '','' @
                    json_string ''iat'' @ '':'' @ show_int (unix_seconds (t - minute)) @ '','' @
                    json_string ''iss'' @ '':'' @ json_string appID @ ''}'';
     let unsigned = header @ ''.'' @ base64 True False payload;
     State_Monad.return (case w_sign w key unsigned of
         Inl err \<Rightarrow> Inl (Plain err)
       | Inr signature \<Rightarrow> Inr (unsigned @ ''.'' @ base64 True False signature))
   }"

definition githubInstallationToken :: "world \<Rightarrow> executor \<Rightarrow> int \<Rightarrow> (dep_error + string) prog" where
  "githubInstallationToken w e installationID =
     (if ex_github_app_id e = '''' \<or> ex_github_key_path e = ''''
      then State_Monad.return (Inl (Plain ''GitHub App is not configured''))
      else do {
        file \<leftarrow> disk w (ReadFile (ex_github_key_path e));
        case file of
          Inl err \<Rightarrow> State_Monad.return (Inl (Plain (''read GitHub App key: '' @ err)))
        | Inr keyBytes \<Rightarrow>
            (case parseRSAPrivateKey w keyBytes of
               Inl err \<Rightarrow> State_Monad.return (Inl err)
             | Inr key \<Rightarrow> do {
                 signed \<leftarrow> githubJWT w (ex_github_app_id e) key;
                 case signed of
                   Inl err \<Rightarrow> State_Monad.return (Inl err)
                 | Inr jwt \<Rightarrow>
                     (let trimmed = trim_right (\<lambda>c. c = CHR ''/'') (ex_github_api_url e);
                          base = (if trimmed = '''' then ''https://api.github.com'' else trimmed)
                      in do {
                        r \<leftarrow> send w ''POST'' (base @ ''/app/installations/'' @ show_int installationID @ ''/access_tokens'')
                               [(''Authorization'', ''Bearer '' @ jwt), (''Accept'', ''application/vnd.github+json''),
                                (''X-GitHub-Api-Version'', ''2022-11-28'')] '''';
                        State_Monad.return (case r of
                            BadRequest err \<Rightarrow> Inl (Plain err)
                          | NoAnswer err \<Rightarrow> Inl (Plain (''request GitHub installation token: '' @ err))
                          | Answer response \<Rightarrow>
                              if hr_status response \<noteq> 201
                              then Inl (Plain (''GitHub installation token request failed: '' @ hr_status_text response))
                              else case w_token w (hr_body response) of
                                  None \<Rightarrow> Inl (Plain ''read GitHub installation token'')
                                | Some token \<Rightarrow>
                                    if token = '''' then Inl (Plain ''read GitHub installation token'') else Inr token)
                      })
               })
      })"

definition local_source :: "application \<Rightarrow> bool" where
  "local_source a \<longleftrightarrow> is_abs (app_repository a) \<or> has_prefix (app_repository a) ''file://''"

definition cloneEnvironment :: "world \<Rightarrow> executor \<Rightarrow> application \<Rightarrow> (dep_error + str_map) prog" where
  "cloneEnvironment w e a =
     (if local_source a then do {
        valid \<leftarrow> ValidLocalRepository w (ex_local_repositories e) (app_repository a);
        State_Monad.return (if \<not> valid
          then Inl (Plain ''local repository is outside MINIDOCK_LOCAL_REPOSITORIES_PATH'') else Inr [])
      }
      else if app_github_installation_id a = 0 then State_Monad.return (Inr [])
      else do {
        token \<leftarrow> githubInstallationToken w e (app_github_installation_id a);
        State_Monad.return (case token of
            Inl err \<Rightarrow> Inl err
          | Inr token \<Rightarrow>
              (case w_url w (app_repository a) of
                 Inl _ \<Rightarrow> Inl (Plain ''GitHub App requires an HTTPS repository URL'')
               | Inr (scheme, host, path) \<Rightarrow>
                   if scheme \<noteq> ''https'' \<or> host = '''' then Inl (Plain ''GitHub App requires an HTTPS repository URL'')
                   else Inr [(''GIT_CONFIG_COUNT'', ''1''),
                     (''GIT_CONFIG_KEY_0'', ''http.https://'' @ host @ ''/.extraheader''),
                     (''GIT_CONFIG_VALUE_0'', ''AUTHORIZATION: basic '' @ base64 False True (''x-access-token:'' @ token))]))
      })"

section \<open>The generated Dockerfile\<close>

text \<open>
  The path of a temporary Dockerfile, empty when the repository has its own; removing that file
  is left to the caller.
\<close>

definition dockerfile_kind :: "world \<Rightarrow> file_system \<Rightarrow> string \<Rightarrow> application \<Rightarrow> string" where
  "dockerfile_kind w files work a =
     (if app_type a = ''node_ssr'' \<and> det_type (Detect (w_manifest w) files work) = ''vite_ssr'' then ''vite_ssr''
      else app_type a)"

definition generatedDockerfile :: "world \<Rightarrow> application \<Rightarrow> string \<Rightarrow> (dep_error + string) prog" where
  "generatedDockerfile w a work = do {
     own \<leftarrow> disk w (Stat (join_path [work, ''Dockerfile'']));
     case own of
       Inr _ \<Rightarrow> State_Monad.return (Inr '''')
     | Inl err \<Rightarrow>
         if \<not> is_not_exist err then State_Monad.return (Inl (Plain err))
         else do {
           files \<leftarrow> perform (ReadProject work) (w_files w);
           case Dockerfile (dockerfile_kind w files work a) (app_internal_port a) (app_health_endpoint a) of
             None \<Rightarrow> State_Monad.return (Inl (Plain ''Dockerfile required for custom application''))
           | Some contents \<Rightarrow> do {
               created \<leftarrow> disk w (CreateTemp '''' (''minidock-'' @ app_name a @ ''-Dockerfile-*''));
               case created of
                 Inl err \<Rightarrow> State_Monad.return (Inl (Plain (''create runtime template: '' @ err)))
               | Inr name \<Rightarrow> do {
                   written \<leftarrow> disk w (FileWrite name contents);
                   closed \<leftarrow> disk w (FileClose name);
                   case (written, closed) of
                     (Inr _, Inr _) \<Rightarrow> State_Monad.return (Inr name)
                   | _ \<Rightarrow> do {
                       _ \<leftarrow> disk w (RemoveFile name);
                       State_Monad.return (Inl (Plain (case written of
                           Inl err \<Rightarrow> ''write runtime template: '' @ err
                         | Inr _ \<Rightarrow> projl closed)))
                     }
                 }
             }
         }
   }"

end
