(* ===== verification/Executor_Deploy.thy ===== *)
theory Executor_Deploy
  imports Executor_Source
begin

text \<open>
  Releases: \<^verbatim>\<open>Executor.Deploy\<close> with its source and build stages,
  \<^verbatim>\<open>Rollback\<close>, \<^verbatim>\<open>VerifyArtifact\<close> and the recovery at start-up,
  \<^verbatim>\<open>Reconcile\<close>. The contexts with timeouts of the Go code appear as errors the
  world may answer with at any moment.
\<close>

section \<open>Configuration and results\<close>

record deployment_configuration =
  dc_runtime :: str_map
  dc_build_args :: str_map
  dc_build_secrets :: str_map
  dc_public_runtime :: str_map
  dc_effective_runtime :: string
  dc_configuration_digest :: string
  dc_reuse_image :: string
  dc_reuse_source_revision :: string
  dc_reuse_source_fingerprint :: string

record release_result =
  rr_image :: string
  rr_source_revision :: string
  rr_source_fingerprint :: string
  rr_artifact_digest :: string
  rr_runtime :: string
  rr_observed_container_id :: string

definition empty_result :: release_result where
  "empty_result = \<lparr>rr_image = '''', rr_source_revision = '''', rr_source_fingerprint = '''',
     rr_artifact_digest = '''', rr_runtime = '''', rr_observed_container_id = ''''\<rparr>"

text \<open>A string map as JSON, its names in order.\<close>

definition json_map :: "str_map \<Rightarrow> string" where
  "json_map m = ''{'' @
     join_with '','' (map (\<lambda>n. json_string n @ '':'' @ json_string (lookup m n)) (sortedNames m)) @ ''}''"

definition PublicConfigurationDigest :: "world \<Rightarrow> str_map \<Rightarrow> str_map \<Rightarrow> string" where
  "PublicConfigurationDigest w rt buildArgs =
     ''sha256:'' @ w_sha256 w (''{'' @ json_string ''build_args'' @ '':'' @ json_map buildArgs @ '','' @
       json_string ''runtime'' @ '':'' @ json_map rt @ ''}'')"

definition NonSecretRuntimeConfiguration :: "str_map \<Rightarrow> string" where
  "NonSecretRuntimeConfiguration values = json_map values"

section \<open>The source stage\<close>

definition clone_args :: "application \<Rightarrow> string \<Rightarrow> string list" where
  "clone_args a repo =
     (if isCommitSHA (app_branch a) then [''clone'', app_repository a, repo]
      else [''clone'', ''--branch'', app_branch a, ''--single-branch'', app_repository a, repo])"

definition fetch_source :: "world \<Rightarrow> application \<Rightarrow> str_map \<Rightarrow> string \<Rightarrow> (dep_error + string) prog" where
  "fetch_source w a env repo = do {
     present \<leftarrow> disk w (Stat (join_path [repo, ''.git'']));
     cloned \<leftarrow> (case present of
         Inl err \<Rightarrow> if is_not_exist err then runWithEnv w env ''git'' (clone_args a repo) else State_Monad.return None
       | Inr _ \<Rightarrow> State_Monad.return None);
     case cloned of
       Some err \<Rightarrow> State_Monad.return (Inl (failure ''source'' ''clone_failed'' err))
     | None \<Rightarrow> do {
         fetched \<leftarrow> runWithEnv w env ''git'' [''-C'', repo, ''fetch'', ''origin'', app_branch a];
         case fetched of
           Some err \<Rightarrow> State_Monad.return (Inl (failure ''source'' ''fetch_failed'' err))
         | None \<Rightarrow> do {
             out \<leftarrow> run w ''git'' [''-C'', repo, ''checkout'', ''--force'', ''FETCH_HEAD''];
             State_Monad.return (case out of
                 Some err \<Rightarrow> Inl (failure ''source'' ''checkout_failed'' err)
               | None \<Rightarrow> Inr repo)
           }
       }
   }"

definition checkout_source :: "world \<Rightarrow> executor \<Rightarrow> application \<Rightarrow> (dep_error + string) prog" where
  "checkout_source w e a = do {
     made \<leftarrow> disk w (MkdirAll (ex_workspace e));
     case made of
       Inl err \<Rightarrow> State_Monad.return (Inl (failure ''source'' ''workspace_unavailable'' (Plain err)))
     | Inr _ \<Rightarrow> do {
         env \<leftarrow> cloneEnvironment w e a;
         case env of
           Inl err \<Rightarrow> State_Monad.return (Inl (failure ''source'' ''authentication_failed'' err))
         | Inr env \<Rightarrow> do {
             plain \<leftarrow> (if local_source a
               then do { git \<leftarrow> LocalRepositoryIsGit w (ex_local_repositories e) (app_repository a); State_Monad.return (\<not> git) }
               else State_Monad.return False);
             if plain then do {
               r \<leftarrow> LocalRepositoryPath w (ex_local_repositories e) (app_repository a);
               State_Monad.return (case r of
                   Inl err \<Rightarrow> Inl (failure ''source'' ''local_source_invalid'' err)
                 | Inr repo \<Rightarrow> Inr repo)
             }
             else fetch_source w a env (join_path [ex_workspace e, app_name a])
           }
       }
   }"

definition work_directory :: "string \<Rightarrow> application \<Rightarrow> string" where
  "work_directory repo a = clean_path (join_path [repo, app_work_dir a])"

definition mebibyte :: int where
  "mebibyte = 1048576"

definition check_context :: "world \<Rightarrow> executor \<Rightarrow> bool \<Rightarrow> string \<Rightarrow> bool \<Rightarrow> dep_error option prog" where
  "check_context w e tracked work custom = do {
     t \<leftarrow> walk_tree w work;
     case directorySize t of
       Inl err \<Rightarrow> State_Monad.return (Some (failure ''source'' ''workspace_measure_failed'' (Plain err)))
     | Inr bytes \<Rightarrow>
         if ex_workspace_max_bytes e > 0 \<and> bytes > ex_workspace_max_bytes e
         then State_Monad.return (Some (failure ''source'' ''workspace_quota_exceeded''
           (Plain (''workspace is '' @ show_int bytes @ '' bytes; limit is '' @ show_int (ex_workspace_max_bytes e) @ '' bytes''))))
         else do {
           (if bytes > 50 * mebibyte \<and> \<not> custom
            then on_event tracked ''source'' ''warning'' (''Contexto de construcci'' @ [CHR 0xC3, CHR 0xB3] @ ''n es alto ('' @
              w_quotient w bytes mebibyte @ '' MB) sin .dockerignore'')
            else State_Monad.return ());
           space \<leftarrow> perform (Statfs work) (\<lambda>h. w_statfs w h work);
           (case space of
              Some (blocks, available, block) \<Rightarrow>
                if blocks \<noteq> 0 \<and> available * block < 2 * 1024 ^ 3
                then on_event tracked ''source'' ''warning'' (''Espacio en disco bajo: '' @
                  w_quotient w (int (available * block)) (1024 ^ 3) @ '' GB'')
                else State_Monad.return ()
            | None \<Rightarrow> State_Monad.return ());
           State_Monad.return None
         }
   }"

definition ignore_contents :: string where
  "ignore_contents = text_lines [''.git'', ''node_modules'', ''.next'', ''.nuxt'', ''dist'', ''build'', ''tmp'', ''.gemini'']"

text \<open>Writes the managed ignore file; the answer lists what must be removed at the end.\<close>

definition write_ignore :: "world \<Rightarrow> string \<Rightarrow> bool \<Rightarrow> string list prog" where
  "write_ignore w path custom =
     (if custom then State_Monad.return []
      else do {
        r \<leftarrow> disk w (WriteFile path ignore_contents);
        State_Monad.return (if isl r then [] else [path])
      })"

section \<open>The build stage\<close>

definition build_args :: "deployment_configuration \<Rightarrow> string \<Rightarrow> string \<Rightarrow> string \<Rightarrow> string list" where
  "build_args conf img dockerfile work =
     [''build'', ''--tag'', img] @ (if dockerfile \<noteq> '''' then [''--file'', dockerfile] else []) @
     concat (map (\<lambda>name. [''--build-arg'', name @ ''='' @ lookup (dc_build_args conf) name]) (sortedNames (dc_build_args conf))) @
     concat (map (\<lambda>name. [''--secret'', ''id='' @ name @ '',env='' @ name]) (sortedNames (dc_build_secrets conf))) @ [work]"

definition build_image ::
    "world \<Rightarrow> bool \<Rightarrow> runtime_adapter \<Rightarrow> application \<Rightarrow> deployment_configuration \<Rightarrow> string \<Rightarrow> string \<Rightarrow> (string \<times> dep_error option) prog" where
  "build_image w tracked ad a conf dockerfile work = do {
     buildStart \<leftarrow> now w;
     stamp \<leftarrow> now w;
     let img = ''minidock/'' @ app_name a @ '':'' @ show_int (unix_seconds stamp);
     if \<not> SupportsBuildSecrets ad \<and> dc_build_secrets conf \<noteq> []
     then State_Monad.return (img, Some (failure ''build'' ''build_secrets_unsupported''
       (Plain (''runtime '' @ Name ad @ '' does not support build secrets''))))
     else do {
       built \<leftarrow> runWithEnv w (dc_build_secrets conf) (BuildCommand ad) (build_args conf img dockerfile work);
       case built of
         Some err \<Rightarrow> State_Monad.return (img, Some (failure ''build'' ''build_failed'' err))
       | None \<Rightarrow> do {
           (if tracked then do {
              buildEnd \<leftarrow> now w;
              took tracked ''build'' (buildEnd - buildStart);
              on_event tracked ''build'' ''info'' (''Imagen construida con '' @ [CHR 0xC3, CHR 0xA9] @ ''xito en '' @
                w_duration w (buildEnd - buildStart))
            }
            else State_Monad.return ());
           State_Monad.return (img, None)
         }
     }
   }"

text \<open>
  The two stages together. The answer holds the result so far, the files that the deferred clean-up
  of \<^verbatim>\<open>Deploy\<close> removes (last deferred first), and the image or the failure.
\<close>

definition build_from_source ::
    "world \<Rightarrow> executor \<Rightarrow> bool \<Rightarrow> runtime_adapter \<Rightarrow> application \<Rightarrow> deployment_configuration \<Rightarrow> release_result \<Rightarrow>
     (release_result \<times> string list \<times> (dep_error + string)) prog" where
  "build_from_source w e tracked ad a conf result = do {
     on_stage tracked ''source'';
     on_event tracked ''source'' ''info'' (''Iniciando descarga y preparaci'' @ [CHR 0xC3, CHR 0xB3] @ ''n del c'' @
       [CHR 0xC3, CHR 0xB3] @ ''digo fuente'');
     sourceStart \<leftarrow> now w;
     source \<leftarrow> checkout_source w e a;
     case source of
       Inl err \<Rightarrow> State_Monad.return (result, [], Inl err)
     | Inr repo \<Rightarrow>
         let work = work_directory repo a in
         if \<not> path_within repo work
         then State_Monad.return (result, [], Inl (failure ''source'' ''work_directory_invalid'' (Plain ''work directory escapes repository'')))
         else do {
           (revision, fingerprint) \<leftarrow> sourceEvidence w repo work;
           let result = result\<lparr>rr_source_revision := revision,
                 rr_source_fingerprint := (case fingerprint of Inl _ \<Rightarrow> '''' | Inr f \<Rightarrow> f)\<rparr>;
           case fingerprint of
             Inl err \<Rightarrow> State_Monad.return (result, [], Inl (failure ''source'' ''source_fingerprint_failed'' (Plain err)))
           | Inr _ \<Rightarrow> do {
               (if revision \<noteq> '''' then on_event tracked ''source'' ''info'' (''Revisi'' @ [CHR 0xC3, CHR 0xB3] @ ''n Git: '' @ revision)
                else State_Monad.return ());
               let ignorePath = join_path [work, ''.dockerignore''];
               info \<leftarrow> disk w (Stat ignorePath);
               checked \<leftarrow> check_context w e tracked work (\<not> isl info);
               case checked of
                 Some err \<Rightarrow> State_Monad.return (result, [], Inl err)
               | None \<Rightarrow> do {
                   ignored \<leftarrow> write_ignore w ignorePath (\<not> isl info);
                   generated \<leftarrow> generatedDockerfile w a work;
                   case generated of
                     Inl err \<Rightarrow> State_Monad.return (result, ignored, Inl (failure ''build'' ''contract_invalid'' err))
                   | Inr dockerfile \<Rightarrow> do {
                       let files = (if dockerfile = '''' then [] else [dockerfile]) @ ignored;
                       (if tracked then do {
                          sourceEnd \<leftarrow> now w;
                          took tracked ''source'' (sourceEnd - sourceStart);
                          on_event tracked ''source'' ''info'' (''C'' @ [CHR 0xC3, CHR 0xB3] @ ''digo fuente preparado en '' @
                            w_duration w (sourceEnd - sourceStart));
                          on_stage tracked ''build'';
                          on_event tracked ''build'' ''info'' (''Iniciando compilaci'' @ [CHR 0xC3, CHR 0xB3] @
                            ''n y empaquetado de la imagen Docker'')
                        }
                        else State_Monad.return ());
                       (img, failed) \<leftarrow> build_image w tracked ad a conf dockerfile work;
                       State_Monad.return (result\<lparr>rr_image := img\<rparr>, files,
                         case failed of Some err \<Rightarrow> Inl err | None \<Rightarrow> Inr img)
                     }
                 }
             }
         }
   }"

section \<open>Releases\<close>

definition artifactDigest :: "world \<Rightarrow> string \<Rightarrow> string \<Rightarrow> string prog" where
  "artifactDigest w runtimeName img =
     (if runtimeName \<noteq> ''docker'' then State_Monad.return ''''
      else do {
        digest \<leftarrow> docker_field w [''image'', ''inspect'', ''--format'', ''{{.Id}}'', img];
        State_Monad.return (if has_prefix digest ''sha256:'' then digest else '''')
      })"

definition start_release ::
    "world \<Rightarrow> nat \<Rightarrow> executor \<Rightarrow> bool \<Rightarrow> runtime_adapter \<Rightarrow> application \<Rightarrow> str_map \<Rightarrow> string \<Rightarrow> release_result \<Rightarrow>
     (release_result \<times> dep_error option) prog" where
  "start_release w fuel e tracked ad a env img result = do {
     (img', err) \<leftarrow> Start ad w fuel e tracked a img env;
     let result = result\<lparr>rr_image := img'\<rparr>;
     case err of
       Some err \<Rightarrow> State_Monad.return (result, Some err)
     | None \<Rightarrow> do {
         digest \<leftarrow> artifactDigest w (Name ad) img;
         ident \<leftarrow> (if Name ad = ''docker'' then dockerContainerID w (container_name a)
                    else State_Monad.return (rr_observed_container_id result));
         State_Monad.return (result\<lparr>rr_artifact_digest := digest, rr_observed_container_id := ident\<rparr>, None)
       }
   }"

fun remove_files :: "world \<Rightarrow> string list \<Rightarrow> unit prog" where
  "remove_files w [] = State_Monad.return ()"
| "remove_files w (f # fs) = do { _ \<leftarrow> disk w (RemoveFile f); remove_files w fs }"

definition reuse_image ::
    "bool \<Rightarrow> deployment_configuration \<Rightarrow> release_result \<Rightarrow> (release_result \<times> string list \<times> (dep_error + string)) prog" where
  "reuse_image tracked conf result = do {
     on_stage tracked ''start'';
     on_event tracked ''start'' ''info'' (''Reusando imagen construida previamente: '' @ dc_reuse_image conf);
     State_Monad.return (result\<lparr>rr_image := dc_reuse_image conf, rr_source_revision := dc_reuse_source_revision conf,
       rr_source_fingerprint := dc_reuse_source_fingerprint conf\<rparr>, [], Inr (dc_reuse_image conf))
   }"

definition Deploy ::
    "world \<Rightarrow> nat \<Rightarrow> executor \<Rightarrow> bool \<Rightarrow> application \<Rightarrow> deployment_configuration \<Rightarrow> (release_result \<times> dep_error option) prog" where
  "Deploy w fuel e tracked a conf = do {
     r \<leftarrow> adapter w e a;
     case r of
       Inl err \<Rightarrow> State_Monad.return (empty_result,
         Some (failure ''start'' ''runtime_unavailable'' (Plain (''runtime preflight: '' @ detail_text err))))
     | Inr ad \<Rightarrow>
         let result = empty_result\<lparr>rr_runtime := Name ad\<rparr> in
         if \<not> safeName (app_name a) then State_Monad.return (result, Some (Plain ''invalid application name''))
         else do {
           (result, files, built) \<leftarrow>
             (if dc_reuse_image conf \<noteq> '''' then reuse_image tracked conf result
              else build_from_source w e tracked ad a conf result);
           out \<leftarrow> (case built of
               Inl err \<Rightarrow> State_Monad.return (result, Some err)
             | Inr img \<Rightarrow> start_release w fuel e tracked ad a (dc_runtime conf) img result);
           remove_files w files;
           State_Monad.return out
         }
   }"

definition Rollback ::
    "world \<Rightarrow> nat \<Rightarrow> executor \<Rightarrow> bool \<Rightarrow> application \<Rightarrow> string \<Rightarrow> deployment_configuration \<Rightarrow>
     (release_result \<times> dep_error option) prog" where
  "Rollback w fuel e tracked a img conf = do {
     let result = empty_result\<lparr>rr_image := img\<rparr>;
     r \<leftarrow> adapter w e a;
     case r of
       Inl err \<Rightarrow> State_Monad.return (result, Some err)
     | Inr ad \<Rightarrow> start_release w fuel e tracked ad a (dc_runtime conf) img (result\<lparr>rr_runtime := Name ad\<rparr>)
   }"

definition VerifyArtifact :: "world \<Rightarrow> executor \<Rightarrow> application \<Rightarrow> string \<Rightarrow> string \<Rightarrow> dep_error option prog" where
  "VerifyArtifact w e a img digest =
     (if img = '''' \<or> digest = ''''
      then State_Monad.return (Some (failure ''rollback'' ''artifact_evidence_missing''
        (Plain ''rollback release has no immutable artifact digest'')))
      else do {
        r \<leftarrow> adapter w e a;
        case r of
          Inl err \<Rightarrow> State_Monad.return (Some (failure ''rollback'' ''runtime_unavailable'' err))
        | Inr ad \<Rightarrow> do {
            actual \<leftarrow> artifactDigest w (Name ad) img;
            State_Monad.return (if actual = '''' then Some (failure ''rollback'' ''artifact_missing''
                (Plain (''image '' @ quoted img @ '' is not available in runtime '' @ Name ad)))
              else if actual \<noteq> digest then Some (failure ''rollback'' ''artifact_digest_mismatch''
                (Plain (''image '' @ quoted img @ '' digest '' @ actual @ '' does not match recorded digest '' @ digest)))
              else None)
          }
      })"

section \<open>Recovery\<close>

definition previous_name :: "application \<Rightarrow> string" where
  "previous_name a = container_name a @ ''-previous''"

definition wrap :: "string \<Rightarrow> dep_error \<Rightarrow> dep_error" where
  "wrap message err = (if err = Diverged then Diverged else Plain (message @ detail_text err))"

text \<open>Re-applies the route to an existing container and discards the staging container.\<close>

definition route_to :: "world \<Rightarrow> executor \<Rightarrow> application \<Rightarrow> string \<Rightarrow> dep_error option prog" where
  "route_to w e a container = do {
     target \<leftarrow> dockerContainerTarget w container (app_internal_port a);
     case target of
       Inl err \<Rightarrow> State_Monad.return (Some err)
     | Inr target \<Rightarrow> do {
         applied \<leftarrow> Apply w e a target;
         State_Monad.return (map_option (wrap (''restore Caddy route for '' @ app_name a @ '': '')) applied)
       }
   }"

definition adopt :: "world \<Rightarrow> executor \<Rightarrow> application \<Rightarrow> string \<Rightarrow> dep_error option prog" where
  "adopt w e a container = do {
     routed \<leftarrow> route_to w e a container;
     case routed of
       Some err \<Rightarrow> State_Monad.return (Some err)
     | None \<Rightarrow> removeDockerContainerIfPresent w (next_name a)
   }"

definition restore_previous :: "world \<Rightarrow> nat \<Rightarrow> executor \<Rightarrow> application \<Rightarrow> dep_error option prog" where
  "restore_previous w fuel e a = do {
     started \<leftarrow> run w ''docker'' [''start'', previous_name a];
     case started of
       Some err \<Rightarrow> State_Monad.return (Some (wrap (''restart previous '' @ previous_name a @ '': '') err))
     | None \<Rightarrow> do {
         healthy \<leftarrow> waitHealthy w fuel e (previous_name a);
         case healthy of
           Some err \<Rightarrow> State_Monad.return (Some (failure ''rollback'' ''reconcile_restore_unhealthy''
             (wrap (''previous '' @ previous_name a @ '' did not become healthy: '') err)))
         | None \<Rightarrow> do {
             renamed \<leftarrow> run w ''docker'' [''rename'', previous_name a, container_name a];
             case renamed of
               Some err \<Rightarrow> State_Monad.return (Some (wrap (''rename restored '' @ previous_name a @ '': '') err))
             | None \<Rightarrow> route_to w e a (container_name a)
           }
       }
   }"

text \<open>One application: the error, and whether its preserved container was restored.\<close>

definition reconcile_application ::
    "world \<Rightarrow> nat \<Rightarrow> executor \<Rightarrow> application \<Rightarrow> (dep_error option \<times> bool) prog" where
  "reconcile_application w fuel e a = do {
     candidateExists \<leftarrow> dockerContainerExists w (candidate_name a);
     if candidateExists then do { err \<leftarrow> adopt w e a (candidate_name a); State_Monad.return (err, False) }
     else do {
       primaryExists \<leftarrow> dockerContainerExists w (container_name a);
       previousExists \<leftarrow> dockerContainerExists w (previous_name a);
       if primaryExists then do {
         adopted \<leftarrow> adopt w e a (container_name a);
         case adopted of
           Some err \<Rightarrow> State_Monad.return (Some err, False)
         | None \<Rightarrow>
             if previousExists
             then do { err \<leftarrow> removeDockerContainerIfPresent w (previous_name a); State_Monad.return (err, False) }
             else State_Monad.return (None, False)
       }
       else if previousExists then do {
         err \<leftarrow> restore_previous w fuel e a;
         State_Monad.return (err, err = None)
       }
       else State_Monad.return (None, False)
     }
   }"

fun Reconcile :: "world \<Rightarrow> nat \<Rightarrow> executor \<Rightarrow> application list \<Rightarrow> (int list \<times> dep_error option) prog" where
  "Reconcile w fuel e [] = State_Monad.return ([], None)"
| "Reconcile w fuel e (a # rest) = do {
     r \<leftarrow> adapter w e a;
     (err, restored) \<leftarrow> (case r of
         Inr DockerAdapter \<Rightarrow> reconcile_application w fuel e a
       | _ \<Rightarrow> State_Monad.return (None, False));
     case err of
       Some err \<Rightarrow> State_Monad.return ([], Some err)
     | None \<Rightarrow> do {
         (ids, out) \<leftarrow> Reconcile w fuel e rest;
         State_Monad.return ((if restored then [app_id a] else []) @ ids, out)
       }
   }"

end
