(* ===== verification/Executor_Safety.thy ===== *)
theory Executor_Safety
  imports Executor_Deploy
begin

text \<open>
  What a release may do to containers. An action \<open>handles\<close> a container when it is a Docker
  command that removes, renames, stops or starts it; everything else the deployer does leaves
  existing containers alone.
\<close>

definition container_commands :: "string list" where
  "container_commands = [''rm'', ''rename'', ''stop'', ''start'', ''restart'', ''kill'']"

fun mutating :: "action \<Rightarrow> bool" where
  "mutating (Exec name args env) \<longleftrightarrow> name = ''docker'' \<and> args \<noteq> [] \<and> hd args \<in> set container_commands"
| "mutating _ \<longleftrightarrow> False"

fun handles :: "string \<Rightarrow> action \<Rightarrow> bool" where
  "handles container (Exec name args env) \<longleftrightarrow> mutating (Exec name args env) \<and> container \<in> set (tl args)"
| "handles container _ \<longleftrightarrow> False"

lemma handles_mutating: "handles c x \<Longrightarrow> mutating x"
  by (cases x) simp_all

lemma emits_sent [emits_rules]:
  "(\<And>x. r = BadRequest x \<Longrightarrow> emits P (f x)) \<Longrightarrow> (\<And>x. r = NoAnswer x \<Longrightarrow> emits P (g x)) \<Longrightarrow>
   (\<And>x. r = Answer x \<Longrightarrow> emits P (k x)) \<Longrightarrow>
   emits P (case r of BadRequest x \<Rightarrow> f x | NoAnswer x \<Rightarrow> g x | Answer x \<Rightarrow> k x)"
  by (cases r) auto

section \<open>Actions that only look\<close>

text \<open>
  The Docker and Git subcommands with which the deployer inspects containers, images and
  networks, creates its network, and fetches sources. Everything that is not a command is plain.
\<close>

definition plain_heads :: "string list" where
  "plain_heads = [''container'', ''inspect'', ''network'', ''image'', ''clone'', ''-C'', ''system'', ''info'']"

fun plain :: "action \<Rightarrow> bool" where
  "plain (Exec name args env) \<longleftrightarrow> args \<noteq> [] \<and> hd args \<in> set plain_heads"
| "plain _ \<longleftrightarrow> True"

abbreviation plainly :: "'a prog \<Rightarrow> bool" where
  "plainly m \<equiv> emits plain m"

named_theorems plain_rules

lemma plain_basic [plain_rules]:
  "args \<noteq> [] \<Longrightarrow> hd args \<in> set plain_heads \<Longrightarrow> plainly (exec_cmd w name args env)"
  "args \<noteq> [] \<Longrightarrow> hd args \<in> set plain_heads \<Longrightarrow> plainly (combined_output w name args)"
  "plainly (http_do w meth url headers body)" "plainly (now w)" "plainly (sleep w d)" "plainly (disk w c)"
  "plainly (on_stage tracked stage)" "plainly (on_event tracked stage kind message)" "plainly (took tracked stage d)"
  by (auto simp: action_defs intro!: emits_rules)

lemma plain_run [plain_rules]:
  "args \<noteq> [] \<Longrightarrow> hd args \<in> set plain_heads \<Longrightarrow> plainly (runWithEnv w env name args)"
  "args \<noteq> [] \<Longrightarrow> hd args \<in> set plain_heads \<Longrightarrow> plainly (run w name args)"
  by (auto simp: runWithEnv_def run_def intro!: emits_rules plain_rules)

lemma plain_docker [plain_rules]:
  "plainly (dockerContainerExists w c)" "plainly (dockerContainerTarget w c port)"
  "plainly (inspectDockerNetwork w e)" "plainly (dockerContainerID w c)"
  by (auto simp: dockerContainerExists_def dockerContainerTarget_def inspectDockerNetwork_def docker_field_def
      dockerContainerID_def plain_heads_def intro!: emits_rules plain_rules)

lemma plain_network [plain_rules]: "plainly (ensureDockerNetwork w e)"
  by (auto simp: ensureDockerNetwork_def plain_heads_def intro!: emits_rules plain_rules)

lemma plain_send [plain_rules]: "plainly (send w meth url headers body)"
  by (auto simp: send_def intro!: emits_rules plain_rules)

lemma plain_verify_target [plain_rules]: "plainly (verifyRouteTarget w b p t)"
  unfolding verifyRouteTarget_def by (intro emits_rules plain_rules)

lemma plain_apply [plain_rules]: "plainly (Apply w e a t)"
  unfolding Apply_def UpsertRoute_def by (intro emits_rules plain_rules)

lemma plain_probe [plain_rules]: "plainly (probe_turn w e a r)"
  unfolding probe_turn_def by (intro emits_rules plain_rules)

lemma plain_probe_loop: "plainly (probe_loop w e a d n r l)"
  by (induction n arbitrary: r l) (auto intro!: emits_rules plain_rules)

lemma plain_verify [plain_rules]: "plainly (Verify w n e a)"
  unfolding Verify_def Probe_def by (intro emits_rules plain_rules plain_probe_loop)

lemma plain_wait_loop: "plainly (wait_loop w c d n)"
  by (induction n) (auto simp: plain_heads_def Let_def intro!: emits_rules plain_rules)

lemma plain_wait [plain_rules]: "plainly (waitHealthy w n e c)"
  unfolding waitHealthy_def by (intro emits_rules plain_rules plain_wait_loop)

lemma plain_env_file [plain_rules]: "plainly (runtimeEnvFile w d env)" "plainly (removeRuntimeEnvFile w p)"
  unfolding runtimeEnvFile_def removeRuntimeEnvFile_def by (intro emits_rules plain_rules)+

lemma plain_restore_route [plain_rules]: "plainly (restore_route w e a c)"
  unfolding restore_route_def by (intro emits_rules plain_rules)

lemma plain_diagnostics: "plainly (RuntimeDiagnostics w)"
  by (auto simp: RuntimeDiagnostics_def appleRuntimeDiagnostic_def runtimeDiagnostic_def hasContainerKernel_def
      plain_heads_def Let_def intro!: emits_rules plain_rules)

lemma plain_adapter [plain_rules]: "plainly (adapter w e a)"
  unfolding adapter_def runtime_def Available_def by (intro emits_rules plain_diagnostics)

lemma plain_calm: "plain x \<Longrightarrow> \<not> mutating x"
  by (cases x) (auto simp: plain_heads_def container_commands_def)

abbreviation calm :: "'a prog \<Rightarrow> bool" where
  "calm m \<equiv> emits (\<lambda>x. \<not> mutating x) m"

lemma plainly_calm: "plainly m \<Longrightarrow> calm m"
  by (erule emits_mono) (rule plain_calm)

text \<open>A container is only ever created with checked arguments and no extra environment.\<close>

fun confined :: "executor \<Rightarrow> application \<Rightarrow> action \<Rightarrow> bool" where
  "confined e a (Exec name args env) \<longleftrightarrow>
     (args \<noteq> [] \<and> hd args = ''run'' \<longrightarrow> name = ''docker'' \<and> env = [] \<and> ValidateDockerContainerSecurityArgs args = None \<and>
        (\<exists>img c f. args = docker_run_args e a img c f))"
| "confined e a _ \<longleftrightarrow> True"

lemma plain_confined: "plain x \<Longrightarrow> confined e a x"
  by (cases x) (auto simp: plain_heads_def)

lemma plainly_confined: "plainly m \<Longrightarrow> emits (confined e a) m"
  by (erule emits_mono) (rule plain_confined)

lemma run_container_emits:
  "emits (\<lambda>x. plain x \<or> (\<exists>args. x = Exec ''docker'' args [] \<and> ValidateDockerContainerSecurityArgs args = None \<and>
      (\<exists>f. args = docker_run_args e a img c f))) (runDockerContainer w e a img env c)"
  unfolding runDockerContainer_def Let_def
  by (intro emits_rules plain_env_file [THEN emits_mono])
    (auto simp: run_def runWithEnv_def sortedNames_def action_defs intro!: emits_rules)

lemma calm_run_container: "calm (runDockerContainer w e a img env c)"
  by (rule emits_mono [OF run_container_emits]) (auto simp: docker_run_args_def container_commands_def dest: plain_calm)

lemma confined_run_container: "emits (confined e a) (runDockerContainer w e a img env c)"
  by (rule emits_mono [OF run_container_emits]) (auto dest: plain_confined, blast)

section \<open>The switch and the serving container\<close>

lemma names_distinct:
  "candidate_name a \<noteq> container_name a" "next_name a \<noteq> candidate_name a" "next_name a \<noteq> container_name a"
  "candidate_name a \<noteq> ''--force''" "container_name a \<noteq> ''--force''" "next_name a \<noteq> ''--force''"
  by (simp_all add: candidate_name_def next_name_def container_name_def)

lemma not_handles_run: "args \<noteq> [] \<Longrightarrow> c \<notin> set (tl args) \<Longrightarrow> emits (\<lambda>x. \<not> handles c x) (run w name args)"
  by (auto simp: run_def runWithEnv_def action_defs intro!: emits_rules)

lemma not_handles_remove:
  "c \<noteq> s \<Longrightarrow> c \<noteq> ''--force'' \<Longrightarrow> emits (\<lambda>x. \<not> handles c x) (remove_force w s)"
  by (auto simp: remove_force_def intro!: emits_rules not_handles_run)

lemma calm_not_handles: "calm m \<Longrightarrow> emits (\<lambda>x. \<not> handles c x) m"
  by (erule emits_mono) (auto dest: handles_mutating)

lemmas not_handles_calm = plain_rules [THEN plainly_calm, THEN calm_not_handles]
  calm_run_container [THEN calm_not_handles]

definition late_failure :: "string list" where
  "late_failure = [''previous_cleanup_failed'', ''candidate_promote_failed'']"

text \<open>The failures after which the old container may already be gone.\<close>

definition early :: "dep_error option \<Rightarrow> bool" where
  "early r \<longleftrightarrow> (case r of None \<Rightarrow> False | Some err \<Rightarrow> fst (snd (FailureDetails (Some err))) \<notin> set late_failure)"

lemma prove_candidate_spares:
  "c \<noteq> s \<Longrightarrow> c \<noteq> ''--force'' \<Longrightarrow> emits (\<lambda>x. \<not> handles c x) (prove_candidate w n e tr a img env s)"
  unfolding prove_candidate_def
  by (intro emits_rules not_handles_calm not_handles_remove)

lemma emits_run_any: "emits (\<lambda>_. True) (run w name args)"
  by (auto simp: run_def runWithEnv_def action_defs intro!: emits_rules)

lemma run_converges: "yields (\<lambda>r. r \<noteq> Some Diverged) (run w name args)"
  by (auto simp: run_def runWithEnv_def yields_def split: sum.splits prod.splits)

lemma remove_converges: "yields (\<lambda>r. r \<noteq> Some Diverged) (removeDockerContainerIfPresent w c)"
  unfolding removeDockerContainerIfPresent_def by (auto intro!: yields_rules)

lemma late_not_early [simp]:
  "\<not> early None"
  "err \<noteq> Diverged \<Longrightarrow> \<not> early (Some (failure stage ''previous_cleanup_failed'' err))"
  "err \<noteq> Diverged \<Longrightarrow> \<not> early (Some (failure stage ''candidate_promote_failed'' err))"
  by (simp_all add: early_def failure_def late_failure_def)

lemma retire_active_late:
  "yields (\<lambda>r. \<not> early r) (retire_active w a c s)" "emits (\<lambda>_. True) (retire_active w a c s)"
proof -
  have removed: "yields (\<lambda>r. r \<noteq> Some Diverged)
      (if b then removeDockerContainerIfPresent w c else State_Monad.return None)" for b
    using remove_converges by (auto intro: yields_rules)
  have renamed: "yields (\<lambda>r. \<not> early r) (State_Monad.bind (run w ''docker'' [''rename'', s, candidate_name a])
      (\<lambda>r. State_Monad.return (map_option (failure ''route'' ''candidate_promote_failed'') r)))"
    by (rule yields_bind_via [OF run_converges], rule yields_return)
      (auto simp: map_option_case split: option.splits)
  have "yields (\<lambda>r. \<not> early r) (case r of
        Some err \<Rightarrow> State_Monad.return (Some (failure ''route'' ''previous_cleanup_failed'' err))
      | None \<Rightarrow> if s \<noteq> candidate_name a
          then State_Monad.bind (run w ''docker'' [''rename'', s, candidate_name a])
            (\<lambda>r. State_Monad.return (map_option (failure ''route'' ''candidate_promote_failed'') r))
          else State_Monad.return None)" if "r \<noteq> Some Diverged" for r
    using that renamed
    by (auto intro!: yields_option yields_return yields_if)
  then show "yields (\<lambda>r. \<not> early r) (retire_active w a c s)"
    unfolding retire_active_def by (rule yields_bind [OF yields_bind_via [OF removed]])
  show "emits (\<lambda>_. True) (retire_active w a c s)"
    unfolding retire_active_def removeDockerContainerIfPresent_def dockerContainerExists_def exec_cmd_def
    by (intro emits_rules emits_run_any) simp_all
qed

lemma switch_route_spares:
  "c \<noteq> s \<Longrightarrow> c \<noteq> ''--force'' \<Longrightarrow> emits_when early (\<lambda>x. \<not> handles c x) (switch_route w n e tr a c s)"
  unfolding switch_route_def
  by (intro emits_when_bind emits_when_option emits_when_sum not_handles_calm not_handles_remove
      emits_when_never [OF retire_active_late(2,1)] emits_when_all [OF emits_return])


text \<open>The container that serves when Docker answers the existence test of \<^verbatim>\<open>Start\<close> in history \<open>h\<close>.\<close>

definition serving :: "world \<Rightarrow> application \<Rightarrow> history \<Rightarrow> string" where
  "serving w a h =
     (if isl (w_exec w h ''docker'' [''container'', ''inspect'', candidate_name a] []) then container_name a
      else candidate_name a)"

lemma stage_release_spares:
  "c \<noteq> s \<Longrightarrow> c \<noteq> ''--force'' \<Longrightarrow> emits_when early (\<lambda>x. \<not> handles c x) (stage_release w n e tr a img env c s)"
  unfolding stage_release_def
  by (intro emits_when_bind emits_when_option prove_candidate_spares switch_route_spares emits_when_all [OF emits_return])

end
