(* ===== verification/Executor_Evidence.thy ===== *)
theory Executor_Evidence
  imports Executor_Safety
begin

text \<open>
  What a successful release has seen, and that releases return. \<open>later h' h\<close> says that
  history \<open>h'\<close> continues \<open>h\<close>; the evidence predicates speak of one answer of the
  world at one moment.
\<close>

definition later :: "history \<Rightarrow> history \<Rightarrow> bool" where
  "later h' h \<longleftrightarrow> (\<exists>t. h' = t @ h)"

lemma later_refl [simp]: "later h h"
  by (simp add: later_def)

lemma later_Cons: "later h' h \<Longrightarrow> later (x # h') h"
  by (auto simp: later_def)

lemma later_step: "later h' (x # h) \<Longrightarrow> later h' h"
  by (auto simp: later_def)

lemma later_trans: "later h2 h1 \<Longrightarrow> later h1 h \<Longrightarrow> later h2 h"
  by (auto simp: later_def)

definition grows :: "'a prog \<Rightarrow> bool" where
  "grows m \<longleftrightarrow> emits (\<lambda>_. True) m"

lemma grows_later: "grows m \<Longrightarrow> run_state m h = (x, h') \<Longrightarrow> later h' h"
  unfolding grows_def emits_def later_def by (metis snd_conv)

lemma plain_grows: "plainly m \<Longrightarrow> grows m"
  unfolding grows_def by (erule emits_mono) simp

lemma calm_grows: "calm m \<Longrightarrow> grows m"
  unfolding grows_def by (erule emits_mono) simp

lemma grows_remove: "grows (remove_force w c)" "grows (run w name args)" "grows (retire_active w a c s)"
  using emits_run_any retire_active_late(2)
  by (auto simp: grows_def remove_force_def intro!: emits_rules)

lemma run_bindE:
  assumes "run_state (State_Monad.bind m f) h = (y, h')"
  obtains x h1 where "run_state m h = (x, h1)" "run_state (f x) h1 = (y, h')"
  using assms by (auto split: prod.splits)

section \<open>Evidence\<close>

definition healthy_at :: "world \<Rightarrow> string \<Rightarrow> history \<Rightarrow> bool" where
  "healthy_at w c h =
     (case w_exec w h ''docker'' [''inspect'', ''--format'', health_format, c] [] of
        Inl _ \<Rightarrow> False
      | Inr status \<Rightarrow> trim_space status = ''healthy'' \<or> trim_space status = ''true'')"

definition routed_at :: "world \<Rightarrow> application \<Rightarrow> string \<Rightarrow> history \<Rightarrow> bool" where
  "routed_at w a target h \<longleftrightarrow>
     (\<exists>base response handle. w_http w h ''GET'' (base @ ''/id/'' @ caddyRouteID (app_id a)) [] '''' = Inr response \<and>
        ok_status response \<and> w_route w (take body_limit (hr_body response)) = Inr handle \<and> has_upstream handle target)"

definition probe_url :: "executor \<Rightarrow> application \<Rightarrow> string" where
  "probe_url e a = trim_right (\<lambda>c. c = CHR ''/'') (proxy_url e) @ health_path a"

definition served_at :: "world \<Rightarrow> executor \<Rightarrow> application \<Rightarrow> history \<Rightarrow> bool" where
  "served_at w e a h \<longleftrightarrow>
     (\<exists>response. w_http w h ''GET'' (probe_url e a) [(''Host'', app_domain a)] '''' = Inr response \<and>
        probe_answer e a (health_path a) response = None)"

text \<open>The address Docker reports for a container, with the application's port.\<close>

definition addressed_at :: "world \<Rightarrow> string \<Rightarrow> int \<Rightarrow> string \<Rightarrow> history \<Rightarrow> bool" where
  "addressed_at w c port target h \<longleftrightarrow> fst (run_state (dockerContainerTarget w c port) h) = Inr target"

lemma wait_loop_evidence:
  "run_state (wait_loop w c d n) h = (None, h') \<Longrightarrow> \<exists>h1. later h1 h \<and> later h' h1 \<and> healthy_at w c h1"
proof (induction n arbitrary: h)
  case (Suc n)
  let ?q = "Exec ''docker'' [''inspect'', ''--format'', health_format, c] []"
  show ?case
  proof (cases "healthy_at w c h")
    case True
    from grows_later [OF plain_grows [OF plain_wait_loop] Suc.prems] have "later h' h" .
    with True show ?thesis by (intro exI [of _ h]) simp
  next
    case False
    with Suc.prems have "run_state (wait_loop w c d n) (Sleep second # ReadClock # ?q # h) = (None, h')"
      by (auto simp: healthy_at_def action_defs Let_def split: sum.splits if_splits option.splits)
    from Suc.IH [OF this] show ?thesis by (auto dest!: later_step)
  qed
qed simp

lemma wait_evidence:
  assumes "run_state (waitHealthy w n e c) h = (None, h')"
  shows "\<exists>h1. later h1 h \<and> later h' h1 \<and> healthy_at w c h1"
proof -
  from assms have "run_state (wait_loop w c (w_now w h + healthTimeout e) n) (ReadClock # h) = (None, h')"
    by (simp add: waitHealthy_def action_defs)
  from wait_loop_evidence [OF this] show ?thesis by (auto dest!: later_step)
qed

lemma target_evidence:
  assumes "run_state (dockerContainerTarget w c port) h = (Inr target, h')"
  shows "addressed_at w c port target h" "later h' h"
  using assms grows_later [OF plain_grows [OF plain_docker(2)] assms] by (simp_all add: addressed_at_def)

lemma send_answer:
  "run_state (send w meth url headers body) h = (Answer r, h') \<Longrightarrow>
     w_http w h meth url headers body = Inr r \<and> h' = HttpCall meth url headers body # h"
  by (auto simp: send_def action_defs split: sum.splits)

lemma verify_target_evidence:
  assumes "run_state (verifyRouteTarget w b p target) h = (None, h')"
    and "p = pre @ ''/id/'' @ caddyRouteID (app_id a)"
  shows "routed_at w a target h" "later h' h"
proof -
  show "later h' h" by (rule grows_later [OF plain_grows [OF plain_verify_target] assms(1)])
  from assms(1) obtain url r h1 where url: "(if has_prefix p ''/'' then endpoint w b p else Inr p) = Inr url"
    and sent: "run_state (send w ''GET'' url [] '''') h = (r, h1)"
    and ok: "\<exists>response handle. r = Answer response \<and> ok_status response \<and>
      w_route w (take body_limit (hr_body response)) = Inr handle \<and> has_upstream handle target"
    by (auto simp: verifyRouteTarget_def split: sum.splits sent.splits if_splits prod.splits)
  from url assms(2) obtain pre' where "url = pre' @ ''/id/'' @ caddyRouteID (app_id a)"
    by (auto simp: endpoint_def Let_def split: if_splits sum.splits)
  with ok sent send_answer show "routed_at w a target h" unfolding routed_at_def by blast
qed

lemma upsert_evidence:
  assumes "run_state (UpsertRoute w b a target) h = (None, h')"
  shows "\<exists>h1. later h1 h \<and> later h' h1 \<and> routed_at w a target h1"
proof -
  from assms obtain url r h1 where url: "endpoint w b (''/id/'' @ caddyRouteID (app_id a)) = Inr url"
    and sent: "run_state (send w ''PATCH'' url json_header (route_body a target)) h = (r, h1)"
    by (auto simp: UpsertRoute_def Let_def split: sum.splits prod.splits)
  from url obtain pre where pre: "url = pre @ ''/id/'' @ caddyRouteID (app_id a)"
    by (auto simp: endpoint_def Let_def split: if_splits sum.splits)
  have h1: "later h1 h" by (rule grows_later [OF plain_grows [OF plain_send] sent])
  from assms url sent consider
      "run_state (verifyRouteTarget w b url target) h1 = (None, h')"
    | u h2 r2 where "run_state (send w ''POST'' u json_header (route_body a target)) h1 = (r2, h2)"
        "run_state (verifyRouteTarget w b (''/id/'' @ caddyRouteID (app_id a)) target) h2 = (None, h')"
    by (auto simp: UpsertRoute_def Let_def split: sum.splits sent.splits if_splits prod.splits)
  then show ?thesis
  proof cases
    case 1
    from verify_target_evidence [OF this pre] h1 show ?thesis by blast
  next
    case 2
    have "later h2 h1" by (rule grows_later [OF plain_grows [OF plain_send] 2(1)])
    with h1 have "later h2 h" by (rule later_trans [rotated])
    with verify_target_evidence [OF 2(2), of "''''"] show ?thesis by auto
  qed
qed

lemma apply_evidence:
  "run_state (Apply w e a target) h = (None, h') \<Longrightarrow> \<exists>h1. later h1 h \<and> later h' h1 \<and> routed_at w a target h1"
  by (auto simp: Apply_def split: if_splits dest: upsert_evidence)

lemma probe_turn_evidence:
  assumes "run_state (probe_turn w e a res) h = (Inl p, h')" and "rp_success p" and "\<not> rp_success res"
  shows "served_at w e a h"
  using assms
  by (auto simp: probe_turn_def served_at_def probe_url_def action_defs Let_def
      split: if_splits sent.splits option.splits prod.splits dest!: send_answer)

lemma probe_turn_result:
  "run_state (probe_turn w e a res) h = (Inr (res', err), h') \<Longrightarrow> \<not> rp_success res \<Longrightarrow> \<not> rp_success res'"
  by (auto simp: probe_turn_def Let_def split: if_splits sent.splits option.splits prod.splits)

lemma probe_loop_evidence:
  "run_state (probe_loop w e a d n res le) h = (Some p, h') \<Longrightarrow> rp_success p \<Longrightarrow> \<not> rp_success res \<Longrightarrow>
   \<exists>h1. later h1 h \<and> later h' h1 \<and> served_at w e a h1"
proof (induction n arbitrary: res le h)
  case (Suc n)
  from Suc.prems obtain r h1 where turn: "run_state (probe_turn w e a res) (ReadClock # h) = (r, h1)"
    and rest: "run_state (case r of Inl final \<Rightarrow> State_Monad.return (Some final)
        | Inr (res', err) \<Rightarrow> probe_loop w e a d n res' (Some err)) h1 = (Some p, h')"
    by (auto simp: action_defs split: if_splits prod.splits option.splits)
  have h1: "later h1 (ReadClock # h)" by (rule grows_later [OF plain_grows [OF plain_probe] turn])
  show ?case
  proof (cases r)
    case (Inl final)
    with rest Suc.prems turn have "served_at w e a (ReadClock # h)" "h' = h1"
      by (auto dest: probe_turn_evidence)
    with h1 show ?thesis by (intro exI [of _ "ReadClock # h"]) (simp add: later_Cons)
  next
    case (Inr q)
    obtain res' err where q: "q = (res', err)" by fastforce
    with Inr rest have loop: "run_state (probe_loop w e a d n res' (Some err)) h1 = (Some p, h')" by simp
    from probe_turn_result turn Inr q Suc.prems(3) have "\<not> rp_success res'" by blast
    from Suc.IH [OF loop Suc.prems(2) this] later_step [OF h1] show ?thesis
      by (blast intro: later_trans)
  qed
qed simp

lemma verify_evidence:
  assumes "run_state (Verify w n e a) h = (None, h')"
  shows "\<exists>h1. later h1 h \<and> later h' h1 \<and> served_at w e a h1"
proof -
  from assms obtain p res where "run_state (probe_loop w e a (w_now w h + healthTimeout e) n res None)
      (ReadClock # ReadClock # h) = (Some p, h')" "rp_success p" "\<not> rp_success res"
    by (fastforce simp: Verify_def Probe_def action_defs split: prod.splits option.splits if_splits)
  from probe_loop_evidence [OF this] show ?thesis by (auto dest!: later_step)
qed

lemma grows_on: "grows (on_stage b s)" "grows (on_event b s k m)" "grows (took b s d)" "grows (now w)"
  by (rule plain_grows; intro plain_rules)+

lemma prove_candidate_evidence:
  assumes "run_state (prove_candidate w n e tr a img env s) h = (None, h')"
  shows "\<exists>h1. later h1 h \<and> later h' h1 \<and> healthy_at w s h1"
proof -
  from assms obtain h1 h2 x where waited: "run_state (waitHealthy w n e s) h1 = (None, h2)"
    and before: "later h1 h" and after: "later h' h2"
    unfolding prove_candidate_def
    by (elim run_bindE)
      (auto split: option.splits prod.splits
        dest!: grows_later [OF grows_on(1)] grows_later [OF grows_on(2)] grows_later [OF grows_on(3)]
          grows_later [OF grows_on(4)] grows_later [OF grows_remove(1)]
          grows_later [OF calm_grows [OF calm_run_container]], meson later_trans)
  from wait_evidence [OF waited] before after show ?thesis by (blast intro: later_trans)
qed

lemma switch_route_evidence:
  assumes "run_state (switch_route w n e tr a c s) h = (None, h')"
  shows "\<exists>h1 h2 h3 target. later h1 h \<and> later h2 h1 \<and> later h3 h2 \<and> later h' h3 \<and>
    addressed_at w s (app_internal_port a) target h1 \<and> routed_at w a target h2 \<and> served_at w e a h3"
proof -
  from assms obtain h1 h2 h3 h4 target where
      target: "run_state (dockerContainerTarget w s (app_internal_port a)) h1 = (Inr target, h2)"
    and applied: "run_state (Apply w e a target) h2 = (None, h3)"
    and verified: "run_state (Verify w n e a) h3 = (None, h4)"
    and before: "later h1 h" and after: "later h' h4"
    unfolding switch_route_def
    by (elim run_bindE)
      (auto split: option.splits sum.splits prod.splits
        dest!: grows_later [OF grows_on(1)] grows_later [OF grows_on(2)] grows_later [OF grows_on(3)]
          grows_later [OF grows_on(4)] grows_later [OF grows_remove(1)] grows_later [OF grows_remove(3)], meson later_trans)
  from target_evidence [OF target] apply_evidence [OF applied] verify_evidence [OF verified] before after
  show ?thesis by (blast intro: later_trans)
qed

lemma stage_release_evidence:
  assumes "run_state (stage_release w n e tr a img env c s) h = (None, h')"
  shows "\<exists>h0 h1 h2 h3 target. later h0 h \<and> later h1 h0 \<and> later h2 h1 \<and> later h3 h2 \<and> later h' h3 \<and>
    healthy_at w s h0 \<and> addressed_at w s (app_internal_port a) target h1 \<and> routed_at w a target h2 \<and> served_at w e a h3"
proof -
  from assms obtain hp where p: "run_state (prove_candidate w n e tr a img env s) h = (None, hp)"
    and q: "run_state (switch_route w n e tr a c s) hp = (None, h')"
    unfolding stage_release_def by (auto split: option.splits prod.splits)
  from prove_candidate_evidence [OF p] switch_route_evidence [OF q] show ?thesis
    by (blast intro: later_trans)
qed

section \<open>Releases return\<close>

text \<open>The clock never goes back, and a sleep that is not interrupted lasts as long as asked.\<close>

definition clock_runs :: "world \<Rightarrow> bool" where
  "clock_runs w \<longleftrightarrow> (\<forall>h x. w_now w h \<le> w_now w (x # h)) \<and>
     (\<forall>h d. w_sleep w h d = None \<longrightarrow> w_now w h + d \<le> w_now w (Sleep d # h))"

lemma clock_later: "clock_runs w \<Longrightarrow> later h' h \<Longrightarrow> w_now w h \<le> w_now w h'"
proof -
  assume clock: "clock_runs w"
  have "w_now w h \<le> w_now w (t @ h)" for t
  proof (induction t)
    case (Cons x t)
    with clock show ?case unfolding clock_runs_def by (metis append_Cons order_trans)
  qed simp
  then show "later h' h \<Longrightarrow> w_now w h \<le> w_now w h'" by (auto simp: later_def)
qed

lemma clock_sleep: "clock_runs w \<Longrightarrow> w_sleep w h d = None \<Longrightarrow> w_now w h + d \<le> w_now w (Sleep d # h)"
  by (simp add: clock_runs_def)

lemma wait_loop_returns:
  assumes "clock_runs w"
  shows "deadline < w_now w h + int n * second \<Longrightarrow> fst (run_state (wait_loop w c deadline (Suc n)) h) \<noteq> Some Diverged"
proof (induction n arbitrary: h)
  case 0
  have "w_now w h \<le> w_now w (Exec ''docker'' [''inspect'', ''--format'', health_format, c] [] # h)"
    by (rule clock_later [OF assms]) (simp add: later_Cons)
  with 0 show ?case by (auto simp: action_defs Let_def split: sum.splits)
next
  case (Suc n)
  let ?h = "ReadClock # Exec ''docker'' [''inspect'', ''--format'', health_format, c] [] # h"
  have step: "deadline < w_now w (Sleep second # ?h) + int n * second" if "w_sleep w ?h second = None"
  proof -
    have "w_now w h \<le> w_now w ?h" by (rule clock_later [OF assms]) (simp add: later_Cons)
    with clock_sleep [OF assms that] Suc.prems show ?thesis by (simp add: algebra_simps)
  qed
  show ?case
    by (subst wait_loop.simps)
      (use Suc.IH step in \<open>auto simp: action_defs Let_def simp del: wait_loop.simps split: sum.splits option.splits\<close>)
qed

lemma probe_turn_sleeps:
  assumes "clock_runs w" and "run_state (probe_turn w e a res) h = (Inr q, h')"
  shows "w_now w h + 500 * millisecond \<le> w_now w h'"
proof -
  from assms(2) obtain h1 where h1: "later h1 h" "w_sleep w h1 (500 * millisecond) = None" "h' = Sleep (500 * millisecond) # h1"
    by (auto simp: probe_turn_def Let_def action_defs split: if_splits sent.splits option.splits prod.splits
        dest!: grows_later [OF plain_grows [OF plain_send]])
  from clock_sleep [OF assms(1) h1(2)] clock_later [OF assms(1) h1(1)] h1(3) show ?thesis by simp
qed

lemma probe_loop_returns:
  assumes "clock_runs w"
  shows "deadline \<le> w_now w h + int n * (500 * millisecond) \<Longrightarrow>
    fst (run_state (probe_loop w e a deadline (Suc n) res le) h) \<noteq> None"
proof (induction n arbitrary: h res le)
  case 0
  then show ?case by (auto simp: action_defs)
next
  case (Suc n)
  obtain r h1 where turn: "run_state (probe_turn w e a res) (ReadClock # h) = (r, h1)" by fastforce
  have "w_now w h \<le> w_now w (ReadClock # h)" by (rule clock_later [OF assms]) (simp add: later_Cons)
  with probe_turn_sleeps [OF assms] turn Suc.prems
  have "deadline \<le> w_now w h1 + int n * (500 * millisecond)" if "r = Inr q" for q
    using that by (fastforce simp: algebra_simps)
  with Suc.IH turn show ?case
    by (subst probe_loop.simps) (auto simp: action_defs simp del: probe_loop.simps split: sum.splits prod.splits)
qed

definition release_fuel :: "executor \<Rightarrow> nat" where
  "release_fuel e = nat (healthTimeout e div (500 * millisecond)) + 2"

lemma healthTimeout_pos: "0 < healthTimeout e"
  by (simp add: healthTimeout_def)

lemma release_fuel_enough:
  assumes "release_fuel e \<le> n"
  obtains m where "n = Suc m" "healthTimeout e < int m * (500 * millisecond)" "healthTimeout e < int m * second"
proof -
  let ?q = "healthTimeout e div (500 * millisecond)"
  from assms have "nat ?q + 2 \<le> n" by (simp add: release_fuel_def)
  then obtain m where m: "n = Suc m" "nat ?q + 1 \<le> m" by (cases n) auto
  have "0 \<le> ?q" using healthTimeout_pos [of e] by (simp add: pos_imp_zdiv_nonneg_iff)
  with m(2) have "?q + 1 \<le> int m" by linarith
  moreover have "healthTimeout e < (?q + 1) * (500 * millisecond)" by presburger
  ultimately have "healthTimeout e < int m * (500 * millisecond)"
    by (smt (verit) mult_right_mono)
  with m(1) that [of m] show ?thesis by simp
qed

lemma waitHealthy_returns:
  assumes "clock_runs w" and "release_fuel e \<le> n"
  shows "fst (run_state (waitHealthy w n e c) h) \<noteq> Some Diverged"
proof -
  from release_fuel_enough [OF assms(2)] obtain m where m: "n = Suc m" "healthTimeout e < int m * second" .
  have "w_now w h \<le> w_now w (ReadClock # h)" by (rule clock_later [OF assms(1)]) (simp add: later_Cons)
  with m have "w_now w h + healthTimeout e < w_now w (ReadClock # h) + int m * second" by simp
  from wait_loop_returns [OF assms(1) this] m(1) show ?thesis
    by (simp add: waitHealthy_def action_defs del: wait_loop.simps)
qed

lemma Verify_returns:
  assumes "clock_runs w" and "release_fuel e \<le> n"
  shows "fst (run_state (Verify w n e a) h) \<noteq> Some Diverged"
proof -
  from release_fuel_enough [OF assms(2)] obtain m where m: "n = Suc m" "healthTimeout e < int m * (500 * millisecond)" .
  have "w_now w h \<le> w_now w (ReadClock # ReadClock # h)" by (rule clock_later [OF assms(1)]) (simp add: later_Cons)
  with m have "w_now w h + healthTimeout e \<le> w_now w (ReadClock # ReadClock # h) + int m * (500 * millisecond)" by simp
  from probe_loop_returns [OF assms(1) this] m(1) show ?thesis
    by (auto simp: Verify_def Probe_def action_defs simp del: probe_loop.simps split: prod.splits option.splits)
      (metis fst_conv option.distinct(1))
qed

lemma failure_converges: "failure stage code err = Diverged \<longleftrightarrow> err = Diverged"
  by (simp add: failure_def)

abbreviation converges :: "dep_error option prog \<Rightarrow> bool" where
  "converges m \<equiv> yields (\<lambda>r. r \<noteq> Some Diverged) m"

lemma converges_sent:
  "(\<And>x. r = BadRequest x \<Longrightarrow> yields Y (f x)) \<Longrightarrow> (\<And>x. r = NoAnswer x \<Longrightarrow> yields Y (g x)) \<Longrightarrow>
   (\<And>x. r = Answer x \<Longrightarrow> yields Y (k x)) \<Longrightarrow>
   yields Y (case r of BadRequest x \<Rightarrow> f x | NoAnswer x \<Rightarrow> g x | Answer x \<Rightarrow> k x)"
  by (cases r) auto

lemma endpoint_converges: "endpoint w b p \<noteq> Inl Diverged"
  by (auto simp: endpoint_def Let_def split: sum.splits)

lemma verify_target_converges: "converges (verifyRouteTarget w b p t)"
  unfolding verifyRouteTarget_def using endpoint_converges
  by (intro yields_rules) (auto split: if_splits sum.splits sent.splits)

lemma apply_converges: "converges (Apply w e a t)"
  unfolding Apply_def UpsertRoute_def Let_def using endpoint_converges
  by (intro yields_rules converges_sent verify_target_converges) auto

lemma env_file_converges: "yields (\<lambda>r. r \<noteq> Inl Diverged) (runtimeEnvFile w d env)"
  unfolding runtimeEnvFile_def Let_def by (intro yields_rules) (auto split: sum.splits prod.splits intro!: yields_rules)

lemma security_args_converge: "ValidateDockerContainerSecurityArgs args \<noteq> Some Diverged"
  by (induction args rule: ValidateDockerContainerSecurityArgs.induct) (auto simp: failure_def)

lemma run_container_converges: "converges (runDockerContainer w e a img env c)"
proof -
  have "converges (case ValidateDockerContainerSecurityArgs args of
      Some err \<Rightarrow> State_Monad.return (Some err) | None \<Rightarrow> run w ''docker'' args)" for args
    using security_args_converge run_converges by (auto intro!: yields_rules)
  then have "converges (do {
      err \<leftarrow> (case ValidateDockerContainerSecurityArgs args of
          Some err \<Rightarrow> State_Monad.return (Some err) | None \<Rightarrow> run w ''docker'' args);
      removeRuntimeEnvFile w f;
      State_Monad.return err })" for args f
    by (rule yields_bind_via) (intro yields_bind yields_return)
  then show ?thesis
    unfolding runDockerContainer_def Let_def
    by (intro yields_bind_via [OF env_file_converges] yields_sum yields_return) auto
qed

lemma target_converges: "yields (\<lambda>r. r \<noteq> Inl Diverged) (dockerContainerTarget w c port)"
  unfolding dockerContainerTarget_def by (intro yields_rules) (auto simp: Let_def split: sum.splits)

lemma retire_converges: "converges (retire_active w a c s)"
proof -
  have "\<not> early r \<Longrightarrow> r \<noteq> Some Diverged" for r by (auto simp: early_def late_failure_def)
  with retire_active_late(1) show ?thesis unfolding yields_def by blast
qed

lemma start_converges:
  assumes "clock_runs w" and "release_fuel e \<le> n"
  shows "yields (\<lambda>(_, r). r \<noteq> Some Diverged) (DockerStart w n e tr a img env)"
proof -
  have wait: "converges (waitHealthy w n e c)" for c
    using waitHealthy_returns [OF assms] by (simp add: yields_def)
  have verify: "converges (Verify w n e a)" for a
    using Verify_returns [OF assms] by (simp add: yields_def)
  have proves: "converges (prove_candidate w n e tr a img env s)" for s
    unfolding prove_candidate_def
    by (intro yields_bind yields_bind_via [OF run_container_converges] yields_bind_via [OF wait] yields_option yields_return)
      (auto simp: failure_converges)
  have switches: "converges (switch_route w n e tr a c s)" for c s
    unfolding switch_route_def
    by (intro yields_bind yields_bind_via [OF target_converges] yields_bind_via [OF apply_converges]
        yields_bind_via [OF verify] yields_option yields_sum yields_return retire_converges) (auto simp: failure_converges)
  have stages: "converges (stage_release w n e tr a img env c s)" for c s
    unfolding stage_release_def by (intro yields_bind_via [OF proves] yields_option yields_return switches) auto
  have network: "converges (ensureDockerNetwork w e)"
    unfolding ensureDockerNetwork_def inspectDockerNetwork_def validateDockerNetwork_def
    by (intro yields_rules) (auto split: option.splits list.splits sum.splits)
  have ends: "yields (\<lambda>(_, r). r \<noteq> Some Diverged)
      (do { r \<leftarrow> (if b then stage_release w n e tr a img env c s else stage_release w n e tr a img env c' s');
            State_Monad.return (img, r) })" for b c s c' s'
    by (rule yields_bind_via [where X = "\<lambda>r. r \<noteq> Some Diverged"]) (auto intro!: stages yields_return)
  show ?thesis
    unfolding DockerStart_def
    by (intro yields_bind_via [OF network] yields_option yields_return yields_bind [OF ends]) (auto simp: failure_converges)
qed

end
