(* ===== verification/Executor_Props.thy ===== *)
theory Executor_Props
  imports Executor_Evidence Queue_Props
begin

text \<open>
  The properties of a release, for every world, and each at work in a small one: Docker knows a
  healthy or unhealthy container at a fixed address, Caddy holds the route it was given, the
  clock counts the time slept.
\<close>

section \<open>A small world\<close>

definition demo_executor :: executor where
  "demo_executor = \<lparr>ex_workspace = ''/work'', ex_log_path = ''/logs'', ex_network = ''apps'', ex_network_subnet = '''',
     ex_runtime = ''auto'', ex_local_repositories = '''', ex_github_app_id = '''', ex_github_key_path = '''',
     ex_github_api_url = '''', ex_proxy_url = '''', ex_caddy_admin_url = ''http://caddy'', ex_expected_status = 0,
     ex_expected_content = '''', ex_source_timeout = 0, ex_build_timeout = 0, ex_start_timeout = 0,
     ex_health_timeout = second, ex_workspace_max_bytes = 0\<rparr>"

fun slept :: "action \<Rightarrow> duration" where
  "slept (Sleep d) = max 0 d"
| "slept _ = 0"

lemma slept_nonneg: "0 \<le> slept x"
  by (cases x) simp_all

definition demo_docker :: "string \<Rightarrow> string list \<Rightarrow> string + string" where
  "demo_docker health args =
     (if take 2 args = [''container'', ''inspect''] then
        (if last args \<in> {''minidock-web-candidate'', ''minidock-api-previous''} then Inr '''' else Inl ''no such container'')
      else if take 3 args = [''inspect'', ''--format'', health_format] then Inr health
      else if take 1 args = [''inspect''] then Inr ''172.20.0.5''
      else if take 2 args = [''image'', ''inspect''] then Inr ''sha256:abc''
      else Inr '''')"

definition demo_answer :: "int \<Rightarrow> http_response" where
  "demo_answer status = \<lparr>hr_status = status, hr_status_text = '''', hr_body = ''{}'', hr_read_error = None, hr_location = None\<rparr>"

definition demo_world :: "string \<Rightarrow> world" where
  "demo_world health =
     \<lparr>w_exec = (\<lambda>h name args env. demo_docker health args), w_printed = (\<lambda>h name args. ''''),
      w_http = (\<lambda>h meth url headers body. Inr (demo_answer 200)),
      w_now = (\<lambda>h. sum_list (map slept h)), w_sleep = (\<lambda>h d. None),
      w_disk = (\<lambda>h c. Inr ''/logs/.minidock-runtime-1.env''), w_tree = (\<lambda>h p. Folder ''web'' []),
      w_statfs = (\<lambda>h p. None), w_files = (\<lambda>h p. None), w_getenv = (\<lambda>n. ''''),
      w_networks = (\<lambda>s. Some [\<lparr>dn_name = ''apps'', dn_driver = ''bridge'', dn_internal = True, dn_subnets = []\<rparr>]),
      w_route = (\<lambda>s. Inr [(''reverse_proxy'', [''172.20.0.5:8080''])]), w_manifest = (\<lambda>s. None), w_token = (\<lambda>s. None),
      w_url = (\<lambda>s. Inr (''http'', ''caddy'', '''')), w_pem = (\<lambda>s. None), w_pkcs1 = (\<lambda>s. None), w_pkcs8 = (\<lambda>s. Inl ''''),
      w_sha256 = (\<lambda>s. ''00''), w_sign = (\<lambda>k s. Inr ''''), w_duration = (\<lambda>d. ''1s''), w_quotient = (\<lambda>a b. ''1.00'')\<rparr>"

lemma demo_world_simps [simp]:
  "w_exec (demo_world s) h name args env = demo_docker s args" "w_now (demo_world s) h = sum_list (map slept h)"
  "w_sleep (demo_world s) h d = None" "w_http (demo_world s) h meth url headers body = Inr (demo_answer 200)"
  "w_disk (demo_world s) h c = Inr ''/logs/.minidock-runtime-1.env''" "w_url (demo_world s) u = Inr (''http'', ''caddy'', '''')"
  "w_route (demo_world s) b = Inr [(''reverse_proxy'', [''172.20.0.5:8080''])]"
  "w_networks (demo_world s) o' = Some [\<lparr>dn_name = ''apps'', dn_driver = ''bridge'', dn_internal = True, dn_subnets = []\<rparr>]"
  by (simp_all add: demo_world_def)

lemma demo_docker_simps [simp]:
  "demo_docker s [''container'', ''inspect'', c] = (if c \<in> {''minidock-web-candidate'', ''minidock-api-previous''} then Inr '''' else Inl ''no such container'')"
  "demo_docker s [''inspect'', ''--format'', health_format, c] = Inr s"
  "demo_docker s [''inspect'', ''--format'', ''{{range .NetworkSettings.Networks}}{{.IPAddress}}{{end}}'', c] = Inr ''172.20.0.5''"
  "demo_docker s [''inspect'', ''--format'', ''{{.Id}}'', c] = Inr ''172.20.0.5''"
  "demo_docker s [''image'', ''inspect'', ''--format'', ''{{.Id}}'', c] = Inr ''sha256:abc''"
  "demo_docker s (''run'' # args) = Inr ''''" "demo_docker s (''rm'' # args) = Inr ''''"
  "demo_docker s (''rename'' # args) = Inr ''''" "demo_docker s (''start'' # args) = Inr ''''" "demo_docker s (''network'' # args) = Inr ''''"
  by (simp_all add: demo_docker_def health_format_def)

lemma demo_executor_simps [simp]:
  "ex_network demo_executor = ''apps''" "ex_network_subnet demo_executor = ''''" "healthTimeout demo_executor = second"
  "ex_caddy_admin_url demo_executor = ''http://caddy''" "ex_proxy_url demo_executor = ''''"
  "ex_log_path demo_executor = ''/logs''" "expectedProxyStatus demo_executor = 200" "ex_expected_content demo_executor = ''''"
  by (simp_all add: demo_executor_def healthTimeout_def expectedProxyStatus_def)

lemma demo_app_simps [simp]:
  "app_id (demo_app i n) = i" "app_name (demo_app i n) = n" "app_type (demo_app i n) = ''go''"
  "app_internal_port (demo_app i n) = 8080" "app_health_endpoint (demo_app i n) = ''''" "app_runtime (demo_app i n) = ''auto''"
  by (simp_all add: demo_app_def)

lemma demo_names [simp]:
  "container_name (demo_app 1 ''web'') = ''minidock-web''" "candidate_name (demo_app 1 ''web'') = ''minidock-web-candidate''"
  "next_name (demo_app 1 ''web'') = ''minidock-web-next''"
  by (simp_all add: container_name_def candidate_name_def next_name_def)

lemma fst_bind: "fst (run_state (State_Monad.bind m f) h) = fst (run_state (f (fst (run_state m h))) (snd (run_state m h)))"
  by (simp split: prod.splits)

lemma demo_words [simp]:
  "trim_space ''unhealthy'' = ''unhealthy''" "trim_space ''healthy'' = ''healthy''" "trim_space ''172.20.0.5'' = ''172.20.0.5''"
  "trim_space '''' = ''''" "trim_space ''http://caddy'' = ''http://caddy''" "trim_space ''172.20.0.5:8080'' = ''172.20.0.5:8080''"
  "trim_space ''apps'' = ''apps''"
  by (simp_all add: trim_space_def trim_left_def trim_right_def is_space_def)

lemma demo_digits: "char_of (56::nat) = CHR ''8''" "char_of (48::nat) = CHR ''0''"
  by code_simp+

lemma demo_port: "show_int 8080 = ''8080''"
  by (simp add: show_int_def show_nat.simps digit_char_def demo_digits)

lemma demo_address [simp]:
  "ParseIP ''172.20.0.5''" "JoinHostPort ''172.20.0.5'' (show_int 8080) = ''172.20.0.5:8080''"
  by (simp_all add: ParseIP_def is_ipv4_def octet_def is_digit_def read_nat_def digit_val_def JoinHostPort_def demo_port)

lemma demo_network [simp]: "fst (run_state (ensureDockerNetwork (demo_world s) demo_executor) h) = None"
  by (simp add: ensureDockerNetwork_def inspectDockerNetwork_def validateDockerNetwork_def action_defs)

lemma demo_run [simp]: "fst (run_state (run (demo_world s) ''docker'' args) h) =
    (case demo_docker s args of Inl err \<Rightarrow> Some (Plain err) | Inr _ \<Rightarrow> None)"
  by (simp add: run_def runWithEnv_def sortedNames_def action_defs)

lemma demo_exists [simp]: "fst (run_state (dockerContainerExists (demo_world s) c) h) \<longleftrightarrow> c \<in> {''minidock-web-candidate'', ''minidock-api-previous''}"
  by (simp add: dockerContainerExists_def action_defs)

lemma demo_target [simp]: "fst (run_state (dockerContainerTarget (demo_world s) c 8080) h) = Inr ''172.20.0.5:8080''"
  by (simp add: dockerContainerTarget_def action_defs)

lemma demo_args [simp]:
  "ValidateDockerContainerSecurityArgs (docker_run_args demo_executor (demo_app 1 ''web'') ''img'' ''minidock-web-next'' '''') = None"
  by (simp add: docker_run_args_def For_def make_template_def has_prefix_def show_int_def show_nat.simps digit_char_def)

lemma demo_container [simp]:
  "fst (run_state (runDockerContainer (demo_world s) demo_executor (demo_app 1 ''web'') ''img'' [] ''minidock-web-next'') h) = None"
proof -
  have "demo_docker s (docker_run_args demo_executor (demo_app 1 ''web'') ''img'' ''minidock-web-next'' '''') = Inr ''''"
    by (simp add: docker_run_args_def)
  then show ?thesis
    by (simp add: runDockerContainer_def runtimeEnvFile_def removeRuntimeEnvFile_def fst_bind del: run_state_bind run_bind)
qed

lemma demo_waits [simp]:
  "fst (run_state (waitHealthy (demo_world ''unhealthy'') 4 demo_executor c) h) = Some (Plain ''health check failed: unhealthy'')"
  "fst (run_state (waitHealthy (demo_world ''healthy'') 4 demo_executor c) h) = None"
  by (simp_all add: waitHealthy_def eval_nat_numeral action_defs)

lemma demo_route [simp]: "fst (run_state (Apply (demo_world s) demo_executor a ''172.20.0.5:8080'') h) = None"
  by (simp add: Apply_def UpsertRoute_def verifyRouteTarget_def endpoint_def send_def action_defs Let_def
      demo_answer_def ok_status_def has_upstream_def trim_right_def has_prefix_def)

lemma demo_verified [simp]: "fst (run_state (Verify (demo_world s) 4 demo_executor (demo_app 1 ''web'')) h) = None"
  by (simp add: Verify_def Probe_def eval_nat_numeral probe_turn_def send_def action_defs Let_def health_path_def
      has_prefix_def probe_answer_def demo_answer_def validCaddyHTTPSRedirect_def)

lemma demo_starts:
  "fst (run_state (DockerStart (demo_world ''unhealthy'') 4 demo_executor False (demo_app 1 ''web'') ''img'' []) []) =
     (''img'', Some (Failure ''health'' ''health_check_failed'' ''health check failed: unhealthy''))"
  "fst (run_state (DockerStart (demo_world ''healthy'') 4 demo_executor False (demo_app 1 ''web'') ''img'' []) []) = (''img'', None)"
  by (simp_all add: DockerStart_def stage_release_def prove_candidate_def switch_route_def retire_active_def
      removeDockerContainerIfPresent_def remove_force_def on_stage_def on_event_def took_def failure_def fst_bind
      del: run_state_bind run_bind)

section \<open>The switch\<close>

text \<open>
  C19: a release that fails never harms the container that serves the application. Whatever
  Docker, Caddy and the file system answer, when \<^verbatim>\<open>DockerAdapter.Start\<close> returns an
  error other than a failed removal of the old container or a failed promotion of the new one,
  none of its commands removed, renamed, stopped or started the container that was serving when
  the release was staged.
\<close>

theorem failed_release_keeps_serving:
  assumes "run_state (DockerStart w n e tr a img env) h = ((img', Some err), h')"
    and "fst (snd (FailureDetails (Some err))) \<notin> set late_failure"
  shows "\<exists>h0 t. (\<exists>u. h' = u @ h0) \<and> h' = t @ h \<and> list_all (\<lambda>x. \<not> handles (serving w a h0) x) t"
proof -
  obtain r h1 where net: "run_state (ensureDockerNetwork w e) h = (r, h1)" by fastforce
  from plain_network [THEN plainly_calm] obtain t1 where t1: "h1 = t1 @ h" "list_all (\<lambda>x. \<not> mutating x) t1"
    unfolding emits_def using net by (metis snd_conv)
  then have spared: "list_all (\<lambda>x. \<not> handles c x) t1" for c
    by (auto simp: list_all_iff dest: handles_mutating)
  show ?thesis
  proof (cases r)
    case (Some f)
    with assms(1) net have "h' = h1" by (simp add: DockerStart_def)
    with t1 spared show ?thesis by (intro exI [of _ h1] exI [of _ t1]) simp
  next
    case None
    let ?q = "Exec ''docker'' [''container'', ''inspect'', candidate_name a] []"
    let ?m = "stage_release w n e tr a img env (serving w a h1)
      (if serving w a h1 = candidate_name a then next_name a else candidate_name a)"
    have "emits_when early (\<lambda>x. \<not> handles (serving w a h1) x) ?m"
      using names_distinct [of a] by (intro stage_release_spares) (auto simp: serving_def)
    moreover have "run_state ?m (?q # h1) = (Some err, h')"
      using assms(1) net None names_distinct [of a]
      by (auto simp: DockerStart_def dockerContainerExists_def exec_cmd_def serving_def split: prod.splits if_splits)
    ultimately obtain t2 where t2: "h' = t2 @ ?q # h1" "list_all (\<lambda>x. \<not> handles (serving w a h1) x) t2"
      using assms(2) emits_whenD [of early _ ?m "?q # h1"] by (auto simp: early_def)
    have "\<not> handles (serving w a h1) ?q" by (simp add: container_commands_def)
    with t1 t2 spared show ?thesis
      by (intro exI [of _ h1] exI [of _ "t2 @ ?q # t1"]) auto
  qed
qed


theorem failed_release_keeps_serving_witness:
  "\<exists>h0 t. list_all (\<lambda>x. \<not> handles (serving (demo_world ''unhealthy'') (demo_app 1 ''web'') h0) x) t \<and>
     snd (run_state (DockerStart (demo_world ''unhealthy'') 4 demo_executor False (demo_app 1 ''web'') ''img'' []) []) = t"
  using failed_release_keeps_serving [of "demo_world ''unhealthy''" 4 demo_executor False "demo_app 1 ''web''" "''img''" "[]" "[]" "''img''"
      "Failure ''health'' ''health_check_failed'' ''health check failed: unhealthy''"
      "snd (run_state (DockerStart (demo_world ''unhealthy'') 4 demo_executor False (demo_app 1 ''web'') ''img'' []) [])"]
    demo_starts(1)
  by (auto simp: late_failure_def prod_eq_iff)

text \<open>
  C20: success is proven, not assumed. When \<^verbatim>\<open>DockerAdapter.Start\<close> returns without an
  error, then in this order Docker reported the staged container healthy, Docker reported an
  address for it, Caddy returned the application's route with exactly that upstream, and the
  public route answered as configured.
\<close>

theorem successful_release_is_proven:
  assumes "run_state (DockerStart w n e tr a img env) h = ((img', None), h')"
  shows "img' = img \<and>
    (\<exists>staged h0 h1 h2 h3 target. (staged = candidate_name a \<or> staged = next_name a) \<and>
       later h0 h \<and> later h1 h0 \<and> later h2 h1 \<and> later h3 h2 \<and> later h' h3 \<and>
       healthy_at w staged h0 \<and> addressed_at w staged (app_internal_port a) target h1 \<and>
       routed_at w a target h2 \<and> served_at w e a h3)"
proof -
  from assms obtain h1 h2 active staged where "img' = img"
    and net: "run_state (ensureDockerNetwork w e) h = (None, h1)"
    and exists: "\<exists>b. run_state (dockerContainerExists w (candidate_name a)) h1 = (b, h2)"
    and staged: "staged = candidate_name a \<or> staged = next_name a"
    and run: "run_state (stage_release w n e tr a img env active staged) h2 = (None, h')"
    by (auto simp: DockerStart_def split: prod.splits option.splits if_splits)
  from exists grows_later [OF plain_grows [OF plain_network] net] have "later h2 h"
    by (auto dest: grows_later [OF plain_grows [OF plain_docker(1)]] intro: later_trans)
  with stage_release_evidence [OF run] staged \<open>img' = img\<close> show ?thesis
    by (blast intro: later_trans)
qed

theorem successful_release_is_proven_witness:
  "\<exists>staged h0 target h2. healthy_at (demo_world ''healthy'') staged h0 \<and>
     routed_at (demo_world ''healthy'') (demo_app 1 ''web'') target h2"
  using successful_release_is_proven [of "demo_world ''healthy''" 4 demo_executor False "demo_app 1 ''web''" "''img''" "[]" "[]" "''img''"
      "snd (run_state (DockerStart (demo_world ''healthy'') 4 demo_executor False (demo_app 1 ''web'') ''img'' []) [])"]
    demo_starts(2)
  by (auto simp: prod_eq_iff)

text \<open>
  C21: a release returns. If the clock does not go back and a sleep lasts as long as asked, then
  the two polling loops end within the health timeout, so with fuel for one poll per half second
  of it (and two more) a release never runs out of fuel.
\<close>

theorem release_returns:
  assumes "clock_runs w" and "release_fuel e \<le> n"
  shows "snd (fst (run_state (DockerStart w n e tr a img env) h)) \<noteq> Some Diverged"
  using start_converges [OF assms, of tr a img env] by (auto simp: yields_def case_prod_beta)

theorem release_returns_witness:
  "clock_runs (demo_world ''starting'') \<and> release_fuel demo_executor \<le> 4 \<and>
   snd (fst (run_state (DockerStart (demo_world ''starting'') 4 demo_executor False (demo_app 1 ''web'') ''img'' []) [])) \<noteq> Some Diverged"
proof -
  have "clock_runs (demo_world ''starting'')"
    using slept_nonneg by (simp add: clock_runs_def)
  moreover have "release_fuel demo_executor \<le> 4" by (simp add: release_fuel_def)
  ultimately show ?thesis using release_returns by blast
qed

end
