(* ===== verification/Executor_Contract.thy ===== *)
theory Executor_Contract
  imports Executor_Props
begin

text \<open>
  What the commands of a release may contain, the environment file, the artifact check, the
  recovery at start-up and the fingerprint of a source tree.
\<close>

section \<open>The commands of a release\<close>

text \<open>
  Every container is created with checked arguments; every build takes its context from a
  directory inside the repository and names build secrets without their values.
\<close>

fun release_command :: "executor \<Rightarrow> application \<Rightarrow> deployment_configuration \<Rightarrow> action \<Rightarrow> bool" where
  "release_command e a conf (Exec name args env) \<longleftrightarrow>
     confined e a (Exec name args env) \<and>
     (args \<noteq> [] \<and> hd args = ''build'' \<longrightarrow>
        (\<exists>img d repo. args = build_args conf img d (work_directory repo a) \<and> path_within repo (work_directory repo a)))"
| "release_command e a conf _ \<longleftrightarrow> True"

lemma plainly_release: "plainly m \<Longrightarrow> emits (release_command e a conf) m"
proof (erule emits_mono)
  fix x assume "plain x"
  with plain_confined [of x e a] show "release_command e a conf x" by (cases x) (auto simp: plain_heads_def)
qed

lemmas release_rules = plain_rules [THEN plainly_release]

lemma release_run:
  "args \<noteq> [] \<Longrightarrow> hd args \<noteq> ''run'' \<Longrightarrow> hd args \<noteq> ''build'' \<Longrightarrow> emits (release_command e a conf) (run w name args)"
  by (auto simp: run_def runWithEnv_def action_defs intro!: emits_rules)

lemma release_remove: "emits (release_command e a conf) (remove_force w c)"
  by (auto simp: remove_force_def intro!: emits_rules release_run)

lemma release_container: "emits (release_command e a conf) (runDockerContainer w e a img env c)"
proof (rule emits_mono [OF run_container_emits])
  fix x assume x: "plain x \<or> (\<exists>args. x = Exec ''docker'' args [] \<and> ValidateDockerContainerSecurityArgs args = None \<and>
      (\<exists>f. args = docker_run_args e a img c f))"
  then consider "plain x" | f where "x = Exec ''docker'' (docker_run_args e a img c f) []"
      "ValidateDockerContainerSecurityArgs (docker_run_args e a img c f) = None" by blast
  then show "release_command e a conf x"
  proof cases
    case 1
    with plain_confined [of x e a] show ?thesis by (cases x) (auto simp: plain_heads_def)
  next
    case 2
    have "hd (docker_run_args e a img c f) \<noteq> ''build''" by (simp add: docker_run_args_def)
    with 2 show ?thesis by auto
  qed
qed

lemma release_retire: "emits (release_command e a conf) (retire_active w b c s)"
  unfolding retire_active_def removeDockerContainerIfPresent_def
  by (intro emits_rules release_rules release_run) simp_all

lemma release_start: "emits (release_command e a conf) (DockerStart w n e tr a img env)"
  unfolding DockerStart_def stage_release_def prove_candidate_def switch_route_def
  by (intro emits_rules release_rules release_container release_remove release_retire)

lemma plain_walk [plain_rules]: "plainly (walk_tree w p)"
  by (simp add: walk_tree_def emits_perform)

lemma plain_local [plain_rules]:
  "plainly (LocalRepositoryPath w b r)" "plainly (ValidLocalRepository w b r)" "plainly (LocalRepositoryIsGit w b r)"
  unfolding ValidLocalRepository_def LocalRepositoryIsGit_def LocalRepositoryPath_def
  by (intro emits_rules plain_rules)+

lemma plain_clone_environment [plain_rules]: "plainly (cloneEnvironment w e a)"
  unfolding cloneEnvironment_def githubInstallationToken_def githubJWT_def
  by (intro emits_rules plain_rules)

lemma plain_fetch [plain_rules]: "plainly (fetch_source w a env repo)"
  by (auto simp: fetch_source_def clone_args_def plain_heads_def intro!: emits_rules plain_rules split: if_splits)

lemma plain_source [plain_rules]:
  "plainly (checkout_source w e a)" "plainly (sourceEvidence w repo work)" "plainly (check_context w e tr work c)"
  "plainly (write_ignore w p c)" "plainly (generatedDockerfile w a work)" "plainly (artifactDigest w rt img)"
  by (auto simp: checkout_source_def sourceEvidence_def check_context_def write_ignore_def generatedDockerfile_def
      artifactDigest_def docker_field_def plain_heads_def intro!: emits_rules plain_rules)

lemma adapter_docker: "yields (\<lambda>r. \<forall>ad. r = Inr ad \<longrightarrow> ad = DockerAdapter) (adapter w e a)"
proof -
  have "yields (\<lambda>r. r \<noteq> Inr ''apple'') (runtime w e a)"
    unfolding runtime_def by (intro yields_rules) (auto simp: selectRuntime_def split: if_splits)
  then show ?thesis
    unfolding adapter_def
    by (rule yields_bind_via) (auto simp: adapters_def intro!: yields_rules split: sum.splits option.splits if_splits)
qed

lemma release_build:
  "path_within repo (work_directory repo a) \<Longrightarrow>
   emits (release_command e a conf) (build_image w tr DockerAdapter a conf d (work_directory repo a))"
  unfolding build_image_def
  by (intro emits_rules plain_basic [THEN plainly_release])
    (auto simp: runWithEnv_def action_defs build_args_def intro!: emits_rules)

lemma release_build_source:
  "emits (release_command e a conf) (build_from_source w e tr DockerAdapter a conf r)"
  unfolding build_from_source_def Let_def
  by (intro emits_rules plain_rules [THEN plainly_release] release_build) simp

lemma release_remove_files: "emits (release_command e a conf) (remove_files w fs)"
  by (induction fs) (auto intro!: emits_rules release_rules)


section \<open>The argument check\<close>

definition admitted :: "string \<Rightarrow> bool" where
  "admitted arg \<longleftrightarrow>
     arg \<notin> {''--privileged'', ''--device'', ''--cap-add'', ''--security-opt'', ''-v'', ''--volume''} \<and>
     list_all (\<lambda>p. \<not> has_prefix arg p) [''--privileged='', ''--device='', ''--cap-add='', ''--security-opt='', ''--volume='']"

lemma six_guards:
  "(if A then Some a else if B then Some b else if C then Some c else if D then Some d
    else if E then Some e else if F then Some f else r) = None \<Longrightarrow>
   \<not> A \<and> \<not> B \<and> \<not> C \<and> \<not> D \<and> \<not> E \<and> r = None"
  by (simp split: if_split_asm)

lemma security_args_Cons:
  assumes "ValidateDockerContainerSecurityArgs (arg # args) = None"
  shows "admitted arg \<and> ValidateDockerContainerSecurityArgs args = None"
  using six_guards [OF assms [unfolded ValidateDockerContainerSecurityArgs.simps]]
  unfolding admitted_def by simp

lemma security_args_each: "ValidateDockerContainerSecurityArgs args = None \<Longrightarrow> list_all admitted args"
proof (induction args)
  case (Cons arg args)
  from security_args_Cons [OF Cons.prems] Cons.IH show ?case by simp
qed simp

lemma security_args_network:
  "ValidateDockerContainerSecurityArgs (xs @ ''--network'' # ''host'' # ys) \<noteq> None"
  "ValidateDockerContainerSecurityArgs (xs @ ''--net'' # ''host'' # ys) \<noteq> None"
  by (induction xs) (simp_all add: has_prefix_def)

text \<open>
  The argument check is sound for the forms it knows. Arguments that pass contain no
  privileged flag, device, added capability, security option or volume, alone or with an attached
  value, and never put the container on the host network.
\<close>

theorem security_args_sound:
  assumes "ValidateDockerContainerSecurityArgs args = None"
  shows "list_all admitted args \<and> args \<noteq> xs @ ''--network'' # ''host'' # ys \<and> args \<noteq> xs @ ''--net'' # ''host'' # ys"
  using security_args_each [OF assms] security_args_network [of xs ys] assms by blast

theorem security_args_sound_witness:
  "list_all admitted (docker_run_args demo_executor (demo_app 1 ''web'') ''img'' ''minidock-web-next'' '''')"
  using security_args_sound [OF demo_args] by blast

text \<open>
  The check misses spellings that the Docker client also understands: an attached short network
  flag, a mount in the long form and a volume attached to its short flag.
\<close>

lemma security_args_gap:
  "ValidateDockerContainerSecurityArgs [''run'', ''--net=host'', ''--mount'', ''type=bind,src=/,dst=/host'', ''-v/:/host'', ''img''] = None"
  by (simp add: has_prefix_def)

section \<open>The environment file\<close>

text \<open>Docker reads an environment file line by line; a line is a name, an equals sign and the value.\<close>

definition read_entry :: "string \<Rightarrow> string \<times> string" where
  "read_entry line = (takeWhile (\<lambda>c. c \<noteq> CHR ''='') line, tl (dropWhile (\<lambda>c. c \<noteq> CHR ''='') line))"

definition read_env_file :: "string \<Rightarrow> (string \<times> string) list" where
  "read_env_file data = map read_entry (filter (\<lambda>line. line \<noteq> []) (split_on (CHR 0x0A) data))"

lemma safe_name_no_equals: "safeEnvironmentName n \<Longrightarrow> CHR ''='' \<notin> set n \<and> n \<noteq> [] \<and> CHR 0x0A \<notin> set n"
proof -
  assume safe: "safeEnvironmentName n"
  then obtain c cs where n: "n = c # cs" by (cases n) (auto simp: safeEnvironmentName_def)
  have "x \<noteq> CHR ''='' \<and> x \<noteq> CHR 0x0A" if "is_alpha x \<or> is_digit x \<or> x = CHR ''_''" for x
    using that by (auto simp: is_alpha_def is_digit_def less_eq_char_def lower_char_def)
  with safe n show ?thesis by (auto simp: safeEnvironmentName_def list_all_iff)
qed

lemma split_on_line: "c \<notin> set x \<Longrightarrow> split_on c (x @ c # s) = x # split_on c s"
  by (induction x) auto

lemma read_entry_line: "CHR ''='' \<notin> set n \<Longrightarrow> read_entry (n @ ''='' @ v) = (n, v)"
  by (simp add: read_entry_def takeWhile_append dropWhile_append)

lemma read_env_data:
  "env_data env names = Inr data \<Longrightarrow> read_env_file data = map (\<lambda>n. (n, lookup env n)) names"
proof (induction names arbitrary: data)
  case Nil
  then show ?case by (simp add: read_env_file_def)
next
  case (Cons n names)
  from Cons.prems obtain rest where safe: "\<not> unsafe_entry n (lookup env n)"
    and rest: "env_data env names = Inr rest"
    and data: "data = (n @ ''='' @ lookup env n) @ CHR 0x0A # rest"
    by (auto split: if_splits sum.splits)
  from safe safe_name_no_equals have n: "CHR ''='' \<notin> set n" "n \<noteq> []" "CHR 0x0A \<notin> set (n @ ''='' @ lookup env n)"
    by (auto simp: unsafe_entry_def contains_any_def list_ex_iff)
  from Cons.IH [OF rest] n show ?case
    by (simp add: data read_env_file_def split_on_line [of _ "n @ ''='' @ lookup env n", simplified] read_entry_line [simplified])
qed

lemma map_of_lookup: "map_of (map (\<lambda>n. (n, lookup env n)) (sortedNames env)) = map_of env"
proof
  fix k
  show "map_of (map (\<lambda>n. (n, lookup env n)) (sortedNames env)) k = map_of env k"
    by (cases "map_of env k")
      (auto simp: map_of_map_restrict sortedNames_def lookup_def restrict_map_def map_of_eq_None_iff
        dest: map_of_SomeD, (metis image_eqI map_of_eq_None_iff map_of_SomeD fst_conv)+)
qed



section \<open>Rollback targets\<close>

text \<open>
  A rollback target is verified by content. \<^verbatim>\<open>VerifyArtifact\<close> accepts only when
  there is recorded evidence and Docker itself reports, for that image, the recorded digest.
\<close>

theorem artifact_is_exact:
  assumes "run_state (VerifyArtifact w e a img digest) h = (None, h')"
  shows "img \<noteq> '''' \<and> has_prefix digest ''sha256:'' \<and>
    (\<exists>h1 out. later h1 h \<and> later h' h1 \<and>
       w_exec w h1 ''docker'' [''image'', ''inspect'', ''--format'', ''{{.Id}}'', img] [] = Inr out \<and> trim_space out = digest)"
proof -
  from assms obtain r h1 where ev: "img \<noteq> ''''" "digest \<noteq> ''''"
    and r: "run_state (adapter w e a) h = (r, h1)"
    and rest: "run_state (case r of Inl err \<Rightarrow> State_Monad.return (Some (failure ''rollback'' ''runtime_unavailable'' err))
        | Inr ad \<Rightarrow> do {
            actual \<leftarrow> artifactDigest w (Name ad) img;
            State_Monad.return (if actual = '''' then Some (failure ''rollback'' ''artifact_missing''
                (Plain (''image '' @ quoted img @ '' is not available in runtime '' @ Name ad)))
              else if actual \<noteq> digest then Some (failure ''rollback'' ''artifact_digest_mismatch''
                (Plain (''image '' @ quoted img @ '' digest '' @ actual @ '' does not match recorded digest '' @ digest)))
              else None) }) h1 = (None, h')"
    by (auto simp: VerifyArtifact_def split: if_splits prod.splits)
  have "later h1 h" by (rule grows_later [OF plain_grows [OF plain_adapter] r])
  with ev rest show ?thesis
    by (cases r) (auto simp: artifactDigest_def docker_field_def action_defs later_Cons
        split: if_splits sum.splits intro!: exI [of _ h1])
qed

lemma demo_adapter: "fst (run_state (adapter (demo_world s) demo_executor (demo_app i n)) h) = Inr DockerAdapter"
  by (simp add: adapter_def runtime_def wanted_runtime_def selectRuntime_def adapters_def demo_executor_def split: prod.splits)

theorem artifact_is_exact_witness:
  "has_prefix ''sha256:abc'' ''sha256:'' \<and>
   (\<exists>h1 out. w_exec (demo_world '''') h1 ''docker'' [''image'', ''inspect'', ''--format'', ''{{.Id}}'', ''img''] [] = Inr out \<and>
     trim_space out = ''sha256:abc'')"
proof -
  have "trim_space ''sha256:abc'' = ''sha256:abc''" by (simp add: trim_space_def trim_left_def trim_right_def is_space_def)
  then have "fst (run_state (VerifyArtifact (demo_world '''') demo_executor (demo_app 1 ''web'') ''img'' ''sha256:abc'') []) = None"
    by (simp add: VerifyArtifact_def fst_bind demo_adapter artifactDigest_def docker_field_def action_defs has_prefix_def
        del: run_state_bind run_bind)
  then have "run_state (VerifyArtifact (demo_world '''') demo_executor (demo_app 1 ''web'') ''img'' ''sha256:abc'') [] =
      (None, snd (run_state (VerifyArtifact (demo_world '''') demo_executor (demo_app 1 ''web'') ''img'' ''sha256:abc'') []))"
    by (simp add: prod_eq_iff)
  from artifact_is_exact [OF this] show ?thesis by blast
qed

section \<open>Recovery\<close>

lemma previous_distinct:
  "candidate_name a \<noteq> previous_name a" "candidate_name a \<noteq> container_name a" "candidate_name a \<noteq> next_name a"
  "candidate_name a \<noteq> ''--force''"
  by (simp_all add: candidate_name_def next_name_def container_name_def previous_name_def)

lemma spares_remove_if:
  "c \<noteq> x \<Longrightarrow> c \<noteq> ''--force'' \<Longrightarrow> emits (\<lambda>y. \<not> handles c y) (removeDockerContainerIfPresent w x)"
  unfolding removeDockerContainerIfPresent_def by (intro emits_rules not_handles_calm not_handles_run) simp_all

lemma spares_route: "emits (\<lambda>y. \<not> handles c y) (route_to w e a x)"
  unfolding route_to_def by (intro emits_rules not_handles_calm)

lemma spares_adopt: "emits (\<lambda>y. \<not> handles (candidate_name a) y) (adopt w e a x)"
  unfolding adopt_def using previous_distinct [of a] by (intro emits_rules spares_route spares_remove_if) auto

lemma spares_restore: "emits (\<lambda>y. \<not> handles (candidate_name a) y) (restore_previous w n e a)"
  unfolding restore_previous_def using previous_distinct [of a]
  by (intro emits_rules spares_route not_handles_run not_handles_calm) auto

lemma spares_reconcile: "emits (\<lambda>y. \<not> handles (candidate_name a) y) (reconcile_application w n e a)"
  unfolding reconcile_application_def using previous_distinct [of a]
  by (intro emits_rules spares_adopt spares_restore spares_remove_if not_handles_calm) auto

lemma restore_evidence:
  assumes "run_state (restore_previous w n e a) h = (None, h')"
  shows "\<exists>h1 h2 target. later h1 h \<and> later h2 h1 \<and> later h' h2 \<and> healthy_at w (previous_name a) h1 \<and> routed_at w a target h2"
proof -
  from assms obtain h1 h2 h3 where start: "run_state (run w ''docker'' [''start'', previous_name a]) h = (None, h1)"
    and wait: "run_state (waitHealthy w n e (previous_name a)) h1 = (None, h2)"
    and rename: "run_state (run w ''docker'' [''rename'', previous_name a, container_name a]) h2 = (None, h3)"
    and route: "run_state (route_to w e a (container_name a)) h3 = (None, h')"
    by (auto simp: restore_previous_def split: option.splits prod.splits)
  from route obtain h4 target where target: "run_state (dockerContainerTarget w (container_name a) (app_internal_port a)) h3 = (Inr target, h4)"
    and applied: "run_state (Apply w e a target) h4 = (None, h')"
    by (auto simp: route_to_def split: sum.splits prod.splits)
  have "later h1 h" "later h3 h2" by (rule grows_later [OF grows_remove(2)], fact)+
  with wait_evidence [OF wait] apply_evidence [OF applied] target_evidence(2) [OF target] show ?thesis
    by (blast intro: later_trans)
qed



section \<open>Findings\<close>

text \<open>
  Container names of different applications can coincide, since the name of one application may
  end in the suffix the switch of another appends.
\<close>

lemma container_names_collide:
  "safeName ''web'' \<and> safeName ''web-candidate'' \<and>
   container_name (demo_app 2 ''web-candidate'') = candidate_name (demo_app 1 ''web'')"
  by (simp add: safeName_def lower_or_digit_def is_digit_def less_eq_char_def container_name_def)

text \<open>The automatic runtime is Docker in every world, also when the diagnostics find no Docker.\<close>

lemma automatic_runtime_ignores_diagnostics:
  "wanted_runtime e a = ''auto'' \<Longrightarrow> fst (run_state (adapter w e a) h) = Inr DockerAdapter"
  by (simp add: adapter_def runtime_def selectRuntime_def adapters_def split: prod.splits)

text \<open>
  The fingerprint of a tree does not separate a file's contents from the next path, so two
  different trees have the same fingerprint under every hash.
\<close>

lemma fingerprint_is_ambiguous:
  "tree_files (Folder ''r'' [Regular ''a'' (''xb'' @ [CHR 0x00] @ ''y'')]) \<noteq> tree_files (Folder ''r'' [Regular ''a'' ''x'', Regular ''b'' ''y'']) \<and>
   directoryFingerprint w (Folder ''r'' [Regular ''a'' (''xb'' @ [CHR 0x00] @ ''y'')]) =
   directoryFingerprint w (Folder ''r'' [Regular ''a'' ''x'', Regular ''b'' ''y''])"
  by (simp add: tree_files_def directoryFingerprint_def fingerprint_input_def)

end
