(* ===== verification/App_Config.thy ===== *)
theory App_Config
  imports Executor_Deploy
begin

text \<open>
  The configuration of the server (\<^verbatim>\<open>internal/app/config.go\<close>), read from the
  environment, and the executor that \<^verbatim>\<open>New\<close> builds from it.
\<close>

record config =
  cfg_address :: string
  cfg_database_path :: string
  cfg_environment :: string
  cfg_workspace_path :: string
  cfg_log_path :: string
  cfg_docker_network :: string
  cfg_docker_network_subnet :: string
  cfg_runtime :: string
  cfg_webhook_secret :: string
  cfg_webhook_rate_limit :: int
  cfg_webhook_rate_window :: duration
  cfg_notification_webhook :: string
  cfg_disk_alert_percent :: int
  cfg_certificate_alert_days :: int
  cfg_retention_days :: int
  cfg_retained_images :: int
  cfg_local_repositories_path :: string
  cfg_github_app_id :: string
  cfg_github_app_private_key_path :: string
  cfg_github_api_url :: string
  cfg_source_timeout :: duration
  cfg_build_timeout :: duration
  cfg_start_timeout :: duration
  cfg_health_timeout :: duration
  cfg_workspace_max_bytes :: int
  cfg_log_max_bytes :: int
  cfg_max_concurrent_deployments :: int
  cfg_admin_domain :: string
  cfg_proxy_url :: string
  cfg_caddy_admin_url :: string
  cfg_proxy_expected_status :: int
  cfg_proxy_expected_content :: string
  cfg_slo_probe_window :: duration
  cfg_backup_path :: string
  cfg_backup_interval :: duration
  cfg_backup_retention :: int
  cfg_backup_provider :: string
  cfg_backup_s3_endpoint :: string
  cfg_backup_s3_region :: string
  cfg_backup_s3_bucket :: string
  cfg_backup_s3_prefix :: string
  cfg_backup_s3_access_key :: string
  cfg_backup_s3_secret_key :: string
  cfg_slo_build_duration_minutes :: int
  cfg_agent_address :: string
  cfg_agent_tls_certificate_path :: string
  cfg_agent_tls_private_key_path :: string
  cfg_agent_tls_client_ca_path :: string
  cfg_cloudflared_image :: string
  cfg_cloudflared_network :: string

section \<open>Durations\<close>

definition duration_unit :: "string \<Rightarrow> int option" where
  "duration_unit u =
     (if u = ''ns'' then Some 1 else if u = ''us'' \<or> u = [CHR 0xC2, CHR 0xB5] @ ''s'' \<or> u = [CHR 0xCE, CHR 0xBC] @ ''s'' then Some 1000
      else if u = ''ms'' then Some millisecond else if u = ''s'' then Some second else if u = ''m'' then Some minute
      else if u = ''h'' then Some hour else None)"

text \<open>
  One term of \<^verbatim>\<open>time.ParseDuration\<close>: digits, an optional fraction, and a unit. The
  fraction is truncated to nanoseconds, as the float product of the library is.
\<close>

definition parse_term :: "string \<Rightarrow> (int \<times> string) option" where
  "parse_term s =
     (let whole = takeWhile is_digit s; s1 = dropWhile is_digit s;
          dot = (s1 \<noteq> [] \<and> hd s1 = CHR ''.'');
          frac = (if dot then takeWhile is_digit (tl s1) else '''');
          s2 = (if dot then dropWhile is_digit (tl s1) else s1);
          u = takeWhile (\<lambda>c. c \<noteq> CHR ''.'' \<and> \<not> is_digit c) s2; rest = dropWhile (\<lambda>c. c \<noteq> CHR ''.'' \<and> \<not> is_digit c) s2
      in if whole = '''' \<and> frac = '''' then None
         else case duration_unit u of
             None \<Rightarrow> None
           | Some k \<Rightarrow> Some (int (read_nat whole) * k + int (read_nat frac) * k div 10 ^ length frac, rest))"

fun parse_terms :: "nat \<Rightarrow> string \<Rightarrow> int option" where
  "parse_terms 0 s = None"
| "parse_terms (Suc n) s =
     (if s = '''' then Some 0
      else case parse_term s of
          None \<Rightarrow> None
        | Some (v, rest) \<Rightarrow> map_option (\<lambda>w. v + w) (parse_terms n rest))"

definition ParseDuration :: "string \<Rightarrow> duration option" where
  "ParseDuration s =
     (let neg = has_prefix s ''-''; t = (if has_prefix s ''-'' \<or> has_prefix s ''+'' then tl s else s)
      in if t = ''0'' then Some 0
         else if t = '''' then None
         else case parse_terms (Suc (length t)) t of
             None \<Rightarrow> None
           | Some d \<Rightarrow> if d > 2 ^ 63 - 1 then None else Some (if neg then - d else d))"

section \<open>Reading the environment\<close>

definition environment :: "(string \<Rightarrow> string) \<Rightarrow> string \<Rightarrow> string \<Rightarrow> string" where
  "environment getenv key fallback = (if getenv key \<noteq> '''' then getenv key else fallback)"

definition environmentDuration :: "(string \<Rightarrow> string) \<Rightarrow> string \<Rightarrow> duration \<Rightarrow> duration" where
  "environmentDuration getenv key fallback =
     (case ParseDuration (getenv key) of None \<Rightarrow> fallback | Some d \<Rightarrow> if d \<le> 0 then fallback else d)"

definition environmentInt64 :: "(string \<Rightarrow> string) \<Rightarrow> string \<Rightarrow> int \<Rightarrow> int" where
  "environmentInt64 getenv key fallback =
     (case parse_int (getenv key) of None \<Rightarrow> fallback | Some v \<Rightarrow> if v < 1 then fallback else v)"

definition environmentInt :: "(string \<Rightarrow> string) \<Rightarrow> string \<Rightarrow> int \<Rightarrow> int" where
  "environmentInt getenv key fallback =
     (case parse_int (getenv key) of None \<Rightarrow> fallback | Some v \<Rightarrow> if v < 1 then fallback else v)"

text \<open>\<open>home\<close> is the answer of \<^verbatim>\<open>os.UserHomeDir\<close>, \<open>None\<close> for its error.\<close>

definition userRepositoriesPath :: "string option \<Rightarrow> string" where
  "userRepositoriesPath home = (case home of None \<Rightarrow> ''./repositories'' | Some h \<Rightarrow> if h = '''' then ''./repositories'' else h)"

definition LoadConfig :: "(string \<Rightarrow> string) \<Rightarrow> string option \<Rightarrow> config" where
  "LoadConfig getenv home =
     \<lparr>cfg_address = environment getenv ''MINIDOCK_ADDRESS'' ''127.0.0.1:8080'',
      cfg_database_path = environment getenv ''MINIDOCK_DATABASE_PATH'' ''./data/minidock.db'',
      cfg_environment = environment getenv ''MINIDOCK_ENVIRONMENT'' ''development'',
      cfg_workspace_path = environment getenv ''MINIDOCK_WORKSPACE_PATH'' ''./data/apps'',
      cfg_log_path = environment getenv ''MINIDOCK_LOG_PATH'' ''./data/logs'',
      cfg_docker_network = environment getenv ''MINIDOCK_DOCKER_NETWORK'' ''minidock'',
      cfg_docker_network_subnet = environment getenv ''MINIDOCK_DOCKER_NETWORK_SUBNET'' ''172.31.251.0/24'',
      cfg_runtime = environment getenv ''MINIDOCK_RUNTIME'' ''auto'',
      cfg_webhook_secret = environment getenv ''MINIDOCK_GITHUB_WEBHOOK_SECRET'' '''',
      cfg_webhook_rate_limit = environmentInt getenv ''MINIDOCK_GITHUB_WEBHOOK_RATE_LIMIT'' 30,
      cfg_webhook_rate_window = environmentDuration getenv ''MINIDOCK_GITHUB_WEBHOOK_RATE_WINDOW'' minute,
      cfg_notification_webhook = environment getenv ''MINIDOCK_NOTIFICATION_WEBHOOK'' '''',
      cfg_disk_alert_percent = environmentInt getenv ''MINIDOCK_DISK_ALERT_PERCENT'' 85,
      cfg_certificate_alert_days = environmentInt getenv ''MINIDOCK_CERTIFICATE_ALERT_DAYS'' 21,
      cfg_retention_days = environmentInt getenv ''MINIDOCK_RETENTION_DAYS'' 30,
      cfg_retained_images = environmentInt getenv ''MINIDOCK_RETAINED_IMAGES'' 3,
      cfg_local_repositories_path = environment getenv ''MINIDOCK_LOCAL_REPOSITORIES_PATH'' (userRepositoriesPath home),
      cfg_github_app_id = environment getenv ''MINIDOCK_GITHUB_APP_ID'' '''',
      cfg_github_app_private_key_path = environment getenv ''MINIDOCK_GITHUB_APP_PRIVATE_KEY_PATH'' '''',
      cfg_github_api_url = environment getenv ''MINIDOCK_GITHUB_API_URL'' ''https://api.github.com'',
      cfg_source_timeout = environmentDuration getenv ''MINIDOCK_SOURCE_TIMEOUT'' (5 * minute),
      cfg_build_timeout = environmentDuration getenv ''MINIDOCK_BUILD_TIMEOUT'' (20 * minute),
      cfg_start_timeout = environmentDuration getenv ''MINIDOCK_START_TIMEOUT'' (2 * minute),
      cfg_health_timeout = environmentDuration getenv ''MINIDOCK_HEALTH_TIMEOUT'' (30 * second),
      cfg_workspace_max_bytes = environmentInt64 getenv ''MINIDOCK_WORKSPACE_MAX_BYTES'' (2 * 2 ^ 30),
      cfg_log_max_bytes = environmentInt64 getenv ''MINIDOCK_LOG_MAX_BYTES'' (20 * 2 ^ 20),
      cfg_max_concurrent_deployments = environmentInt getenv ''MINIDOCK_MAX_CONCURRENT_DEPLOYMENTS'' 1,
      cfg_admin_domain = environment getenv ''MINIDOCK_ADMIN_DOMAIN'' (environment getenv ''MINIDOCK_DOMAIN'' ''localhost''),
      cfg_proxy_url = environment getenv ''MINIDOCK_PROXY_URL'' ''http://localhost'',
      cfg_caddy_admin_url = environment getenv ''MINIDOCK_CADDY_ADMIN_URL'' ''http://127.0.0.1:2019'',
      cfg_proxy_expected_status = environmentInt getenv ''MINIDOCK_PROXY_EXPECTED_STATUS'' 200,
      cfg_proxy_expected_content = environment getenv ''MINIDOCK_PROXY_EXPECTED_CONTENT'' '''',
      cfg_slo_probe_window = environmentDuration getenv ''MINIDOCK_SLO_PROBE_WINDOW'' (24 * hour),
      cfg_backup_path = environment getenv ''MINIDOCK_BACKUP_PATH'' ''./data/backups'',
      cfg_backup_interval = environmentDuration getenv ''MINIDOCK_BACKUP_INTERVAL'' (24 * hour),
      cfg_backup_retention = environmentInt getenv ''MINIDOCK_BACKUP_RETENTION'' 7,
      cfg_backup_provider = environment getenv ''MINIDOCK_BACKUP_PROVIDER'' ''local'',
      cfg_backup_s3_endpoint = environment getenv ''MINIDOCK_BACKUP_S3_ENDPOINT'' '''',
      cfg_backup_s3_region = environment getenv ''MINIDOCK_BACKUP_S3_REGION'' ''us-east-1'',
      cfg_backup_s3_bucket = environment getenv ''MINIDOCK_BACKUP_S3_BUCKET'' '''',
      cfg_backup_s3_prefix = environment getenv ''MINIDOCK_BACKUP_S3_PREFIX'' ''minidock'',
      cfg_backup_s3_access_key = environment getenv ''MINIDOCK_BACKUP_S3_ACCESS_KEY'' '''',
      cfg_backup_s3_secret_key = environment getenv ''MINIDOCK_BACKUP_S3_SECRET_KEY'' '''',
      cfg_slo_build_duration_minutes = environmentInt getenv ''MINIDOCK_SLO_BUILD_DURATION_MINUTES'' 10,
      cfg_agent_address = environment getenv ''MINIDOCK_AGENT_ADDRESS'' '''',
      cfg_agent_tls_certificate_path = environment getenv ''MINIDOCK_AGENT_TLS_CERTIFICATE_PATH'' '''',
      cfg_agent_tls_private_key_path = environment getenv ''MINIDOCK_AGENT_TLS_PRIVATE_KEY_PATH'' '''',
      cfg_agent_tls_client_ca_path = environment getenv ''MINIDOCK_AGENT_TLS_CLIENT_CA_PATH'' '''',
      cfg_cloudflared_image = environment getenv ''MINIDOCK_CLOUDFLARED_IMAGE'' ''cloudflare/cloudflared:2026.7.2'',
      cfg_cloudflared_network = environment getenv ''MINIDOCK_CLOUDFLARED_NETWORK'' ''minidock-edge''\<rparr>"

section \<open>The server's executor\<close>

definition new_config :: "config \<Rightarrow> config" where
  "new_config c = c\<lparr>cfg_webhook_rate_limit := (if cfg_webhook_rate_limit c = 0 then 30 else cfg_webhook_rate_limit c),
     cfg_webhook_rate_window := (if cfg_webhook_rate_window c = 0 then minute else cfg_webhook_rate_window c)\<rparr>"

definition new_executor :: "config \<Rightarrow> executor" where
  "new_executor c =
     \<lparr>ex_workspace = cfg_workspace_path c, ex_log_path = cfg_log_path c, ex_network = cfg_docker_network c,
      ex_network_subnet = cfg_docker_network_subnet c, ex_runtime = cfg_runtime c,
      ex_local_repositories = cfg_local_repositories_path c, ex_github_app_id = cfg_github_app_id c,
      ex_github_key_path = cfg_github_app_private_key_path c, ex_github_api_url = cfg_github_api_url c,
      ex_proxy_url = cfg_proxy_url c, ex_caddy_admin_url = cfg_caddy_admin_url c,
      ex_expected_status = cfg_proxy_expected_status c, ex_expected_content = cfg_proxy_expected_content c,
      ex_source_timeout = cfg_source_timeout c, ex_build_timeout = cfg_build_timeout c,
      ex_start_timeout = cfg_start_timeout c, ex_health_timeout = cfg_health_timeout c,
      ex_workspace_max_bytes = cfg_workspace_max_bytes c\<rparr>"

end
