(* ===== verification/App_Session.thy ===== *)
theory App_Session
  imports App_Config Security Store_Guards "HOL-Library.AList" Store_Apps
begin

text \<open>
  The state of the server (\<^verbatim>\<open>internal/app/server.go\<close>): the database, the unlocked
  master key and the sessions, and the handlers that create and destroy them. A handler takes a
  request and the state and returns the state and the response; the clock readings are arguments.
\<close>

section \<open>State, requests and responses\<close>

record app =
  ap_config :: config
  ap_db :: db
  ap_key :: bytes
  ap_sessions :: "(string \<times> time) list"

record request =
  rq_method :: string
  rq_path :: string
  rq_cookie :: "string option"
  rq_form_ok :: bool
  rq_form :: "string \<Rightarrow> string"
  rq_header :: "string \<Rightarrow> string"
  rq_path_value :: "string \<Rightarrow> string"
  rq_remote :: string
  rq_body :: "string option"
  rq_tls :: bool

datatype reply =
    Redirect string
  | HttpError int string
  | Page int string string
  | Status_Only int
  | Not_Found

datatype cookie = Set_Session string time bool | Clear_Session bool

record response =
  rs_reply :: reply
  rs_cookie :: "cookie option"

definition respond :: "reply \<Rightarrow> response" where
  "respond r = \<lparr>rs_reply = r, rs_cookie = None\<rparr>"

text \<open>
  The random source (numbered by the call within a request), Argon2id, the block cipher, SHA-256
  and HMAC-SHA-256.
\<close>

record services =
  sv_rand :: "nat \<Rightarrow> nat \<Rightarrow> bytes result"
  sv_kdf :: "string \<Rightarrow> bytes \<Rightarrow> bytes"
  sv_cipher :: block_cipher
  sv_sha256 :: "bytes \<Rightarrow> bytes"
  sv_hmac :: "bytes \<Rightarrow> bytes \<Rightarrow> bytes"

definition hex_string :: "bytes \<Rightarrow> string" where
  "hex_string bs = concat (map (\<lambda>b. [hex_digit (unat b div 16), hex_digit (unat b mod 16)]) bs)"

section \<open>Key and sessions\<close>

definition Lock :: "app \<Rightarrow> app" where
  "Lock ap = ap\<lparr>ap_key := [], ap_sessions := []\<rparr>"

definition setKey :: "bytes \<Rightarrow> app \<Rightarrow> app" where
  "setKey key ap = ap\<lparr>ap_key := key\<rparr>"

definition keyCopy :: "app \<Rightarrow> bytes" where
  "keyCopy ap = ap_key ap"

definition authorized :: "time \<Rightarrow> request \<Rightarrow> app \<Rightarrow> bool" where
  "authorized t0 rq ap =
     (case rq_cookie rq of
        None \<Rightarrow> False
      | Some value \<Rightarrow>
          if ap_key ap = [] then False
          else (case map_of (ap_sessions ap) value of None \<Rightarrow> False | Some expires \<Rightarrow> t0 < expires))"

definition secure_request :: "request \<Rightarrow> bool" where
  "secure_request rq \<longleftrightarrow> rq_tls rq \<or> rq_header rq ''X-Forwarded-Proto'' = ''https''"

text \<open>\<open>t\<close> is read for the expiry, \<open>t'\<close> while expired sessions are purged.\<close>

definition newSession :: "services \<Rightarrow> time \<Rightarrow> time \<Rightarrow> request \<Rightarrow> app \<Rightarrow> app \<times> cookie option" where
  "newSession sv t t' rq ap =
     (case sv_rand sv 2 32 of
        Inl _ \<Rightarrow> (ap, None)
      | Inr value \<Rightarrow>
          (let session = base64 True False (of_bytes value); expires = t + 12 * hour
           in (ap\<lparr>ap_sessions := AList.update session expires (filter (\<lambda>(s, exp). \<not> exp < t') (ap_sessions ap))\<rparr>,
               Some (Set_Session session expires (secure_request rq)))))"

definition session_reply :: "cookie option \<Rightarrow> response" where
  "session_reply c =
     (case c of
        None \<Rightarrow> respond (HttpError 500 ''could not create session'')
      | Some _ \<Rightarrow> \<lparr>rs_reply = Redirect ''/'', rs_cookie = c\<rparr>)"

section \<open>Setup, unlock and lock\<close>

definition setup_handler :: "services \<Rightarrow> time \<Rightarrow> time \<Rightarrow> request \<Rightarrow> app \<Rightarrow> app \<times> response" where
  "setup_handler sv t t' rq ap =
     (if IsInitialized (ap_db ap) then (ap, respond (Redirect ''/unlock''))
      else if \<not> rq_form_ok rq then (ap, respond (HttpError 400 ''invalid form''))
      else if length (rq_form rq ''password'') < 12 \<or> rq_form rq ''password'' \<noteq> rq_form rq ''password_confirmation''
      then (ap, respond (Page 400 ''Setup'' (''Usa una contrase'' @ [CHR 0xC3, CHR 0xB1] @ ''a de al menos 12 caracteres y confirma el mismo valor.'')))
      else case NewSalt (sv_rand sv 0) of
          Inl _ \<Rightarrow> (ap, respond (HttpError 500 ''could not initialize security''))
        | Inr salt \<Rightarrow>
            (case DeriveKey (sv_kdf sv) (rq_form rq ''password'') salt of
               Inl _ \<Rightarrow> (ap, respond (HttpError 500 ''could not derive key''))
             | Inr key \<Rightarrow>
                 (case NewVerifier (sv_cipher sv) (sv_rand sv 1) key of
                    Inl _ \<Rightarrow> (ap, respond (HttpError 500 ''could not initialize verifier''))
                  | Inr (nonce, cipher) \<Rightarrow>
                      (case InitializeSecurity \<lparr>sc_salt = salt, sc_verifier_nonce = nonce, sc_verifier_cipher = cipher\<rparr> (ap_db ap) of
                         (db', Inl _) \<Rightarrow> (ap\<lparr>ap_db := db'\<rparr>, respond (Page 400 ''Setup''
                            (''La configuraci'' @ [CHR 0xC3, CHR 0xB3] @ ''n ya existe o no pudo guardarse.'')))
                       | (db', Inr _) \<Rightarrow>
                           (let (ap', c) = newSession sv t t' rq (setKey key (ap\<lparr>ap_db := db'\<rparr>)) in (ap', session_reply c))))))"

definition unlockScope :: "services \<Rightarrow> request \<Rightarrow> string" where
  "unlockScope sv rq =
     (let origin = (case SplitHostPort (rq_remote rq) of
                      Some (host, _) \<Rightarrow> if host \<noteq> '''' then host else rq_remote rq
                    | None \<Rightarrow> rq_remote rq)
      in ''unlock:'' @ hex_string (sv_sha256 sv (to_bytes origin)))"

text \<open>
  \<open>t0\<close> is the reading the lockout is judged by. The lockout message is given without the
  time of day it ends with.
\<close>

definition unlock :: "services \<Rightarrow> time \<Rightarrow> time \<Rightarrow> time \<Rightarrow> request \<Rightarrow> app \<Rightarrow> app \<times> response" where
  "unlock sv t0 t t' rq ap =
     (if \<not> rq_form_ok rq then (ap, respond (HttpError 400 ''invalid form''))
      else let scope = unlockScope sv rq
      in case UnlockLockoutUntil scope t0 (ap_db ap) of
          Inl _ \<Rightarrow> (ap, respond (HttpError 503 ''unlock rate limit unavailable''))
        | Inr lockoutUntil \<Rightarrow>
            if lockoutUntil \<noteq> zero_time then (ap, respond (Page 400 ''Unlock'' ''Demasiados intentos.''))
            else (case SecurityConfig (ap_db ap) of
                Inl _ \<Rightarrow> (ap, respond (HttpError 503 ''security configuration unavailable''))
              | Inr conf \<Rightarrow>
                  (case DeriveKey (sv_kdf sv) (rq_form rq ''password'') (sc_salt conf) of
                     Inl _ \<Rightarrow> (ap, respond (HttpError 500 ''could not derive key''))
                   | Inr key \<Rightarrow>
                       (case ValidateKey (sv_cipher sv) key (sc_verifier_nonce conf) (sc_verifier_cipher conf) of
                          Inl _ \<Rightarrow>
                            (case RegisterFailedUnlock scope t0 (ap_db ap) of
                               (db', Inl _) \<Rightarrow> (ap\<lparr>ap_db := db'\<rparr>, respond (HttpError 503 ''unlock rate limit unavailable''))
                             | (db', Inr _) \<Rightarrow> (ap\<lparr>ap_db := db'\<rparr>, respond (Page 400 ''Unlock''
                                  (''Contrase'' @ [CHR 0xC3, CHR 0xB1] @ ''a incorrecta.''))))
                        | Inr _ \<Rightarrow>
                            (case ClearUnlockFailures scope (ap_db ap) of
                               (db', Inl _) \<Rightarrow> (ap\<lparr>ap_db := db'\<rparr>, respond (HttpError 503 ''unlock rate limit unavailable''))
                             | (db', Inr _) \<Rightarrow>
                                 (let (ap', c) = newSession sv t t' rq (setKey key (ap\<lparr>ap_db := db'\<rparr>)) in (ap', session_reply c)))))))"

definition lock :: "request \<Rightarrow> app \<Rightarrow> app \<times> response" where
  "lock rq ap =
     (let ap' = Lock ap;
          ap'' = (case rq_cookie rq of
                    None \<Rightarrow> ap'
                  | Some value \<Rightarrow> ap'\<lparr>ap_sessions := AList.delete value (ap_sessions ap')\<rparr>)
      in (ap'', \<lparr>rs_reply = Redirect ''/unlock'', rs_cookie = Some (Clear_Session (secure_request rq))\<rparr>))"

section \<open>Cross-site request forgery\<close>

definition csrfTokenFor :: "services \<Rightarrow> string \<Rightarrow> app \<Rightarrow> string" where
  "csrfTokenFor sv sessionID ap =
     (if ap_key ap = [] then ''''
      else base64 True False (of_bytes (sv_hmac sv (ap_key ap) (to_bytes sessionID))))"

definition csrfToken :: "services \<Rightarrow> request \<Rightarrow> app \<Rightarrow> string" where
  "csrfToken sv rq ap = (case rq_cookie rq of None \<Rightarrow> '''' | Some value \<Rightarrow> csrfTokenFor sv value ap)"

definition csrf_actual :: "request \<Rightarrow> string" where
  "csrf_actual rq = (if rq_form rq ''csrf_token'' = '''' then rq_header rq ''X-CSRF-Token'' else rq_form rq ''csrf_token'')"

definition csrfCheck ::
    "services \<Rightarrow> time \<Rightarrow> (request \<Rightarrow> app \<Rightarrow> app \<times> response) \<Rightarrow> request \<Rightarrow> app \<Rightarrow> app \<times> response" where
  "csrfCheck sv t0 next rq ap =
     (if rq_method rq = ''POST'' \<and> \<not> has_prefix (rq_path rq) ''/webhooks/'' \<and> rq_path rq \<noteq> ''/setup'' \<and> rq_path rq \<noteq> ''/unlock''
      then if cfg_environment (ap_config ap) = ''test'' \<and> rq_header rq ''X-Test-Validate-CSRF'' = '''' then next rq ap
        else if \<not> authorized t0 rq ap then (ap, respond (Redirect ''/unlock''))
        else (case rq_cookie rq of
            None \<Rightarrow> (ap, respond (Redirect ''/unlock''))
          | Some value \<Rightarrow>
              if csrfTokenFor sv value ap = '''' \<or> csrf_actual rq \<noteq> csrfTokenFor sv value ap
              then (ap, respond (HttpError 403 ''invalid CSRF token''))
              else next rq ap)
      else next rq ap)"

text \<open>Handlers behind the session redirect to the unlock page.\<close>

definition requireAuthorization ::
    "time \<Rightarrow> (request \<Rightarrow> app \<Rightarrow> app \<times> response) \<Rightarrow> request \<Rightarrow> app \<Rightarrow> app \<times> response" where
  "requireAuthorization t0 body rq ap =
     (if \<not> authorized t0 rq ap then (ap, respond (Redirect ''/unlock'')) else body rq ap)"

end
