(* ===== verification/App_Webhook.thy ===== *)
theory App_Webhook
  imports App_Session Store_Queue Executor_Base Paths
begin

text \<open>
  Queueing deployments (\<^verbatim>\<open>internal/app/cicd.go\<close>): the job with its release contract,
  and the GitHub webhook that creates one.
\<close>

section \<open>The host and the decoders\<close>

text \<open>
  \<open>ho_mkdir\<close> and \<open>ho_open\<close> answer with the error of \<^verbatim>\<open>os.MkdirAll\<close> and
  \<^verbatim>\<open>os.OpenFile\<close>. The rest is package \<^verbatim>\<open>encoding/json\<close>: a push payload
  (reference, commit, repository), an object as its raw members (\<open>None\<close> for an error and for
  \<^verbatim>\<open>null\<close>), the text of a raw message after validation and compaction, and the member
  \<^verbatim>\<open>effective_runtime_configuration\<close> of a release manifest.
\<close>

record host =
  ho_mkdir :: "string \<Rightarrow> error option"
  ho_open :: "string \<Rightarrow> error option"
  ho_push :: "string \<Rightarrow> (string \<times> string \<times> string) option"
  ho_object :: "string \<Rightarrow> str_map option"
  ho_compact :: "string \<Rightarrow> string option"
  ho_effective :: "string \<Rightarrow> string + str_map option"

fun hex_value :: "char \<Rightarrow> nat" where
  "hex_value c = (if is_digit c then of_char c - 48 else if CHR ''a'' \<le> c then of_char c - 87 else of_char c - 55)"

fun decode_hex :: "string \<Rightarrow> bytes option" where
  "decode_hex [] = Some []"
| "decode_hex [c] = None"
| "decode_hex (c # d # s) =
     (if is_hex c \<and> is_hex d then map_option (\<lambda>bs. of_nat (16 * hex_value c + hex_value d) # bs) (decode_hex s)
      else None)"

section \<open>Queueing\<close>

definition release_health_endpoint :: "application \<Rightarrow> string" where
  "release_health_endpoint a =
     (if app_health_endpoint a = ''''
      then (case For (app_type a) of Some t \<Rightarrow> tp_health_endpoint t | None \<Rightarrow> ''/healthz'')
      else app_health_endpoint a)"

definition queued_manifest :: "application \<Rightarrow> string" where
  "queued_manifest a =
     ''{'' @ json_string ''version'' @ '':1,'' @ json_string ''application_type'' @ '':'' @ json_string (app_type a) @ '','' @
     json_string ''requested_runtime'' @ '':'' @ json_string (app_runtime a) @ '','' @
     json_string ''internal_port'' @ '':'' @ show_int (app_internal_port a) @ '','' @
     json_string ''health_endpoint'' @ '':'' @ json_string (release_health_endpoint a) @ ''}''"

definition queued_metadata :: "application \<Rightarrow> string \<Rightarrow> release_metadata" where
  "queued_metadata a requestedRef =
     \<lparr>rm_requested_ref = (if requestedRef = '''' then app_branch a else requestedRef), rm_source_revision = '''',
      rm_source_fingerprint = '''', rm_artifact_digest = '''', rm_runtime = '''',
      rm_internal_port = app_internal_port a, rm_health_endpoint = '''', rm_manifest = queued_manifest a,
      rm_configuration_digest = ''''\<rparr>"

definition deployment_log :: "config \<Rightarrow> time \<Rightarrow> int \<Rightarrow> string" where
  "deployment_log c t0 applicationID =
     join_path [cfg_log_path c, ''deploy-'' @ show_int applicationID @ ''-'' @ show_int t0 @ ''.log'']"

text \<open>\<open>t0\<close> names the log file; \<open>t\<close> is the clock of the store.\<close>

definition queueDeploymentRef ::
    "host \<Rightarrow> config \<Rightarrow> time \<Rightarrow> time \<Rightarrow> int \<Rightarrow> string \<Rightarrow> string \<Rightarrow> unit store_op" where
  "queueDeploymentRef ho c t0 t applicationID action requestedRef s =
     (case ho_mkdir ho (cfg_log_path c) of
        Some e \<Rightarrow> (s, Inl e)
      | None \<Rightarrow>
          (case QueueDeployment t applicationID action (deployment_log c t0 applicationID) s of
             (s', Inl e) \<Rightarrow> (s', Inl e)
           | (s', Inr d) \<Rightarrow>
               (case Application applicationID s' of
                  Inl e \<Rightarrow> (s', Inl e)
                | Inr a \<Rightarrow> SetDeploymentReleaseMetadata (d_id d) (queued_metadata a requestedRef) s')))"

definition queueDeployment :: "host \<Rightarrow> config \<Rightarrow> time \<Rightarrow> time \<Rightarrow> int \<Rightarrow> string \<Rightarrow> unit store_op" where
  "queueDeployment ho c t0 t applicationID action = queueDeploymentRef ho c t0 t applicationID action ''''"

section \<open>The GitHub webhook\<close>

definition validGitCommit :: "string \<Rightarrow> bool" where
  "validGitCommit v \<longleftrightarrow> length v = 40 \<and> decode_hex v \<noteq> None \<and> v \<noteq> replicate 40 CHR ''0''"

text \<open>\<^verbatim>\<open>strings.SplitN(s, sep, 2)\<close>: the parts around the first separator.\<close>

fun cut_at :: "string \<Rightarrow> string \<Rightarrow> (string \<times> string) option" where
  "cut_at sep [] = None"
| "cut_at sep (c # s) =
     (if has_prefix (c # s) sep then Some ([], drop (length sep) (c # s))
      else map_option (\<lambda>(l, r). (c # l, r)) (cut_at sep s))"

definition matchesGitHubRepository :: "string \<Rightarrow> string \<Rightarrow> bool" where
  "matchesGitHubRepository repository fullName =
     (let repository = trim_suffix (trim_space (to_lower repository)) ''.git'';
          fullName = trim_chars (to_lower fullName) ''/''
      in if repository = '''' \<or> fullName = '''' then False
         else if has_prefix repository ''git@github.com:''
         then trim_prefix repository ''git@github.com:'' = fullName
         else if has_prefix repository ''https://github.com/'' \<or> has_prefix repository ''http://github.com/''
         then (case cut_at ''github.com/'' repository of
                 None \<Rightarrow> False | Some (_, rest) \<Rightarrow> trim_chars rest ''/'' = fullName)
         else False)"

definition matchesGitReference :: "string \<Rightarrow> string \<Rightarrow> bool" where
  "matchesGitReference reference pushed =
     (if has_prefix reference ''refs/'' then pushed = reference
      else pushed = ''refs/heads/'' @ reference \<or> pushed = ''refs/tags/'' @ reference)"

definition validGitHubSignature :: "services \<Rightarrow> string \<Rightarrow> string \<Rightarrow> string \<Rightarrow> bool" where
  "validGitHubSignature sv secret body header =
     (if \<not> has_prefix header ''sha256='' then False
      else case decode_hex (trim_prefix header ''sha256='') of
             None \<Rightarrow> False
           | Some want \<Rightarrow> want = sv_hmac sv (to_bytes secret) (to_bytes body))"

definition max_webhook_body :: nat where
  "max_webhook_body = 2 ^ 20"

definition read_body :: "request \<Rightarrow> string option" where
  "read_body rq =
     (case rq_body rq of None \<Rightarrow> None | Some body \<Rightarrow> if length body > max_webhook_body then None else Some body)"

definition github_scope :: "application \<Rightarrow> string" where
  "github_scope a = ''github:'' @ show_int (app_id a)"

text \<open>The delivery identifier is recorded by its fingerprint; a request without one is not.\<close>

definition claim_delivery :: "services \<Rightarrow> request \<Rightarrow> bool store_op" where
  "claim_delivery sv rq s =
     (let delivery = trim_space (rq_header rq ''X-GitHub-Delivery'')
      in if delivery = '''' then (s, Inr True)
         else ClaimWebhookDelivery ''github'' (hex_string (sv_sha256 sv (to_bytes delivery))) s)"

text \<open>The decision on an authentic push, and its job.\<close>

definition push_allowed :: "host \<Rightarrow> application \<Rightarrow> string \<Rightarrow> string option" where
  "push_allowed ho a body =
     (case ho_push ho body of
        None \<Rightarrow> None
      | Some (ref, after, fullName) \<Rightarrow>
          if \<not> matchesGitReference (app_branch a) ref \<or> (after \<noteq> '''' \<and> \<not> validGitCommit after) then None
          else if fullName \<noteq> '''' \<and> \<not> matchesGitHubRepository (app_repository a) fullName then None
          else Some after)"

definition queue_push ::
    "host \<Rightarrow> config \<Rightarrow> time \<Rightarrow> time \<Rightarrow> application \<Rightarrow> string \<Rightarrow> db \<Rightarrow> db \<times> reply" where
  "queue_push ho c t0 t a after s =
     (case queueDeploymentRef ho c t0 t (app_id a) ''deploy'' after s of
        (s', Inl e) \<Rightarrow> (s', if contains_str (error_text e) ''UNIQUE'' then Status_Only 202
                            else HttpError 500 ''could not queue deployment'')
      | (s', Inr _) \<Rightarrow> (s', Status_Only 202))"

text \<open>Everything after the signature and the delivery have been accepted.\<close>

definition accepted_push ::
    "host \<Rightarrow> time \<Rightarrow> time \<Rightarrow> time \<Rightarrow> request \<Rightarrow> string \<Rightarrow> app \<Rightarrow> db \<times> reply" where
  "accepted_push ho t1 t0 t rq body ap =
     (let s = ap_db ap; c = ap_config ap in
      case parse_int (rq_path_value rq ''id'') of
        None \<Rightarrow> (s, Not_Found)
      | Some i \<Rightarrow>
          (case Application i s of
             Inl _ \<Rightarrow> (s, Not_Found)
           | Inr a \<Rightarrow>
               if \<not> app_deploy_on_push a then (s, Status_Only 204)
               else (case AllowWebhookRequest t1 (github_scope a) (cfg_webhook_rate_limit c) (cfg_webhook_rate_window c) s of
                   (s', Inl _) \<Rightarrow> (s', HttpError 500 ''could not apply webhook rate limit'')
                 | (s', Inr allowed) \<Rightarrow>
                     if \<not> allowed then (s', HttpError 429 ''webhook rate limit exceeded'')
                     else if keyCopy ap = [] \<and> HasSecrets (app_id a) s'
                     then (s', HttpError 503 ''MiniDock is locked and application contains secrets'')
                     else if app_require_confirmation a then (s', Status_Only 204)
                     else (case push_allowed ho a body of
                         None \<Rightarrow> (s', Status_Only 204)
                       | Some after \<Rightarrow> queue_push ho c t0 t a after s'))))"

definition githubWebhook ::
    "services \<Rightarrow> host \<Rightarrow> time \<Rightarrow> time \<Rightarrow> time \<Rightarrow> request \<Rightarrow> app \<Rightarrow> app \<times> response" where
  "githubWebhook sv ho t1 t0 t rq ap =
     (if rq_header rq ''X-GitHub-Event'' \<noteq> ''push'' then (ap, respond (Status_Only 204))
      else if cfg_webhook_secret (ap_config ap) = '''' then (ap, respond (HttpError 503 ''webhook is not configured''))
      else case read_body rq of
          None \<Rightarrow> (ap, respond (HttpError 400 ''invalid payload''))
        | Some body \<Rightarrow>
            if \<not> validGitHubSignature sv (cfg_webhook_secret (ap_config ap)) body (rq_header rq ''X-Hub-Signature-256'')
            then (ap, respond (HttpError 401 ''invalid signature''))
            else (case claim_delivery sv rq (ap_db ap) of
                (s', Inl _) \<Rightarrow> (ap\<lparr>ap_db := s'\<rparr>, respond (HttpError 500 ''could not record webhook''))
              | (s', Inr claimed) \<Rightarrow>
                  if \<not> claimed then (ap\<lparr>ap_db := s'\<rparr>, respond (Status_Only 204))
                  else (let (s'', r) = accepted_push ho t1 t0 t rq body (ap\<lparr>ap_db := s'\<rparr>)
                        in (ap\<lparr>ap_db := s''\<rparr>, respond r))))"

end
