(* ===== verification/App_Worker.thy ===== *)
theory App_Worker
  imports App_Webhook Executor_Deploy Store_Alerts
begin

text \<open>
  The queue worker (\<^verbatim>\<open>internal/app/cicd.go\<close>) and the configuration of a release
  (\<^verbatim>\<open>deploymentConfiguration\<close> of \<^verbatim>\<open>server.go\<close>). A worker shares the
  database and the key with the request handlers, the heartbeat of its own job and the other
  workers: before each of its store calls \<open>nb_effect\<close> applies whatever they did meanwhile.
  A store call is atomic; between two of them anything may happen.
\<close>

section \<open>Jobs\<close>

record neighbours =
  nb_effect :: "nat \<Rightarrow> app \<Rightarrow> app"
  nb_clock :: "nat \<Rightarrow> time"

type_synonym 'a job = "(app \<times> history \<times> nat, 'a) state"

definition app_call :: "neighbours \<Rightarrow> (time \<Rightarrow> app \<Rightarrow> app \<times> 'a) \<Rightarrow> 'a job" where
  "app_call nb f = State (\<lambda>(ap, h, k).
     let (ap', x) = f (nb_clock nb k) (nb_effect nb k ap) in (x, (ap', h, Suc k)))"

definition store_call :: "neighbours \<Rightarrow> (time \<Rightarrow> db \<Rightarrow> db \<times> 'a) \<Rightarrow> 'a job" where
  "store_call nb op = app_call nb (\<lambda>t ap. let (s', x) = op t (ap_db ap) in (ap\<lparr>ap_db := s'\<rparr>, x))"

definition store_read :: "neighbours \<Rightarrow> (db \<Rightarrow> 'a) \<Rightarrow> 'a job" where
  "store_read nb f = store_call nb (\<lambda>_ s. (s, f s))"

definition read_key :: "neighbours \<Rightarrow> bytes job" where
  "read_key nb = app_call nb (\<lambda>_ ap. (ap, keyCopy ap))"

definition plain_error :: "error \<Rightarrow> dep_error" where
  "plain_error e = Plain (error_text e)"

section \<open>The configuration of a release\<close>

definition configurationValues :: "neighbours \<Rightarrow> int \<Rightarrow> string \<Rightarrow> string \<Rightarrow> str_map job" where
  "configurationValues nb i env target = do {
     rows \<leftarrow> store_read nb (ApplicationConfiguration i env target);
     State_Monad.return (fold (\<lambda>r. AList.update (conf_name r) (conf_value r)) rows [])
   }"

fun decrypt_secrets ::
    "neighbours \<Rightarrow> services \<Rightarrow> bytes \<Rightarrow> int \<Rightarrow> string \<Rightarrow> string \<Rightarrow> string list \<Rightarrow> str_map \<Rightarrow> str_map result job" where
  "decrypt_secrets nb sv key i env target [] values = State_Monad.return (Inr values)"
| "decrypt_secrets nb sv key i env target (name # names) values = do {
     r \<leftarrow> store_read nb (ApplicationSecret i env target name);
     case r of
       Inl e \<Rightarrow> State_Monad.return (Inl e)
     | Inr (nonce, ciphertext) \<Rightarrow>
         (case Decrypt (sv_cipher sv) key nonce ciphertext of
            Inl e \<Rightarrow> State_Monad.return (Inl e)
          | Inr plaintext \<Rightarrow>
              decrypt_secrets nb sv key i env target names (AList.update name (of_bytes plaintext) values))
   }"

text \<open>The map iteration of \<^verbatim>\<open>sortedMapNames\<close> is taken in insertion order.\<close>

definition sortedMapNames :: "str_map \<Rightarrow> string list" where
  "sortedMapNames values = map fst values"

definition deploymentSecrets :: "neighbours \<Rightarrow> services \<Rightarrow> int \<Rightarrow> string \<Rightarrow> string \<Rightarrow> str_map result job" where
  "deploymentSecrets nb sv i env target = do {
     metadata \<leftarrow> store_read nb (ApplicationSecrets i env target);
     if metadata = [] then State_Monad.return (Inr [])
     else do {
       key \<leftarrow> read_key nb;
       if key = [] then State_Monad.return (Inl (ErrMsg ''master key unavailable''))
       else do {
         r \<leftarrow> decrypt_secrets nb sv key i env target (map sm_name metadata) [];
         case r of
           Inl e \<Rightarrow> State_Monad.return (Inl e)
         | Inr values \<Rightarrow> do {
             u \<leftarrow> store_call nb (\<lambda>t. RecordSecretUse (\<lambda>_. t) i env target (sortedMapNames values));
             State_Monad.return (case u of Inl e \<Rightarrow> Inl e | Inr _ \<Rightarrow> Inr values)
           }
       }
     }
   }"

definition empty_configuration :: deployment_configuration where
  "empty_configuration = \<lparr>dc_runtime = [], dc_build_args = [], dc_build_secrets = [], dc_public_runtime = [],
     dc_effective_runtime = '''', dc_configuration_digest = '''', dc_reuse_image = '''',
     dc_reuse_source_revision = '''', dc_reuse_source_fingerprint = ''''\<rparr>"

definition deploymentConfiguration ::
    "neighbours \<Rightarrow> services \<Rightarrow> world \<Rightarrow> int \<Rightarrow> string \<Rightarrow> deployment_configuration result job" where
  "deploymentConfiguration nb sv w i env = do {
     rt \<leftarrow> configurationValues nb i env ''runtime'';
     buildArgs \<leftarrow> configurationValues nb i env ''build'';
     b \<leftarrow> deploymentSecrets nb sv i env ''build'';
     case b of
       Inl e \<Rightarrow> State_Monad.return (Inl e)
     | Inr buildSecrets \<Rightarrow> do {
         r \<leftarrow> deploymentSecrets nb sv i env ''runtime'';
         State_Monad.return (case r of
             Inl e \<Rightarrow> Inl e
           | Inr runtimeSecrets \<Rightarrow> Inr (empty_configuration
               \<lparr>dc_runtime := AList.updates (map fst runtimeSecrets) (map snd runtimeSecrets) rt,
                dc_public_runtime := rt, dc_build_args := buildArgs, dc_build_secrets := buildSecrets,
                dc_configuration_digest := PublicConfigurationDigest w rt buildArgs,
                dc_effective_runtime := NonSecretRuntimeConfiguration rt\<rparr>))
       }
   }"

definition rollbackConfiguration ::
    "world \<Rightarrow> host \<Rightarrow> deployment_configuration \<Rightarrow> string \<Rightarrow> dep_error + deployment_configuration" where
  "rollbackConfiguration w ho conf manifest =
     (case ho_effective ho manifest of
        Inl e \<Rightarrow> Inl (Plain (''read rollback release manifest: '' @ e))
      | Inr None \<Rightarrow> Inl (Plain ''rollback release has no effective runtime configuration'')
      | Inr (Some effective) \<Rightarrow>
          (let kept = fold AList.delete (map fst (dc_public_runtime conf)) (dc_runtime conf);
               public = AList.updates (map fst effective) (map snd effective) []
           in Inr (conf\<lparr>dc_public_runtime := public,
                dc_runtime := AList.updates (map fst effective) (map snd effective) kept,
                dc_effective_runtime := NonSecretRuntimeConfiguration public,
                dc_configuration_digest := PublicConfigurationDigest w public (dc_build_args conf)\<rparr>)))"

text \<open>
  A map of raw JSON values is written with its names in order; a value that is not valid JSON makes
  the encoder fail.
\<close>

definition raw_object :: "host \<Rightarrow> str_map \<Rightarrow> string option" where
  "raw_object ho m =
     (if \<exists>v\<in>set (map snd m). ho_compact ho v = None then None
      else Some (''{'' @ join_with '','' (map (\<lambda>n. json_string n @ '':'' @ the (ho_compact ho (lookup m n))) (sortedNames m)) @ ''}''))"

definition releaseManifest :: "host \<Rightarrow> string \<Rightarrow> string \<Rightarrow> string \<Rightarrow> string" where
  "releaseManifest ho manifest effective observedContainerID =
     (let m = (case ho_object ho manifest of None \<Rightarrow> [(''version'', ''1'')] | Some m \<Rightarrow> m);
          m = (if effective \<noteq> '''' then AList.update ''effective_runtime_configuration'' effective m else m);
          m = (if observedContainerID \<noteq> '''' then AList.update ''observed_container_id'' (json_string observedContainerID) m else m)
      in case raw_object ho m of None \<Rightarrow> manifest | Some text \<Rightarrow> text)"

definition rollbackReleaseMetadata :: "deployment \<Rightarrow> string \<Rightarrow> release_metadata" where
  "rollbackReleaseMetadata source digest =
     \<lparr>rm_requested_ref = d_requested_ref source, rm_source_revision = d_source_revision source,
      rm_source_fingerprint = d_source_fingerprint source, rm_artifact_digest = d_artifact_digest source,
      rm_runtime = d_runtime source, rm_internal_port = d_internal_port source,
      rm_health_endpoint = d_health_endpoint source, rm_manifest = d_manifest source,
      rm_configuration_digest = digest\<rparr>"

section \<open>Running the executor\<close>

text \<open>The callbacks of the stage tracker write to the job's row while the executor runs.\<close>

definition track :: "neighbours \<Rightarrow> int \<Rightarrow> action \<Rightarrow> unit job" where
  "track nb i a =
     (case a of
        StageChange stage \<Rightarrow> do { _ \<leftarrow> store_call nb (\<lambda>_. SetDeploymentStage i stage); State_Monad.return () }
      | Event stage kind message \<Rightarrow>
          do { _ \<leftarrow> store_call nb (\<lambda>t. AddDeploymentEvent t i stage kind message); State_Monad.return () }
      | _ \<Rightarrow> State_Monad.return ())"

fun track_all :: "neighbours \<Rightarrow> int \<Rightarrow> action list \<Rightarrow> unit job" where
  "track_all nb i [] = State_Monad.return ()"
| "track_all nb i (a # as) = do { track nb i a; track_all nb i as }"

definition outside :: "'a prog \<Rightarrow> ('a \<times> action list) job" where
  "outside p = State (\<lambda>(ap, h, k). let (x, h') = run_state p h in ((x, rev (take (length h' - length h) h')), (ap, h', k)))"

definition execute :: "neighbours \<Rightarrow> int \<Rightarrow> 'a prog \<Rightarrow> ('a \<times> action list) job" where
  "execute nb i p = do { (x, trace) \<leftarrow> outside p; track_all nb i trace; State_Monad.return (x, trace) }"

text \<open>The durations of the tracker: start and health add up, the others are set.\<close>

fun add_duration :: "action \<Rightarrow> (string \<Rightarrow> duration) \<Rightarrow> string \<Rightarrow> duration" where
  "add_duration (Took stage d) f =
     f(stage := (if stage = ''start'' \<or> stage = ''health'' then f stage + d else d))"
| "add_duration _ f = f"

definition stage_milliseconds :: "action list \<Rightarrow> string \<Rightarrow> int" where
  "stage_milliseconds trace stage = trunc_div (fold add_duration trace (\<lambda>_. 0) stage) millisecond"

section \<open>The worker\<close>

definition deploy_job ::
    "neighbours \<Rightarrow> host \<Rightarrow> world \<Rightarrow> nat \<Rightarrow> executor \<Rightarrow> deployment \<Rightarrow> application \<Rightarrow> deployment_configuration \<Rightarrow>
     (dep_error option \<times> action list) job" where
  "deploy_job nb ho w fuel e d application conf = do {
     let a = (if validGitCommit (d_requested_ref d) then application\<lparr>app_branch := d_requested_ref d\<rparr> else application);
     ((release, err), trace) \<leftarrow> execute nb (d_id d) (Deploy w fuel e True a conf);
     (if rr_image release \<noteq> '''' then do { _ \<leftarrow> store_call nb (\<lambda>_. SetDeploymentImage (d_id d) (rr_image release)); State_Monad.return () }
      else State_Monad.return ());
     _ \<leftarrow> store_call nb (\<lambda>_. SetDeploymentReleaseMetadata (d_id d)
        \<lparr>rm_requested_ref = d_requested_ref d, rm_source_revision = rr_source_revision release,
         rm_source_fingerprint = rr_source_fingerprint release, rm_artifact_digest = rr_artifact_digest release,
         rm_runtime = rr_runtime release, rm_internal_port = app_internal_port a,
         rm_health_endpoint = release_health_endpoint a,
         rm_manifest = releaseManifest ho (d_manifest d) (dc_effective_runtime conf) (rr_observed_container_id release),
         rm_configuration_digest = dc_configuration_digest conf\<rparr>);
     State_Monad.return (err, trace)
   }"

text \<open>
  \<open>query\<close> is \<open>PreviousSuccessfulDeployment\<close> for a rollback and
  \<open>LatestSuccessfulDeployment\<close> for an automatic one; the two branches are alike otherwise.
\<close>

definition rollback_job ::
    "neighbours \<Rightarrow> host \<Rightarrow> world \<Rightarrow> nat \<Rightarrow> executor \<Rightarrow> (int \<Rightarrow> db \<Rightarrow> deployment result) \<Rightarrow> deployment \<Rightarrow>
     application \<Rightarrow> deployment_configuration \<Rightarrow> (dep_error option \<times> action list) job" where
  "rollback_job nb ho w fuel e query d a conf = do {
     p \<leftarrow> store_read nb (query (app_id a));
     case p of
       Inl err \<Rightarrow> State_Monad.return (Some (plain_error err), [])
     | Inr previous \<Rightarrow>
         (case rollbackConfiguration w ho conf (d_manifest previous) of
            Inl err \<Rightarrow> State_Monad.return (Some err, [])
          | Inr conf \<Rightarrow> do {
              (v, verified) \<leftarrow> execute nb (d_id d) (VerifyArtifact w e a (d_image previous) (d_artifact_digest previous));
              case v of
                Some err \<Rightarrow> State_Monad.return (Some err, verified)
              | None \<Rightarrow> do {
                  _ \<leftarrow> store_call nb (\<lambda>_. SetDeploymentImage (d_id d) (d_image previous));
                  let metadata = rollbackReleaseMetadata previous (dc_configuration_digest conf);
                  _ \<leftarrow> store_call nb (\<lambda>_. SetDeploymentReleaseMetadata (d_id d) (metadata
                    \<lparr>rm_manifest := releaseManifest ho (d_manifest previous) (dc_effective_runtime conf) ''''\<rparr>));
                  ((release, err), trace) \<leftarrow> execute nb (d_id d) (Rollback w fuel e True a (d_image previous) conf);
                  _ \<leftarrow> store_call nb (\<lambda>_. SetDeploymentReleaseMetadata (d_id d) (metadata
                    \<lparr>rm_manifest := releaseManifest ho (d_manifest previous) (dc_effective_runtime conf)
                       (rr_observed_container_id release)\<rparr>));
                  State_Monad.return (err, verified @ trace)
                }
            })
   }"

definition reusable :: "deployment result \<Rightarrow> deployment_configuration \<Rightarrow> deployment_configuration" where
  "reusable failed conf =
     (case failed of
        Inr f \<Rightarrow>
          if d_image f \<noteq> '''' \<and> (d_failure_stage f = ''start'' \<or> d_failure_stage f = ''health'' \<or> d_failure_stage f = ''route'')
          then conf\<lparr>dc_reuse_image := d_image f, dc_reuse_source_revision := d_source_revision f,
                 dc_reuse_source_fingerprint := d_source_fingerprint f\<rparr>
          else conf
      | Inl _ \<Rightarrow> conf)"

text \<open>The action of a job; a retry becomes a deployment that may reuse the failed image.\<close>

definition run_action ::
    "neighbours \<Rightarrow> host \<Rightarrow> world \<Rightarrow> nat \<Rightarrow> executor \<Rightarrow> deployment \<Rightarrow> application \<Rightarrow> deployment_configuration result \<Rightarrow>
     (deployment \<times> dep_error option \<times> action list) job" where
  "run_action nb ho w fuel e d a c =
     (case c of
        Inl err \<Rightarrow> State_Monad.return (d, Some (plain_error err), [])
      | Inr conf \<Rightarrow> do {
          (d, conf) \<leftarrow> (if d_action d = ''retry'' then do {
              failed \<leftarrow> store_read nb (LatestFailedDeployment (app_id a));
              State_Monad.return (d\<lparr>d_action := ''deploy''\<rparr>, reusable failed conf)
            } else State_Monad.return (d, conf));
          (err, trace) \<leftarrow>
            (if d_action d = ''deploy'' then deploy_job nb ho w fuel e d a conf
             else if d_action d = ''rollback'' then rollback_job nb ho w fuel e PreviousSuccessfulDeployment d a conf
             else if d_action d = ''auto_rollback'' then rollback_job nb ho w fuel e LatestSuccessfulDeployment d a conf
             else State_Monad.return (None, []));
          State_Monad.return (d, err, trace)
        })"

definition shouldTriggerAutoRollback :: "dep_error option \<Rightarrow> bool" where
  "shouldTriggerAutoRollback err \<longleftrightarrow> err \<noteq> None \<and>
     (let (stage, _, _) = FailureDetails err in stage = ''start'' \<or> stage = ''health'' \<or> stage = ''route'')"

definition failure_record :: "deployment \<Rightarrow> dep_error option \<Rightarrow> string \<times> string \<times> string" where
  "failure_record d err =
     (let (stage, code, detail) = FailureDetails err
      in if d_action d = ''rollback'' \<or> d_action d = ''auto_rollback''
         then (''rollback'', if code = '''' \<or> code = ''runtime_error'' then ''rollback_failed'' else code, detail)
         else (stage, code, detail))"

definition notifyDeployment ::
    "world \<Rightarrow> config \<Rightarrow> application \<Rightarrow> deployment \<Rightarrow> string \<Rightarrow> dep_error option \<Rightarrow> unit prog" where
  "notifyDeployment w c a d status err =
     (if cfg_notification_webhook c = '''' then State_Monad.return ()
      else do {
        let payload = [(''application'', app_name a), (''action'', d_action d), (''status'', status),
              (''deployment_id'', show_int (d_id d))] @ (case err of None \<Rightarrow> [] | Some x \<Rightarrow> [(''error'', detail_text x)]);
        _ \<leftarrow> send w ''POST'' (cfg_notification_webhook c) [(''Content-Type'', ''application/json'')] (json_map payload);
        State_Monad.return ()
      })"

text \<open>
  What the heartbeat reported when the job ended overrides success. One clock reading names the log
  of the automatic rollback and dates its row.
\<close>

definition settle ::
    "neighbours \<Rightarrow> host \<Rightarrow> world \<Rightarrow> config \<Rightarrow> deployment \<Rightarrow> application \<Rightarrow> error option \<Rightarrow> dep_error option \<Rightarrow>
     action list \<Rightarrow> dep_error option job" where
  "settle nb ho w c d a heartbeatFailure err trace = do {
     let err = (if err = None then map_option (\<lambda>m. Plain (''deployment lease lost: '' @ error_text m)) heartbeatFailure else err);
     r \<leftarrow> store_read nb (DeploymentCancellationRequested (d_id d));
     let cancelled = (r = Inr True);
     let status = (if cancelled then ''cancelled'' else if err \<noteq> None then ''failed'' else ''successful'');
     (if \<not> cancelled \<and> err \<noteq> None then do {
        _ \<leftarrow> store_call nb (\<lambda>_. case failure_record d err of (stage, code, detail) \<Rightarrow> SetDeploymentFailure (d_id d) stage code detail);
        State_Monad.return ()
      } else State_Monad.return ());
     _ \<leftarrow> store_call nb (\<lambda>_. SetDeploymentStageDurations (d_id d) (d_queue_duration_ms d)
        (stage_milliseconds trace ''source'') (stage_milliseconds trace ''build'') (stage_milliseconds trace ''start'')
        (stage_milliseconds trace ''health'') (stage_milliseconds trace ''route''));
     _ \<leftarrow> store_call nb (\<lambda>t. FinishDeployment t (d_id d) status);
     _ \<leftarrow> outside (notifyDeployment w c a d status err);
     (if status = ''failed'' \<and> d_action d = ''deploy'' \<and> app_auto_rollback a \<and> shouldTriggerAutoRollback err then do {
        _ \<leftarrow> store_call nb (\<lambda>t. queueDeployment ho c t t (app_id a) ''auto_rollback'');
        State_Monad.return ()
      } else State_Monad.return ());
     State_Monad.return err
   }"

definition finish_failed :: "neighbours \<Rightarrow> int \<Rightarrow> error \<Rightarrow> dep_error option job" where
  "finish_failed nb i err = do {
     _ \<leftarrow> store_call nb (\<lambda>t. FinishDeployment t i ''failed'');
     State_Monad.return (Some (plain_error err))
   }"

text \<open>A claimed job: its application, its log file, its configuration, its action and its end.\<close>

definition run_claimed ::
    "neighbours \<Rightarrow> services \<Rightarrow> host \<Rightarrow> world \<Rightarrow> nat \<Rightarrow> executor \<Rightarrow> config \<Rightarrow> error option \<Rightarrow> deployment \<Rightarrow>
     dep_error option job" where
  "run_claimed nb sv ho w fuel e c heartbeatFailure d = do {
     r \<leftarrow> store_read nb (Application (d_application_id d));
     case r of
       Inl err \<Rightarrow> finish_failed nb (d_id d) err
     | Inr a \<Rightarrow>
         (case ho_open ho (d_log_path d) of
            Some err \<Rightarrow> finish_failed nb (d_id d) err
          | None \<Rightarrow> do {
              conf \<leftarrow> deploymentConfiguration nb sv w (app_id a) ''production'';
              (d', err, trace) \<leftarrow> run_action nb ho w fuel e d a conf;
              settle nb ho w c d' a heartbeatFailure err trace
            })
   }"

definition runNextDeployment ::
    "neighbours \<Rightarrow> services \<Rightarrow> host \<Rightarrow> world \<Rightarrow> nat \<Rightarrow> executor \<Rightarrow> config \<Rightarrow> error option \<Rightarrow> dep_error option job" where
  "runNextDeployment nb sv ho w fuel e c heartbeatFailure = do {
     n \<leftarrow> store_call nb NextQueuedDeployment;
     case n of
       Inl err \<Rightarrow> State_Monad.return (Some (plain_error err))
     | Inr d \<Rightarrow> run_claimed nb sv ho w fuel e c heartbeatFailure d
   }"

text \<open>
  The heartbeat of a job, one renewal per tick until the job ends (the end of the list) or the store
  refuses; what the others did since the last tick comes with the tick.
\<close>

fun heartbeatDeployment :: "(time \<times> (db \<Rightarrow> db)) list \<Rightarrow> int \<Rightarrow> db \<Rightarrow> db \<times> error option" where
  "heartbeatDeployment [] i s = (s, None)"
| "heartbeatDeployment ((t, others) # ticks) i s =
     (case HeartbeatDeployment t i (others s) of
        (s', Inl e) \<Rightarrow> (s', Some e)
      | (s', Inr _) \<Rightarrow> heartbeatDeployment ticks i s')"

section \<open>The release log\<close>

record limited_log =
  ll_file :: string
  ll_limit :: int
  ll_written :: int

text \<open>\<open>accept\<close> is the underlying writer: how much of the text it took, and its error.\<close>

definition limited_write :: "(string \<Rightarrow> nat \<times> string option) \<Rightarrow> string \<Rightarrow> limited_log \<Rightarrow> limited_log \<times> (nat \<times> string option)" where
  "limited_write accept p l =
     (if ll_limit l \<le> 0 \<or> ll_written l \<ge> ll_limit l then (l, length p, None)
      else let available = ll_limit l - ll_written l;
               toWrite = (if int (length p) > available then take (nat available) p else p);
               (n, err) = accept toWrite;
               l' = l\<lparr>ll_file := ll_file l @ take n toWrite, ll_written := ll_written l + int n\<rparr>
      in (l', case err of Some m \<Rightarrow> (n, Some m) | None \<Rightarrow> (length p, None)))"

section \<open>Start-up and scheduled cleanup\<close>

definition StartQueue ::
    "neighbours \<Rightarrow> world \<Rightarrow> nat \<Rightarrow> executor \<Rightarrow> config \<Rightarrow> (error + int) job" where
  "StartQueue nb w fuel e c = do {
     apps \<leftarrow> store_read nb Applications;
     ((restored, err), _) \<leftarrow> outside (Reconcile w fuel e apps);
     (if err \<noteq> None then do {
        _ \<leftarrow> store_call nb (\<lambda>t. UpsertAlert t ''critical'' ''MD-P0-03: reconciliation could not restore a Docker switch'' None None);
        State_Monad.return ()
      } else State_Monad.return ());
     _ \<leftarrow> store_call nb (\<lambda>t s. (fold (\<lambda>i s. fst (UpsertAlert t ''warning''
          ''MD-P0-03: previous release restored after interrupted switch'' (Some i) None s)) restored s, ()));
     r \<leftarrow> store_call nb RecoverInterruptedDeployments;
     State_Monad.return (case r of
         Inl x \<Rightarrow> Inl (ErrMsg (''recover interrupted deployments: '' @ error_text x))
       | Inr _ \<Rightarrow> Inr (if cfg_max_concurrent_deployments c < 1 then 1 else cfg_max_concurrent_deployments c))
   }"

text \<open>One tick of \<^verbatim>\<open>cleanupLoop\<close>: whether retention runs, and the time remembered if it succeeds.\<close>

definition cleanup_due :: "string \<Rightarrow> time \<Rightarrow> time \<Rightarrow> bool" where
  "cleanup_due schedule since t \<longleftrightarrow> schedule \<noteq> ''manual'' \<and>
     \<not> (since \<noteq> zero_time \<and> t - since < (if schedule = ''weekly'' then 7 * 24 * hour else 24 * hour))"

definition cleanup_tick :: "string \<Rightarrow> (time \<Rightarrow> bool) \<Rightarrow> time \<Rightarrow> time \<Rightarrow> time" where
  "cleanup_tick schedule retention_ok t since = (if cleanup_due schedule since t \<and> retention_ok t then t else since)"

end
