(* ===== verification/App_Handlers.thy ===== *)
theory App_Handlers
  imports App_Worker
begin

text \<open>
  The handlers of \<^verbatim>\<open>internal/app/server.go\<close> that change applications, their secrets
  and configuration, and their queue. All of them sit behind \<open>requireAuthorization\<close>.
\<close>

section \<open>Messages\<close>

text \<open>The messages of the panel are Spanish: \<^verbatim>\<open>~o\<close> is the UTF-8 text of an accented letter.\<close>

fun accent :: "char \<Rightarrow> string" where
  "accent c = (if c = CHR ''a'' then [CHR 0xC3, CHR 0xA1] else if c = CHR ''e'' then [CHR 0xC3, CHR 0xA9]
     else if c = CHR ''i'' then [CHR 0xC3, CHR 0xAD] else if c = CHR ''o'' then [CHR 0xC3, CHR 0xB3]
     else if c = CHR ''u'' then [CHR 0xC3, CHR 0xBA] else if c = CHR ''U'' then [CHR 0xC3, CHR 0x9A]
     else if c = CHR ''n'' then [CHR 0xC3, CHR 0xB1] else [c])"

fun spanish :: "string \<Rightarrow> string" where
  "spanish [] = []"
| "spanish [c] = [c]"
| "spanish (c # d # s) = (if c = CHR ''~'' then accent d @ spanish s else c # spanish (d # s))"

section \<open>Names, environments and targets\<close>

definition secretEnvironment :: "string \<Rightarrow> string" where
  "secretEnvironment v = (if v = ''staging'' then ''staging'' else ''production'')"

definition secretTarget :: "string \<Rightarrow> string" where
  "secretTarget v = (if v = ''build'' then ''build'' else ''runtime'')"

definition is_upper :: "char \<Rightarrow> bool" where
  "is_upper c \<longleftrightarrow> CHR ''A'' \<le> c \<and> c \<le> CHR ''Z''"

definition validSecretName :: "string \<Rightarrow> bool" where
  "validSecretName name \<longleftrightarrow> name \<noteq> '''' \<and> length name \<le> 128 \<and>
     (hd name = CHR ''_'' \<or> is_upper (hd name)) \<and> list_all (\<lambda>c. c = CHR ''_'' \<or> is_upper c \<or> is_digit c) (tl name)"

definition query_char :: "char \<Rightarrow> string" where
  "query_char c =
     (let n = (of_char c :: nat); up = (\<lambda>d. if d < 10 then char_of (48 + d) else char_of (55 + d))
      in if is_alpha c \<or> is_digit c \<or> c \<in> set ''-_.~'' then [c] else if c = CHR '' '' then ''+''
         else [CHR ''%'', up (n div 16), up (n mod 16)])"

definition QueryEscape :: "string \<Rightarrow> string" where
  "QueryEscape s = concat (map query_char s)"

definition application_url :: "request \<Rightarrow> string" where
  "application_url rq = ''/applications/'' @ rq_path_value rq ''id''"

definition applicationData :: "request \<Rightarrow> db \<Rightarrow> (application \<times> deployment list) result" where
  "applicationData rq s =
     (case parse_int (rq_path_value rq ''id'') of
        None \<Rightarrow> Inl (ErrMsg ''invalid syntax'')
      | Some i \<Rightarrow> (case Application i s of Inl e \<Rightarrow> Inl e | Inr a \<Rightarrow> Inr (a, Deployments i s)))"

text \<open>The beginning all of these handlers share: a session, then a known application.\<close>

definition for_application ::
    "time \<Rightarrow> request \<Rightarrow> (application \<Rightarrow> app \<Rightarrow> app \<times> response) \<Rightarrow> app \<Rightarrow> app \<times> response" where
  "for_application t0 rq body ap =
     requireAuthorization t0 (\<lambda>rq ap.
       case applicationData rq (ap_db ap) of
         Inl _ \<Rightarrow> (ap, respond Not_Found)
       | Inr (a, _) \<Rightarrow> body a ap) rq ap"

section \<open>Secrets and configuration\<close>

definition secrets_url :: "request \<Rightarrow> string \<Rightarrow> string \<Rightarrow> string" where
  "secrets_url rq env target = application_url rq @ ''/secrets?environment='' @ env @ ''&target='' @ target"

text \<open>A rejected form shows the secrets page again; of its contents only the message is modelled.\<close>

definition saveSecret :: "services \<Rightarrow> time \<Rightarrow> time \<Rightarrow> time \<Rightarrow> request \<Rightarrow> app \<Rightarrow> app \<times> response" where
  "saveSecret sv t0 t t' rq ap = for_application t0 rq (\<lambda>a ap.
     if \<not> rq_form_ok rq then (ap, respond (HttpError 400 ''invalid form''))
     else let env = secretEnvironment (rq_form rq ''environment''); target = secretTarget (rq_form rq ''target'');
              name = trim_space (rq_form rq ''name''); secret = rq_form rq ''value''
     in if \<not> validSecretName name \<or> secret = '''' then (ap, respond (Page 400 ''Secrets'' (spanish ''Usa un nombre de variable v~alido en MAY~USCULAS y proporciona un valor.'')))
     else if keyCopy ap = [] then (ap, respond (Redirect ''/unlock''))
     else (case Encrypt (sv_cipher sv) (sv_rand sv 0) (keyCopy ap) (to_bytes secret) of
         Inl _ \<Rightarrow> (ap, respond (Page 500 ''Secrets'' ''No se pudo guardar el secreto.''))
       | Inr (nonce, ciphertext) \<Rightarrow>
           (case PutApplicationSecret t t' (app_id a) env target name nonce ciphertext (ap_db ap) of
              (s', Inl _) \<Rightarrow> (ap\<lparr>ap_db := s'\<rparr>, respond (Page 500 ''Secrets'' ''No se pudo guardar el secreto.''))
            | (s', Inr _) \<Rightarrow> (ap\<lparr>ap_db := s'\<rparr>, respond (Redirect (secrets_url rq env target)))))) ap"

definition deleteSecret :: "time \<Rightarrow> time \<Rightarrow> request \<Rightarrow> app \<Rightarrow> app \<times> response" where
  "deleteSecret t0 t rq ap = for_application t0 rq (\<lambda>a ap.
     if \<not> rq_form_ok rq then (ap, respond (HttpError 400 ''invalid form''))
     else let env = secretEnvironment (rq_form rq ''environment''); target = secretTarget (rq_form rq ''target'');
              name = rq_path_value rq ''name''
     in if \<not> validSecretName name then (ap, respond Not_Found)
     else (case DeleteApplicationSecret t (app_id a) env target name (ap_db ap) of
         (s', Inl _) \<Rightarrow> (ap\<lparr>ap_db := s'\<rparr>, respond Not_Found)
       | (s', Inr _) \<Rightarrow> (ap\<lparr>ap_db := s'\<rparr>, respond (Redirect (secrets_url rq env target))))) ap"

definition saveConfiguration :: "time \<Rightarrow> time \<Rightarrow> request \<Rightarrow> app \<Rightarrow> app \<times> response" where
  "saveConfiguration t0 t rq ap = for_application t0 rq (\<lambda>a ap.
     if \<not> rq_form_ok rq then (ap, respond (HttpError 400 ''invalid form''))
     else let env = secretEnvironment (rq_form rq ''environment''); target = secretTarget (rq_form rq ''target'');
              name = trim_space (rq_form rq ''name'')
     in if \<not> validSecretName name then (ap, respond (Page 400 ''Secrets'' (spanish ''Usa un nombre de variable v~alido en MAY~USCULAS.'')))
     else (case PutApplicationConfiguration t (app_id a) env target name (rq_form rq ''value'') (ap_db ap) of
         (s', Inl _) \<Rightarrow> (ap\<lparr>ap_db := s'\<rparr>, respond (Page 500 ''Secrets'' (spanish ''No se pudo guardar la configuraci~on.'')))
       | (s', Inr _) \<Rightarrow> (ap\<lparr>ap_db := s'\<rparr>, respond (Redirect (secrets_url rq env target))))) ap"

definition deleteConfiguration :: "time \<Rightarrow> request \<Rightarrow> app \<Rightarrow> app \<times> response" where
  "deleteConfiguration t0 rq ap = for_application t0 rq (\<lambda>a ap.
     if \<not> rq_form_ok rq then (ap, respond (HttpError 400 ''invalid form''))
     else let env = secretEnvironment (rq_form rq ''environment''); target = secretTarget (rq_form rq ''target'');
              name = rq_path_value rq ''name''
     in if \<not> validSecretName name then (ap, respond Not_Found)
     else (case DeleteApplicationConfiguration (app_id a) env target name (ap_db ap) of
         (s', Inl _) \<Rightarrow> (ap\<lparr>ap_db := s'\<rparr>, respond Not_Found)
       | (s', Inr _) \<Rightarrow> (ap\<lparr>ap_db := s'\<rparr>, respond (Redirect (secrets_url rq env target))))) ap"

section \<open>The queue\<close>

definition unique_error :: "error \<Rightarrow> bool" where
  "unique_error e = contains_str (error_text e) ''UNIQUE''"

text \<open>
  \<open>preflight\<close> is the check of the host before a deployment (\<^verbatim>\<open>operations.go\<close>): nothing,
  or the summary of what is not ready.
\<close>

definition deployApplication ::
    "host \<Rightarrow> (application \<Rightarrow> string option) \<Rightarrow> time \<Rightarrow> time \<Rightarrow> time \<Rightarrow> request \<Rightarrow> app \<Rightarrow> app \<times> response" where
  "deployApplication ho preflight t0 t1 t rq ap = for_application t0 rq (\<lambda>a ap.
     if app_require_confirmation a \<and> rq_form rq ''confirm_production'' \<noteq> app_name a
     then (ap, respond (HttpError 400 ''confirm production deployment by entering the application name''))
     else case preflight a of
         Some summary \<Rightarrow> (ap, respond (Redirect (application_url rq @ ''?error='' @ QueryEscape (''Despliegue pausado: '' @ summary))))
       | None \<Rightarrow>
           (case queueDeployment ho (ap_config ap) t1 t (app_id a) ''deploy'' (ap_db ap) of
              (s', Inl e) \<Rightarrow> (ap\<lparr>ap_db := s'\<rparr>, respond (if unique_error e
                 then HttpError 409 ''a deployment is already queued or running'' else HttpError 500 ''could not queue deployment''))
            | (s', Inr _) \<Rightarrow> (ap\<lparr>ap_db := s'\<rparr>, respond (Redirect (application_url rq))))) ap"

definition rollbackApplication :: "host \<Rightarrow> time \<Rightarrow> time \<Rightarrow> time \<Rightarrow> request \<Rightarrow> app \<Rightarrow> app \<times> response" where
  "rollbackApplication ho t0 t1 t rq ap = for_application t0 rq (\<lambda>a ap.
     case queueDeployment ho (ap_config ap) t1 t (app_id a) ''rollback'' (ap_db ap) of
       (s', Inl e) \<Rightarrow> (ap\<lparr>ap_db := s'\<rparr>, respond (HttpError 409 ''could not queue rollback''))
     | (s', Inr _) \<Rightarrow> (ap\<lparr>ap_db := s'\<rparr>, respond (Redirect (application_url rq)))) ap"

definition retryApplication :: "host \<Rightarrow> time \<Rightarrow> time \<Rightarrow> time \<Rightarrow> request \<Rightarrow> app \<Rightarrow> app \<times> response" where
  "retryApplication ho t0 t1 t rq ap = for_application t0 rq (\<lambda>a ap.
     case queueDeployment ho (ap_config ap) t1 t (app_id a) ''retry'' (ap_db ap) of
       (s', Inl e) \<Rightarrow> (ap\<lparr>ap_db := s'\<rparr>, respond (if unique_error e
          then HttpError 409 ''a deployment is already queued or running'' else HttpError 500 ''could not queue retry''))
     | (s', Inr _) \<Rightarrow> (ap\<lparr>ap_db := s'\<rparr>, respond (Redirect (application_url rq)))) ap"

definition cancelDeployment :: "time \<Rightarrow> time \<Rightarrow> request \<Rightarrow> app \<Rightarrow> app \<times> response" where
  "cancelDeployment t0 t rq ap = for_application t0 rq (\<lambda>a ap.
     case parse_int (rq_path_value rq ''deploymentID'') of
       None \<Rightarrow> (ap, respond Not_Found)
     | Some i \<Rightarrow>
         if i < 1 then (ap, respond Not_Found)
         else (case CancelDeployment t (app_id a) i (ap_db ap) of
             (s', Inl e) \<Rightarrow> (ap\<lparr>ap_db := s'\<rparr>, respond (if e = ErrNotFound
                then HttpError 409 ''deployment is no longer active'' else HttpError 503 ''could not cancel deployment''))
           | (s', Inr _) \<Rightarrow> (ap\<lparr>ap_db := s'\<rparr>, respond (Redirect (application_url rq))))) ap"

definition updateApplicationAutomation :: "time \<Rightarrow> request \<Rightarrow> app \<Rightarrow> app \<times> response" where
  "updateApplicationAutomation t0 rq ap = for_application t0 rq (\<lambda>a ap.
     if \<not> rq_form_ok rq then (ap, respond (HttpError 400 ''invalid form''))
     else let deployOnPush = (rq_form rq ''deploy_on_push'' = ''on''); requireConfirmation = (rq_form rq ''require_confirmation'' = ''on'')
     in if deployOnPush \<and> requireConfirmation
     then (ap, respond (HttpError 400 ''push deployments require production confirmation to be disabled''))
     else (case UpdateApplicationAutomation (app_id a) deployOnPush requireConfirmation
             (rq_form rq ''auto_rollback'' = ''on'') (ap_db ap) of
         (s', Inl _) \<Rightarrow> (ap\<lparr>ap_db := s'\<rparr>, respond (HttpError 503 ''could not save automation''))
       | (s', Inr _) \<Rightarrow> (ap\<lparr>ap_db := s'\<rparr>, respond (Redirect (application_url rq))))) ap"

section \<open>Deployment logs\<close>

text \<open>
  \<^verbatim>\<open>filepath.Abs\<close> in the directory the server runs in; \<^verbatim>\<open>filepath.Rel\<close> of two
  absolute paths begins with \<^verbatim>\<open>..\<close> exactly if the second is not below the first.
\<close>

definition abs_path :: "string \<Rightarrow> string \<Rightarrow> string" where
  "abs_path cwd p = (if is_abs p then clean_path p else join_path [cwd, p])"

definition deploymentLogPath :: "string \<Rightarrow> config \<Rightarrow> string \<Rightarrow> string result" where
  "deploymentLogPath cwd c path =
     (let base = abs_path cwd (cfg_log_path c); path = abs_path cwd path
      in if base \<noteq> ''/'' \<and> \<not> path_within base path then Inl (ErrMsg ''deployment log is outside the configured log directory'')
         else Inr path)"

section \<open>Creating an application\<close>

definition appNameRegex :: "string \<Rightarrow> bool" where
  "appNameRegex s \<longleftrightarrow> s \<noteq> [] \<and> length s \<le> 63 \<and> lower_or_digit (hd s) \<and> list_all (\<lambda>c. lower_or_digit c \<or> c = CHR ''-'') (tl s)"

definition domain_label :: "string \<Rightarrow> bool" where
  "domain_label s \<longleftrightarrow> s \<noteq> [] \<and> length s \<le> 63 \<and> (is_alpha (hd s) \<or> is_digit (hd s)) \<and> (is_alpha (last s) \<or> is_digit (last s)) \<and>
     list_all (\<lambda>c. is_alpha c \<or> is_digit c \<or> c = CHR ''-'') s"

definition domainRegex :: "string \<Rightarrow> bool" where
  "domainRegex s =
     (case split_on CHR '':'' s of
        [name] \<Rightarrow> list_all domain_label (split_on CHR ''.'' name)
      | [name, port] \<Rightarrow> list_all domain_label (split_on CHR ''.'' name) \<and> port \<noteq> [] \<and> list_all is_digit port
      | _ \<Rightarrow> False)"

definition runtimeChoice :: "string \<Rightarrow> string" where
  "runtimeChoice v = (if trim_space v \<noteq> '''' then trim_space v else ''auto'')"

text \<open>\<^verbatim>\<open>strconv.ParseInt\<close> with its error ignored: the value is zero, or the nearest bound if it is out of range.\<close>

definition parsePositiveInt :: "string \<Rightarrow> int" where
  "parsePositiveInt v =
     (let s = trim_space v; ds = (if has_prefix s ''-'' \<or> has_prefix s ''+'' then tl s else s)
      in if ds = [] \<or> \<not> list_all is_digit ds \<or> has_prefix s ''-'' then 0 else min (int (read_nat ds)) (2 ^ 63 - 1))"

fun slug_loop :: "string \<Rightarrow> string \<Rightarrow> bool \<Rightarrow> string" where
  "slug_loop [] acc dash = acc"
| "slug_loop (c # s) acc dash =
     (let (acc, dash) = (if lower_or_digit c then (acc @ [c], False)
            else if acc \<noteq> [] \<and> \<not> dash then (acc @ ''-'', True) else (acc, dash))
      in if length acc \<ge> 63 then acc else slug_loop s acc dash)"

text \<open>\<^verbatim>\<open>filepath.Base\<close>.\<close>

definition base_path :: "string \<Rightarrow> string" where
  "base_path p =
     (if p = '''' then ''.''
      else let q = trim_right (\<lambda>c. c = CHR ''/'') p in if q = '''' then ''/'' else last (split_on CHR ''/'' q))"

definition applicationNameFromRepository :: "world \<Rightarrow> string \<Rightarrow> string" where
  "applicationNameFromRepository w repository =
     (let repository = trim_suffix (trim_space repository) ''/'';
          repository = (case w_url w repository of
              Inr (scheme, h, path) \<Rightarrow> if path \<noteq> '''' then path else repository
            | Inl _ \<Rightarrow> repository);
          name = to_lower (trim_suffix (base_path repository) ''.git'')
      in trim_chars (slug_loop name [] False) ''-'')"

definition is_local :: "string \<Rightarrow> bool" where
  "is_local repository \<longleftrightarrow> is_abs repository \<or> has_prefix repository ''file://''"

definition applyApplicationDefaults :: "world \<Rightarrow> application \<Rightarrow> application" where
  "applyApplicationDefaults w a =
     (let a = (if app_name a = '''' then a\<lparr>app_name := applicationNameFromRepository w (app_repository a)\<rparr> else a);
          a = (if app_work_dir a = '''' then a\<lparr>app_work_dir := ''.''\<rparr> else a);
          a = (if app_type a = '''' then a\<lparr>app_type := ''static''\<rparr> else a);
          a = (if app_runtime a = '''' then a\<lparr>app_runtime := ''auto''\<rparr> else a);
          a = (if app_branch a = '''' \<and> \<not> is_local (app_repository a) then a\<lparr>app_branch := ''main''\<rparr> else a);
          a = (if app_domain a = '''' \<and> app_name a \<noteq> '''' then a\<lparr>app_domain := app_name a @ ''.localhost''\<rparr> else a)
      in case For (app_type a) of
           None \<Rightarrow> a
         | Some t \<Rightarrow>
             (let a = (if app_internal_port a = 0 then a\<lparr>app_internal_port := tp_port t\<rparr> else a)
              in if app_health_endpoint a = '''' then a\<lparr>app_health_endpoint := tp_health_endpoint t\<rparr> else a))"

definition validRepositorySource :: "world \<Rightarrow> config \<Rightarrow> application \<Rightarrow> bool prog" where
  "validRepositorySource w c a =
     (if app_github_installation_id a > 0
      then State_Monad.return (has_prefix (app_repository a) ''https://github.com/'' \<and> cfg_github_app_id c \<noteq> '''' \<and>
        cfg_github_app_private_key_path c \<noteq> '''')
      else if is_local (app_repository a) then ValidLocalRepository w (cfg_local_repositories_path c) (app_repository a)
      else State_Monad.return True)"

definition requiresGitReference :: "world \<Rightarrow> config \<Rightarrow> application \<Rightarrow> bool prog" where
  "requiresGitReference w c a =
     (if is_local (app_repository a) then LocalRepositoryIsGit w (cfg_local_repositories_path c) (app_repository a)
      else State_Monad.return True)"

text \<open>The application a form describes, with the port as read (zero if the field is empty).\<close>

definition form_port :: "request \<Rightarrow> int option" where
  "form_port rq = (let v = trim_space (rq_form rq ''internal_port'') in if v = '''' then Some 0 else parse_int v)"

definition form_health_endpoint :: "request \<Rightarrow> string" where
  "form_health_endpoint rq =
     (let v = trim_space (rq_form rq ''health_endpoint'') in if v \<noteq> '''' \<and> \<not> has_prefix v ''/'' then ''/'' @ v else v)"

definition form_application :: "request \<Rightarrow> int \<Rightarrow> application" where
  "form_application rq port =
     \<lparr>app_id = 0, app_name = trim_space (rq_form rq ''name''), app_repository = trim_space (rq_form rq ''repository''),
      app_branch = trim_space (rq_form rq ''branch''), app_work_dir = trim_space (rq_form rq ''work_dir''),
      app_type = trim_space (rq_form rq ''type''), app_build_command = trim_space (rq_form rq ''build_command''),
      app_run_command = trim_space (rq_form rq ''run_command''), app_internal_port = port,
      app_domain = trim_space (rq_form rq ''domain''), app_runtime = runtimeChoice (rq_form rq ''runtime''),
      app_deploy_on_push = False, app_require_confirmation = True, app_auto_rollback = False,
      app_github_installation_id = parsePositiveInt (rq_form rq ''github_installation_id''),
      app_health_endpoint = form_health_endpoint rq, app_created_at = zero_time\<rparr>"

definition template_commands :: "int \<Rightarrow> application \<Rightarrow> application" where
  "template_commands port a =
     (case For (app_type a) of
        Some t \<Rightarrow>
          (let a = (if port = 0 then a\<lparr>app_internal_port := tp_port t\<rparr> else a);
               a = (if app_build_command a = '''' then a\<lparr>app_build_command := ''plantilla '' @ app_type a\<rparr> else a)
           in if app_run_command a = '''' then a\<lparr>app_run_command := ''plantilla '' @ app_type a\<rparr> else a)
      | None \<Rightarrow>
          if app_type a = ''custom''
          then a\<lparr>app_build_command := ''Dockerfile del repositorio'', app_run_command := ''Dockerfile del repositorio''\<rparr> else a)"

definition application_checks :: "world \<Rightarrow> config \<Rightarrow> bool \<Rightarrow> application \<Rightarrow> bool prog" where
  "application_checks w c port_ok a =
     (if \<not> port_ok \<or> \<not> appNameRegex (app_name a) \<or> app_repository a = '''' then State_Monad.return False
      else do {
        git \<leftarrow> requiresGitReference w c a;
        if git \<and> app_branch a = '''' \<or> app_work_dir a = '''' \<or> \<not> IsSupported (app_type a) \<or> \<not> domainRegex (app_domain a) \<or>
           app_runtime a \<noteq> ''auto'' \<and> \<not> SupportsRuntime (app_runtime a) \<or> app_internal_port a < 1 \<or> app_internal_port a > 65535
        then State_Monad.return False
        else validRepositorySource w c a
      })"

definition detail_url :: "application \<Rightarrow> string" where
  "detail_url a = ''/applications/'' @ show_int (app_id a)"

text \<open>What follows a successful registration.\<close>

definition first_deployment ::
    "host \<Rightarrow> (application \<Rightarrow> string option) \<Rightarrow> time \<Rightarrow> time \<Rightarrow> request \<Rightarrow> application \<Rightarrow> app \<Rightarrow> app \<times> response" where
  "first_deployment ho preflight t1 t rq a ap =
     (if rq_form rq ''intent'' \<noteq> ''deploy'' then (ap, respond (Redirect (detail_url a @ ''?notice='' @
          QueryEscape (spanish ''Aplicaci~on creada. Puedes revisar la configuraci~on antes de desplegar.''))))
      else case preflight a of
          Some summary \<Rightarrow> (ap, respond (Redirect (detail_url a @ ''?error='' @ QueryEscape
            (spanish ''La aplicaci~on se guard~o, pero el host a~un no est~a listo para desplegar. '' @ summary))))
        | None \<Rightarrow>
            (case queueDeployment ho (ap_config ap) t1 t (app_id a) ''deploy'' (ap_db ap) of
               (s', Inl e) \<Rightarrow> (ap\<lparr>ap_db := s'\<rparr>, respond (Redirect (detail_url a @ ''?error='' @ QueryEscape
                 (spanish ''La aplicaci~on se cre~o, pero el primer despliegue no pudo ponerse en cola: '' @ error_text e))))
             | (s', Inr _) \<Rightarrow> (ap\<lparr>ap_db := s'\<rparr>, respond (Redirect (detail_url a @ ''?notice='' @
                 QueryEscape (spanish ''Aplicaci~on creada. El primer despliegue ya est~a en cola.''))))))"

definition invalid_fields :: string where
  "invalid_fields = spanish (''Completa todos los campos correctamente. El nombre de aplicaci~on debe contener solo letras '' @
     ''min~usculas, n~umeros y guiones, y el dominio debe ser v~alido (por ejemplo, app.local o localhost:8080).'')"

definition register_application ::
    "host \<Rightarrow> (application \<Rightarrow> string option) \<Rightarrow> time \<Rightarrow> time \<Rightarrow> time \<Rightarrow> request \<Rightarrow> bool \<Rightarrow> application \<Rightarrow> app \<Rightarrow> app \<times> response" where
  "register_application ho preflight tc t1 t rq ok a ap =
     (if \<not> ok then (ap, respond (Page 400 ''ApplicationForm'' invalid_fields))
      else if app_domain a = cfg_admin_domain (ap_config ap) then (ap, respond (Page 400 ''ApplicationForm''
        (spanish ''El dominio de la aplicaci~on no puede ser igual al dominio administrativo ('' @ cfg_admin_domain (ap_config ap) @ '').'')))
      else (case CreateApplication tc a (ap_db ap) of
          (s', Inl _) \<Rightarrow> (ap\<lparr>ap_db := s'\<rparr>, respond (Page 400 ''ApplicationForm''
             (spanish ''No se pudo registrar la aplicaci~on. El nombre y el dominio deben ser ~unicos.'')))
        | (s', Inr registered) \<Rightarrow> first_deployment ho preflight t1 t rq registered (ap\<lparr>ap_db := s'\<rparr>)))"

definition createApplication ::
    "world \<Rightarrow> host \<Rightarrow> (application \<Rightarrow> string option) \<Rightarrow> time \<Rightarrow> time \<Rightarrow> time \<Rightarrow> time \<Rightarrow> request \<Rightarrow> app \<Rightarrow> (app \<times> response) prog" where
  "createApplication w ho preflight t0 tc t1 t rq ap =
     (if \<not> authorized t0 rq ap then State_Monad.return (ap, respond (Redirect ''/unlock''))
      else if \<not> rq_form_ok rq then State_Monad.return (ap, respond (HttpError 400 ''invalid form''))
      else do {
        let port = (case form_port rq of None \<Rightarrow> 0 | Some p \<Rightarrow> p);
        let a = template_commands port (applyApplicationDefaults w (form_application rq port));
        ok \<leftarrow> application_checks w (ap_config ap) (form_port rq \<noteq> None) a;
        State_Monad.return (register_application ho preflight tc t1 t rq ok a ap)
      })"

end
