(* ===== verification/App_Session_Props.thy ===== *)
theory App_Session_Props
  imports App_Session Security_Props Store_Apps_Props
begin

text \<open>
  Who may act. The step relation covers the handlers that change the master key and the sessions;
  \<open>other\<close> stands for everything that works on the database alone: no handler rewrites the
  security configuration after setup.
\<close>

section \<open>Steps\<close>

inductive server_step :: "services \<Rightarrow> app \<Rightarrow> app \<Rightarrow> bool" for sv where
  initialize: "setup_handler sv t t' rq ap = (ap', r) \<Longrightarrow> server_step sv ap ap'"
| unlock: "unlock sv t0 t t' rq ap = (ap', r) \<Longrightarrow> server_step sv ap ap'"
| lock: "lock rq ap = (ap', r) \<Longrightarrow> server_step sv ap ap'"
| other: "SecurityConfig db' = SecurityConfig (ap_db ap) \<Longrightarrow> IsInitialized db' = IsInitialized (ap_db ap) \<Longrightarrow>
    server_step sv ap (ap\<lparr>ap_db := db'\<rparr>)"

abbreviation server_reach :: "services \<Rightarrow> app \<Rightarrow> app \<Rightarrow> bool" where
  "server_reach sv \<equiv> (server_step sv)\<^sup>*\<^sup>*"

text \<open>A server that has just started is locked and has no session.\<close>

definition fresh_app :: "app \<Rightarrow> bool" where
  "fresh_app ap \<longleftrightarrow> ap_key ap = [] \<and> ap_sessions ap = []"

text \<open>
  What is documented of the primitives: Argon2id returns as many bytes as asked for, a block
  cipher keeps the length of a block, and the random source fills the buffer or fails.
\<close>

definition services_ok :: "services \<Rightarrow> bool" where
  "services_ok sv \<longleftrightarrow> cipher_ok (sv_cipher sv) \<and> (\<forall>p s. length (sv_kdf sv p s) = keyLength) \<and>
     (\<forall>k n bs. sv_rand sv k n = Inr bs \<longrightarrow> length bs = n)"

definition key_verified :: "services \<Rightarrow> app \<Rightarrow> bool" where
  "key_verified sv ap \<longleftrightarrow>
     (\<exists>conf. SecurityConfig (ap_db ap) = Inr conf \<and>
        ValidateKey (sv_cipher sv) (ap_key ap) (sc_verifier_nonce conf) (sc_verifier_cipher conf) = Inr ())"

definition session_inv :: "services \<Rightarrow> app \<Rightarrow> bool" where
  "session_inv sv ap \<longleftrightarrow> (ap_key ap = [] \<longrightarrow> ap_sessions ap = []) \<and> (ap_key ap \<noteq> [] \<longrightarrow> key_verified sv ap)"

lemma DeriveKey_length: "services_ok sv \<Longrightarrow> DeriveKey (sv_kdf sv) p salt = Inr key \<Longrightarrow> length key = keyLength"
  by (auto simp: services_ok_def DeriveKey_def split: if_splits)

lemma DeriveKey_nonempty:
  assumes "services_ok sv" and "DeriveKey (sv_kdf sv) p salt = Inr key"
  shows "key \<noteq> []"
  using DeriveKey_length [OF assms] by (auto simp: keyLength_def)

lemma new_verifier_validates:
  assumes "services_ok sv" and "DeriveKey (sv_kdf sv) p salt = Inr key"
    and made: "NewVerifier (sv_cipher sv) (sv_rand sv k) key = Inr (n, c)"
  shows "ValidateKey (sv_cipher sv) key n c = Inr ()"
proof -
  have ok: "key_ok key" using DeriveKey_length [OF assms(1,2)] by (simp add: key_ok_def keyLength_def)
  from made obtain nonce where nonce: "sv_rand sv k gcm_nonce_size = Inr nonce"
    by (auto simp: NewVerifier_def Encrypt_def EncryptWithAAD_def split: sum.splits)
  with assms(1) have "length nonce = gcm_nonce_size" by (simp add: services_ok_def)
  moreover have "length (to_bytes verifier) \<le> (2 ^ 32 - 2) * 16" by (simp add: verifier_def to_bytes_def)
  ultimately obtain c' where "EncryptWithAAD (sv_cipher sv) (sv_rand sv k) key (to_bytes verifier) [] = Inr (nonce, c')"
      "DecryptWithAAD (sv_cipher sv) key nonce c' [] = Inr (to_bytes verifier)"
    using EncryptWithAAD_ok [where rand = "sv_rand sv k", OF _ ok nonce] assms(1) unfolding services_ok_def by blast
  with made show "ValidateKey (sv_cipher sv) key n c = Inr ()"
    by (simp add: NewVerifier_def Encrypt_def ValidateKey_def Decrypt_def)
qed

lemma newSession_frame [simp]:
  "ap_key (fst (newSession sv t t' rq ap)) = ap_key ap" "ap_db (fst (newSession sv t t' rq ap)) = ap_db ap"
  "ap_config (fst (newSession sv t t' rq ap)) = ap_config ap"
  by (simp_all add: newSession_def Let_def split: sum.splits)

lemma setKey_frame [simp]:
  "ap_key (setKey key ap) = key" "ap_db (setKey key ap) = ap_db ap" "ap_sessions (setKey key ap) = ap_sessions ap"
  by (simp_all add: setKey_def)

text \<open>How setup and unlock end: without touching key and sessions, or with a new session for a checked key.\<close>

text \<open>An early return keeps the state; otherwise the run goes on.\<close>

lemma guard_run: "(if b then (ap, e) else k) = (ap', r) \<Longrightarrow> (ap' = ap \<Longrightarrow> P) \<Longrightarrow> (\<not> b \<Longrightarrow> k = (ap', r) \<Longrightarrow> P) \<Longrightarrow> P"
  by (simp split: if_splits)

lemma try_run:
  "(case x of Inl m \<Rightarrow> (ap, e) | Inr a \<Rightarrow> k a) = (ap', r) \<Longrightarrow> (ap' = ap \<Longrightarrow> P) \<Longrightarrow>
   (\<And>a. x = Inr a \<Longrightarrow> k a = (ap', r) \<Longrightarrow> P) \<Longrightarrow> P"
  by (cases x) simp_all

lemma setup_cases:
  assumes run: "setup_handler sv t t' rq ap = (ap', r)"
  shows "ap' = ap \<or> (\<exists>salt key n c db'. DeriveKey (sv_kdf sv) (rq_form rq ''password'') salt = Inr key \<and>
      NewVerifier (sv_cipher sv) (sv_rand sv 1) key = Inr (n, c) \<and>
      InitializeSecurity \<lparr>sc_salt = salt, sc_verifier_nonce = n, sc_verifier_cipher = c\<rparr> (ap_db ap) = (db', Inr ()) \<and>
      ap' = fst (newSession sv t t' rq (setKey key (ap\<lparr>ap_db := db'\<rparr>))))" (is "?same \<or> ?new")
  using run unfolding setup_handler_def
proof (elim guard_run try_run disjI1)
  fix salt key v
  assume key: "DeriveKey (sv_kdf sv) (rq_form rq ''password'') salt = Inr key"
    and v: "NewVerifier (sv_cipher sv) (sv_rand sv 1) key = Inr v"
    and rest: "(case v of (nonce, cipher) \<Rightarrow>
        (case InitializeSecurity \<lparr>sc_salt = salt, sc_verifier_nonce = nonce, sc_verifier_cipher = cipher\<rparr> (ap_db ap) of
           (db', Inl _) \<Rightarrow> (ap\<lparr>ap_db := db'\<rparr>, respond (Page 400 ''Setup''
              (''La configuraci'' @ [CHR 0xC3, CHR 0xB3] @ ''n ya existe o no pudo guardarse.'')))
         | (db', Inr _) \<Rightarrow>
             (let (ap', c) = newSession sv t t' rq (setKey key (ap\<lparr>ap_db := db'\<rparr>)) in (ap', session_reply c)))) = (ap', r)"
  obtain n c where nc: "v = (n, c)" by (cases v)
  obtain db' x where i: "InitializeSecurity \<lparr>sc_salt = salt, sc_verifier_nonce = n, sc_verifier_cipher = c\<rparr> (ap_db ap) = (db', x)"
    by fastforce
  show ?thesis
  proof (cases x)
    case (Inl e)
    with i have "db' = ap_db ap" by (auto simp: InitializeSecurity_def split: if_splits)
    with rest nc i Inl show ?thesis by simp
  next
    case (Inr u)
    with rest nc i have "ap' = fst (newSession sv t t' rq (setKey key (ap\<lparr>ap_db := db'\<rparr>)))"
      by (simp add: Let_def split: prod.split_asm)
    with key v [unfolded nc] i [unfolded Inr] have ?new by (cases u) blast
    then show ?thesis ..
  qed
qed

text \<open>
  Unlocking: nothing happens while the origin is locked out; a wrong password is only counted;
  the right one installs its key and opens a session.
\<close>

lemma unlock_cases:
  assumes run: "unlock sv t0 t t' rq ap = (ap', r)"
  obtains (refused) "ap' = ap"
  | (checked) conf key where "UnlockLockoutUntil (unlockScope sv rq) t0 (ap_db ap) = Inr zero_time"
      "SecurityConfig (ap_db ap) = Inr conf" "DeriveKey (sv_kdf sv) (rq_form rq ''password'') (sc_salt conf) = Inr key"
      "ap' = (if ValidateKey (sv_cipher sv) key (sc_verifier_nonce conf) (sc_verifier_cipher conf) = Inr ()
         then fst (newSession sv t t' rq (setKey key (ap\<lparr>ap_db := fst (ClearUnlockFailures (unlockScope sv rq) (ap_db ap))\<rparr>)))
         else ap\<lparr>ap_db := fst (RegisterFailedUnlock (unlockScope sv rq) t0 (ap_db ap))\<rparr>)"
proof -
  have scope: "fst (ClearUnlockFailures (unlockScope sv rq) s) = s' \<and> u = Inr ()"
    if "ClearUnlockFailures (unlockScope sv rq) s = (s', u)" for s s' u
    using that by (auto simp: ClearUnlockFailures_def unlockScope_def)
  show thesis
    using run unfolding unlock_def Let_def
  proof (elim guard_run try_run refused)
    fix l conf key
    assume l: "UnlockLockoutUntil (unlockScope sv rq) t0 (ap_db ap) = Inr l" "\<not> l \<noteq> zero_time"
      and c: "SecurityConfig (ap_db ap) = Inr conf"
      and k: "DeriveKey (sv_kdf sv) (rq_form rq ''password'') (sc_salt conf) = Inr key"
      and rest: "(case ValidateKey (sv_cipher sv) key (sc_verifier_nonce conf) (sc_verifier_cipher conf) of
          Inl _ \<Rightarrow>
            (case RegisterFailedUnlock (unlockScope sv rq) t0 (ap_db ap) of
               (db', Inl _) \<Rightarrow> (ap\<lparr>ap_db := db'\<rparr>, respond (HttpError 503 ''unlock rate limit unavailable''))
             | (db', Inr _) \<Rightarrow> (ap\<lparr>ap_db := db'\<rparr>, respond (Page 400 ''Unlock''
                  (''Contrase'' @ [CHR 0xC3, CHR 0xB1] @ ''a incorrecta.''))))
        | Inr _ \<Rightarrow>
            (case ClearUnlockFailures (unlockScope sv rq) (ap_db ap) of
               (db', Inl _) \<Rightarrow> (ap\<lparr>ap_db := db'\<rparr>, respond (HttpError 503 ''unlock rate limit unavailable''))
             | (db', Inr _) \<Rightarrow>
                 (case newSession sv t t' rq (setKey key (ap\<lparr>ap_db := db'\<rparr>)) of (ap', c) \<Rightarrow> (ap', session_reply c)))) = (ap', r)"
    from rest have "ap' = (if ValidateKey (sv_cipher sv) key (sc_verifier_nonce conf) (sc_verifier_cipher conf) = Inr ()
         then fst (newSession sv t t' rq (setKey key (ap\<lparr>ap_db := fst (ClearUnlockFailures (unlockScope sv rq) (ap_db ap))\<rparr>)))
         else ap\<lparr>ap_db := fst (RegisterFailedUnlock (unlockScope sv rq) t0 (ap_db ap))\<rparr>)"
      by (auto split: sum.split_asm prod.split_asm dest: scope)
    then show thesis using l c k by (intro checked) simp_all
  qed
qed

section \<open>The invariant\<close>

lemma setup_step:
  assumes sv: "services_ok sv" and run: "setup_handler sv t t' rq ap = (ap', r)" and inv: "session_inv sv ap"
  shows "session_inv sv ap'"
  using setup_cases [OF run]
proof (elim disjE exE conjE)
  fix salt key n c db'
  assume d: "DeriveKey (sv_kdf sv) (rq_form rq ''password'') salt = Inr key"
    and v: "NewVerifier (sv_cipher sv) (sv_rand sv 1) key = Inr (n, c)"
    and i: "InitializeSecurity \<lparr>sc_salt = salt, sc_verifier_nonce = n, sc_verifier_cipher = c\<rparr> (ap_db ap) = (db', Inr ())"
    and ap': "ap' = fst (newSession sv t t' rq (setKey key (ap\<lparr>ap_db := db'\<rparr>)))"
  from InitializeSecurity_reads [OF i] new_verifier_validates [OF sv d v] DeriveKey_nonempty [OF sv d] show ?thesis
    by (simp add: session_inv_def key_verified_def ap')
qed (simp add: inv)

lemma SecurityConfig_settings: "settings s' = settings s \<Longrightarrow> SecurityConfig s' = SecurityConfig s"
  by (simp add: SecurityConfig_def get_setting_def)

lemma guards_keep_security [simp]:
  "SecurityConfig (fst (RegisterFailedUnlock scope t0 s)) = SecurityConfig s"
  "SecurityConfig (fst (ClearUnlockFailures scope s)) = SecurityConfig s"
  by (rule SecurityConfig_settings, simp add: RegisterFailedUnlock_def ClearUnlockFailures_def Let_def split: prod.split)+

lemma unlock_step:
  assumes sv: "services_ok sv" and run: "unlock sv t0 t t' rq ap = (ap', r)" and inv: "session_inv sv ap"
  shows "session_inv sv ap'"
  using run
proof (cases rule: unlock_cases)
  case (checked conf key)
  with DeriveKey_nonempty [OF sv checked(3)] inv show ?thesis
    by (simp add: session_inv_def key_verified_def split: if_splits)
qed (simp add: inv)

lemma lock_locks: "lock rq ap = (ap', r) \<Longrightarrow> ap' = ap\<lparr>ap_key := [], ap_sessions := []\<rparr>"
  by (auto simp: lock_def Lock_def Let_def split: option.splits)

lemma server_step_inv:
  assumes "server_step sv ap ap'" and "services_ok sv" and "session_inv sv ap"
  shows "session_inv sv ap'"
  using assms
proof (cases rule: server_step.cases)
  case (lock rq r)
  then show ?thesis using lock_locks [OF lock] by (simp add: session_inv_def)
next
  case (other db')
  with assms(3) show ?thesis by (simp add: session_inv_def key_verified_def)
qed (use assms(2,3) in \<open>blast intro: setup_step unlock_step\<close>)+

lemma server_reach_inv:
  assumes "server_reach sv ap0 ap" and "services_ok sv" and "fresh_app ap0"
  shows "session_inv sv ap"
  using assms
proof (induction rule: rtranclp_induct)
  case base
  then show ?case by (simp add: session_inv_def fresh_app_def)
qed (blast intro: server_step_inv)


text \<open>The first setup of an empty database opens a session of twelve hours.\<close>

lemma setup_opens_session:
  assumes sv: "services_ok sv" and rand: "\<And>k n. sv_rand sv k n = Inr (bs k n)"
    and form: "rq_form_ok rq" "12 \<le> length (rq_form rq ''password'')"
      "rq_form rq ''password_confirmation'' = rq_form rq ''password''"
    and empty: "settings (ap_db ap) = []" "t' \<le> t + 12 * hour" "t0 < t + 12 * hour"
    and later: "rq_cookie rq' = Some (base64 True False (of_bytes (bs 2 32)))"
  shows "authorized t0 rq' (fst (setup_handler sv t t' rq ap))"
proof -
  let ?key = "sv_kdf sv (rq_form rq ''password'') (bs 0 32)"
  have salt: "NewSalt (sv_rand sv 0) = Inr (bs 0 32)" by (simp add: NewSalt_def rand)
  have len: "length (bs 0 32) = 32" using sv rand by (simp add: services_ok_def)
  then have d: "DeriveKey (sv_kdf sv) (rq_form rq ''password'') (bs 0 32) = Inr ?key" by (simp add: DeriveKey_def)
  have "key_ok ?key" using sv by (simp add: services_ok_def key_ok_def keyLength_def)
  moreover have "length (bs 1 gcm_nonce_size) = gcm_nonce_size" using sv rand by (simp add: services_ok_def)
  ultimately obtain c where v: "NewVerifier (sv_cipher sv) (sv_rand sv 1) ?key = Inr (bs 1 gcm_nonce_size, c)"
    using EncryptWithAAD_ok [of "sv_cipher sv" ?key "sv_rand sv 1" "bs 1 gcm_nonce_size" "to_bytes verifier" "[]"] sv rand
    by (auto simp: services_ok_def NewVerifier_def Encrypt_def verifier_def to_bytes_def)
  let ?conf = "\<lparr>sc_salt = bs 0 32, sc_verifier_nonce = bs 1 gcm_nonce_size, sc_verifier_cipher = c\<rparr>"
  obtain db' where i: "InitializeSecurity ?conf (ap_db ap) = (db', Inr ())"
    using empty(1) by (simp add: InitializeSecurity_def security_values_def)
  have "\<not> IsInitialized (ap_db ap)" using empty(1) by (simp add: IsInitialized_def count_where_def)
  then have "fst (setup_handler sv t t' rq ap) = fst (newSession sv t t' rq (setKey ?key (ap\<lparr>ap_db := db'\<rparr>)))"
    using form by (simp add: setup_handler_def salt d v i Let_def split: prod.split del: One_nat_def)
  moreover have "ap_key (fst (newSession sv t t' rq (setKey ?key (ap\<lparr>ap_db := db'\<rparr>)))) \<noteq> []"
    using DeriveKey_nonempty [OF sv d] by simp
  ultimately show ?thesis using later empty(3)
    by (simp add: authorized_def newSession_def rand Let_def update_Some_unfold update_conv')
qed

definition demo_services :: services where
  "demo_services = \<lparr>sv_rand = (\<lambda>k n. Inr (replicate n (of_nat k))),
     sv_kdf = (\<lambda>p s. replicate 32 (of_nat (length p))),
     sv_cipher = demo_cipher, sv_sha256 = (\<lambda>bs. [of_nat (length bs)]), sv_hmac = (\<lambda>key bs. take 3 key)\<rparr>"

definition demo_request :: "string \<Rightarrow> string \<Rightarrow> request" where
  "demo_request path password = \<lparr>rq_method = ''POST'', rq_path = path,
     rq_cookie = Some (base64 True False (of_bytes (replicate 32 2))), rq_form_ok = True,
     rq_form = (\<lambda>k. if k = ''password'' \<or> k = ''password_confirmation'' then password else ''''),
     rq_header = (\<lambda>_. ''''), rq_path_value = (\<lambda>_. ''''), rq_remote = ''10.0.0.9:4711'', rq_body = None, rq_tls = True\<rparr>"

definition demo_server :: app where
  "demo_server = \<lparr>ap_config = LoadConfig (\<lambda>_. '''') None, ap_db = empty_db 0, ap_key = [], ap_sessions = []\<rparr>"

lemma demo_services_ok: "services_ok demo_services"
  by (simp add: services_ok_def demo_services_def demo_cipher_ok keyLength_def)

definition demo_unlocked :: app where
  "demo_unlocked = fst (setup_handler demo_services 1000 1001 (demo_request ''/setup'' ''correct horse'') demo_server)"

lemma demo_authorized: "authorized 1002 (demo_request path p) demo_unlocked"
  unfolding demo_unlocked_def
  by (rule setup_opens_session [OF demo_services_ok, where bs = "\<lambda>k n. replicate n (of_nat k)"])
    (simp_all add: demo_services_def demo_request_def demo_server_def empty_db_def)

lemma demo_reached: "server_reach demo_services demo_server demo_unlocked"
  unfolding demo_unlocked_def
  by (rule r_into_rtranclp, rule server_step.initialize, rule prod.collapse [symmetric])


section \<open>Requests that change something\<close>

text \<open>
  Outside the test environment, a POST other than a webhook, setup and unlock reaches its
  handler exactly if it comes from a live session and carries the token of that session under the
  master key (the one the pages are rendered with); every other one is refused and changes nothing,
  whatever the handler is.
\<close>

theorem posts_need_the_session_token:
  assumes "rq_method rq = ''POST''" and "\<not> has_prefix (rq_path rq) ''/webhooks/''"
    and "rq_path rq \<noteq> ''/setup''" and "rq_path rq \<noteq> ''/unlock''"
    and "cfg_environment (ap_config ap) \<noteq> ''test'' \<or> rq_header rq ''X-Test-Validate-CSRF'' \<noteq> ''''"
  shows "csrfCheck sv t0 handler rq ap =
    (if authorized t0 rq ap \<and> csrfToken sv rq ap \<noteq> '''' \<and> csrf_actual rq = csrfToken sv rq ap then handler rq ap
     else (ap, respond (if authorized t0 rq ap then HttpError 403 ''invalid CSRF token'' else Redirect ''/unlock'')))"
proof -
  have "authorized t0 rq ap \<Longrightarrow> rq_cookie rq \<noteq> None" by (auto simp: authorized_def split: option.splits)
  with assms show ?thesis by (auto simp: csrfCheck_def csrfToken_def split: option.splits)
qed

lemma setup_keeps_config: "setup_handler sv t t' rq ap = (ap', r) \<Longrightarrow> ap_config ap' = ap_config ap"
  by (drule setup_cases) (auto simp: setKey_def)

lemma demo_environment: "cfg_environment (ap_config demo_unlocked) = ''development''"
proof -
  have "ap_config demo_unlocked = ap_config demo_server"
    unfolding demo_unlocked_def by (rule setup_keeps_config, rule prod.collapse [symmetric])
  then show ?thesis by (simp add: demo_server_def LoadConfig_def environment_def)
qed

theorem posts_need_the_session_token_witness:
  "csrfCheck demo_services 1002 lock (demo_request ''/lock'' '''') demo_unlocked =
     (demo_unlocked, respond (HttpError 403 ''invalid CSRF token''))"
proof -
  let ?rq = "demo_request ''/lock'' ''''"
  have "csrf_actual ?rq = ''''" by (simp add: csrf_actual_def demo_request_def)
  moreover have "rq_method ?rq = ''POST''" "rq_path ?rq = ''/lock''" by (simp_all add: demo_request_def)
  ultimately show ?thesis
    using posts_need_the_session_token [of ?rq demo_unlocked demo_services 1002 lock]
    by (auto simp: demo_authorized demo_environment has_prefix_def)
qed

end
