(* ===== verification/App_Webhook_Props.thy ===== *)
theory App_Webhook_Props
  imports App_Webhook App_Session_Props Queue_Props
begin

text \<open>
  What a webhook can cause: at most one queued job, and only for an authentic push of the
  configured reference to an application that allows it.
\<close>

section \<open>The queued job\<close>

definition queued_row :: "config \<Rightarrow> time \<Rightarrow> time \<Rightarrow> application \<Rightarrow> string \<Rightarrow> string \<Rightarrow> int \<Rightarrow> deployment_row" where
  "queued_row c t0 t a action ref i =
     (new_deployment_row i (app_id a) ''queued'' '''' (deployment_log c t0 (app_id a)) t)
       \<lparr>dr_action := action, dr_requested_ref := (if ref = '''' then app_branch a else ref),
        dr_internal_port := app_internal_port a, dr_manifest := queued_manifest a\<rparr>"

lemma update_new_row:
  "update_where (\<lambda>r. dr_id r = next_rowid dr_id rows) u (rows @ [r]) =
   rows @ [if dr_id r = next_rowid dr_id rows then u r else r]"
proof -
  have "update_where (\<lambda>r. dr_id r = next_rowid dr_id rows) u rows = rows"
    using next_rowid_gt [of _ rows dr_id] by (intro update_where_id) fastforce
  then show ?thesis by (simp add: update_where_def)
qed

lemma queue_outcomes:
  assumes run: "QueueDeployment t i action path s = (s', x)"
  obtains (queued) d where "s' = s\<lparr>deployments := deployments s @
        [(new_deployment_row (next_rowid dr_id (deployments s)) i ''queued'' '''' path t)\<lparr>dr_action := action\<rparr>]\<rparr>"
      "x = Inr d" "d_id d = next_rowid dr_id (deployments s)" "slot_of s i = Free"
      "action = ''deploy'' \<or> action = ''rollback'' \<or> action = ''auto_rollback''"
  | (failed) e where "s' = s" "x = Inl e"
proof -
  let ?mk = "\<lambda>j. (new_deployment_row j i ''queued'' '''' path t)\<lparr>dr_action := action\<rparr>"
  obtain s1 y where ins: "insert_deployment ?mk s = (s1, y)" by fastforce
  have act: "active_row (?mk (next_rowid dr_id (deployments s)))" by (simp add: new_deployment_row_def active_status_def)
  show thesis
  proof (cases "action = ''deploy'' \<or> action = ''rollback'' \<or> action = ''auto_rollback''")
    case False
    with run failed show thesis by (auto simp: QueueDeployment_def)
  next
    case True
    then have q: "\<not> (action \<noteq> ''deploy'' \<and> action \<noteq> ''rollback'' \<and> action \<noteq> ''auto_rollback'')" by blast
    note run' = run [unfolded QueueDeployment_def if_not_P [OF q] ins]
    from ins act show thesis
    proof (cases rule: insert_deployment_cases)
      case (ok r)
      have "dr_application_id r = i" unfolding ok(1) by (simp add: new_deployment_row_def)
      with run' ok True show thesis
        by (intro queued [of "zero_deployment\<lparr>d_id := next_rowid dr_id (deployments s), d_application_id := i,
             d_status := ''queued'', d_log_path := path, d_started_at := t, d_action := action\<rparr>"]) simp_all
    qed (use run' failed in auto)
  qed
qed

text \<open>A job is queued with its release contract, or the database is as before.\<close>

lemma queueDeploymentRef_cases:
  assumes run: "queueDeploymentRef ho c t0 t i action ref s = (s', x)"
    and known: "Application i s = Inr a"
  obtains (queued) "s' = s\<lparr>deployments := deployments s @ [queued_row c t0 t a action ref (next_rowid dr_id (deployments s))]\<rparr>"
      "x = Inr ()" "slot_of s i = Free" "action = ''deploy'' \<or> action = ''rollback'' \<or> action = ''auto_rollback''"
  | (failed) e where "s' = s" "x = Inl e"
proof (cases "ho_mkdir ho (cfg_log_path c)")
  case (Some e)
  with run failed show thesis by (auto simp: queueDeploymentRef_def)
next
  case None
  have id: "app_id a = i" using known find_SomeD by (fastforce simp: Application_def split: option.splits)
  obtain s1 y where q: "QueueDeployment t i action (deployment_log c t0 i) s = (s1, y)" by fastforce
  then show thesis
  proof (cases rule: queue_outcomes)
    case (queued d)
    then have "Application i s1 = Inr a" using known by (simp add: Application_def)
    with run q None queued(2,3) have "(s', x) =
        SetDeploymentReleaseMetadata (next_rowid dr_id (deployments s)) (queued_metadata a ref) s1"
      by (simp add: queueDeploymentRef_def)
    then have "s' = s\<lparr>deployments := deployments s @ [queued_row c t0 t a action ref (next_rowid dr_id (deployments s))]\<rparr> \<and> x = Inr ()"
      by (simp add: SetDeploymentReleaseMetadata_def queued(1) set_deployments_def update_new_row)
        (simp add: queued_row_def queued_metadata_def new_deployment_row_def id)
    with queued show thesis by (intro that(1)) simp_all
  next
    case (failed e)
    with run q None show thesis by (intro that(2)) (auto simp: queueDeploymentRef_def)
  qed
qed

section \<open>The webhook\<close>

definition delivery_of :: "services \<Rightarrow> request \<Rightarrow> string" where
  "delivery_of sv rq = hex_string (sv_sha256 sv (to_bytes (trim_space (rq_header rq ''X-GitHub-Delivery''))))"

lemma has_prefix_split: "has_prefix s p \<Longrightarrow> s = p @ trim_prefix s p"
  by (metis append_take_drop_id has_prefix_def trim_prefix_def)

lemma claim_frame: "claim_delivery sv rq s = (s', x) \<Longrightarrow> \<exists>ds. s' = s\<lparr>webhook_deliveries := ds\<rparr>"
  by (auto simp: claim_delivery_def ClaimWebhookDelivery_def Let_def split: if_splits intro: exI [of _ "webhook_deliveries s"])

lemma claim_delivery_new:
  assumes "claim_delivery sv rq s = (s', Inr True)"
  shows "trim_space (rq_header rq ''X-GitHub-Delivery'') = '''' \<or>
      (''github'', delivery_of sv rq) \<notin> set (webhook_deliveries s) \<and> (''github'', delivery_of sv rq) \<in> set (webhook_deliveries s')"
  using assms by (auto simp: claim_delivery_def ClaimWebhookDelivery_def delivery_of_def Let_def split: if_splits)

lemma AllowWebhookRequest_frame:
  assumes "AllowWebhookRequest t scope n d s = (s', x)"
  shows "deployments s' = deployments s" "applications s' = applications s" "secrets s' = secrets s"
    "webhook_deliveries s' = webhook_deliveries s"
  using assms by (auto simp: AllowWebhookRequest_def Let_def split: if_splits option.splits)

text \<open>What the webhook requires of an application and a push before it queues a job.\<close>

definition push_accepted :: "host \<Rightarrow> app \<Rightarrow> application \<Rightarrow> string \<Rightarrow> string \<Rightarrow> bool" where
  "push_accepted ho ap a body after \<longleftrightarrow>
     app_deploy_on_push a \<and> \<not> app_require_confirmation a \<and> (keyCopy ap = [] \<longrightarrow> \<not> HasSecrets (app_id a) (ap_db ap)) \<and>
     (\<exists>ref fullName. ho_push ho body = Some (ref, after, fullName) \<and> matchesGitReference (app_branch a) ref \<and>
        (after = '''' \<or> validGitCommit after) \<and> (fullName = '''' \<or> matchesGitHubRepository (app_repository a) fullName))"

lemma push_allowed_Some:
  "push_allowed ho a body = Some after \<Longrightarrow>
   \<exists>ref fullName. ho_push ho body = Some (ref, after, fullName) \<and> matchesGitReference (app_branch a) ref \<and>
     (after = '''' \<or> validGitCommit after) \<and> (fullName = '''' \<or> matchesGitHubRepository (app_repository a) fullName)"
  by (auto simp: push_allowed_def split: option.splits if_splits)

lemma opt_run:
  "(case x of None \<Rightarrow> (s, e) | Some a \<Rightarrow> k a) = (s', r) \<Longrightarrow> (s' = s \<Longrightarrow> P) \<Longrightarrow>
   (\<And>a. x = Some a \<Longrightarrow> k a = (s', r) \<Longrightarrow> P) \<Longrightarrow> P"
  by (cases x) simp_all

lemma step_run:
  "(case y of (s1, Inl m) \<Rightarrow> (f s1, e s1 m) | (s1, Inr a) \<Rightarrow> k s1 a) = (s', r) \<Longrightarrow>
   (\<And>s1 m. y = (s1, Inl m) \<Longrightarrow> s' = f s1 \<Longrightarrow> P) \<Longrightarrow> (\<And>s1 a. y = (s1, Inr a) \<Longrightarrow> k s1 a = (s', r) \<Longrightarrow> P) \<Longrightarrow> P"
  by (auto split: prod.splits sum.splits)

lemma accepted_push_queues:
  assumes run: "accepted_push ho t1 t0 t rq body ap = (s', r)" and new: "deployments s' \<noteq> deployments (ap_db ap)"
  obtains i a after where "parse_int (rq_path_value rq ''id'') = Some i" "Application i (ap_db ap) = Inr a"
    "push_accepted ho ap a body after" "slot_of (ap_db ap) i = Free"
    "deployments s' = deployments (ap_db ap) @
      [queued_row (ap_config ap) t0 t a ''deploy'' after (next_rowid dr_id (deployments (ap_db ap)))]"
    "webhook_deliveries s' = webhook_deliveries (ap_db ap)"
proof -
  have stop: thesis if "s' = s1" "deployments s1 = deployments (ap_db ap)" for s1 using that new by simp
  show thesis
    using run unfolding accepted_push_def Let_def
  proof (elim opt_run try_run guard_run step_run stop [OF _ refl])
    fix i a s1 allowed after
    assume i: "parse_int (rq_path_value rq ''id'') = Some i" and a: "Application i (ap_db ap) = Inr a"
      and push: "\<not> \<not> app_deploy_on_push a" "\<not> app_require_confirmation a" "push_allowed ho a body = Some after"
      and limit: "AllowWebhookRequest t1 (github_scope a) (cfg_webhook_rate_limit (ap_config ap))
        (cfg_webhook_rate_window (ap_config ap)) (ap_db ap) = (s1, Inr allowed)"
      and locked: "\<not> (keyCopy ap = [] \<and> HasSecrets (app_id a) s1)"
      and queue: "queue_push ho (ap_config ap) t0 t a after s1 = (s', r)"
    note s1 = AllowWebhookRequest_frame [OF limit]
    have known: "Application (app_id a) s1 = Inr a" "app_id a = i"
      using a find_SomeD by (fastforce simp: Application_def s1 split: option.splits)+
    obtain x where ref: "queueDeploymentRef ho (ap_config ap) t0 t (app_id a) ''deploy'' after s1 = (s', x)"
      using queue by (auto simp: queue_push_def split: prod.splits sum.splits)
    have ok: "push_accepted ho ap a body after"
      using push locked push_allowed_Some [OF push(3)] by (auto simp: push_accepted_def HasSecrets_def s1)
    have slot: "slot_of s1 i = slot_of (ap_db ap) i" by (simp add: slot_of_def s1)
    from ref known(1) show thesis
      by (cases rule: queueDeploymentRef_cases) (use that [OF i a ok] slot new s1 known in auto)
  qed (use AllowWebhookRequest_frame new in \<open>auto\<close>)
qed

text \<open>
  C5: A request to the GitHub webhook adds at most one row to the queue. It does so only if its
  signature is the HMAC of the body under the configured secret, its delivery has not been seen
  before, the application deploys on push without confirmation, no secret would be needed while
  the server is locked, the push is for the configured reference and repository, and nothing is
  queued or running for that application; the job then asks for exactly the pushed commit. Key,
  sessions and configuration never change.
\<close>

theorem webhook_queues_only_authentic_pushes:
  assumes run: "githubWebhook sv ho t1 t0 t rq ap = (ap', r)"
    and new: "deployments (ap_db ap') \<noteq> deployments (ap_db ap)"
  shows "\<exists>body want i a after. read_body rq = Some body \<and> cfg_webhook_secret (ap_config ap) \<noteq> '''' \<and>
      rq_header rq ''X-Hub-Signature-256'' = ''sha256='' @ want \<and>
      decode_hex want = Some (sv_hmac sv (to_bytes (cfg_webhook_secret (ap_config ap))) (to_bytes body)) \<and>
      (trim_space (rq_header rq ''X-GitHub-Delivery'') = '''' \<or>
       (''github'', delivery_of sv rq) \<notin> set (webhook_deliveries (ap_db ap)) \<and>
       (''github'', delivery_of sv rq) \<in> set (webhook_deliveries (ap_db ap'))) \<and>
      parse_int (rq_path_value rq ''id'') = Some i \<and> Application i (ap_db ap) = Inr a \<and>
      push_accepted ho ap a body after \<and> slot_of (ap_db ap) i = Free \<and>
      deployments (ap_db ap') = deployments (ap_db ap) @
        [queued_row (ap_config ap) t0 t a ''deploy'' after (next_rowid dr_id (deployments (ap_db ap)))] \<and>
      ap' = ap\<lparr>ap_db := ap_db ap'\<rparr>"
proof -
  have signed: "\<exists>want. header = ''sha256='' @ want \<and> decode_hex want = Some (sv_hmac sv (to_bytes secret) (to_bytes body))"
    if "validGitHubSignature sv secret body header" for secret body header
    using that has_prefix_split [of header "''sha256=''"]
    by (auto simp: validGitHubSignature_def split: if_splits option.splits)
  show ?thesis
    using run unfolding githubWebhook_def
  proof (elim guard_run opt_run step_run)
    fix body s1 claimed
    assume secret: "cfg_webhook_secret (ap_config ap) \<noteq> ''''" and body: "read_body rq = Some body"
      and sig: "\<not> \<not> validGitHubSignature sv (cfg_webhook_secret (ap_config ap)) body (rq_header rq ''X-Hub-Signature-256'')"
      and claim: "claim_delivery sv rq (ap_db ap) = (s1, Inr claimed)" and claimed: "\<not> \<not> claimed"
      and rest: "(let (s'', r) = accepted_push ho t1 t0 t rq body (ap\<lparr>ap_db := s1\<rparr>)
                  in (ap\<lparr>ap_db := s''\<rparr>, respond r)) = (ap', r)"
    then obtain s2 r' where push: "accepted_push ho t1 t0 t rq body (ap\<lparr>ap_db := s1\<rparr>) = (s2, r')"
      and ap': "ap' = ap\<lparr>ap_db := s2\<rparr>" by (auto split: prod.splits)
    from claim_frame [OF claim] obtain ds where s1: "s1 = (ap_db ap)\<lparr>webhook_deliveries := ds\<rparr>" ..
    have new': "deployments s2 \<noteq> deployments (ap_db (ap\<lparr>ap_db := s1\<rparr>))" using new by (simp add: ap' s1)
    from push new' show ?thesis
    proof (rule accepted_push_queues)
      fix i a after
      assume "parse_int (rq_path_value rq ''id'') = Some i" "Application i (ap_db (ap\<lparr>ap_db := s1\<rparr>)) = Inr a"
        "push_accepted ho (ap\<lparr>ap_db := s1\<rparr>) a body after" "slot_of (ap_db (ap\<lparr>ap_db := s1\<rparr>)) i = Free"
        "deployments s2 = deployments (ap_db (ap\<lparr>ap_db := s1\<rparr>)) @ [queued_row (ap_config (ap\<lparr>ap_db := s1\<rparr>)) t0 t a ''deploy'' after
           (next_rowid dr_id (deployments (ap_db (ap\<lparr>ap_db := s1\<rparr>))))]"
        "webhook_deliveries s2 = webhook_deliveries (ap_db (ap\<lparr>ap_db := s1\<rparr>))"
      then show ?thesis
        using signed secret body sig claim_delivery_new [of sv rq "ap_db ap" s1] claim claimed
        by (auto simp: s1 ap' Application_def push_accepted_def HasSecrets_def keyCopy_def slot_of_def)
    qed
  qed (use new in \<open>auto dest!: claim_frame\<close>)
qed

definition demo_push_application :: application where
  "demo_push_application = \<lparr>app_id = 7, app_name = ''web'', app_repository = ''https://github.com/acme/web.git'',
     app_branch = ''main'', app_work_dir = ''.'', app_type = ''static'', app_build_command = '''', app_run_command = '''',
     app_internal_port = 8080, app_domain = ''web.localhost'', app_runtime = ''auto'', app_deploy_on_push = True,
     app_require_confirmation = False, app_auto_rollback = True, app_github_installation_id = 0,
     app_health_endpoint = ''/'', app_created_at = 0\<rparr>"

definition demo_push_app :: app where
  "demo_push_app = demo_server\<lparr>ap_config := (ap_config demo_server)\<lparr>cfg_webhook_secret := ''abc''\<rparr>,
     ap_db := (empty_db 0)\<lparr>applications := [demo_push_application]\<rparr>\<rparr>"

definition demo_host :: host where
  "demo_host = \<lparr>ho_mkdir = (\<lambda>_. None), ho_open = (\<lambda>_. None),
     ho_push = (\<lambda>_. Some (''refs/heads/main'', '''', ''Acme/Web'')), ho_object = (\<lambda>_. None), ho_compact = Some,
     ho_effective = (\<lambda>_. Inr (Some []))\<rparr>"

definition demo_push :: request where
  "demo_push = (demo_request ''/webhooks/github/7'' '''')\<lparr>rq_body := Some ''{}'',
     rq_header := (\<lambda>k. if k = ''X-GitHub-Event'' then ''push'' else if k = ''X-Hub-Signature-256'' then ''sha256=616263''
       else if k = ''X-GitHub-Delivery'' then ''d1'' else ''''),
     rq_path_value := (\<lambda>_. ''7'')\<rparr>"

lemma demo_push_signed: "validGitHubSignature demo_services ''abc'' ''{}'' ''sha256=616263''"
  by code_simp

lemma demo_push_matches: "push_allowed demo_host demo_push_application ''{}'' = Some ''''"
  by code_simp

lemma demo_push_state [simp]:
  "deployments (ap_db demo_push_app) = []" "webhook_deliveries (ap_db demo_push_app) = []" "secrets (ap_db demo_push_app) = []"
  "webhook_rate_limits (ap_db demo_push_app) = []" "applications (ap_db demo_push_app) = [demo_push_application]"
  "cfg_webhook_secret (ap_config demo_push_app) = ''abc''" "cfg_webhook_rate_limit (ap_config demo_push_app) = 30"
  "cfg_webhook_rate_window (ap_config demo_push_app) = minute" "app_id demo_push_application = 7"
  "app_deploy_on_push demo_push_application" "\<not> app_require_confirmation demo_push_application"
  by (simp_all add: demo_push_app_def empty_db_def demo_push_application_def demo_server_def LoadConfig_def
      environmentInt_def environmentDuration_def) code_simp+

lemma demo_push_request [simp]:
  "rq_header demo_push ''X-GitHub-Event'' = ''push''" "rq_header demo_push ''X-Hub-Signature-256'' = ''sha256=616263''"
  "rq_path_value demo_push k = ''7''" "read_body demo_push = Some ''{}''" "parse_int ''7'' = Some 7"
  by (simp_all add: demo_push_def read_body_def max_webhook_body_def) code_simp

lemma demo_host_mkdir: "ho_mkdir demo_host p = None"
  by (simp add: demo_host_def)

lemma demo_push_runs:
  "deployments (ap_db (fst (githubWebhook demo_services demo_host 5 6 7 demo_push demo_push_app))) \<noteq> []"
  by (simp add: githubWebhook_def demo_push_signed claim_delivery_def ClaimWebhookDelivery_def Let_def accepted_push_def
      Application_def AllowWebhookRequest_def upsert_by_def github_scope_def HasSecrets_def demo_push_matches queue_push_def
      queueDeploymentRef_def demo_host_mkdir QueueDeployment_def insert_deployment_def new_deployment_row_def active_status_def
      app_exists_def SetDeploymentReleaseMetadata_def set_deployments_def split: prod.split)

theorem webhook_queues_only_authentic_pushes_witness:
  "\<exists>after. deployments (ap_db (fst (githubWebhook demo_services demo_host 5 6 7 demo_push demo_push_app))) =
     [queued_row (ap_config demo_push_app) 6 7 demo_push_application ''deploy'' after 1]"
proof -
  have "Application i (ap_db demo_push_app) = Inr a \<Longrightarrow> a = demo_push_application" for i a
    by (auto simp: Application_def split: if_splits)
  with webhook_queues_only_authentic_pushes [of demo_services demo_host 5 6 7 demo_push demo_push_app, OF prod.collapse [symmetric]]
    demo_push_runs show ?thesis by (auto simp: next_rowid_def)
qed

end
