(* ===== verification/App_Worker_Props.thy ===== *)
theory App_Worker_Props
  imports App_Worker App_Webhook_Props Executor_Props
begin

text \<open>
  The worker beside its neighbours. A rely-guarantee argument: whatever the others do between two
  store calls, as long as they leave the claimed job's row alone, the job is still running until
  the worker finishes it, and finished afterwards.
\<close>

section \<open>Assertions on the job table\<close>

text \<open>What the argument speaks about: identifier, application and status of every row.\<close>

definition job_key :: "deployment_row \<Rightarrow> int \<times> int \<times> string" where
  "job_key r = (dr_id r, dr_application_id r, dr_status r)"

definition job_keys :: "app \<Rightarrow> (int \<times> int \<times> string) list" where
  "job_keys ap = map job_key (deployments (ap_db ap))"

definition active_apps :: "(int \<times> int \<times> string) list \<Rightarrow> int list" where
  "active_apps ks = map (\<lambda>(i, a, st). a) (filter (\<lambda>(i, a, st). active_status st) ks)"

definition status_in :: "int \<Rightarrow> string set \<Rightarrow> (int \<times> int \<times> string) list \<Rightarrow> bool" where
  "status_in i S ks \<longleftrightarrow> i \<in> fst ` set ks \<and> (\<forall>(j, a, st)\<in>set ks. j = i \<longrightarrow> st \<in> S)"

lemma one_active_rows: "one_active rows \<longleftrightarrow> distinct (active_apps (map job_key rows))"
  by (simp add: one_active_def active_apps_def job_key_def filter_map comp_def case_prod_beta)

lemma one_active_keys: "one_active (deployments (ap_db ap)) \<longleftrightarrow> distinct (active_apps (job_keys ap))"
  by (simp add: one_active_rows job_keys_def)

definition triple ::
    "((int \<times> int \<times> string) list \<Rightarrow> bool) \<Rightarrow> 'a job \<Rightarrow> ('a \<Rightarrow> (int \<times> int \<times> string) list \<Rightarrow> bool) \<Rightarrow> bool" where
  "triple P p R \<longleftrightarrow>
     (\<forall>ap h k. P (job_keys ap) \<longrightarrow> (case run_state p (ap, h, k) of (x, (ap', h', k')) \<Rightarrow> R x (job_keys ap')))"

abbreviation keeps :: "((int \<times> int \<times> string) list \<Rightarrow> bool) \<Rightarrow> 'a job \<Rightarrow> bool" where
  "keeps Q p \<equiv> triple Q p (\<lambda>_. Q)"

lemma triple_return: "(\<And>ks. P ks \<Longrightarrow> R x ks) \<Longrightarrow> triple P (State_Monad.return x) R"
  by (simp add: triple_def)

lemma triple_bind: "triple P p R \<Longrightarrow> (\<And>x. triple (R x) (f x) T) \<Longrightarrow> triple P (State_Monad.bind p f) T"
  unfolding triple_def by (fastforce split: prod.splits)

lemma tripleD:
  "triple P p R \<Longrightarrow> P (job_keys ap) \<Longrightarrow> run_state p (ap, h, k) = (x, (ap', h', k')) \<Longrightarrow> R x (job_keys ap')"
  unfolding triple_def by (metis (no_types, lifting) case_prod_conv)

lemma triple_post: "triple P p R \<Longrightarrow> (\<And>x ks. R x ks \<Longrightarrow> T x ks) \<Longrightarrow> triple P p T"
  unfolding triple_def by (fastforce split: prod.splits)

lemma keeps_return: "keeps Q (State_Monad.return x)"
  by (rule triple_return)

lemma keeps_outside: "keeps Q (outside p)"
  by (simp add: triple_def outside_def Let_def split: prod.splits)

lemma keeps_bind: "keeps Q p \<Longrightarrow> (\<And>x. keeps Q (f x)) \<Longrightarrow> keeps Q (State_Monad.bind p f)"
  by (rule triple_bind)

named_theorems job_frame

lemma job_key_update:
  "(\<And>r. P r \<Longrightarrow> job_key (u r) = job_key r) \<Longrightarrow> map job_key (update_where P u rows) = map job_key rows"
  by (rule map_update_where)

lemma frame_sets [job_frame]:
  "map job_key (deployments (fst (SetDeploymentStage i stage s))) = map job_key (deployments s)"
  "map job_key (deployments (fst (SetDeploymentImage i img s))) = map job_key (deployments s)"
  "map job_key (deployments (fst (SetDeploymentReleaseMetadata i m s))) = map job_key (deployments s)"
  "map job_key (deployments (fst (SetDeploymentFailure i stage code detail s))) = map job_key (deployments s)"
  "map job_key (deployments (fst (SetDeploymentStageDurations i q a b c d e s))) = map job_key (deployments s)"
  "map job_key (deployments (fst (AddDeploymentEvent t i stage kind message s))) = map job_key (deployments s)"
  by (simp_all add: SetDeploymentStage_def SetDeploymentImage_def SetDeploymentReleaseMetadata_def SetDeploymentFailure_def
      SetDeploymentStageDurations_def AddDeploymentEvent_def set_deployments_def job_key_update job_key_def)

lemma frame_secret_use [job_frame]:
  "map job_key (deployments (fst (RecordSecretUse t i env target names s))) = map job_key (deployments s)"
proof (induction names arbitrary: t s)
  case (Cons name names)
  have "deployments (fst (audit_secret (t 0) i env target name ''used'' s)) = deployments s"
    by (simp add: audit_secret_def)
  with Cons.IH show ?case by (auto split: prod.splits sum.splits)
qed simp

section \<open>A worker beside stable neighbours\<close>

text \<open>
  The interface between a worker and its neighbours: an assertion on the job table that whatever
  they do leaves true.
\<close>

locale stable_jobs =
  fixes nb :: neighbours and Q :: "(int \<times> int \<times> string) list \<Rightarrow> bool"
  assumes others: "Q (job_keys ap) \<Longrightarrow> Q (job_keys (nb_effect nb k ap))"
begin

lemma call_frame:
  assumes "\<And>t s. map job_key (deployments (fst (op t s))) = map job_key (deployments s)"
  shows "keeps Q (store_call nb op)"
  using others assms
  by (auto simp: triple_def store_call_def app_call_def job_keys_def Let_def split: prod.splits) (metis fst_conv)

lemma read_frame: "keeps Q (store_read nb f)"
  unfolding store_read_def by (rule call_frame) simp

lemma key_frame: "keeps Q (read_key nb)"
  using others by (simp add: triple_def read_key_def app_call_def)

lemmas frames = keeps_bind keeps_return read_frame key_frame keeps_outside

lemma track_all_frame: "keeps Q (track_all nb i trace)"
proof (induction trace)
  case (Cons a trace)
  have "keeps Q (track nb i a)"
    unfolding track_def by (cases a) (auto intro!: frames call_frame simp: job_frame)
  with Cons show ?case by (auto intro!: frames)
qed (simp add: keeps_return)

lemma execute_frame: "keeps Q (execute nb i p)"
  unfolding execute_def by (auto intro!: frames track_all_frame split: prod.splits)

lemma decrypt_frame: "keeps Q (decrypt_secrets nb sv key i env target names vs)"
  by (induction names arbitrary: vs) (auto intro!: frames split: sum.splits)

lemma secrets_frame: "keeps Q (deploymentSecrets nb sv i env target)"
  unfolding deploymentSecrets_def
  by (auto intro!: frames decrypt_frame call_frame simp: job_frame split: sum.splits)

lemma configuration_frame: "keeps Q (deploymentConfiguration nb sv w i env)"
  unfolding deploymentConfiguration_def configurationValues_def
  by (auto intro!: frames secrets_frame split: sum.splits)

lemma deploy_frame: "keeps Q (deploy_job nb ho w fuel e d a conf)"
  unfolding deploy_job_def Let_def
  by (auto intro!: frames execute_frame call_frame simp: job_frame split: prod.splits)

lemma rollback_frame: "keeps Q (rollback_job nb ho w fuel e query d a conf)"
  unfolding rollback_job_def Let_def
  by (auto intro!: frames execute_frame call_frame simp: job_frame split: prod.splits sum.splits option.splits)

lemma action_frame: "keeps Q (run_action nb ho w fuel e d a c)"
  unfolding run_action_def
  by (auto intro!: frames deploy_frame rollback_frame split: sum.splits)

end

section \<open>Finishing a job\<close>

definition running :: "int \<Rightarrow> (int \<times> int \<times> string) list \<Rightarrow> bool" where
  "running i ks \<longleftrightarrow> distinct (active_apps ks) \<and> status_in i {''running''} ks"

definition outcome :: "dep_error option \<Rightarrow> string" where
  "outcome err = (if err = None then ''successful'' else ''failed'')"

lemma status_in_rows:
  "status_in i S (map job_key rows) \<longleftrightarrow> i \<in> dr_id ` set rows \<and> (\<forall>r\<in>set rows. dr_id r = i \<longrightarrow> dr_status r \<in> S)"
  by (auto simp: status_in_def job_key_def image_iff)

lemma status_in_mono: "status_in i S ks \<Longrightarrow> S \<subseteq> T \<Longrightarrow> status_in i T ks"
  by (fastforce simp: status_in_def)

lemma status_in_snoc: "status_in i S ks \<Longrightarrow> fst x \<noteq> i \<Longrightarrow> status_in i S (ks @ [x])"
  by (auto simp: status_in_def)

lemma FinishDeployment_settles:
  assumes "running i (job_keys ap)" and "\<not> active_status st"
  shows "status_in i {''cancelled'', st} (map job_key (deployments (fst (FinishDeployment t i st (ap_db ap)))))"
proof -
  let ?rows = "update_where (\<lambda>r. dr_id r = i) (finish_row t st) (deployments (ap_db ap))"
  have "one_active ?rows"
    using assms by (intro one_active_update)
      (auto simp: running_def one_active_keys finish_row_def active_status_def split: if_splits)
  then have "deployments (fst (FinishDeployment t i st (ap_db ap))) = ?rows"
    by (simp add: FinishDeployment_def Let_def set_deployments_def)
  moreover have "i \<in> dr_id ` set (deployments (ap_db ap))"
    using assms(1) by (auto simp: running_def status_in_def job_keys_def job_key_def image_iff)
  moreover have "map dr_id ?rows = map dr_id (deployments (ap_db ap))"
    by (rule map_update_where) (simp add: finish_row_def)
  from arg_cong [OF this, of set] have "dr_id ` set ?rows = dr_id ` set (deployments (ap_db ap))" by simp
  moreover have "\<forall>r\<in>set ?rows. dr_id r = i \<longrightarrow> dr_status r \<in> {''cancelled'', st}"
    by (intro ballI impI, erule in_update_whereE) (auto simp: finish_row_def)
  ultimately show ?thesis by (simp add: status_in_rows)
qed

lemma queueDeployment_appends:
  obtains (same) "deployments (fst (queueDeployment ho c t0 t a action s)) = deployments s"
  | (new) r where "deployments (fst (queueDeployment ho c t0 t a action s)) = deployments s @ [r]"
      "dr_id r = next_rowid dr_id (deployments s)" "dr_application_id r = a" "slot_of s a = Free"
proof (cases "Application a s")
  case (Inl e)
  then have "\<not> app_exists s a" by (auto simp: Application_def app_exists_def list_ex_iff find_None_iff split: option.splits)
  then have "deployments (fst (queueDeployment ho c t0 t a action s)) = deployments s"
    by (auto simp: queueDeployment_def queueDeploymentRef_def QueueDeployment_def insert_deployment_def new_deployment_row_def
        Let_def split: option.splits)
  then show thesis by (rule same)
next
  case (Inr app)
  then have id: "app_id app = a" using find_SomeD by (fastforce simp: Application_def split: option.splits)
  obtain s' x where q: "queueDeploymentRef ho c t0 t a action '''' s = (s', x)" by fastforce
  from q Inr show thesis
  proof (cases rule: queueDeploymentRef_cases)
    case queued
    then show thesis using q id
      by (intro new [of "queued_row c t0 t app action '''' (next_rowid dr_id (deployments s))"])
        (simp_all add: queueDeployment_def, simp_all add: queued_row_def new_deployment_row_def)
  qed (use same q in \<open>simp add: queueDeployment_def\<close>)
qed

lemma queueDeployment_keeps:
  assumes "status_in i S (map job_key (deployments s))"
  shows "status_in i S (map job_key (deployments (fst (queueDeployment ho c t0 t a action s))))"
proof (cases rule: queueDeployment_appends [of ho c t0 t a action s])
  case (new r)
  have "dr_id q \<noteq> next_rowid dr_id (deployments s)" if "q \<in> set (deployments s)" for q
    using next_rowid_gt [OF that, of dr_id] by simp
  then have "fst (job_key r) \<noteq> i" using assms new(2) by (fastforce simp: status_in_rows job_key_def)
  from status_in_snoc [OF assms this] show ?thesis unfolding new(1) by simp
qed (use assms in simp)

lemma finish_triple:
  assumes "stable_jobs nb (running i)" and "\<not> active_status st"
  shows "triple (running i) (store_call nb (\<lambda>t. FinishDeployment t i st)) (\<lambda>_. status_in i {''cancelled'', st})"
  using FinishDeployment_settles [OF stable_jobs.others [OF assms(1)] assms(2)]
  by (auto simp: triple_def store_call_def app_call_def job_keys_def Let_def split: prod.splits) (metis fst_conv)

lemma queue_triple:
  assumes "stable_jobs nb (status_in i S)"
  shows "keeps (status_in i S) (store_call nb (\<lambda>t. queueDeployment ho c t t a action))"
  using queueDeployment_keeps [OF stable_jobs.others [OF assms, unfolded job_keys_def]]
  by (auto simp: triple_def store_call_def app_call_def job_keys_def Let_def split: prod.splits) (metis fst_conv)

lemma settle_triple:
  assumes run: "stable_jobs nb (running (d_id d))"
    and ended: "\<And>st. st \<in> {''cancelled'', ''failed'', ''successful''} \<Longrightarrow> stable_jobs nb (status_in (d_id d) {''cancelled'', st})"
  shows "triple (running (d_id d)) (settle nb ho w c d a hb err trace) (\<lambda>err. status_in (d_id d) {''cancelled'', outcome err})"
proof -
  note frame = stable_jobs.frames [OF run] stable_jobs.call_frame [OF run]
  let ?err = "if err = None then map_option (\<lambda>m. Plain (''deployment lease lost: '' @ error_text m)) hb else err"
  have final: "triple (status_in (d_id d) {''cancelled'', st})
      (State_Monad.bind (if st = ''failed'' \<and> d_action d = ''deploy'' \<and> app_auto_rollback a \<and> shouldTriggerAutoRollback ?err
         then do { _ \<leftarrow> store_call nb (\<lambda>t. queueDeployment ho c t t (app_id a) ''auto_rollback''); State_Monad.return () }
         else State_Monad.return ()) (\<lambda>_. State_Monad.return ?err))
      (\<lambda>err. status_in (d_id d) {''cancelled'', outcome err})"
    if st: "st = ''cancelled'' \<or> st = outcome ?err" for st
    using st queue_triple [OF ended, of st]
    by (intro triple_bind [where R = "\<lambda>_. status_in (d_id d) {''cancelled'', st}"] triple_return)
      (auto intro!: keeps_bind keeps_return elim: status_in_mono simp: outcome_def)
  show ?thesis
    unfolding settle_def Let_def
    apply (rule triple_bind [OF stable_jobs.read_frame [OF run]])
    apply (rule triple_bind [where R = "\<lambda>_. running (d_id d)"])
     apply (auto intro!: frame simp: job_frame split: prod.splits) [1]
    apply (rule triple_bind [OF stable_jobs.call_frame [OF run]])
     apply (simp add: job_frame)
    apply (rule triple_bind [OF finish_triple [OF run]])
     apply (simp add: active_status_def)
    apply (rule triple_bind [OF keeps_outside])
    apply (rule final)
    apply (simp add: outcome_def)
    done
qed

section \<open>What the neighbours may do\<close>

text \<open>
  The others never give an application a second active job, and a job that has been claimed keeps
  its row and its status until its worker changes it.
\<close>

definition leaves :: "int \<Rightarrow> app \<Rightarrow> app \<Rightarrow> bool" where
  "leaves i ap ap' \<longleftrightarrow>
     (one_active (deployments (ap_db ap)) \<longrightarrow> one_active (deployments (ap_db ap'))) \<and>
     (\<forall>S. ''queued'' \<notin> S \<longrightarrow> status_in i S (job_keys ap) \<longrightarrow> status_in i S (job_keys ap'))"

lemma leaves_stable:
  assumes "\<And>k ap. leaves i ap (nb_effect nb k ap)"
  shows "stable_jobs nb (running i)" and "''queued'' \<notin> S \<Longrightarrow> stable_jobs nb (status_in i S)"
  using assms by (unfold_locales; auto simp: running_def leaves_def one_active_keys)+

lemma leaves_update:
  assumes "deployments (ap_db ap') = update_where P u (deployments (ap_db ap))"
    and "\<And>r. P r \<Longrightarrow> dr_application_id (u r) = dr_application_id r \<and> (active_row (u r) \<longrightarrow> active_row r)"
    and "\<And>r. P r \<Longrightarrow> dr_id (u r) = dr_id r \<and> (dr_id r = i \<longrightarrow> dr_status r = ''queued'' \<or> dr_status (u r) = dr_status r)"
  shows "leaves i ap ap'"
proof -
  have ids: "dr_id ` set (deployments (ap_db ap')) = dr_id ` set (deployments (ap_db ap))"
    using map_update_where [of P dr_id u "deployments (ap_db ap)"] assms(1,3) by (metis set_map)
  show ?thesis
    unfolding leaves_def job_keys_def status_in_rows ids
  proof (intro conjI impI allI ballI)
    assume "one_active (deployments (ap_db ap))"
    then show "one_active (deployments (ap_db ap'))" unfolding assms(1) using assms(2) by (rule one_active_update)
  next
    fix S r
    assume S: "''queued'' \<notin> S" "i \<in> dr_id ` set (deployments (ap_db ap)) \<and> (\<forall>r\<in>set (deployments (ap_db ap)). dr_id r = i \<longrightarrow> dr_status r \<in> S)"
      and r: "r \<in> set (deployments (ap_db ap'))" "dr_id r = i"
    from r(1) show "dr_status r \<in> S" unfolding assms(1)
      by (rule in_update_whereE) (use S r assms(3) in \<open>metis+\<close>)
  qed simp
qed

lemma leaves_trans: "leaves i ap ap' \<Longrightarrow> leaves i ap' ap'' \<Longrightarrow> leaves i ap ap''"
  by (simp add: leaves_def)

text \<open>Cancelling, renewing a lease, claiming and queueing leave every claimed job as it is.\<close>

lemma cancel_leaves: "leaves i ap (ap\<lparr>ap_db := fst (CancelDeployment t a j (ap_db ap))\<rparr>)"
proof -
  let ?sel = "\<lambda>r. dr_id r = j \<and> dr_application_id r = a \<and> dr_status r = ''queued''"
  let ?s1 = "set_deployments (update_where ?sel (\<lambda>r. r\<lparr>dr_status := ''cancelled'', dr_finished_at := Some t,
      dr_lease_expires_at := None\<rparr>) (deployments (ap_db ap))) (ap_db ap)"
  let ?sel2 = "\<lambda>r. dr_id r = j \<and> dr_application_id r = a \<and> dr_status r = ''running'' \<and> dr_cancellation_requested_at r = None"
  let ?s2 = "set_deployments (update_where ?sel2 (\<lambda>r. r\<lparr>dr_cancellation_requested_at := Some t\<rparr>) (deployments ?s1)) ?s1"
  have one: "leaves i ap (ap\<lparr>ap_db := ?s1\<rparr>)"
    by (rule leaves_update [where P = ?sel]) (auto simp: set_deployments_def active_status_def)
  have two: "leaves i (ap\<lparr>ap_db := ?s1\<rparr>) (ap\<lparr>ap_db := ?s2\<rparr>)"
    by (rule leaves_update [where P = ?sel2]) (auto simp: set_deployments_def active_status_def)
  have "fst (CancelDeployment t a j (ap_db ap)) \<in> {?s1, ?s2}" by (auto simp: CancelDeployment_def Let_def)
  with one leaves_trans [OF one two] show ?thesis by auto
qed

lemma heartbeat_leaves: "leaves i ap (ap\<lparr>ap_db := fst (HeartbeatDeployment t j (ap_db ap))\<rparr>)"
  by (rule leaves_update [where P = "\<lambda>r. dr_id r = j \<and> dr_status r = ''running'' \<and> dr_cancellation_requested_at r = None"
        and u = "\<lambda>r. r\<lparr>dr_heartbeat_at := Some t, dr_lease_expires_at := Some (t + DeploymentLeaseDuration)\<rparr>"])
    (auto simp: HeartbeatDeployment_def Let_def set_deployments_def)

lemma claim_leaves: "leaves i ap (ap\<lparr>ap_db := fst (NextQueuedDeployment t (ap_db ap))\<rparr>)"
proof (cases "oldest_queued (ap_db ap)")
  case (Some r)
  have "leaves i ap (ap\<lparr>ap_db := set_deployments (update_where (\<lambda>x. dr_id x = dr_id r \<and> dr_status x = ''queued'')
      (claim_row t) (deployments (ap_db ap))) (ap_db ap)\<rparr>)"
    by (rule leaves_update [where P = "\<lambda>x. dr_id x = dr_id r \<and> dr_status x = ''queued''" and u = "claim_row t"])
      (auto simp: set_deployments_def claim_row_def active_status_def)
  with Some show ?thesis by (simp add: NextQueuedDeployment_def Let_def leaves_def)
qed (simp add: NextQueuedDeployment_def leaves_def)

lemma finish_leaves:
  assumes "i \<noteq> j" and "\<not> active_status st"
  shows "leaves i ap (ap\<lparr>ap_db := fst (FinishDeployment t j st (ap_db ap))\<rparr>)"
proof -
  have "leaves i ap (ap\<lparr>ap_db := set_deployments (update_where (\<lambda>r. dr_id r = j) (finish_row t st) (deployments (ap_db ap))) (ap_db ap)\<rparr>)"
    using assms by (intro leaves_update [where P = "\<lambda>r. dr_id r = j" and u = "finish_row t st"])
      (auto simp: set_deployments_def finish_row_def active_status_def)
  then show ?thesis by (simp add: FinishDeployment_def Let_def leaves_def)
qed

lemma queue_leaves: "leaves i ap (ap\<lparr>ap_db := fst (queueDeployment ho c t0 t a action (ap_db ap))\<rparr>)"
proof -
  have "one_active (deployments (fst (queueDeployment ho c t0 t a action (ap_db ap))))" if "one_active (deployments (ap_db ap))"
    using that by (cases rule: queueDeployment_appends [of ho c t0 t a action "ap_db ap"])
      (auto simp: one_active_snoc slot_of_Free)
  then show ?thesis by (auto simp: leaves_def job_keys_def queueDeployment_keeps)
qed

section \<open>Every claimed job is settled\<close>

lemma claim_running:
  assumes inv: "queue_inv (ap_db ap)" and claim: "NextQueuedDeployment t (ap_db ap) = (s', Inr d)"
  shows "running (d_id d) (job_keys (ap\<lparr>ap_db := s'\<rparr>))"
proof -
  let ?rows = "deployments (ap_db ap)"
  from claim obtain r where old: "oldest_queued (ap_db ap) = Some r" and id: "d_id d = dr_id r"
    and s': "deployments s' = update_where (\<lambda>x. dr_id x = dr_id r \<and> dr_status x = ''queued'') (claim_row t) ?rows"
    by (auto simp: NextQueuedDeployment_def Let_def set_deployments_def split: option.splits if_splits)
  have r: "r \<in> set ?rows" "dr_status r = ''queued''"
    using oldest_queued_Some [OF old] by blast+
  have "queue_inv s'" using NextQueuedDeployment_cases [OF inv claim] by auto
  then have "one_active (deployments s')" by (simp add: queue_inv_def)
  have only: "x = r" if "x \<in> set ?rows" "dr_id x = dr_id r" for x
    using that distinct_key_inj [OF queue_inv_distinct [OF inv] that(1) r(1)] by simp
  have "claim_row t r \<in> set (deployments s')" unfolding s' using r by (intro in_update_where_changed) simp_all
  moreover have "dr_id (claim_row t r) = dr_id r" by (simp add: claim_row_def)
  ultimately have "dr_id r \<in> dr_id ` set (deployments s')" by (metis imageI)
  moreover have "dr_status x = ''running''" if "x \<in> set (deployments s')" "dr_id x = dr_id r" for x
    using that(1) unfolding s'
  proof (rule in_update_whereE)
    assume "x \<in> set ?rows" "\<not> (dr_id x = dr_id r \<and> dr_status x = ''queued'')"
    with only [of x] that(2) r(2) show ?thesis by simp
  qed (simp add: claim_row_def)
  ultimately have "status_in (dr_id r) {''running''} (map job_key (deployments s'))" by (simp add: status_in_rows)
  with \<open>one_active (deployments s')\<close> show ?thesis by (simp add: running_def one_active_rows job_keys_def id)
qed

lemma triple_result:
  assumes "triple P p R" and "\<And>s. Y (fst (run_state p s))"
  shows "triple P p (\<lambda>x ks. R x ks \<and> Y x)"
  unfolding triple_def
proof (intro allI impI)
  fix ap h k
  assume "P (job_keys ap)"
  with assms(1) have "case run_state p (ap, h, k) of (x, (ap', h', k')) \<Rightarrow> R x (job_keys ap')" by (simp add: triple_def)
  with assms(2) [of "(ap, h, k)"]
  show "case run_state p (ap, h, k) of (x, (ap', h', k')) \<Rightarrow> R x (job_keys ap') \<and> Y x" by (simp add: case_prod_beta)
qed

lemma run_action_id: "d_id (fst (fst (run_state (run_action nb ho w fuel e d a c) s))) = d_id d"
  by (auto simp: run_action_def split: sum.splits prod.splits)

lemma run_claimed_triple:
  assumes "\<And>k ap. leaves (d_id d) ap (nb_effect nb k ap)"
  shows "triple (running (d_id d)) (run_claimed nb sv ho w fuel e c hb d) (\<lambda>err. status_in (d_id d) {''cancelled'', outcome err})"
proof -
  note run = leaves_stable(1) [OF assms]
  note frame = stable_jobs.read_frame [OF run] stable_jobs.configuration_frame [OF run] stable_jobs.action_frame [OF run]
  have failed: "triple (running (d_id d)) (finish_failed nb (d_id d) err) (\<lambda>err. status_in (d_id d) {''cancelled'', outcome err})" for err
    unfolding finish_failed_def
    by (rule triple_bind [OF finish_triple [OF run]]) (auto intro!: triple_return simp: active_status_def outcome_def)
  have act: "triple (running (d_id d)) (run_action nb ho w fuel e d a conf) (\<lambda>x ks. running (d_id d) ks \<and> d_id (fst x) = d_id d)" for a conf
    by (rule triple_result [OF stable_jobs.action_frame [OF run]]) (rule run_action_id)
  have ended: "triple (\<lambda>ks. running (d_id d) ks \<and> d_id d' = d_id d) (settle nb ho w c d' a hb err trace)
      (\<lambda>err. status_in (d_id d) {''cancelled'', outcome err})" for d' a err trace
  proof (cases "d_id d' = d_id d")
    case True
    have "stable_jobs nb (status_in (d_id d) {''cancelled'', st})" if "st \<in> {''cancelled'', ''failed'', ''successful''}" for st
      by (rule leaves_stable(2) [OF assms]) (use that in auto)
    with settle_triple [of nb d' ho w c a hb err trace] run True show ?thesis by simp
  qed (simp add: triple_def)
  show ?thesis
    unfolding run_claimed_def
  proof (rule triple_bind [OF stable_jobs.read_frame [OF run]])
    fix r
    show "triple (running (d_id d)) (case r of
        Inl err \<Rightarrow> finish_failed nb (d_id d) err
      | Inr a \<Rightarrow> (case ho_open ho (d_log_path d) of
            Some err \<Rightarrow> finish_failed nb (d_id d) err
          | None \<Rightarrow> do {
              conf \<leftarrow> deploymentConfiguration nb sv w (app_id a) ''production'';
              (d', err, trace) \<leftarrow> run_action nb ho w fuel e d a conf;
              settle nb ho w c d' a hb err trace
            })) (\<lambda>err. status_in (d_id d) {''cancelled'', outcome err})"
      using ended
      by (auto split: sum.split option.split intro!: failed triple_bind [OF stable_jobs.configuration_frame [OF run]] triple_bind [OF act])
  qed
qed

text \<open>
  C3: A worker settles every job it claims. Whatever handlers, heartbeats and other workers do to
  the database between its store calls, as long as they leave claimed jobs to their workers and
  give no application a second active job, the job is finished when the worker returns: cancelled,
  or else successful exactly when the worker returns no error and failed otherwise.
\<close>

theorem worker_settles_every_job:
  assumes others: "\<And>k ap. leaves (d_id d) ap (nb_effect nb k ap)"
    and inv: "queue_inv (ap_db (nb_effect nb k ap))"
    and claim: "NextQueuedDeployment (nb_clock nb k) (ap_db (nb_effect nb k ap)) = (s1, Inr d)"
    and run: "run_state (runNextDeployment nb sv ho w fuel e c hb) (ap, h, k) = (err, (ap', h', k'))"
  shows "status_in (d_id d) {''cancelled'', if err = None then ''successful'' else ''failed''} (job_keys ap')"
proof -
  let ?ap1 = "(nb_effect nb k ap)\<lparr>ap_db := s1\<rparr>"
  have start: "run_state (store_call nb NextQueuedDeployment) (ap, h, k) = (Inr d, (?ap1, h, Suc k))"
    using claim by (simp add: store_call_def app_call_def)
  have "run_state (run_claimed nb sv ho w fuel e c hb d) (?ap1, h, Suc k) = (err, (ap', h', k'))"
    using run by (simp add: runNextDeployment_def start)
  then show ?thesis
    using tripleD [OF run_claimed_triple [OF others] claim_running [OF inv claim]] by (simp add: outcome_def)
qed

text \<open>An operator who cancels a job over and over from the \<open>n\<close>-th store call on.\<close>

definition cancelling :: "nat \<Rightarrow> int \<Rightarrow> int \<Rightarrow> neighbours" where
  "cancelling n a j = \<lparr>nb_effect = (\<lambda>k ap. if k < n then ap else ap\<lparr>ap_db := fst (CancelDeployment (int k) a j (ap_db ap))\<rparr>),
     nb_clock = int\<rparr>"

lemma cancelling_leaves: "leaves i ap (nb_effect (cancelling n a j) k ap)"
  using cancel_leaves by (simp add: cancelling_def leaves_def)

interpretation cancelling: stable_jobs "cancelling n a j" "running i" for n a j i
  by (rule leaves_stable(1)) (rule cancelling_leaves)

definition demo_queued_app :: app where
  "demo_queued_app = demo_push_app\<lparr>ap_db := (ap_db demo_push_app)\<lparr>deployments :=
     [queued_row (ap_config demo_push_app) 6 7 demo_push_application ''deploy'' '''' 1]\<rparr>\<rparr>"

lemma demo_queued_inv: "queue_inv (ap_db demo_queued_app)"
  by (simp add: demo_queued_app_def queue_inv_def one_active_def row_ok_def app_exists_def queued_row_def
      new_deployment_row_def active_status_def)

lemma demo_queued_claim: "\<exists>s d. NextQueuedDeployment 0 (ap_db demo_queued_app) = (s, Inr d) \<and> d_id d = 1"
  by (simp add: demo_queued_app_def NextQueuedDeployment_def oldest_queued_def count_where_def Let_def queued_row_def
      new_deployment_row_def scan_release_def)

theorem worker_settles_every_job_witness:
  "\<exists>err ap' h' k'. run_state (runNextDeployment (cancelling 1 7 1) demo_services demo_host (demo_world ''healthy'') 3
      demo_executor (ap_config demo_push_app) None) (demo_queued_app, [], 0) = (err, (ap', h', k')) \<and>
    status_in 1 {''cancelled'', if err = None then ''successful'' else ''failed''} (job_keys ap')"
proof -
  let ?nb = "cancelling 1 7 1"
  obtain s d where d: "NextQueuedDeployment (nb_clock ?nb 0) (ap_db (nb_effect ?nb 0 demo_queued_app)) = (s, Inr d)" "d_id d = 1"
    using demo_queued_claim by (auto simp: cancelling_def)
  have inv: "queue_inv (ap_db (nb_effect ?nb 0 demo_queued_app))" using demo_queued_inv by (simp add: cancelling_def)
  obtain err ap' h' k' where r: "run_state (runNextDeployment ?nb demo_services demo_host (demo_world ''healthy'') 3
      demo_executor (ap_config demo_push_app) None) (demo_queued_app, [], 0) = (err, (ap', h', k'))"
    by (metis prod_cases4)
  from worker_settles_every_job [OF cancelling_leaves inv d(1) r] r d(2) show ?thesis by auto
qed

section \<open>Rolling back the configuration\<close>

lemma map_of_fold_delete:
  "map_of (fold AList.delete ks m) = (\<lambda>k. if k \<in> set ks then None else map_of m k)"
  by (induction ks arbitrary: m) (auto simp: delete_conv')

lemma map_of_updates_pairs:
  "distinct (map fst eff) \<Longrightarrow> map_of (AList.updates (map fst eff) (map snd eff) m) k =
     (case map_of eff k of None \<Rightarrow> map_of m k | Some v \<Rightarrow> Some v)"
proof (induction eff arbitrary: m)
  case (Cons p eff)
  obtain a b where p: "p = (a, b)" by (cases p)
  with Cons show ?case
    by (cases "map_of eff k") (auto simp: update_conv' dest: map_of_SomeD)
qed simp



section \<open>Automatic rollbacks\<close>

text \<open>
  An automatic rollback follows only a failed deployment of an application that asks for it, and
  only if the release failed while starting, in its health check or in its route; a failed
  rollback never causes another one.
\<close>

lemma auto_rollback_only_after_deploy:
  "shouldTriggerAutoRollback err \<longleftrightarrow>
     (\<exists>x. err = Some x \<and> (case x of Failure stage code t \<Rightarrow> stage \<in> {''start'', ''health'', ''route''} | _ \<Rightarrow> True))"
  by (cases err) (auto simp: shouldTriggerAutoRollback_def split: dep_error.splits)

section \<open>The release log\<close>

definition accepts_prefix :: "(string \<Rightarrow> nat \<times> string option) \<Rightarrow> bool" where
  "accepts_prefix accept \<longleftrightarrow> (\<forall>p. fst (accept p) \<le> length p \<and> (snd (accept p) = None \<longrightarrow> fst (accept p) = length p))"

text \<open>
  The log keeps the beginning of the output up to the limit; the writer reports complete writes as
  long as the file accepts them, so a long log never makes a release fail.
\<close>

lemma limited_write_bounded:
  assumes "accepts_prefix accept" and "ll_written l = int (length (ll_file l))" and "ll_written l \<le> max 0 (ll_limit l)"
    and run: "limited_write accept p l = (l', n, err)"
  shows "ll_written l' = int (length (ll_file l')) \<and> ll_written l' \<le> max 0 (ll_limit l') \<and> ll_limit l' = ll_limit l \<and>
    (err = None \<longrightarrow> n = length p \<and> ll_file l' = take (nat (max 0 (ll_limit l))) (ll_file l @ p))"
proof (cases "ll_limit l \<le> 0 \<or> ll_written l \<ge> ll_limit l")
  case True
  with assms show ?thesis by (auto simp: limited_write_def)
next
  case False
  let ?room = "ll_limit l - ll_written l"
  let ?w = "if int (length p) > ?room then take (nat ?room) p else p"
  obtain m e where m: "accept ?w = (m, e)" by fastforce
  have fits: "m \<le> length ?w" "e = None \<longrightarrow> m = length ?w"
    using assms(1) m unfolding accepts_prefix_def by (metis fst_conv snd_conv)+
  have cut: "int (length ?w) \<le> ?room" "?w = take (nat ?room) p" using False by auto
  have l': "l' = l\<lparr>ll_file := ll_file l @ take m ?w, ll_written := ll_written l + int m\<rparr>"
    "(n, err) = (case e of Some x \<Rightarrow> (m, Some x) | None \<Rightarrow> (length p, None))"
    using run False m unfolding limited_write_def Let_def by auto
  have "nat (max 0 (ll_limit l)) = length (ll_file l) + nat ?room" using False assms(2) by linarith
  then have "take (nat (max 0 (ll_limit l))) (ll_file l @ p) = ll_file l @ ?w" unfolding cut(2) by simp
  with fits cut(1) l' assms(2) False show ?thesis by (auto split: option.splits)
qed

end
