(* ===== verification/App_Handlers_Props.thy ===== *)
theory App_Handlers_Props
  imports App_Handlers App_Worker_Props
begin

text \<open>
  What the handlers promise: an application that gets registered satisfies what the executor
  relies on, and a stored secret is the one a release will decrypt.
\<close>

section \<open>Frames\<close>

lemma for_application_cases:
  assumes "for_application t0 rq body ap = (ap', r)"
  obtains (refused) "ap' = ap" "rs_reply r = Redirect ''/unlock'' \<or> rs_reply r = Not_Found"
  | (body) i a where "authorized t0 rq ap" "parse_int (rq_path_value rq ''id'') = Some i" "Application i (ap_db ap) = Inr a"
      "body a ap = (ap', r)"
  using assms unfolding for_application_def requireAuthorization_def applicationData_def
  by (auto simp: respond_def split: if_splits option.splits sum.splits)

lemma queueDeployment_applications:
  assumes "queueDeployment ho c t0 t a action s = (s', x)"
  shows "applications s' = applications s"
proof -
  have "applications (fst (QueueDeployment t a action path s)) = applications s" for path
    by (auto simp: QueueDeployment_def insert_deployment_def Let_def split: sum.splits prod.splits)
  with assms show ?thesis
    by (auto simp: queueDeployment_def queueDeploymentRef_def SetDeploymentReleaseMetadata_def set_deployments_def
        split: option.splits prod.splits sum.splits) (metis fst_conv)+
qed

section \<open>Registering an application\<close>

lemma appNameRegex_safe: "appNameRegex s = safeName s"
  by (simp add: appNameRegex_def safeName_def)

lemma first_deployment_applications:
  "applications (ap_db (fst (first_deployment ho preflight t1 t rq a ap))) = applications (ap_db ap)"
  by (auto simp: first_deployment_def split: option.splits prod.splits sum.splits dest: queueDeployment_applications)

definition deployable :: "config \<Rightarrow> application \<Rightarrow> bool" where
  "deployable c a \<longleftrightarrow> safeName (app_name a) \<and> domainRegex (app_domain a) \<and> app_domain a \<noteq> cfg_admin_domain c \<and>
     app_repository a \<noteq> '''' \<and> app_work_dir a \<noteq> '''' \<and> IsSupported (app_type a) \<and>
     (app_runtime a = ''auto'' \<or> SupportsRuntime (app_runtime a)) \<and> 1 \<le> app_internal_port a \<and> app_internal_port a \<le> 65535 \<and>
     app_require_confirmation a \<and> \<not> app_deploy_on_push a \<and>
     (app_github_installation_id a > 0 \<longrightarrow> has_prefix (app_repository a) ''https://github.com/'' \<and> cfg_github_app_id c \<noteq> '''')"

lemma application_checks_sound:
  assumes "fst (run_state (application_checks w c ok a) h)"
  shows "appNameRegex (app_name a) \<and> domainRegex (app_domain a) \<and> app_repository a \<noteq> '''' \<and> app_work_dir a \<noteq> '''' \<and>
    IsSupported (app_type a) \<and> (app_runtime a = ''auto'' \<or> SupportsRuntime (app_runtime a)) \<and> 1 \<le> app_internal_port a \<and>
    app_internal_port a \<le> 65535 \<and>
    (app_github_installation_id a > 0 \<longrightarrow> has_prefix (app_repository a) ''https://github.com/'' \<and> cfg_github_app_id c \<noteq> '''')"
  using assms
  by (auto simp: application_checks_def validRepositorySource_def split: if_splits prod.splits)

lemma form_flags:
  "app_require_confirmation (template_commands p (applyApplicationDefaults w (form_application rq p)))"
  "\<not> app_deploy_on_push (template_commands p (applyApplicationDefaults w (form_application rq p)))"
proof -
  have same: "app_require_confirmation (applyApplicationDefaults w a) = app_require_confirmation a"
    "app_deploy_on_push (applyApplicationDefaults w a) = app_deploy_on_push a" for a
    unfolding applyApplicationDefaults_def Let_def by (simp_all split: option.split)
  have "app_require_confirmation (template_commands p a) = app_require_confirmation a"
    "app_deploy_on_push (template_commands p a) = app_deploy_on_push a" for a
    unfolding template_commands_def Let_def by (simp_all split: option.split)
  with same show "app_require_confirmation (template_commands p (applyApplicationDefaults w (form_application rq p)))"
    "\<not> app_deploy_on_push (template_commands p (applyApplicationDefaults w (form_application rq p)))"
    by (simp_all add: form_application_def)
qed

lemma register_adds:
  assumes run: "register_application ho preflight tc t1 t rq ok a ap = (ap', r)"
    and new: "b \<in> set (applications (ap_db ap'))" "b \<notin> set (applications (ap_db ap))"
  shows "ok \<and> app_domain a \<noteq> cfg_admin_domain (ap_config ap) \<and> (\<exists>i. b = a\<lparr>app_id := i, app_created_at := tc\<rparr>) \<and>
    (\<forall>c\<in>set (applications (ap_db ap)). app_name c \<noteq> app_name a \<and> app_domain c \<noteq> app_domain a)"
  using run unfolding register_application_def
proof (elim guard_run step_run)
  fix s1 registered
  assume "\<not> \<not> ok" "app_domain a \<noteq> cfg_admin_domain (ap_config ap)"
    and create: "CreateApplication tc a (ap_db ap) = (s1, Inr registered)"
    and first: "first_deployment ho preflight t1 t rq registered (ap\<lparr>ap_db := s1\<rparr>) = (ap', r)"
  moreover have "applications (ap_db ap') = applications s1"
    using first_deployment_applications [of ho preflight t1 t rq registered "ap\<lparr>ap_db := s1\<rparr>"] first by simp
  ultimately show ?thesis
    using new by (auto simp: CreateApplication_def Let_def list_ex_iff split: if_splits)
qed (use new in \<open>auto simp: CreateApplication_def Let_def split: if_splits\<close>)

text \<open>
  C29: Whatever the form says, an application enters the registry only through an authorized
  request, and then it is what the rest of the system relies on: a name the executor accepts as a
  container name, a domain of its own that is not the administrative one, a supported type and
  runtime, a port in range, a source it may read, production confirmation on and deployment on push
  off. Its name and its domain are new.
\<close>

theorem registered_applications_are_deployable:
  assumes run: "run_state (createApplication w ho preflight t0 tc t1 t rq ap) h = ((ap', r), h')"
    and new: "a \<in> set (applications (ap_db ap'))" "a \<notin> set (applications (ap_db ap))"
  shows "authorized t0 rq ap \<and> deployable (ap_config ap) a \<and>
    (\<forall>b\<in>set (applications (ap_db ap)). app_name b \<noteq> app_name a \<and> app_domain b \<noteq> app_domain a)"
proof -
  let ?p = "case form_port rq of None \<Rightarrow> 0 | Some p \<Rightarrow> p"
  let ?a = "template_commands ?p (applyApplicationDefaults w (form_application rq ?p))"
  let ?checks = "application_checks w (ap_config ap) (form_port rq \<noteq> None) ?a"
  have auth: "authorized t0 rq ap" "rq_form_ok rq"
    using run new by (auto simp: createApplication_def split: if_splits)
  have "(ap', r) = register_application ho preflight tc t1 t rq (fst (run_state ?checks h)) ?a ap"
    using run auth unfolding createApplication_def Let_def by (simp split: prod.splits)
  from register_adds [OF this [symmetric] new] form_flags [of ?p w rq] application_checks_sound [of w "ap_config ap" "form_port rq \<noteq> None" ?a h] auth(1)
  show ?thesis by (auto simp: deployable_def appNameRegex_safe)
qed

definition demo_form :: request where
  "demo_form = (demo_request ''/applications'' '''')\<lparr>rq_form := (\<lambda>k.
     if k = ''name'' then ''web'' else if k = ''repository'' then ''https://example.org/web.git''
     else if k = ''internal_port'' then ''8080'' else '''')\<rparr>"

definition demo_form_application :: application where
  "demo_form_application = \<lparr>app_id = 0, app_name = ''web'', app_repository = ''https://example.org/web.git'', app_branch = ''main'',
     app_work_dir = ''.'', app_type = ''static'', app_build_command = ''plantilla static'', app_run_command = ''plantilla static'',
     app_internal_port = 8080, app_domain = ''web.localhost'', app_runtime = ''auto'', app_deploy_on_push = False,
     app_require_confirmation = True, app_auto_rollback = False, app_github_installation_id = 0,
     app_health_endpoint = ''/'', app_created_at = 0\<rparr>"

lemma demo_trims:
  "trim_space '''' = ''''" "trim_space ''web'' = ''web''" "trim_space ''8080'' = ''8080''" "parse_int ''8080'' = Some 8080"
  "trim_space ''https://example.org/web.git'' = ''https://example.org/web.git''" "\<not> is_local ''https://example.org/web.git''"
  "parsePositiveInt '''' = 0" "appNameRegex ''web''" "domainRegex ''web.localhost''" "IsSupported ''static''"
  by code_simp+

lemma demo_form_port: "form_port demo_form = Some 8080"
  by (simp add: form_port_def demo_form_def demo_trims)

lemma demo_form_read:
  "template_commands 8080 (applyApplicationDefaults w (form_application demo_form 8080)) = demo_form_application"
  by (simp add: form_application_def demo_form_def demo_trims runtimeChoice_def form_health_endpoint_def
      applyApplicationDefaults_def template_commands_def For_def make_template_def demo_form_application_def)

lemma demo_form_checked: "fst (run_state (application_checks w c True demo_form_application) h)"
  by (simp add: application_checks_def requiresGitReference_def validRepositorySource_def demo_form_application_def demo_trims)

lemma setup_keeps_applications: "setup_handler sv t t' rq ap = (ap', r) \<Longrightarrow> applications (ap_db ap') = applications (ap_db ap)"
  by (drule setup_cases) (auto simp: InitializeSecurity_def split: if_splits)

lemma demo_unlocked_applications: "applications (ap_db demo_unlocked) = []"
proof -
  have "applications (ap_db demo_unlocked) = applications (ap_db demo_server)"
    unfolding demo_unlocked_def by (rule setup_keeps_applications, rule prod.collapse [symmetric])
  then show ?thesis by (simp add: demo_server_def empty_db_def)
qed

lemma demo_admin_domain: "cfg_admin_domain (ap_config demo_unlocked) = ''localhost''"
proof -
  have "ap_config demo_unlocked = ap_config demo_server"
    unfolding demo_unlocked_def by (rule setup_keeps_config, rule prod.collapse [symmetric])
  then show ?thesis by (simp add: demo_server_def LoadConfig_def environment_def)
qed

theorem registered_applications_are_deployable_witness:
  "\<exists>ap' r h'. run_state (createApplication (demo_world ''healthy'') demo_host (\<lambda>_. None) 1002 1003 1004 1005 demo_form demo_unlocked) [] =
      ((ap', r), h') \<and> applications (ap_db ap') \<noteq> [] \<and> deployable (ap_config demo_unlocked) (hd (applications (ap_db ap')))"
proof -
  let ?run = "run_state (createApplication (demo_world ''healthy'') demo_host (\<lambda>_. None) 1002 1003 1004 1005 demo_form demo_unlocked) []"
  have auth: "authorized 1002 demo_form demo_unlocked"
    using demo_authorized [of "''/applications''" "''''"] by (simp add: authorized_def demo_form_def demo_request_def)
  obtain ap' r h' where run: "?run = ((ap', r), h')" by (metis prod.collapse)
  have "rq_form_ok demo_form" "rq_form demo_form ''intent'' \<noteq> ''deploy''" by (simp_all add: demo_form_def demo_request_def)
  then have "applications (ap_db (fst (fst ?run))) \<noteq> []"
    using demo_form_checked [of "demo_world ''healthy''" "ap_config demo_unlocked" "[]"]
    by (simp add: createApplication_def auth demo_form_port demo_form_read register_application_def demo_unlocked_applications
        CreateApplication_def first_deployment_def demo_admin_domain demo_form_application_def Let_def case_prod_beta)
  with run have some: "hd (applications (ap_db ap')) \<in> set (applications (ap_db ap'))" "applications (ap_db ap') \<noteq> []" by simp_all
  from registered_applications_are_deployable [OF run some(1)] run some(2) show ?thesis
    by (simp add: demo_unlocked_applications)
qed

section \<open>Retrying\<close>

text \<open>
  The queue accepts the actions deploy, rollback and auto_rollback only, so the retry button never
  queues anything: no request to it changes the state or is redirected to the application.
\<close>

lemma retry_is_always_refused:
  assumes "retryApplication ho t0 t1 t rq ap = (ap', r)"
  shows "ap' = ap \<and> (\<forall>u. rs_reply r = Redirect u \<longrightarrow> u = ''/unlock'')"
  using assms unfolding retryApplication_def
proof (cases rule: for_application_cases)
  case (body i a)
  have "\<exists>e. queueDeployment ho (ap_config ap) t1 t (app_id a) ''retry'' (ap_db ap) = (ap_db ap, Inl e)"
    by (simp add: queueDeployment_def queueDeploymentRef_def QueueDeployment_def split: option.split)
  with body(4) show ?thesis by (auto simp: respond_def split: if_splits)
qed auto

section \<open>Secrets from the form to the release\<close>

lemma PutApplicationSecret_reads:
  assumes "PutApplicationSecret t t' i env target name nonce c s = (s', Inr ())"
  shows "ApplicationSecret i env target name s' = Inr (nonce, c)"
proof -
  let ?row = "\<lparr>sec_scope = applicationSecretScope i env target, sec_name = name, sec_nonce = nonce, sec_ciphertext = c, sec_updated_at = t\<rparr>"
  from assms have "secrets s' = upsert_by secret_key (\<lambda>_ new. new) ?row (secrets s)"
    by (auto simp: PutApplicationSecret_def PutSecret_def audit_secret_def Let_def split: if_splits)
  moreover have "find (\<lambda>r. secret_key r = secret_key ?row) (upsert_by secret_key (\<lambda>_ new. new) ?row (secrets s)) =
      Some (case find (\<lambda>r. secret_key r = secret_key ?row) (secrets s) of None \<Rightarrow> ?row | Some r \<Rightarrow> ?row)"
    by (rule find_upsert_by_same) simp
  moreover have "secret_key ?row = (applicationSecretScope i env target, name)" by (simp add: secret_key_def)
  ultimately show ?thesis by (simp add: ApplicationSecret_def Secret_def split: option.splits)
qed

lemma Encrypt_decrypts:
  assumes "services_ok sv" and "key_ok key" and "length p \<le> (2 ^ 32 - 2) * 16"
    and "Encrypt (sv_cipher sv) (sv_rand sv k) key p = Inr (nonce, c)"
  shows "Decrypt (sv_cipher sv) key nonce c = Inr p"
proof -
  from assms(4) obtain n where n: "sv_rand sv k gcm_nonce_size = Inr n"
    by (auto simp: Encrypt_def EncryptWithAAD_def split: sum.splits)
  with assms(1) have "length n = gcm_nonce_size" by (simp add: services_ok_def)
  with EncryptWithAAD_ok [of "sv_cipher sv" key "sv_rand sv k" n p "[]"] n assms show ?thesis
    by (auto simp: services_ok_def Encrypt_def Decrypt_def)
qed

text \<open>As before, with the reply of the early return.\<close>

lemma guard_reply:
  "(if b then (ap, respond e) else k) = (ap', r) \<Longrightarrow> (rs_reply r = e \<Longrightarrow> P) \<Longrightarrow> (\<not> b \<Longrightarrow> k = (ap', r) \<Longrightarrow> P) \<Longrightarrow> P"
  by (auto simp: respond_def split: if_splits)

lemma try_reply:
  "(case x of Inl m \<Rightarrow> (ap, respond e) | Inr a \<Rightarrow> k a) = (ap', r) \<Longrightarrow> (rs_reply r = e \<Longrightarrow> P) \<Longrightarrow>
   (\<And>a. x = Inr a \<Longrightarrow> k a = (ap', r) \<Longrightarrow> P) \<Longrightarrow> P"
  by (cases x) (auto simp: respond_def)

lemma store_reply:
  "(case y of (s', Inl m) \<Rightarrow> (f s', respond e) | (s', Inr u) \<Rightarrow> (g s', respond e')) = (ap', r) \<Longrightarrow> (rs_reply r = e \<Longrightarrow> P) \<Longrightarrow>
   (\<And>s' u. y = (s', Inr u) \<Longrightarrow> ap' = g s' \<Longrightarrow> P) \<Longrightarrow> P"
  by (auto simp: respond_def split: prod.splits sum.splits)

text \<open>
  C30: When a secret has been saved through the form, what a release will read for that application,
  environment, target and name is a ciphertext that decrypts under the master key in memory to
  exactly the submitted value. Key and sessions are unchanged.
\<close>

theorem saved_secret_reaches_the_release:
  assumes sv: "services_ok sv" and key: "key_ok (keyCopy ap)"
    and size: "length (rq_form rq ''value'') \<le> (2 ^ 32 - 2) * 16"
    and run: "saveSecret sv t0 t t' rq ap = (ap', r)"
    and saved: "rs_reply r = Redirect (secrets_url rq (secretEnvironment (rq_form rq ''environment'')) (secretTarget (rq_form rq ''target'')))"
  shows "\<exists>i a nonce c. parse_int (rq_path_value rq ''id'') = Some i \<and> Application i (ap_db ap) = Inr a \<and>
    ApplicationSecret (app_id a) (secretEnvironment (rq_form rq ''environment'')) (secretTarget (rq_form rq ''target''))
      (trim_space (rq_form rq ''name'')) (ap_db ap') = Inr (nonce, c) \<and>
    Decrypt (sv_cipher sv) (keyCopy ap') nonce c = Inr (to_bytes (rq_form rq ''value'')) \<and>
    ap' = ap\<lparr>ap_db := ap_db ap'\<rparr>"
proof -
  have other: "rs_reply r \<noteq> Redirect ''/unlock''" by (simp add: saved secrets_url_def application_url_def)
  from run show ?thesis unfolding saveSecret_def
  proof (cases rule: for_application_cases)
    case refused
    with saved other show ?thesis by auto
  next
    case (body i a)
    from body(4) show ?thesis
      unfolding Let_def
    proof (elim guard_reply try_reply)
      fix v
      assume enc: "Encrypt (sv_cipher sv) (sv_rand sv 0) (keyCopy ap) (to_bytes (rq_form rq ''value'')) = Inr v"
      obtain nonce c where v: "v = (nonce, c)" by (cases v)
      note d = Encrypt_decrypts [OF sv key _ enc [unfolded v]]
      assume "(case v of (nonce, ciphertext) \<Rightarrow>
          (case PutApplicationSecret t t' (app_id a) (secretEnvironment (rq_form rq ''environment'')) (secretTarget (rq_form rq ''target''))
              (trim_space (rq_form rq ''name'')) nonce ciphertext (ap_db ap) of
             (s', Inl _) \<Rightarrow> (ap\<lparr>ap_db := s'\<rparr>, respond (Page 500 ''Secrets'' ''No se pudo guardar el secreto.''))
           | (s', Inr _) \<Rightarrow> (ap\<lparr>ap_db := s'\<rparr>, respond (Redirect (secrets_url rq
               (secretEnvironment (rq_form rq ''environment'')) (secretTarget (rq_form rq ''target'')))))) ) = (ap', r)"
      then show ?thesis unfolding v prod.case
      proof (rule store_reply)
        fix s' u
        assume put: "PutApplicationSecret t t' (app_id a) (secretEnvironment (rq_form rq ''environment''))
            (secretTarget (rq_form rq ''target'')) (trim_space (rq_form rq ''name'')) nonce c (ap_db ap) = (s', Inr u)"
          and ap': "ap' = ap\<lparr>ap_db := s'\<rparr>"
        then show ?thesis using body(2,3) PutApplicationSecret_reads [of t t' "app_id a"] d size
          by (auto simp: keyCopy_def to_bytes_def)
      qed (use saved in simp)
    qed (use saved other in simp_all)
  qed
qed

definition demo_secret_app :: app where
  "demo_secret_app = demo_push_app\<lparr>ap_key := replicate 32 1, ap_sessions := [(''s'', 5000)]\<rparr>"

definition demo_secret_form :: request where
  "demo_secret_form = (demo_request ''/applications/7/secrets'' '''')\<lparr>rq_cookie := Some ''s'', rq_path_value := (\<lambda>_. ''7''),
     rq_form := (\<lambda>k. if k = ''name'' then ''TOKEN'' else if k = ''value'' then ''hunter2'' else '''')\<rparr>"

lemma demo_secret_form_fields [simp]:
  "rq_form demo_secret_form ''name'' = ''TOKEN''" "rq_form demo_secret_form ''value'' = ''hunter2''"
  "rq_form demo_secret_form ''environment'' = ''''" "rq_form demo_secret_form ''target'' = ''''" "rq_form_ok demo_secret_form"
  "rq_path_value demo_secret_form k = ''7''" "trim_space ''TOKEN'' = ''TOKEN''" "validSecretName ''TOKEN''"
  "authorized 100 demo_secret_form demo_secret_app" "keyCopy demo_secret_app = replicate 32 1"
  "ap_db demo_secret_app = ap_db demo_push_app"
  by (simp_all add: demo_secret_form_def demo_request_def authorized_def demo_secret_app_def keyCopy_def) code_simp+

lemma demo_secret_saved:
  "\<exists>ap' r. saveSecret demo_services 100 101 102 demo_secret_form demo_secret_app = (ap', r) \<and>
     rs_reply r = Redirect (secrets_url demo_secret_form ''production'' ''runtime'')"
proof -
  obtain c where "Encrypt (sv_cipher demo_services) (sv_rand demo_services 0) (replicate 32 1) (to_bytes ''hunter2'') = Inr (replicate gcm_nonce_size 0, c)"
    using EncryptWithAAD_ok [OF demo_cipher_ok, of "replicate 32 1" "sv_rand demo_services 0" "replicate gcm_nonce_size 0" "to_bytes ''hunter2''" "[]"]
    by (auto simp: Encrypt_def key_ok_def demo_services_def to_bytes_def)
  moreover have "\<exists>s'. PutApplicationSecret 101 102 7 ''production'' ''runtime'' ''TOKEN'' (replicate gcm_nonce_size 0) c
      (ap_db demo_push_app) = (s', Inr ())"
    by (simp add: PutApplicationSecret_def validEnvironmentAndTarget_def Let_def configuration_exists_def audit_secret_def
        app_exists_def PutSecret_def) (simp add: demo_push_app_def empty_db_def)
  ultimately show ?thesis
    by (simp add: saveSecret_def for_application_def requireAuthorization_def applicationData_def Application_def Let_def
        secretEnvironment_def secretTarget_def respond_def) fastforce
qed

theorem saved_secret_reaches_the_release_witness:
  "\<exists>ap' nonce c. fst (saveSecret demo_services 100 101 102 demo_secret_form demo_secret_app) = ap' \<and>
     ApplicationSecret 7 ''production'' ''runtime'' ''TOKEN'' (ap_db ap') = Inr (nonce, c) \<and>
     Decrypt demo_cipher (replicate 32 1) nonce c = Inr (to_bytes ''hunter2'')"
proof -
  obtain ap' r where r: "saveSecret demo_services 100 101 102 demo_secret_form demo_secret_app = (ap', r)"
      "rs_reply r = Redirect (secrets_url demo_secret_form ''production'' ''runtime'')"
    using demo_secret_saved by blast
  have names: "secretEnvironment '''' = ''production''" "secretTarget '''' = ''runtime''"
    by (simp_all add: secretEnvironment_def secretTarget_def)
  have key: "key_ok (keyCopy demo_secret_app)" by (simp add: key_ok_def)
  obtain i a nonce c where known: "parse_int ''7'' = Some i" "Application i (ap_db demo_push_app) = Inr a"
    and read: "ApplicationSecret (app_id a) ''production'' ''runtime'' ''TOKEN'' (ap_db ap') = Inr (nonce, c)"
    and plain: "Decrypt (sv_cipher demo_services) (keyCopy ap') nonce c = Inr (to_bytes ''hunter2'')"
    and ap': "ap' = demo_secret_app\<lparr>ap_db := ap_db ap'\<rparr>"
    using saved_secret_reaches_the_release [OF demo_services_ok key _ r(1)] r(2) by (auto simp: names)
  have "app_id a = 7" using known by (auto simp: Application_def split: if_splits)
  moreover have "keyCopy ap' = replicate 32 1" by (subst ap') (simp add: keyCopy_def demo_secret_app_def)
  moreover have "sv_cipher demo_services = demo_cipher" by (simp add: demo_services_def)
  ultimately show ?thesis using r(1) read plain by auto
qed

end
