(* ===== verification/Civil_Time.thy ===== *)
theory Civil_Time
  imports Prelude
begin

text \<open>
  Package \<^verbatim>\<open>time\<close> as far as backups use it: the calendar of a UTC time and the two
  layouts it is written in. A time counts nanoseconds from January 1 of year 1, so that the
  Gregorian cycle of 400 years (146097 days) starts there. The stamps of backup files sort like
  the times they were taken.
\<close>

section \<open>The calendar\<close>

definition leap_year :: "int \<Rightarrow> bool" where
  "leap_year y \<longleftrightarrow> 4 dvd y \<and> (\<not> 100 dvd y \<or> 400 dvd y)"

definition year_days :: "int \<Rightarrow> int" where
  "year_days y = (if leap_year y then 366 else 365)"

lemma year_days_pos [simp]: "0 < year_days y"
  by (simp add: year_days_def)

text \<open>The year that day \<open>d\<close> from the start of year \<open>y\<close> falls in, and its day there.\<close>

function year_loop :: "int \<Rightarrow> int \<Rightarrow> int \<times> int" where
  "year_loop y d = (if d < year_days y then (y, d) else year_loop (y + 1) (d - year_days y))"
  by pat_completeness auto
termination
proof (relation "measure (\<lambda>(y, d). nat d)")
  fix y d
  assume "\<not> d < year_days y"
  then show "((y + 1, d - year_days y), y, d) \<in> measure (\<lambda>(y, d). nat d)"
    using year_days_pos [of y] by (simp del: year_days_pos)
qed simp

declare year_loop.simps [simp del]

definition month_lengths :: "int \<Rightarrow> int list" where
  "month_lengths y = [31, if leap_year y then 29 else 28, 31, 30, 31, 30, 31, 31, 30, 31, 30, 31]"

fun month_loop :: "int list \<Rightarrow> int \<Rightarrow> int \<Rightarrow> int \<times> int" where
  "month_loop [] m d = (m, d)"
| "month_loop (l # ls) m d = (if d < l \<or> ls = [] then (m, d) else month_loop ls (m + 1) (d - l))"

definition day_length :: duration where
  "day_length = 24 * hour"

definition civil_year :: "time \<Rightarrow> int \<times> int" where
  "civil_year t =
     (let days = t div day_length in year_loop (400 * (days div 146097) + 1) (days mod 146097))"

definition civil_date :: "time \<Rightarrow> int \<times> int \<times> int" where
  "civil_date t = (let (y, d) = civil_year t; (m, k) = month_loop (month_lengths y) 1 d in (y, m, k + 1))"

definition clock_time :: "time \<Rightarrow> int \<times> int \<times> int" where
  "clock_time t =
     (let s = (t mod day_length) div second in (s div 3600, (s div 60) mod 60, s mod 60))"

section \<open>Layouts\<close>

fun pad :: "nat \<Rightarrow> int \<Rightarrow> string" where
  "pad 0 n = ''''"
| "pad (Suc k) n = pad k (n div 10) @ [digit_char (nat (n mod 10))]"

text \<open>
  Layout \<^verbatim>\<open>20060102-150405\<close> for the years 0 to 9999; outside them the year has more
  digits or a sign.
\<close>

definition year_text :: "int \<Rightarrow> string" where
  "year_text y =
     (if 0 \<le> y \<and> y \<le> 9999 then pad 4 y
      else if y < 0 then ''-'' @ (if y \<ge> - 9999 then pad 4 (- y) else show_int (- y)) else show_int y)"

definition compact_stamp :: "time \<Rightarrow> string" where
  "compact_stamp t =
     (case civil_date t of (y, m, d) \<Rightarrow> case clock_time t of (h, mi, s) \<Rightarrow>
        year_text y @ pad 2 m @ pad 2 d @ ''-'' @ pad 2 h @ pad 2 mi @ pad 2 s)"

definition rfc3339 :: "time \<Rightarrow> string" where
  "rfc3339 t =
     (case civil_date t of (y, m, d) \<Rightarrow> case clock_time t of (h, mi, s) \<Rightarrow>
        year_text y @ ''-'' @ pad 2 m @ ''-'' @ pad 2 d @ ''T'' @ pad 2 h @ '':'' @ pad 2 mi @ '':'' @ pad 2 s @ ''Z'')"

section \<open>The order of stamps\<close>

text \<open>A later day is in a later year or on a later day of the same year.\<close>

definition lex_less :: "int \<times> int \<Rightarrow> int \<times> int \<Rightarrow> bool" where
  "lex_less p q \<longleftrightarrow> fst p < fst q \<or> fst p = fst q \<and> snd p < snd q"

lemma year_loop_ge: "y \<le> fst (year_loop y d)"
proof (induction y d rule: year_loop.induct)
  case (1 y d)
  then show ?case by (subst year_loop.simps) (auto simp: not_less)
qed

lemma year_loop_day: "0 \<le> d \<Longrightarrow> 0 \<le> snd (year_loop y d) \<and> snd (year_loop y d) < year_days (fst (year_loop y d))"
proof (induction y d rule: year_loop.induct)
  case (1 y d)
  then show ?case by (subst (1 2 3) year_loop.simps) auto
qed

lemma year_loop_mono: "d1 < d2 \<Longrightarrow> lex_less (year_loop y d1) (year_loop y d2)"
proof (induction y d1 arbitrary: d2 rule: year_loop.induct)
  case (1 y d1)
  show ?case
  proof (cases "d1 < year_days y")
    case True
    moreover have "y < fst (year_loop y d2)" if "\<not> d2 < year_days y"
      using that year_loop_ge [of "y + 1" "d2 - year_days y"] by (subst year_loop.simps) simp
    ultimately show ?thesis
      using 1 by (cases "d2 < year_days y") (simp_all add: lex_less_def year_loop.simps [of y d1] year_loop.simps [of y d2])
  next
    case False
    with 1 show ?thesis by (simp add: year_loop.simps [of y d1] year_loop.simps [of y d2])
  qed
qed

text \<open>Within one cycle the year stays in the cycle.\<close>

fun years_total :: "nat \<Rightarrow> int \<Rightarrow> int" where
  "years_total 0 y = 0"
| "years_total (Suc n) y = year_days y + years_total n (y + 1)"

lemma year_loop_bound: "0 \<le> d \<Longrightarrow> d < years_total n y \<Longrightarrow> fst (year_loop y d) < y + int n"
proof (induction n arbitrary: y d)
  case (Suc n)
  show ?case
  proof (cases "d < year_days y")
    case False
    with Suc.prems Suc.IH [of "d - year_days y" "y + 1"] show ?thesis
      by (subst year_loop.simps) simp
  qed (simp add: year_loop.simps [of y d])
qed simp

lemma leap_year_cycle: "leap_year (400 * e + y) = leap_year y"
proof -
  have "4 dvd 400 * e + y \<longleftrightarrow> 4 dvd y" "100 dvd 400 * e + y \<longleftrightarrow> 100 dvd y" "400 dvd 400 * e + y \<longleftrightarrow> 400 dvd y"
    by (auto simp: dvd_add_right_iff)
  then show ?thesis by (simp add: leap_year_def)
qed

lemma years_total_cycle: "years_total n (400 * e + y) = years_total n y"
proof (induction n arbitrary: y)
  case (Suc n)
  from Suc [of "y + 1"] show ?case by (simp add: year_days_def leap_year_cycle add.assoc)
qed simp

lemma cycle_total: "years_total 400 1 = 146097"
  by code_simp

lemma civil_year_bounds: "400 * (t div day_length div 146097) + 1 \<le> fst (civil_year t) \<and>
    fst (civil_year t) < 400 * (t div day_length div 146097) + 401"
  using year_loop_ge year_loop_bound [of "t div day_length mod 146097" 400 "400 * (t div day_length div 146097) + 1"]
    years_total_cycle [of 400 _ 1] cycle_total
  by (simp add: civil_year_def Let_def)

lemma civil_year_mono:
  assumes "t1 div day_length < t2 div day_length"
  shows "lex_less (civil_year t1) (civil_year t2)"
proof (cases "t1 div day_length div 146097 = t2 div day_length div 146097")
  case True
  with assms have "t1 div day_length mod 146097 < t2 div day_length mod 146097"
    using mult_div_mod_eq [of 146097 "t1 div day_length"] mult_div_mod_eq [of 146097 "t2 div day_length"] by linarith
  with True show ?thesis by (simp add: civil_year_def Let_def year_loop_mono)
next
  case False
  with assms have "t1 div day_length div 146097 < t2 div day_length div 146097"
    using zdiv_mono1 [of "t1 div day_length" "t2 div day_length" 146097] by simp
  then show ?thesis using civil_year_bounds [of t1] civil_year_bounds [of t2] by (simp add: lex_less_def)
qed

lemma month_loop_ge: "m \<le> fst (month_loop ls m d)"
  by (induction ls m d rule: month_loop.induct) auto

lemma month_loop_mono: "d1 < d2 \<Longrightarrow> lex_less (month_loop ls m d1) (month_loop ls m d2)"
proof (induction ls m d1 arbitrary: d2 rule: month_loop.induct)
  case (2 l ls m d1)
  show ?case
  proof (cases "d1 < l \<and> \<not> (d2 < l \<or> ls = [])")
    case True
    then show ?thesis using 2(2) month_loop_ge [of "m + 1" ls "d2 - l"] by (simp add: lex_less_def)
  next
    case False
    with 2 show ?thesis by (auto simp: lex_less_def)
  qed
qed (simp add: lex_less_def)

lemma month_loop_bounds:
  assumes "0 \<le> d" and "d < sum_list ls" and "\<forall>l\<in>set ls. l \<le> 31"
  shows "fst (month_loop ls m d) < m + int (length ls) \<and> 0 \<le> snd (month_loop ls m d) \<and> snd (month_loop ls m d) < 31"
  using assms
proof (induction ls m d rule: month_loop.induct)
  case (2 l ls m d)
  then show ?case by (cases "d < l \<or> ls = []") auto
qed simp

definition date_ok :: "int \<times> int \<times> int \<Rightarrow> bool" where
  "date_ok q \<longleftrightarrow> (case q of (y, m, d) \<Rightarrow> 0 < m \<and> m \<le> 12 \<and> 0 < d \<and> d \<le> 31)"

lemma civil_date_ok: "date_ok (civil_date t)"
proof -
  obtain y d where yd: "civil_year t = (y, d)" by fastforce
  then have "0 \<le> d" "d < year_days y"
    using year_loop_day [of "t div day_length mod 146097" "400 * (t div day_length div 146097) + 1"]
    by (simp_all add: civil_year_def Let_def)
  moreover have "sum_list (month_lengths y) = year_days y" by (simp add: month_lengths_def year_days_def)
  moreover have "\<forall>l\<in>set (month_lengths y). l \<le> 31" by (simp add: month_lengths_def)
  moreover have "length (month_lengths y) = 12" by (simp add: month_lengths_def)
  ultimately show ?thesis
    using month_loop_bounds [of d "month_lengths y" 1] month_loop_ge [of 1 "month_lengths y" d]
    by (auto simp: civil_date_def yd date_ok_def split: prod.split)
qed

lemma civil_date_mono:
  assumes "t1 div day_length < t2 div day_length" "civil_date t1 = (y1, m1, d1)" "civil_date t2 = (y2, m2, d2)"
  shows "y1 < y2 \<or> y1 = y2 \<and> (m1 < m2 \<or> m1 = m2 \<and> d1 < d2)"
proof -
  obtain u1 k1 where 1: "civil_year t1 = (u1, k1)" by fastforce
  obtain u2 k2 where 2: "civil_year t2 = (u2, k2)" by fastforce
  from civil_year_mono [OF assms(1)] 1 2 have "u1 < u2 \<or> u1 = u2 \<and> k1 < k2" by (simp add: lex_less_def)
  with 1 2 assms(2,3) month_loop_mono [of k1 k2 "month_lengths u1" 1] show ?thesis
    by (auto simp: civil_date_def lex_less_def split: prod.splits)
qed

lemma day_seconds: "0 \<le> (t mod day_length) div second \<and> (t mod day_length) div second < 86400"
proof -
  have "0 \<le> t mod day_length" "t mod day_length < 86400 * second" by (simp_all add: day_length_def)
  then show ?thesis by (simp add: pos_imp_zdiv_nonneg_iff div_less_iff_less_mult)
qed

lemma clock_fields:
  fixes q :: int
  assumes "0 \<le> q" "q < 86400"
  shows "0 \<le> q div 3600 \<and> q div 3600 < 24 \<and> 0 \<le> q div 60 mod 60 \<and> q div 60 mod 60 < 60 \<and> 0 \<le> q mod 60 \<and> q mod 60 < 60"
  using assms by (simp add: pos_imp_zdiv_nonneg_iff div_less_iff_less_mult)

lemma clock_time_bounds:
  assumes "clock_time t = (h, i, s)"
  shows "0 \<le> h \<and> h < 24 \<and> 0 \<le> i \<and> i < 60 \<and> 0 \<le> s \<and> s < 60"
  using clock_fields [of "(t mod day_length) div second"] day_seconds [of t] assms
  unfolding clock_time_def Let_def prod.inject by metis

lemma div_mod_order:
  fixes a b :: int
  assumes "a < b"
  shows "a div 60 < b div 60 \<or> a div 60 = b div 60 \<and> a mod 60 < b mod 60"
proof (cases "a div 60 = b div 60")
  case True
  with assms show ?thesis by (simp add: minus_mult_div_eq_mod [symmetric])
next
  case False
  with zdiv_mono1 [of a b 60] assms show ?thesis by simp
qed

lemma seconds_order:
  fixes p q :: int
  assumes "p \<le> q"
  shows "p div 3600 < q div 3600 \<or> p div 3600 = q div 3600 \<and>
    (p div 60 mod 60 < q div 60 mod 60 \<or> p div 60 mod 60 = q div 60 mod 60 \<and> p mod 60 \<le> q mod 60)"
proof -
  have split: "r div 3600 = r div 60 div 60" for r :: int using zdiv_zmult2_eq [of 60 r 60] by simp
  show ?thesis
    unfolding split using div_mod_order [of p q] div_mod_order [of "p div 60" "q div 60"] assms
    unfolding order.order_iff_strict by metis
qed

lemma clock_time_mono:
  assumes "t1 \<le> t2" "t1 div day_length = t2 div day_length" "clock_time t1 = (h1, i1, s1)" "clock_time t2 = (h2, i2, s2)"
  shows "h1 < h2 \<or> h1 = h2 \<and> (i1 < i2 \<or> i1 = i2 \<and> s1 \<le> s2)"
proof -
  have "t1 mod day_length \<le> t2 mod day_length"
    using assms(1,2) by (simp add: minus_mult_div_eq_mod [symmetric])
  then have "(t1 mod day_length) div second \<le> (t2 mod day_length) div second" by (rule zdiv_mono1) simp
  from seconds_order [OF this] show ?thesis
    using assms(3,4) unfolding clock_time_def Let_def prod.inject by metis
qed

text \<open>Fields of the same width sort like the numbers they show.\<close>

lemma append_order: "length a = length b \<Longrightarrow> a < b \<or> a = b \<and> x \<le> y \<Longrightarrow> a @ x \<le> b @ (y :: string)"
  by (induction a b rule: list_induct2) auto

lemma append_strict: "length a = length b \<Longrightarrow> a < b \<Longrightarrow> a @ x < b @ (y :: string)"
  by (induction a b rule: list_induct2) auto

lemma append_common: "p < q \<Longrightarrow> a @ [p] < a @ [q :: char]"
  by (induction a) auto

lemma length_pad [simp]: "length (pad k n) = k"
  by (induction k n rule: pad.induct) auto

lemma digit_char_less: "m < n \<Longrightarrow> n \<le> 9 \<Longrightarrow> digit_char m < digit_char n"
  by (simp add: digit_char_def less_char_def of_char_of)

lemma pad_less: "a < b \<Longrightarrow> 0 \<le> a \<Longrightarrow> b < 10 ^ k \<Longrightarrow> pad k a < pad k b"
proof (induction k arbitrary: a b)
  case (Suc k)
  show ?case
  proof (cases "a div 10 = b div 10")
    case True
    with Suc.prems have "a mod 10 < b mod 10"
      using mult_div_mod_eq [of 10 a] mult_div_mod_eq [of 10 b] by linarith
    moreover have "0 \<le> a mod 10" "b mod 10 < 10" by simp_all
    ultimately have "digit_char (nat (a mod 10)) < digit_char (nat (b mod 10))"
      by (intro digit_char_less) linarith+
    with True show ?thesis by (simp add: append_common)
  next
    case False
    with Suc.prems have "a div 10 < b div 10" using zdiv_mono1 [of a b 10] by simp
    moreover have "0 \<le> a div 10" using Suc.prems by simp
    moreover have "b div 10 < 10 ^ k" using Suc.prems by (simp add: div_less_iff_less_mult)
    ultimately have "pad k (a div 10) < pad k (b div 10)" by (rule Suc.IH)
    then show ?thesis by (simp add: append_strict)
  qed
qed simp

lemma pad_step:
  assumes "0 \<le> a" "b < 10 ^ k" "a < b \<or> a = b \<and> x \<le> y"
  shows "pad k a @ x \<le> pad k b @ y"
  using assms pad_less [of a b k] by (intro append_order) auto

theorem compact_stamp_mono:
  assumes "t1 \<le> t2" and "0 \<le> fst (civil_date t1)" and "fst (civil_date t2) \<le> 9999"
  shows "compact_stamp t1 \<le> compact_stamp t2"
proof -
  obtain y1 m1 d1 where 1: "civil_date t1 = (y1, m1, d1)" by (metis prod_cases3)
  obtain y2 m2 d2 where 2: "civil_date t2 = (y2, m2, d2)" by (metis prod_cases3)
  obtain h1 i1 s1 where c1: "clock_time t1 = (h1, i1, s1)" by (metis prod_cases3)
  obtain h2 i2 s2 where c2: "clock_time t2 = (h2, i2, s2)" by (metis prod_cases3)
  have dates: "y1 < y2 \<or> y1 = y2 \<and> (m1 < m2 \<or> m1 = m2 \<and> (d1 < d2 \<or> d1 = d2 \<and> t1 div day_length = t2 div day_length))"
  proof (cases "t1 div day_length = t2 div day_length")
    case True
    then have "civil_date t1 = civil_date t2" by (simp add: civil_date_def civil_year_def)
    with 1 2 True show ?thesis by simp
  next
    case False
    then have "t1 div day_length < t2 div day_length"
      using assms(1) zdiv_mono1 [of t1 t2 day_length] by (simp add: day_length_def)
    from civil_date_mono [OF this 1 2] show ?thesis by blast
  qed
  have ok: "date_ok (y1, m1, d1)" "date_ok (y2, m2, d2)" using civil_date_ok 1 2 by metis+
  have times: "h1 < h2 \<or> h1 = h2 \<and> (i1 < i2 \<or> i1 = i2 \<and> s1 \<le> s2)" if "t1 div day_length = t2 div day_length"
    using clock_time_mono [OF assms(1) that c1 c2] .
  have y: "year_text y1 = pad 4 y1" "year_text y2 = pad 4 y2" "0 \<le> y1" "y2 \<le> 9999"
    using dates assms(2,3) 1 2 by (auto simp: year_text_def)
  have b: "0 \<le> h1" "0 \<le> i1" "0 \<le> s1" "h2 < 100" "i2 < 100" "s2 < 100"
    using clock_time_bounds [OF c1] clock_time_bounds [OF c2] by auto
  have clock: "pad 2 h1 @ pad 2 i1 @ pad 2 s1 \<le> pad 2 h2 @ pad 2 i2 @ pad 2 s2" if "t1 div day_length = t2 div day_length"
    using times [OF that] b pad_step [of s1 s2 2 "[]" "[]"] order.order_iff_strict [of s1 s2]
    by (intro pad_step) (auto intro!: pad_step)
  show ?thesis
    unfolding compact_stamp_def 1 2 c1 c2 prod.case y(1,2)
    using dates ok y(3,4) clock by (intro pad_step) (auto simp: date_ok_def intro!: pad_step)
qed

end
