(* ===== verification/App_Operations.thy ===== *)
theory App_Operations
  imports App_Handlers Civil_Time
begin

text \<open>
  Operation of the host (\<^verbatim>\<open>internal/app/operations.go\<close>): the collector of alerts and
  health evidence, the retention of old deployments, encrypted backups and their rotation
  (\<^verbatim>\<open>internal/backup/s3.go\<close>), and the checks before a deployment. Like the queue worker
  these run beside the request handlers, as jobs that other work may interleave with.
\<close>

section \<open>Surroundings\<close>

text \<open>
  What the operating system, a TLS peer, SQLite and the object storage answer: the blocks and the
  available blocks of a file system; the expiry times of the certificates a peer shows; a directory
  listing; the serialized database; the errors of the AWS SDK while it is configured and while it
  sends an object, with the fate of the stream it was given. \<open>su_percent\<close> and
  \<open>su_days\<close> are the texts of a share of used blocks with one decimal and of a duration as a
  rounded number of days.
\<close>

record s3_config =
  s3_endpoint :: string
  s3_region :: string
  s3_bucket :: string
  s3_prefix :: string
  s3_access_key :: string
  s3_secret_key :: string

datatype stream_end = Consumed | Closed string | Abandoned

record surroundings =
  su_statfs :: "history \<Rightarrow> string \<Rightarrow> string + 64 word \<times> 64 word"
  su_percent :: "64 word \<Rightarrow> 64 word \<Rightarrow> string"
  su_certificates :: "history \<Rightarrow> string \<Rightarrow> string + time list"
  su_days :: "duration \<Rightarrow> string"
  su_listing :: "history \<Rightarrow> string \<Rightarrow> string + string list"
  su_serialize :: "db \<Rightarrow> bytes result"
  su_aws_config :: "s3_config \<Rightarrow> string option"
  su_put :: "history \<Rightarrow> s3_config \<Rightarrow> string \<Rightarrow> string \<Rightarrow> stream_end \<times> string option"

definition run_outside :: "'a prog \<Rightarrow> 'a job" where
  "run_outside p = do { (x, _) \<leftarrow> outside p; State_Monad.return x }"

text \<open>\<^verbatim>\<open>filepath.Dir\<close>.\<close>

definition dir_path :: "string \<Rightarrow> string" where
  "dir_path p = (case last_index CHR ''/'' p of None \<Rightarrow> ''.'' | Some i \<Rightarrow> clean_path (take (Suc i) p))"

text \<open>
  The share of used blocks in percent. The difference of the unsigned counters wraps around; the
  floating-point quotient is taken as the exact one.
\<close>

definition used_percent :: "64 word \<Rightarrow> 64 word \<Rightarrow> rat" where
  "used_percent blocks avail = of_nat (unat (blocks - avail)) * 100 / of_nat (unat blocks)"

definition diskUsage :: "surroundings \<Rightarrow> string \<Rightarrow> (string + rat \<times> string) prog" where
  "diskUsage su path =
     (let dir = dir_path (if path = '''' then ''.'' else path) in do {
        r \<leftarrow> perform (Statfs dir) (\<lambda>h. su_statfs su h dir);
        State_Monad.return (case r of
            Inl err \<Rightarrow> Inl err
          | Inr (blocks, avail) \<Rightarrow>
              if blocks = 0 then Inl ''filesystem has no blocks''
              else Inr (used_percent blocks avail, su_percent su blocks avail))
      })"

definition certificateAlert :: "surroundings \<Rightarrow> world \<Rightarrow> string \<Rightarrow> int \<Rightarrow> string prog" where
  "certificateAlert su w domain threshold =
     (let host = trim_space (hd (split_on CHR '':'' domain))
      in if host = '''' \<or> host = ''localhost'' \<or> ParseIP host then State_Monad.return ''''
         else do {
           r \<leftarrow> perform (TlsDial (JoinHostPort host ''443'')) (\<lambda>h. su_certificates su h host);
           case r of
             Inl _ \<Rightarrow> State_Monad.return (''El certificado de '' @ host @ '' no pudo verificarse.'')
           | Inr [] \<Rightarrow> State_Monad.return (''El certificado de '' @ host @ '' no pudo leerse.'')
           | Inr (notAfter # _) \<Rightarrow> do {
               t \<leftarrow> now w;
               State_Monad.return
                 (if notAfter - t \<le> 0 then ''El certificado de '' @ host @ spanish '' venci~o.''
                  else if notAfter - t \<le> threshold * 24 * hour
                  then ''El certificado de '' @ host @ '' vence en '' @ su_days su (notAfter - t) @ spanish '' d~ias.''
                  else '''')
             }
         })"

section \<open>The collector\<close>

record caches =
  ca_status :: "(int \<times> container_status) list"
  ca_status_err :: "(int \<times> string) list"
  ca_cert_alerts :: "(int \<times> string) list"
  ca_disk_used :: string
  ca_alerts :: "(string \<times> string) list"

text \<open>An alert is written and its message remembered; a failure to write is ignored.\<close>

definition raise_alert ::
    "neighbours \<Rightarrow> string \<Rightarrow> string \<Rightarrow> int option \<Rightarrow> int option \<Rightarrow> string list \<Rightarrow> string list job" where
  "raise_alert nb severity message appID depID active = do {
     _ \<leftarrow> store_call nb (\<lambda>t. UpsertAlert t severity message appID depID);
     State_Monad.return (active @ [message])
   }"

definition raise_if ::
    "neighbours \<Rightarrow> bool \<Rightarrow> string \<Rightarrow> string \<Rightarrow> int option \<Rightarrow> int option \<Rightarrow> string list \<Rightarrow> string list job" where
  "raise_if nb b severity message appID depID active =
     (if b then raise_alert nb severity message appID depID active else State_Monad.return active)"

definition failed_message :: "application \<Rightarrow> string" where
  "failed_message a = spanish ''El ~ultimo despliegue de '' @ app_name a @ spanish '' fall~o.''"

definition unknown_message :: "application \<Rightarrow> string" where
  "unknown_message a = ''No se pudo obtener el estado de '' @ app_name a @ ''.''"

definition unhealthy_message :: "application \<Rightarrow> string" where
  "unhealthy_message a = ''El servicio '' @ app_name a @ spanish '' no est~a saludable.''"

definition probe_message :: "application \<Rightarrow> string" where
  "probe_message a = ''La sonda externa de '' @ app_name a @ spanish '' fall~o.''"

definition collect_disk :: "neighbours \<Rightarrow> surroundings \<Rightarrow> config \<Rightarrow> (string \<times> string list) job" where
  "collect_disk nb su c = do {
     r \<leftarrow> run_outside (diskUsage su (cfg_database_path c));
     case r of
       Inl err \<Rightarrow> do {
         active \<leftarrow> raise_alert nb ''warning'' (''No se pudo consultar el espacio de disco: '' @ err) None None [];
         State_Monad.return ('''', active)
       }
     | Inr (used, text) \<Rightarrow> do {
         active \<leftarrow> raise_if nb (used \<ge> of_int (cfg_disk_alert_percent c)) ''critical''
           (''Espacio de disco al '' @ text @ ''% (umbral: '' @ show_int (cfg_disk_alert_percent c) @ ''%).'') None None [];
         State_Monad.return (text @ ''%'', active)
       }
   }"

definition running_well :: "container_status \<Rightarrow> bool" where
  "running_well st \<longleftrightarrow> cs_state st = ''running'' \<and> cs_health st \<noteq> ''unhealthy''"

definition collect_status ::
    "neighbours \<Rightarrow> application \<Rightarrow> dep_error + container_status \<Rightarrow> caches \<Rightarrow> string list \<Rightarrow> (caches \<times> string list) job" where
  "collect_status nb a r ca active =
     (case r of
        Inl err \<Rightarrow> do {
          active \<leftarrow> raise_if nb (\<not> contains_str (detail_text err) ''Apple Container'') ''warning'' (unknown_message a)
            (Some (app_id a)) None active;
          State_Monad.return (ca\<lparr>ca_status_err := AList.update (app_id a) (detail_text err) (ca_status_err ca)\<rparr>, active)
        }
      | Inr st \<Rightarrow> do {
          active \<leftarrow> raise_if nb (\<not> running_well st) ''critical'' (unhealthy_message a) (Some (app_id a)) None active;
          State_Monad.return (ca\<lparr>ca_status := AList.update (app_id a) st (ca_status ca)\<rparr>, active)
        })"

definition internal_status :: "dep_error + container_status \<Rightarrow> string" where
  "internal_status r = (case r of Inl _ \<Rightarrow> ''unavailable'' | Inr st \<Rightarrow> if running_well st then ''healthy'' else ''failed'')"

definition probe_evidence :: "application \<Rightarrow> dep_error + container_status \<Rightarrow> string \<Rightarrow> route_probe \<Rightarrow> time \<Rightarrow> evidence" where
  "probe_evidence a r routeStatus probe t =
     \<lparr>eh_application_id = app_id a, eh_internal_status = internal_status r, eh_route_status = routeStatus,
      eh_external_status = (if route_probe.rp_success probe then ''successful'' else ''failed''),
      eh_internal_checked_at = t, eh_route_checked_at = t, eh_external_checked_at = route_probe.rp_checked_at probe,
      eh_external_observer = route_probe.rp_observer probe, eh_external_detail = route_probe.rp_detail probe,
      eh_external_http_status = rp_status_code probe\<rparr>"

text \<open>One application; \<open>None\<close> when the fuel of the probe loop runs out.\<close>

definition collect_application ::
    "neighbours \<Rightarrow> surroundings \<Rightarrow> world \<Rightarrow> nat \<Rightarrow> executor \<Rightarrow> config \<Rightarrow> application \<Rightarrow> caches \<Rightarrow> string list \<Rightarrow>
     (caches \<times> string list) option job" where
  "collect_application nb su w fuel e c a ca active = do {
     ds \<leftarrow> store_read nb (Deployments (app_id a));
     active \<leftarrow> raise_if nb (ds \<noteq> [] \<and> d_status (hd ds) = ''failed'') ''critical'' (failed_message a) (Some (app_id a))
       (Some (d_id (hd ds))) active;
     r \<leftarrow> run_outside (Status w e a);
     (ca, active) \<leftarrow> collect_status nb a r ca active;
     p \<leftarrow> run_outside (ProbeRoute w fuel e a);
     case p of
       None \<Rightarrow> State_Monad.return None
     | Some probe \<Rightarrow> do {
         t \<leftarrow> run_outside (now w);
         _ \<leftarrow> store_call nb (\<lambda>_. UpsertHealthEvidence (probe_evidence a r
           (if ds \<noteq> [] \<and> d_status (hd ds) = ''successful'' then ''applied'' else ''not_applied'') probe t));
         _ \<leftarrow> store_call nb (\<lambda>_. RecordRouteProbe (app_id a) (route_probe.rp_success probe) (route_probe.rp_checked_at probe)
           (route_probe.rp_observer probe) (rp_status_code probe) (route_probe.rp_detail probe));
         active \<leftarrow> raise_if nb (\<not> route_probe.rp_success probe) ''critical'' (probe_message a) (Some (app_id a)) None active;
         cert \<leftarrow> run_outside (certificateAlert su w (app_domain a) (cfg_certificate_alert_days c));
         active \<leftarrow> raise_if nb (cert \<noteq> '''') ''warning'' cert (Some (app_id a)) None active;
         State_Monad.return (Some (if cert \<noteq> ''''
           then ca\<lparr>ca_cert_alerts := AList.update (app_id a) cert (ca_cert_alerts ca)\<rparr> else ca, active))
       }
   }"

fun collect_all ::
    "neighbours \<Rightarrow> surroundings \<Rightarrow> world \<Rightarrow> nat \<Rightarrow> executor \<Rightarrow> config \<Rightarrow> application list \<Rightarrow> caches \<Rightarrow> string list \<Rightarrow>
     (caches \<times> string list) option job" where
  "collect_all nb su w fuel e c [] ca active = State_Monad.return (Some (ca, active))"
| "collect_all nb su w fuel e c (a # as) ca active = do {
     r \<leftarrow> collect_application nb su w fuel e c a ca active;
     case r of
       None \<Rightarrow> State_Monad.return None
     | Some (ca, active) \<Rightarrow> collect_all nb su w fuel e c as ca active
   }"

text \<open>The end of a collection: alerts that were not raised again are resolved, the caches replaced.\<close>

definition publish :: "neighbours \<Rightarrow> caches \<Rightarrow> string list \<Rightarrow> caches job" where
  "publish nb ca active = do {
     _ \<leftarrow> store_call nb (\<lambda>t. ResolveAllAlertsExcept t active);
     rows \<leftarrow> store_read nb GetActiveAlerts;
     State_Monad.return (ca\<lparr>ca_alerts := map (\<lambda>r. (al_severity r, al_message r)) rows\<rparr>)
   }"

definition runCollection ::
    "neighbours \<Rightarrow> surroundings \<Rightarrow> world \<Rightarrow> nat \<Rightarrow> executor \<Rightarrow> config \<Rightarrow> caches option job" where
  "runCollection nb su w fuel e c = do {
     apps \<leftarrow> store_read nb Applications;
     (diskUsed, active) \<leftarrow> collect_disk nb su c;
     r \<leftarrow> collect_all nb su w fuel e c apps
       \<lparr>ca_status = [], ca_status_err = [], ca_cert_alerts = [], ca_disk_used = diskUsed, ca_alerts = []\<rparr> active;
     case r of
       None \<Rightarrow> State_Monad.return None
     | Some (ca, active) \<Rightarrow> do { ca \<leftarrow> publish nb ca active; State_Monad.return (Some ca) }
   }"

section \<open>Retention\<close>

definition retentionDays :: "config \<Rightarrow> int" where
  "retentionDays c = (if cfg_retention_days c > 0 then cfg_retention_days c else 30)"

definition retainedImages :: "config \<Rightarrow> int" where
  "retainedImages c = (if cfg_retained_images c > 0 then cfg_retained_images c else 3)"

text \<open>Whether a candidate is cleaned up to its row; \<open>cwd\<close> is the working directory.\<close>

definition clean_candidate :: "string \<Rightarrow> world \<Rightarrow> executor \<Rightarrow> config \<Rightarrow> application \<Rightarrow> deployment \<Rightarrow> bool prog" where
  "clean_candidate cwd w e c a d = do {
     r \<leftarrow> (if d_status d = ''successful'' \<and> d_image d \<noteq> '''' then RemoveImage w e a (d_image d) else State_Monad.return None);
     case r of
       Some _ \<Rightarrow> State_Monad.return False
     | None \<Rightarrow>
         (case deploymentLogPath cwd c (d_log_path d) of
            Inl _ \<Rightarrow> State_Monad.return False
          | Inr path \<Rightarrow> do {
              removed \<leftarrow> disk w (RemoveFile path);
              State_Monad.return (case removed of Inr _ \<Rightarrow> True | Inl err \<Rightarrow> is_not_exist err)
            })
   }"

fun clean_candidates :: "string \<Rightarrow> world \<Rightarrow> executor \<Rightarrow> config \<Rightarrow> application \<Rightarrow> deployment list \<Rightarrow> int list prog" where
  "clean_candidates cwd w e c a [] = State_Monad.return []"
| "clean_candidates cwd w e c a (d # ds) = do {
     gone \<leftarrow> clean_candidate cwd w e c a d;
     ids \<leftarrow> clean_candidates cwd w e c a ds;
     State_Monad.return (if gone then d_id d # ids else ids)
   }"

fun retain_all :: "neighbours \<Rightarrow> string \<Rightarrow> world \<Rightarrow> executor \<Rightarrow> config \<Rightarrow> time \<Rightarrow> application list \<Rightarrow> error option job" where
  "retain_all nb cwd w e c before [] = State_Monad.return None"
| "retain_all nb cwd w e c before (a # as) = do {
     candidates \<leftarrow> store_read nb (RetentionCandidates (app_id a) before (retainedImages c));
     ids \<leftarrow> run_outside (clean_candidates cwd w e c a candidates);
     r \<leftarrow> store_call nb (\<lambda>_. DeleteDeployments (app_id a) ids);
     case r of Inl err \<Rightarrow> State_Monad.return (Some err) | Inr _ \<Rightarrow> retain_all nb cwd w e c before as
   }"

definition runRetention :: "neighbours \<Rightarrow> string \<Rightarrow> world \<Rightarrow> executor \<Rightarrow> config \<Rightarrow> error option job" where
  "runRetention nb cwd w e c = do {
     apps \<leftarrow> store_read nb Applications;
     t \<leftarrow> run_outside (now w);
     retain_all nb cwd w e c (t - retentionDays c * day_length) apps
   }"

section \<open>Backups\<close>

definition s3_validate :: "s3_config \<Rightarrow> string option" where
  "s3_validate c =
     (if trim_space (s3_bucket c) = '''' then Some ''backup S3 bucket is required''
      else if trim_space (s3_access_key c) = '''' \<or> trim_space (s3_secret_key c) = '''' then Some ''backup S3 credentials are required''
      else None)"

definition object_key :: "s3_config \<Rightarrow> string \<Rightarrow> string" where
  "object_key c key = trim_prefix (trim_suffix (s3_prefix c) ''/'' @ ''/'' @ key) ''/''"

definition UploadS3 :: "surroundings \<Rightarrow> s3_config \<Rightarrow> string \<Rightarrow> string \<Rightarrow> (stream_end \<times> string option) prog" where
  "UploadS3 su c key body =
     (case s3_validate c of
        Some err \<Rightarrow> State_Monad.return (Abandoned, Some err)
      | None \<Rightarrow>
          (let c = (if s3_region c = '''' then c\<lparr>s3_region := ''us-east-1''\<rparr> else c)
           in case su_aws_config su c of
                Some err \<Rightarrow> State_Monad.return (Abandoned, Some (''load S3 configuration: '' @ err))
              | None \<Rightarrow> do {
                  (fate, err) \<leftarrow> perform (PutObject (s3_bucket c) (object_key c key) body)
                    (\<lambda>h. su_put su h c (object_key c key) body);
                  State_Monad.return (fate, map_option (\<lambda>e. ''upload backup to S3: '' @ e) err)
                }))"

definition Snapshot :: "surroundings \<Rightarrow> db \<Rightarrow> bytes result" where
  "Snapshot su s =
     (case su_serialize su s of
        Inl e \<Rightarrow> Inl (ErrMsg (''serialize SQLite database: '' @ error_text e))
      | Inr b \<Rightarrow> if b = [] then Inl (ErrMsg ''empty SQLite snapshot'') else Inr b)"

definition note_error :: "neighbours \<Rightarrow> string \<Rightarrow> string \<Rightarrow> dep_error option job" where
  "note_error nb text err = do {
     _ \<leftarrow> store_call nb (\<lambda>_. SetSettingString ''backup_last_error'' text);
     State_Monad.return (Some (Plain err))
   }"

definition note_success :: "neighbours \<Rightarrow> unit job" where
  "note_success nb = do {
     _ \<leftarrow> store_call nb (\<lambda>t. SetSettingString ''backup_last_success'' (rfc3339 t));
     _ \<leftarrow> store_call nb (\<lambda>_. SetSettingString ''backup_last_error'' '''');
     State_Monad.return ()
   }"

definition backup_s3 :: "config \<Rightarrow> s3_config" where
  "backup_s3 c = \<lparr>s3_endpoint = cfg_backup_s3_endpoint c, s3_region = cfg_backup_s3_region c, s3_bucket = cfg_backup_s3_bucket c,
     s3_prefix = cfg_backup_s3_prefix c, s3_access_key = cfg_backup_s3_access_key c, s3_secret_key = cfg_backup_s3_secret_key c\<rparr>"

text \<open>
  The archive goes through a pipe: the write ends when the other side has read everything or has
  closed it, and never if the upload gives up without doing either.
\<close>

definition upload_backup :: "neighbours \<Rightarrow> surroundings \<Rightarrow> config \<Rightarrow> string \<Rightarrow> string \<Rightarrow> dep_error option job" where
  "upload_backup nb su c name encoded =
     (case s3_validate (backup_s3 c) of
        Some err \<Rightarrow> note_error nb err err
      | None \<Rightarrow> do {
          (fate, err) \<leftarrow> run_outside (UploadS3 su (backup_s3 c) name encoded);
          case fate of
            Abandoned \<Rightarrow> State_Monad.return (Some Diverged)
          | Closed text \<Rightarrow> note_error nb text (''stream encrypted backup: '' @ text)
          | Consumed \<Rightarrow>
              (case err of
                 Some e \<Rightarrow> note_error nb e e
               | None \<Rightarrow> do { note_success nb; State_Monad.return None })
        })"

definition is_backup :: "string \<Rightarrow> bool" where
  "is_backup f \<longleftrightarrow> has_prefix f ''backup-'' \<and> has_suffix f ''.mdbk''"

definition backup_retention :: "config \<Rightarrow> nat" where
  "backup_retention c = nat (if cfg_backup_retention c < 1 then 7 else cfg_backup_retention c)"

definition expired_backups :: "config \<Rightarrow> string list \<Rightarrow> string list" where
  "expired_backups c files =
     (let backups = sort (map (\<lambda>f. join_path [cfg_backup_path c, f]) (filter is_backup files))
      in take (length backups - backup_retention c) backups)"

fun remove_expired_files :: "world \<Rightarrow> string list \<Rightarrow> unit prog" where
  "remove_expired_files w [] = State_Monad.return ()"
| "remove_expired_files w (b # bs) = do { _ \<leftarrow> disk w (RemoveFile b); remove_expired_files w bs }"

definition rotate_backups :: "surroundings \<Rightarrow> world \<Rightarrow> config \<Rightarrow> unit prog" where
  "rotate_backups su w c = do {
     r \<leftarrow> perform (Disk (ReadDir (cfg_backup_path c))) (\<lambda>h. su_listing su h (cfg_backup_path c));
     case r of Inl _ \<Rightarrow> State_Monad.return () | Inr files \<Rightarrow> remove_expired_files w (expired_backups c files)
   }"

definition store_backup :: "neighbours \<Rightarrow> surroundings \<Rightarrow> world \<Rightarrow> config \<Rightarrow> string \<Rightarrow> string \<Rightarrow> dep_error option job" where
  "store_backup nb su w c name encoded = do {
     made \<leftarrow> run_outside (disk w (MkdirAll (cfg_backup_path c)));
     case made of
       Inl err \<Rightarrow> note_error nb err (''create backup directory: '' @ err)
     | Inr _ \<Rightarrow> do {
         written \<leftarrow> run_outside (disk w (WriteFile (join_path [cfg_backup_path c, name]) encoded));
         case written of
           Inl err \<Rightarrow> note_error nb err (''write encrypted backup: '' @ err)
         | Inr _ \<Rightarrow> do {
             note_success nb;
             run_outside (rotate_backups su w c);
             State_Monad.return None
           }
       }
   }"

definition locked_message :: string where
  "locked_message = spanish (''MD-P0-02: MiniDock est~a bloqueado; los backups autom~aticos cifrados est~an pausados '' @
     ''hasta el desbloqueo desde la UI.'')"

definition backup_name :: "time \<Rightarrow> string" where
  "backup_name t = ''backup-'' @ compact_stamp t @ ''.mdbk''"

definition deliver_backup :: "neighbours \<Rightarrow> surroundings \<Rightarrow> world \<Rightarrow> config \<Rightarrow> string \<Rightarrow> string \<Rightarrow> dep_error option job" where
  "deliver_backup nb su w c name encoded =
     (if cfg_backup_provider c = ''s3'' \<or> cfg_backup_provider c = ''minio'' then upload_backup nb su c name encoded
      else if cfg_backup_provider c \<noteq> '''' \<and> cfg_backup_provider c \<noteq> ''local''
      then (let err = ''unsupported backup provider '' @ quoted (cfg_backup_provider c) in note_error nb err err)
      else store_backup nb su w c name encoded)"

definition runBackup :: "neighbours \<Rightarrow> services \<Rightarrow> surroundings \<Rightarrow> world \<Rightarrow> config \<Rightarrow> dep_error option job" where
  "runBackup nb sv su w c = do {
     initialized \<leftarrow> store_read nb IsInitialized;
     if \<not> initialized then State_Monad.return None
     else do {
       key \<leftarrow> read_key nb;
       if key = [] then do {
         _ \<leftarrow> store_call nb (\<lambda>t. UpsertAlert t ''warning'' locked_message None None);
         note_error nb (spanish ''MiniDock est~a bloqueado; el respaldo cifrado requiere ingresar la contrase~na en la UI'')
           ''backup key unavailable: unlock MiniDock in the UI''
       }
       else do {
         data \<leftarrow> store_read nb (Snapshot su);
         case data of
           Inl e \<Rightarrow> note_error nb (error_text e) (''snapshot SQLite backup: '' @ error_text e)
         | Inr plain \<Rightarrow> do {
             t \<leftarrow> run_outside (now w);
             case Seal (sv_cipher sv) (sv_rand sv 0) key plain of
               Inl e \<Rightarrow> note_error nb (error_text e) (''encrypt backup: '' @ error_text e)
             | Inr encoded \<Rightarrow> deliver_backup nb su w c (backup_name t) (of_bytes encoded)
           }
       }
     }
   }"

text \<open>The pauses of the backup loop: two seconds, a backup, then one per interval.\<close>

definition backup_interval :: "config \<Rightarrow> duration" where
  "backup_interval c = (if cfg_backup_interval c \<le> 0 then 24 * hour else cfg_backup_interval c)"

end
