(* ===== verification/App_Jobs.thy ===== *)
theory App_Jobs
  imports App_Worker_Props App_Operations
begin

text \<open>
  Two logics for jobs. \<open>hoare view P p R\<close> speaks about a part of the database (its
  \<open>view\<close>) and the history of actions; it is used with neighbours that leave that part alone
  (locale \<open>quiet\<close>). \<open>job_emits P p\<close> bounds the actions of a job whatever its
  neighbours do.
\<close>

named_theorems trace_rules

section \<open>Assertions on a view of the database\<close>

definition hoare :: "(db \<Rightarrow> 'v) \<Rightarrow> ('v \<Rightarrow> history \<Rightarrow> bool) \<Rightarrow> 'a job \<Rightarrow> ('a \<Rightarrow> 'v \<Rightarrow> history \<Rightarrow> bool) \<Rightarrow> bool" where
  "hoare view P p R \<longleftrightarrow>
     (\<forall>ap h k. P (view (ap_db ap)) h \<longrightarrow>
        (case run_state p (ap, h, k) of (x, (ap', h', k')) \<Rightarrow> R x (view (ap_db ap')) h'))"

lemma hoareD:
  "hoare view P p R \<Longrightarrow> P (view (ap_db ap)) h \<Longrightarrow> run_state p (ap, h, k) = (x, (ap', h', k')) \<Longrightarrow> R x (view (ap_db ap')) h'"
  unfolding hoare_def by (metis (no_types, lifting) case_prod_conv)

lemma hoare_return: "(\<And>v h. P v h \<Longrightarrow> R x v h) \<Longrightarrow> hoare view P (State_Monad.return x) R"
  by (simp add: hoare_def)

lemma hoare_bind: "hoare view P p R \<Longrightarrow> (\<And>x. hoare view (R x) (f x) T) \<Longrightarrow> hoare view P (State_Monad.bind p f) T"
  unfolding hoare_def by (fastforce split: prod.splits)

lemma hoare_pre: "hoare view P p R \<Longrightarrow> (\<And>v h. P' v h \<Longrightarrow> P v h) \<Longrightarrow> hoare view P' p R"
  by (simp add: hoare_def)

lemma hoare_post: "hoare view P p R \<Longrightarrow> (\<And>x v h. R x v h \<Longrightarrow> T x v h) \<Longrightarrow> hoare view P p T"
  unfolding hoare_def by (fastforce split: prod.splits)

text \<open>A fact about values read before may be used as such.\<close>

lemma hoare_fact: "(B \<Longrightarrow> hoare view P p R) \<Longrightarrow> hoare view (\<lambda>v h. P v h \<and> B) p R"
  by (cases B) (simp_all add: hoare_def)

lemma run_outside_run: "run_state (run_outside p) (ap, h, k) = (case run_state p h of (x, h') \<Rightarrow> (x, (ap, h', k)))"
  by (simp add: run_outside_def outside_def Let_def split: prod.splits)

lemma hoare_outside: "(\<And>v h. P v h \<Longrightarrow> ensures p (\<lambda>x. R x v) h) \<Longrightarrow> hoare view P (run_outside p) R"
  unfolding hoare_def run_outside_run ensures_def by (fastforce split: prod.splits)

text \<open>An outside call when only the view matters.\<close>

lemma hoare_outside_any: "(\<And>x v h h'. P v h \<Longrightarrow> R x v h') \<Longrightarrow> hoare view P (run_outside p) R"
  by (rule hoare_outside) (simp add: ensures_def case_prod_beta)

lemma hoare_if: "(b \<Longrightarrow> hoare view P p R) \<Longrightarrow> (\<not> b \<Longrightarrow> hoare view P q R) \<Longrightarrow> hoare view P (if b then p else q) R"
  by simp

lemma hoare_sum:
  "(\<And>x. r = Inl x \<Longrightarrow> hoare view P (f x) R) \<Longrightarrow> (\<And>x. r = Inr x \<Longrightarrow> hoare view P (g x) R) \<Longrightarrow>
   hoare view P (case r of Inl x \<Rightarrow> f x | Inr x \<Rightarrow> g x) R"
  by (cases r) auto

lemma hoare_option:
  "(r = None \<Longrightarrow> hoare view P p R) \<Longrightarrow> (\<And>x. r = Some x \<Longrightarrow> hoare view P (f x) R) \<Longrightarrow>
   hoare view P (case r of None \<Rightarrow> p | Some x \<Rightarrow> f x) R"
  by (cases r) auto

lemma hoare_prod: "(\<And>x y. r = (x, y) \<Longrightarrow> hoare view P (f x y) R) \<Longrightarrow> hoare view P (case r of (x, y) \<Rightarrow> f x y) R"
  by (cases r) auto

text \<open>Neighbours that leave the view alone.\<close>

locale quiet =
  fixes nb :: neighbours and view :: "db \<Rightarrow> 'v"
  assumes undisturbed: "view (ap_db (nb_effect nb k ap)) = view (ap_db ap)"
begin

lemma hoare_call:
  assumes "\<And>t s h. P (view s) h \<Longrightarrow> R (snd (op t s)) (view (fst (op t s))) h"
  shows "hoare view P (store_call nb op) R"
  unfolding hoare_def
proof (intro allI impI)
  fix ap :: app and h k
  assume "P (view (ap_db ap)) h"
  with undisturbed [of k ap] have "P (view (ap_db (nb_effect nb k ap))) h" by simp
  from assms [OF this, of "nb_clock nb k"]
  show "case run_state (store_call nb op) (ap, h, k) of (x, (ap', h', k')) \<Rightarrow> R x (view (ap_db ap')) h'"
    by (simp add: store_call_def app_call_def Let_def case_prod_beta)
qed

lemma hoare_read: "(\<And>s h. P (view s) h \<Longrightarrow> R (f s) (view s) h) \<Longrightarrow> hoare view P (store_read nb f) R"
  unfolding store_read_def by (rule hoare_call) simp

text \<open>A store operation that does not touch the view.\<close>

lemma hoare_frame:
  assumes "\<And>t s. view (fst (op t s)) = view s"
  shows "hoare view P (store_call nb op) (\<lambda>_. P)"
  using assms by (intro hoare_call) simp

end

text \<open>
  Requests that only sign in or out are quiet on every table but those of the settings and the
  unlock guard; so are these neighbours of the background jobs.
\<close>

definition signing :: "services \<Rightarrow> (nat \<Rightarrow> request) \<Rightarrow> (nat \<Rightarrow> time) \<Rightarrow> neighbours" where
  "signing sv rqs clock = \<lparr>nb_effect = (\<lambda>k ap. fst (unlock sv (clock k) (clock k) (clock k) (rqs k) ap)), nb_clock = clock\<rparr>"

definition work_tables :: "db \<Rightarrow> alert list \<times> application list \<times> deployment_row list" where
  "work_tables s = (alerts s, applications s, deployments s)"

lemma guards_keep_work:
  "RegisterFailedUnlock scope t s = (s', x) \<Longrightarrow> work_tables s' = work_tables s"
  "ClearUnlockFailures scope s = (s', y) \<Longrightarrow> work_tables s' = work_tables s"
  by (auto simp: work_tables_def RegisterFailedUnlock_def ClearUnlockFailures_def Let_def split: option.splits if_splits prod.splits)

lemma unlock_keeps_work: "work_tables (ap_db (fst (unlock sv t0 t t' rq ap))) = work_tables (ap_db ap)"
  by (auto simp: unlock_def Let_def setKey_def newSession_def session_reply_def dest!: guards_keep_work
      split: sum.splits prod.splits option.splits if_splits)

interpretation signing_in: quiet "signing sv rqs clock" work_tables
  by unfold_locales (simp add: signing_def unlock_keeps_work)

section \<open>Actions of a job\<close>

definition job_emits :: "(action \<Rightarrow> bool) \<Rightarrow> 'a job \<Rightarrow> bool" where
  "job_emits P p \<longleftrightarrow> (\<forall>ap h k. \<exists>t. fst (snd (snd (run_state p (ap, h, k)))) = t @ h \<and> list_all P t)"

lemma job_emits_return [trace_rules]: "job_emits P (State_Monad.return x)"
  by (simp add: job_emits_def)

lemma job_emits_call [trace_rules]: "job_emits P (store_call nb op)" "job_emits P (store_read nb f)" "job_emits P (read_key nb)"
  by (simp_all add: job_emits_def store_read_def store_call_def read_key_def app_call_def Let_def case_prod_beta)

lemma job_emits_outside [trace_rules]: "emits P p \<Longrightarrow> job_emits P (run_outside p)"
  by (auto simp: job_emits_def run_outside_run emits_def case_prod_beta)

lemma job_emits_bind [trace_rules]:
  assumes p: "job_emits P p" and f: "\<And>x. job_emits P (f x)"
  shows "job_emits P (State_Monad.bind p f)"
  unfolding job_emits_def
proof (intro allI)
  fix ap h k
  obtain x ap1 h1 k1 where 1: "run_state p (ap, h, k) = (x, (ap1, h1, k1))" by (metis prod_cases4)
  with p obtain t where t: "h1 = t @ h" "list_all P t" unfolding job_emits_def by (metis fst_conv snd_conv)
  from f [of x] obtain u where u: "fst (snd (snd (run_state (f x) (ap1, h1, k1)))) = u @ h1" "list_all P u"
    unfolding job_emits_def by blast
  from 1 t u show "\<exists>t. fst (snd (snd (run_state (State_Monad.bind p f) (ap, h, k)))) = t @ h \<and> list_all P t"
    by (intro exI [of _ "u @ t"]) simp
qed

lemma job_emits_cases [trace_rules]:
  "(b \<Longrightarrow> job_emits P p) \<Longrightarrow> (\<not> b \<Longrightarrow> job_emits P q) \<Longrightarrow> job_emits P (if b then p else q)"
  "(\<And>x. r = Inl x \<Longrightarrow> job_emits P (f1 x)) \<Longrightarrow> (\<And>x. r = Inr x \<Longrightarrow> job_emits P (g1 x)) \<Longrightarrow>
   job_emits P (case r of Inl x \<Rightarrow> f1 x | Inr x \<Rightarrow> g1 x)"
  "(o1 = None \<Longrightarrow> job_emits P p1) \<Longrightarrow> (\<And>x. o1 = Some x \<Longrightarrow> job_emits P (f2 x)) \<Longrightarrow>
   job_emits P (case o1 of None \<Rightarrow> p1 | Some x \<Rightarrow> f2 x)"
  "(\<And>x y. q1 = (x, y) \<Longrightarrow> job_emits P (f3 x y)) \<Longrightarrow> job_emits P (case q1 of (x, y) \<Rightarrow> f3 x y)"
  "(\<And>x. x = v \<Longrightarrow> job_emits P (f4 x)) \<Longrightarrow> job_emits P (Let v f4)"
      apply simp
     apply (cases r; simp)
    apply (cases o1; simp)
   apply (cases q1; simp)
  apply simp
  done

lemma job_emitsD:
  "job_emits P p \<Longrightarrow> run_state p (ap, h, k) = (x, (ap', h', k')) \<Longrightarrow> \<exists>t. h' = t @ h \<and> list_all P t"
  unfolding job_emits_def by (metis fst_conv snd_conv)

section \<open>Results of a job\<close>

definition job_yields :: "('a \<Rightarrow> bool) \<Rightarrow> 'a job \<Rightarrow> bool" where
  "job_yields Y p \<longleftrightarrow> (\<forall>st. Y (fst (run_state p st)))"

lemma job_yields_bind: "(\<And>x. job_yields Y (f x)) \<Longrightarrow> job_yields Y (State_Monad.bind p f)"
  unfolding job_yields_def run_bind case_prod_beta by blast

lemma job_yields_bind_via: "job_yields Z p \<Longrightarrow> (\<And>x. Z x \<Longrightarrow> job_yields Y (f x)) \<Longrightarrow> job_yields Y (State_Monad.bind p f)"
  unfolding job_yields_def run_bind case_prod_beta by blast

text \<open>Actions that depend on what was read before.\<close>

lemma job_emits_bind_via:
  assumes p: "job_emits P p" and y: "job_yields Z p" and f: "\<And>x. Z x \<Longrightarrow> job_emits P (f x)"
  shows "job_emits P (State_Monad.bind p f)"
  unfolding job_emits_def
proof (intro allI)
  fix ap h k
  obtain x ap1 h1 k1 where 1: "run_state p (ap, h, k) = (x, (ap1, h1, k1))" by (metis prod_cases4)
  with p obtain t where t: "h1 = t @ h" "list_all P t" unfolding job_emits_def by (metis fst_conv snd_conv)
  from 1 y have "Z x" unfolding job_yields_def by (metis fst_conv)
  from f [OF this] obtain u where u: "fst (snd (snd (run_state (f x) (ap1, h1, k1)))) = u @ h1" "list_all P u"
    unfolding job_emits_def by blast
  from 1 t u show "\<exists>t. fst (snd (snd (run_state (State_Monad.bind p f) (ap, h, k)))) = t @ h \<and> list_all P t"
    by (intro exI [of _ "u @ t"]) simp
qed

lemma read_yields: "job_yields (\<lambda>x. \<exists>s. x = f s) (store_read nb f)"
  by (auto simp: job_yields_def store_read_def store_call_def app_call_def Let_def)

end
