(* ===== verification/App_Collector_Props.thy ===== *)
theory App_Collector_Props
  imports App_Jobs
begin

text \<open>
  After a collection the active alerts are those this collection had a reason for, and the caches
  show them.
\<close>

section \<open>Alerts raised\<close>

definition open_alert :: "alert list \<Rightarrow> string \<Rightarrow> int option \<Rightarrow> bool" where
  "open_alert as m i \<longleftrightarrow> (\<exists>r\<in>set as. \<not> al_resolved r \<and> al_message r = m \<and> al_application_id r = i)"

definition newest_failed :: "deployment_row list \<Rightarrow> application \<Rightarrow> bool" where
  "newest_failed rows a \<longleftrightarrow>
     (case order_desc dr_id (filter (\<lambda>r. dr_application_id r = app_id a) rows) of [] \<Rightarrow> False | r # _ \<Rightarrow> dr_status r = ''failed'')"

text \<open>The reasons of an alert, given the applications and deployments the collection saw.\<close>

definition alert_reason :: "application list \<Rightarrow> deployment_row list \<Rightarrow> string \<Rightarrow> bool" where
  "alert_reason apps rows m \<longleftrightarrow>
     has_prefix m ''No se pudo consultar el espacio de disco: '' \<or> has_prefix m ''Espacio de disco al '' \<or>
     has_prefix m ''El certificado de '' \<or>
     (\<exists>a\<in>set apps. m = failed_message a \<and> newest_failed rows a \<or> m = unknown_message a \<or> m = unhealthy_message a \<or> m = probe_message a)"

lemma UpsertAlert_opens:
  assumes "work_tables s = (as, apps, rows)"
    and "case i of None \<Rightarrow> True | Some a \<Rightarrow> a \<in> app_id ` set apps" and "case d of None \<Rightarrow> True | Some x \<Rightarrow> x \<in> dr_id ` set rows"
  shows "\<exists>as'. work_tables (fst (UpsertAlert t sev m i d s)) = (as', apps, rows) \<and> open_alert as' m i \<and> set as \<subseteq> set as'"
proof (cases "open_alert as m i")
  case True
  with assms(1) have "fst (UpsertAlert t sev m i d s) = s"
    by (auto simp: UpsertAlert_def open_alert_def work_tables_def list_ex_iff)
  with True assms(1) show ?thesis by auto
next
  case False
  with assms have "\<exists>new. alerts (fst (UpsertAlert t sev m i d s)) = alerts s @ [new] \<and> \<not> al_resolved new \<and> al_message new = m \<and>
      al_application_id new = i"
    by (auto simp: UpsertAlert_def open_alert_def work_tables_def list_ex_iff app_exists_def split: option.splits)
  moreover have "applications (fst (UpsertAlert t sev m i d s)) = applications s" "deployments (fst (UpsertAlert t sev m i d s)) = deployments s"
    by (simp_all add: UpsertAlert_def)
  ultimately show ?thesis using assms(1) by (auto simp: work_tables_def open_alert_def)
qed

text \<open>
  The assertion of a collection: what has been raised has a reason and the alerts \<open>due\<close> so far
  are open.
\<close>

definition collected ::
    "application list \<Rightarrow> deployment_row list \<Rightarrow> (string \<times> int option) set \<Rightarrow> string list \<Rightarrow>
     alert list \<times> application list \<times> deployment_row list \<Rightarrow> history \<Rightarrow> bool" where
  "collected apps rows due active v h \<longleftrightarrow>
     (\<exists>as. v = (as, apps, rows) \<and> (\<forall>m\<in>set active. alert_reason apps rows m) \<and> (\<forall>(m, i)\<in>due. m \<in> set active \<and> open_alert as m i))"

lemma open_alert_mono: "open_alert as m i \<Longrightarrow> set as \<subseteq> set as' \<Longrightarrow> open_alert as' m i"
  by (auto simp: open_alert_def)

lemma evidence_keeps_work:
  "work_tables (fst (UpsertHealthEvidence ev s)) = work_tables s" "work_tables (fst (RecordRouteProbe i b t ob st d s)) = work_tables s"
  by (simp_all add: work_tables_def UpsertHealthEvidence_def RecordRouteProbe_def)

lemma newest_failed_iff:
  "newest_failed (deployments s) a \<longleftrightarrow> Deployments (app_id a) s \<noteq> [] \<and> d_status (hd (Deployments (app_id a) s)) = ''failed''"
  by (auto simp: newest_failed_def Deployments_def app_history_def scan_deployment_def split: list.splits)

lemma newest_is_row: "Deployments i s \<noteq> [] \<Longrightarrow> d_id (hd (Deployments i s)) \<in> dr_id ` set (deployments s)"
  using hd_in_set [of "app_history i s"]
  by (auto simp: Deployments_def scan_deployment_def hd_map app_history_def order_desc_def)

section \<open>Collection\<close>

lemma raise_collected:
  assumes q: "quiet nb work_tables" and reason: "alert_reason apps rows m"
    and own: "case i of None \<Rightarrow> True | Some a \<Rightarrow> a \<in> app_id ` set apps" "case d of None \<Rightarrow> True | Some x \<Rightarrow> x \<in> dr_id ` set rows"
  shows "hoare work_tables (collected apps rows due active) (raise_alert nb sev m i d active)
    (collected apps rows (insert (m, i) due))"
proof -
  have "hoare work_tables (collected apps rows due active) (store_call nb (\<lambda>t. UpsertAlert t sev m i d))
      (\<lambda>_. collected apps rows (insert (m, i) due) (active @ [m]))"
  proof (rule quiet.hoare_call [OF q])
    fix t s h
    assume "collected apps rows due active (work_tables s) h"
    then obtain as where v: "work_tables s = (as, apps, rows)" and rest: "\<forall>m\<in>set active. alert_reason apps rows m"
      "\<forall>(m, i)\<in>due. m \<in> set active \<and> open_alert as m i"
      by (auto simp: collected_def)
    from UpsertAlert_opens [OF v own, of t sev m] obtain as'
      where "work_tables (fst (UpsertAlert t sev m i d s)) = (as', apps, rows)" "open_alert as' m i" "set as \<subseteq> set as'" by blast
    with rest reason show "collected apps rows (insert (m, i) due) (active @ [m]) (work_tables (fst (UpsertAlert t sev m i d s))) h"
      by (auto simp: collected_def intro: open_alert_mono)
  qed
  then show ?thesis unfolding raise_alert_def by (rule hoare_bind) (rule hoare_return)
qed

lemma collected_weaken: "collected apps rows (insert x due) active v h \<Longrightarrow> collected apps rows due active v h"
  by (auto simp: collected_def)

lemma raise_if_collected:
  assumes "quiet nb work_tables" and "b \<Longrightarrow> alert_reason apps rows m"
    and "case i of None \<Rightarrow> True | Some a \<Rightarrow> a \<in> app_id ` set apps" "b \<Longrightarrow> case d of None \<Rightarrow> True | Some x \<Rightarrow> x \<in> dr_id ` set rows"
  shows "hoare work_tables (collected apps rows due active) (raise_if nb b sev m i d active)
    (collected apps rows (if b then insert (m, i) due else due))"
  using raise_collected [OF assms(1) _ assms(3), where sev = sev and active = active] assms(2,4)
  by (auto simp: raise_if_def intro: hoare_return)

lemma text_reasons:
  "alert_reason apps rows (''No se pudo consultar el espacio de disco: '' @ t)"
  "alert_reason apps rows (''Espacio de disco al '' @ t)"
  "has_prefix m ''El certificado de '' \<Longrightarrow> alert_reason apps rows m"
  unfolding alert_reason_def
  by (rule disjI1, rule has_prefix_append) (rule disjI2, rule disjI1, rule has_prefix_append, blast)

lemma app_reasons:
  assumes "a \<in> set apps"
  shows "newest_failed rows a \<Longrightarrow> alert_reason apps rows (failed_message a)"
    and "alert_reason apps rows (unknown_message a)" "alert_reason apps rows (unhealthy_message a)" "alert_reason apps rows (probe_message a)"
  unfolding alert_reason_def using assms by blast+

lemma certificate_reason: "yields (\<lambda>m. m \<noteq> '''' \<longrightarrow> has_prefix m ''El certificado de '') (certificateAlert su w domain n)"
  unfolding certificateAlert_def Let_def
  by (auto intro!: yields_rules simp: has_prefix_def split: sum.splits list.splits if_splits)

text \<open>A step that raises at most one alert, seen from the outside.\<close>

lemma raise_if_frame:
  assumes "quiet nb work_tables" and "b \<Longrightarrow> alert_reason apps rows m"
    and "case i of None \<Rightarrow> True | Some a \<Rightarrow> a \<in> app_id ` set apps" "b \<Longrightarrow> case d of None \<Rightarrow> True | Some x \<Rightarrow> x \<in> dr_id ` set rows"
  shows "hoare work_tables (collected apps rows due active) (raise_if nb b sev m i d active) (collected apps rows due)"
  by (rule hoare_post [OF raise_if_collected [OF assms]]) (auto dest: collected_weaken split: if_splits)

lemma collected_history: "collected apps rows due active v h \<Longrightarrow> collected apps rows due active v h'"
  by (simp add: collected_def)

lemma outside_collected: "hoare work_tables (collected apps rows due active) (run_outside p) (\<lambda>_. collected apps rows due active)"
  by (rule hoare_outside_any) (rule collected_history)

lemma raise_frame:
  assumes "quiet nb work_tables" and "alert_reason apps rows m"
    and "case i of None \<Rightarrow> True | Some a \<Rightarrow> a \<in> app_id ` set apps" "case d of None \<Rightarrow> True | Some x \<Rightarrow> x \<in> dr_id ` set rows"
  shows "hoare work_tables (collected apps rows due active) (raise_alert nb sev m i d active) (collected apps rows due)"
  by (rule hoare_post [OF raise_collected [OF assms]]) (rule collected_weaken)

lemma disk_collected:
  assumes "quiet nb work_tables"
  shows "hoare work_tables (collected apps rows due []) (collect_disk nb su c) (\<lambda>r. collected apps rows due (snd r))"
  unfolding collect_disk_def
  by (intro hoare_bind [OF outside_collected] hoare_sum hoare_prod hoare_bind [OF raise_frame [OF assms]]
      hoare_bind [OF raise_if_frame [OF assms]] hoare_return text_reasons) simp_all

lemma status_collected:
  assumes "quiet nb work_tables" and "a \<in> set apps"
  shows "hoare work_tables (collected apps rows due active) (collect_status nb a r ca active) (\<lambda>r. collected apps rows due (snd r))"
  unfolding collect_status_def
  by (intro hoare_sum hoare_bind [OF raise_if_frame [OF assms(1)]] hoare_return app_reasons [OF assms(2)]) (use assms(2) in simp_all)

definition due_failed :: "deployment_row list \<Rightarrow> application \<Rightarrow> (string \<times> int option) set" where
  "due_failed rows a = (if newest_failed rows a then {(failed_message a, Some (app_id a))} else {})"

lemma application_collected:
  assumes q: "quiet nb work_tables" and a: "a \<in> set apps"
  shows "hoare work_tables (collected apps rows due active) (collect_application nb su w fuel e c a ca active)
    (\<lambda>r v h. case r of None \<Rightarrow> True | Some (ca, active) \<Rightarrow> collected apps rows (due_failed rows a \<union> due) active v h)"
proof -
  let ?seen = "\<lambda>ds. (newest_failed rows a \<longleftrightarrow> ds \<noteq> [] \<and> d_status (hd ds) = ''failed'') \<and> (ds \<noteq> [] \<longrightarrow> d_id (hd ds) \<in> dr_id ` set rows)"
  let ?due = "due_failed rows a \<union> due"
  have read: "hoare work_tables (collected apps rows due active) (store_read nb (Deployments (app_id a)))
      (\<lambda>ds v h. collected apps rows due active v h \<and> ?seen ds)"
    by (rule quiet.hoare_read [OF q])
      (auto simp: collected_def work_tables_def newest_failed_iff [symmetric] intro: newest_is_row)
  have first: "hoare work_tables (\<lambda>v h. collected apps rows due active v h \<and> ?seen ds)
      (raise_if nb (ds \<noteq> [] \<and> d_status (hd ds) = ''failed'') ''critical'' (failed_message a) (Some (app_id a)) (Some (d_id (hd ds))) active)
      (collected apps rows ?due)" for ds
  proof (rule hoare_fact)
    assume True: "?seen ds"
    then have b: "(ds \<noteq> [] \<and> d_status (hd ds) = ''failed'') = newest_failed rows a" by blast
    have due: "(if newest_failed rows a then insert (failed_message a, Some (app_id a)) due else due) = ?due"
      by (simp add: due_failed_def)
    have "hoare work_tables (collected apps rows due active)
        (raise_if nb (newest_failed rows a) ''critical'' (failed_message a) (Some (app_id a)) (Some (d_id (hd ds))) active)
        (collected apps rows ?due)"
      unfolding due [symmetric] using True a
      by (intro raise_if_collected [OF q]) (auto intro: app_reasons(1))
    then show "hoare work_tables (collected apps rows due active) (raise_if nb (ds \<noteq> [] \<and> d_status (hd ds) = ''failed'')
        ''critical'' (failed_message a) (Some (app_id a)) (Some (d_id (hd ds))) active) (collected apps rows ?due)"
      unfolding b .
  qed
  have evidence: "hoare work_tables (collected apps rows d act) (store_call nb op) (\<lambda>_. collected apps rows d act)"
    if "\<And>t s. work_tables (fst (op t s)) = work_tables s" for d act and op :: "time \<Rightarrow> db \<Rightarrow> db \<times> 'b"
    using q by (rule quiet.hoare_frame) (rule that)
  have cert: "hoare work_tables (collected apps rows d act) (run_outside (certificateAlert su w domain n))
      (\<lambda>m v h. collected apps rows d act v h \<and> (m \<noteq> '''' \<longrightarrow> alert_reason apps rows m))" for d act domain n
  proof (rule hoare_outside)
    fix v h
    assume c: "collected apps rows d act v h"
    show "ensures (certificateAlert su w domain n) (\<lambda>m h'. collected apps rows d act v h' \<and> (m \<noteq> '''' \<longrightarrow> alert_reason apps rows m)) h"
      using certificate_reason by (rule ensures_yields) (use collected_history [OF c] text_reasons(3) in blast)
  qed
  have rest: "hoare work_tables (\<lambda>v h. collected apps rows ?due act v h \<and> (m \<noteq> '''' \<longrightarrow> alert_reason apps rows m))
      (raise_if nb (m \<noteq> '''') ''warning'' m (Some (app_id a)) None act) (collected apps rows ?due)" for m act
    by (rule hoare_fact) (rule raise_if_frame [OF q], use a in auto)
  show ?thesis
    unfolding collect_application_def case_prod_unfold
    apply (rule hoare_bind [OF read])
    apply (rule hoare_bind [OF first])
    apply (rule hoare_bind [OF outside_collected])
    apply (rule hoare_bind [OF status_collected [OF q a]])
    apply (rule hoare_bind [OF outside_collected])
    apply (rule hoare_option)
     apply (rule hoare_return, simp)
    apply (rule hoare_bind [OF outside_collected])
    apply (rule hoare_bind [OF evidence], simp add: evidence_keeps_work)+
    apply (rule hoare_bind [OF raise_if_frame [OF q]])
       apply (rule app_reasons(4) [OF a])
      apply (use a in simp_all)[2]
    apply (rule hoare_bind [OF cert])
    apply (rule hoare_bind [OF rest])
    apply (rule hoare_return, simp)
    done
qed

lemma all_collected:
  assumes q: "quiet nb work_tables" and "set as \<subseteq> set apps"
  shows "hoare work_tables (collected apps rows due active) (collect_all nb su w fuel e c as ca active)
    (\<lambda>r v h. case r of None \<Rightarrow> True | Some (ca, active) \<Rightarrow> collected apps rows (\<Union> (due_failed rows ` set as) \<union> due) active v h)"
  using assms(2)
proof (induction as arbitrary: due active ca)
  case Nil
  then show ?case by (simp add: hoare_return)
next
  case (Cons a as)
  have rest: "hoare work_tables (case r of None \<Rightarrow> \<lambda>_ _. True | Some (ca, active) \<Rightarrow> collected apps rows (due_failed rows a \<union> due) active)
      (case r of None \<Rightarrow> State_Monad.return None | Some (ca, active) \<Rightarrow> collect_all nb su w fuel e c as ca active)
      (\<lambda>r v h. case r of None \<Rightarrow> True | Some (ca, active) \<Rightarrow> collected apps rows (\<Union> (due_failed rows ` set (a # as)) \<union> due) active v h)" for r
  proof (cases r)
    case (Some x)
    have eq: "\<Union> (due_failed rows ` set as) \<union> (due_failed rows a \<union> due) = \<Union> (due_failed rows ` set (a # as)) \<union> due" by auto
    from Cons.prems have "set as \<subseteq> set apps" by simp
    from Cons.IH [OF this, of "due_failed rows a \<union> due" "snd x" "fst x", unfolded eq] Some show ?thesis
      by (simp only: option.case case_prod_unfold)
  qed (simp add: hoare_return)
  have "hoare work_tables (collected apps rows due active) (collect_application nb su w fuel e c a ca active)
      (\<lambda>r. case r of None \<Rightarrow> \<lambda>_ _. True | Some (ca, active) \<Rightarrow> collected apps rows (due_failed rows a \<union> due) active)"
    using Cons.prems by (intro hoare_post [OF application_collected [OF q]]) (auto split: option.splits)
  from hoare_bind [OF this rest] show ?case by simp
qed

text \<open>Resolving keeps exactly the active alerts that were raised.\<close>

lemma resolve_rest:
  assumes "work_tables s = (as, apps, rows)"
  shows "\<exists>as'. work_tables (fst (ResolveAllAlertsExcept t active s)) = (as', apps, rows) \<and>
    (\<forall>r\<in>set as'. \<not> al_resolved r \<longrightarrow> al_message r \<in> set active) \<and>
    (\<forall>m\<in>set active. \<forall>i. open_alert as m i \<longrightarrow> open_alert as' m i)"
proof -
  let ?as = "update_where (\<lambda>a. \<not> al_resolved a \<and> al_message a \<notin> set active) (resolve_alert t) as"
  have "work_tables (fst (ResolveAllAlertsExcept t active s)) = (?as, apps, rows)"
    using assms by (auto simp: ResolveAllAlertsExcept_def work_tables_def)
  moreover have "al_message r \<in> set active" if "r \<in> set ?as" "\<not> al_resolved r" for r
    using that by (elim in_update_whereE) (auto simp: resolve_alert_def)
  moreover have "open_alert ?as m i" if "m \<in> set active" "open_alert as m i" for m i
    using that by (auto simp: open_alert_def intro: in_update_where_other)
  ultimately show ?thesis by blast
qed

definition shown_alerts :: "alert list \<Rightarrow> (string \<times> string) list" where
  "shown_alerts as = map (\<lambda>r. (al_severity r, al_message r)) (order_desc al_created_at (rev (filter (\<lambda>a. \<not> al_resolved a) as)))"

lemma publish_current:
  assumes q: "quiet nb work_tables"
  shows "hoare work_tables (collected apps rows due active) (publish nb ca active)
    (\<lambda>ca v h. \<exists>as. v = (as, apps, rows) \<and> (\<forall>r\<in>set as. \<not> al_resolved r \<longrightarrow> alert_reason apps rows (al_message r)) \<and>
       (\<forall>(m, i)\<in>due. open_alert as m i) \<and> ca_alerts ca = shown_alerts as)"
  unfolding publish_def
proof (rule hoare_bind)
  let ?P = "\<lambda>v h. \<exists>as. v = (as, apps, rows) \<and> (\<forall>r\<in>set as. \<not> al_resolved r \<longrightarrow> alert_reason apps rows (al_message r)) \<and>
      (\<forall>(m, i)\<in>due. open_alert as m i)"
  show "hoare work_tables (collected apps rows due active) (store_call nb (\<lambda>t. ResolveAllAlertsExcept t active)) (\<lambda>_. ?P)"
  proof (rule quiet.hoare_call [OF q])
    fix t s h
    assume "collected apps rows due active (work_tables s) h"
    then obtain as where v: "work_tables s = (as, apps, rows)" and c: "\<forall>m\<in>set active. alert_reason apps rows m"
      "\<forall>(m, i)\<in>due. m \<in> set active \<and> open_alert as m i"
      by (auto simp: collected_def)
    from resolve_rest [OF v, of t active] c show "?P (work_tables (fst (ResolveAllAlertsExcept t active s))) h" by fast
  qed
  show "hoare work_tables ?P (store_read nb GetActiveAlerts \<bind>
      (\<lambda>rows. State_Monad.return (ca\<lparr>ca_alerts := map (\<lambda>r. (al_severity r, al_message r)) rows\<rparr>)))
      (\<lambda>ca v h. \<exists>as. v = (as, apps, rows) \<and> (\<forall>r\<in>set as. \<not> al_resolved r \<longrightarrow> alert_reason apps rows (al_message r)) \<and>
         (\<forall>(m, i)\<in>due. open_alert as m i) \<and> ca_alerts ca = shown_alerts as)"
    by (rule hoare_bind [OF quiet.hoare_read [OF q, where R = "\<lambda>rows v h. ?P v h \<and>
          map (\<lambda>r. (al_severity r, al_message r)) rows = shown_alerts (fst v)"]])
      (auto simp: GetActiveAlerts_def shown_alerts_def work_tables_def intro!: hoare_return)
qed

lemma collection_current:
  assumes q: "quiet nb work_tables"
  shows "hoare work_tables (\<lambda>v h. v = (as0, apps, rows)) (runCollection nb su w fuel e c)
    (\<lambda>r v h. case r of None \<Rightarrow> True | Some ca \<Rightarrow>
       \<exists>as. v = (as, apps, rows) \<and> (\<forall>r\<in>set as. \<not> al_resolved r \<longrightarrow> alert_reason apps rows (al_message r)) \<and>
       (\<forall>a\<in>set apps. newest_failed rows a \<longrightarrow> open_alert as (failed_message a) (Some (app_id a))) \<and> ca_alerts ca = shown_alerts as)"
    (is "hoare _ _ _ ?R")
proof -
  let ?due = "\<Union> (due_failed rows ` set apps)"
  have read: "hoare work_tables (\<lambda>v h. v = (as0, apps, rows)) (store_read nb Applications)
      (\<lambda>xs v h. collected apps rows {} [] v h \<and> set xs = set apps)"
    by (rule quiet.hoare_read [OF q]) (auto simp: collected_def work_tables_def Applications_def)
  have last: "hoare work_tables (case r of None \<Rightarrow> \<lambda>_ _. True | Some (ca, active) \<Rightarrow> collected apps rows ?due active)
      (case r of None \<Rightarrow> State_Monad.return None | Some (ca, active) \<Rightarrow> publish nb ca active \<bind> (\<lambda>ca. State_Monad.return (Some ca))) ?R" for r
  proof (cases r)
    case (Some x)
    have "hoare work_tables (collected apps rows ?due (snd x)) (publish nb (fst x) (snd x) \<bind> (\<lambda>ca. State_Monad.return (Some ca))) ?R"
      by (rule hoare_bind [OF publish_current [OF q]], rule hoare_return) (auto simp: due_failed_def split: if_splits)
    with Some show ?thesis by (simp only: option.case case_prod_unfold)
  qed (simp add: hoare_return)
  have all: "hoare work_tables (collected apps rows {} act) (collect_all nb su w fuel e c xs ca act)
      (\<lambda>r. case r of None \<Rightarrow> \<lambda>_ _. True | Some (ca, active) \<Rightarrow> collected apps rows ?due active)" if "set xs = set apps" for xs ca act
    using all_collected [OF q, of xs apps rows "{}" act su w fuel e c ca] that
    by (auto elim!: hoare_post split: option.splits)
  show ?thesis
    unfolding runCollection_def case_prod_unfold
    by (rule hoare_bind [OF read], rule hoare_fact, rule hoare_bind [OF disk_collected [OF q]], rule hoare_bind [OF all])
      (assumption, use last in \<open>simp only: case_prod_unfold\<close>)
qed

text \<open>With enough fuel for the probe loop and a clock that runs, a collection ends.\<close>

lemma ProbeRoute_returns:
  assumes "clock_runs w" and "release_fuel e \<le> fuel"
  shows "fst (run_state (ProbeRoute w fuel e a) h) \<noteq> None"
  using Verify_returns [OF assms, of a h]
  by (auto simp: Verify_def ProbeRoute_def split: prod.splits option.splits)

lemma probe_job: "clock_runs w \<Longrightarrow> release_fuel e \<le> fuel \<Longrightarrow> job_yields (\<lambda>r. r \<noteq> None) (run_outside (ProbeRoute w fuel e a))"
  using ProbeRoute_returns [of w e fuel a] by (simp add: job_yields_def run_outside_run case_prod_beta)

lemma collect_application_returns:
  assumes "clock_runs w" and "release_fuel e \<le> fuel"
  shows "job_yields (\<lambda>r. r \<noteq> None) (collect_application nb su w fuel e c a ca active)"
  unfolding collect_application_def case_prod_unfold
  by (intro job_yields_bind job_yields_bind_via [OF probe_job [OF assms]]) (auto simp: job_yields_def case_prod_beta)

lemma collect_all_returns:
  assumes "clock_runs w" and "release_fuel e \<le> fuel"
  shows "job_yields (\<lambda>r. r \<noteq> None) (collect_all nb su w fuel e c as ca active)"
proof (induction as arbitrary: ca active)
  case (Cons a as)
  then show ?case
    unfolding collect_all.simps by (intro job_yields_bind_via [OF collect_application_returns [OF assms]]) auto
qed (simp add: job_yields_def)

lemma runCollection_returns:
  assumes "clock_runs w" and "release_fuel e \<le> fuel"
  shows "job_yields (\<lambda>r. r \<noteq> None) (runCollection nb su w fuel e c)"
  unfolding runCollection_def case_prod_unfold
  by (intro job_yields_bind job_yields_bind_via [OF collect_all_returns [OF assms]]) (auto simp: job_yields_def case_prod_beta)


definition demo_surroundings :: surroundings where
  "demo_surroundings = \<lparr>su_statfs = (\<lambda>h p. Inr (1000, 400)), su_percent = (\<lambda>b a. ''60.0''),
     su_certificates = (\<lambda>h host. Inl ''dial tcp: timeout''), su_days = (\<lambda>d. ''9''),
     su_listing = (\<lambda>h p. Inr [''notes.txt'', ''backup-20250101-000000.mdbk'', ''backup-20250102-000000.mdbk'']),
     su_serialize = (\<lambda>s. Inr [83, 81, 76]), su_aws_config = (\<lambda>c. None), su_put = (\<lambda>h c k b. (Consumed, None))\<rparr>"

definition demo_failing :: app where
  "demo_failing = demo_server\<lparr>ap_db := (empty_db 0)\<lparr>applications := [demo_app 1 ''web''],
     deployments := [demo_release 1 ''img1'' 10, new_deployment_row 2 1 ''failed'' '''' ''log'' 20]\<rparr>\<rparr>"

lemma demo_newest_failed: "newest_failed (deployments (ap_db demo_failing)) (demo_app 1 ''web'')"
  by (simp add: demo_failing_def newest_failed_def demo_release_def new_deployment_row_def order_desc_def)

lemma demo_clock: "clock_runs (demo_world s)"
  using slept_nonneg by (simp add: clock_runs_def)


text \<open>
  The alert that backups are paused while the server is locked is none of the collector's: the next
  collection resolves it although the server is still locked.
\<close>

lemma locked_alert_has_no_reason: "\<not> alert_reason apps rows locked_message"
  by (simp add: alert_reason_def locked_message_def failed_message_def unknown_message_def unhealthy_message_def probe_message_def
      has_prefix_def)

lemma collection_drops_locked_alert:
  assumes "quiet nb work_tables" and "run_state (runCollection nb su w fuel e c) (ap, h, k) = (Some ca, (ap', h', k'))"
  shows "locked_message \<notin> al_message ` set (GetActiveAlerts (ap_db ap'))"
  using hoareD [OF collection_current [OF assms(1)] _ assms(2), of "alerts (ap_db ap)" "applications (ap_db ap)" "deployments (ap_db ap)"]
    locked_alert_has_no_reason
  by (auto simp: work_tables_def GetActiveAlerts_def order_desc_def)

end
