(* ===== verification/App_Preflight.thy ===== *)
theory App_Preflight
  imports App_Operations
begin

text \<open>
  The checks before a deployment (\<^verbatim>\<open>RunHostPreflightCheck\<close> and
  \<^verbatim>\<open>RunPreflightCheck\<close> of \<^verbatim>\<open>operations.go\<close>), the readiness of the
  server and the handlers of the operations page.
\<close>

section \<open>Readiness\<close>

definition proxyResponseReady :: "int \<Rightarrow> bool" where
  "proxyResponseReady status \<longleftrightarrow> 200 \<le> status \<and> status < 400"

definition checkProxyReady :: "world \<Rightarrow> config \<Rightarrow> string option prog" where
  "checkProxyReady w c = do {
     r \<leftarrow> send w ''GET'' ((if cfg_proxy_url c = '''' then ''http://localhost'' else cfg_proxy_url c) @ ''/healthz'')
       [(''Host'', cfg_admin_domain c)] '''';
     State_Monad.return (case r of
         BadRequest err \<Rightarrow> Some err
       | NoAnswer err \<Rightarrow> Some err
       | Answer response \<Rightarrow>
           if \<not> proxyResponseReady (hr_status response) then Some (''proxy returned HTTP '' @ show_int (hr_status response))
           else None)
   }"

definition health_body :: "string \<Rightarrow> string \<Rightarrow> reply" where
  "health_body status version = Page 200 ''JSON'' (''{'' @ json_string ''status'' @ '':'' @ json_string status @ '','' @
     json_string ''version'' @ '':'' @ quoted version @ ''}'')"

definition health :: "string \<Rightarrow> reply" where
  "health version = health_body ''ok'' version"

definition ready :: "string \<Rightarrow> app \<Rightarrow> reply" where
  "ready version ap =
     (if \<not> IsInitialized (ap_db ap) then HttpError 503 ''setup required''
      else if ap_key ap = [] then HttpError 503 ''unlock required''
      else health version)"

definition runtime_handler :: "world \<Rightarrow> bool \<Rightarrow> string \<Rightarrow> config \<Rightarrow> reply prog" where
  "runtime_handler w socket version c =
     (if cfg_runtime c = ''apple'' then State_Monad.return (HttpError 503 ''Apple Container readiness is experimental and unsupported'')
      else do {
        docker \<leftarrow> DockerReady w socket;
        if docker \<noteq> None
        then State_Monad.return (HttpError 503 ''Docker socket or daemon is not usable; check the socket mount and its group permissions'')
        else do {
          proxy \<leftarrow> checkProxyReady w c;
          State_Monad.return (if proxy \<noteq> None
            then HttpError 503 ''Caddy proxy is not reachable; check the caddy service and MINIDOCK_PROXY_URL''
            else health_body ''ready'' version)
        }
      })"

section \<open>Checks before a deployment\<close>

record preflight_item =
  pi_name :: string
  pi_ok :: bool
  pi_details :: string
  pi_impact :: string
  pi_action :: string

record host_preflight =
  hp_all_ok :: bool
  hp_docker :: preflight_item
  hp_caddy :: preflight_item
  hp_network :: preflight_item
  hp_disk :: preflight_item

definition passed :: "string \<Rightarrow> string \<Rightarrow> preflight_item" where
  "passed name details = \<lparr>pi_name = name, pi_ok = True, pi_details = details, pi_impact = '''', pi_action = ''''\<rparr>"

definition failed :: "string \<Rightarrow> string \<Rightarrow> string \<Rightarrow> string \<Rightarrow> preflight_item" where
  "failed name details impact fix = \<lparr>pi_name = name, pi_ok = False, pi_details = details, pi_impact = impact, pi_action = fix\<rparr>"

definition docker_item :: "dep_error option \<Rightarrow> preflight_item" where
  "docker_item r =
     (case r of
        Some err \<Rightarrow> failed ''Estado de Docker'' (''Daemon o socket Docker no responde: '' @ detail_text err)
          ''MiniDock puede guardar proyectos, pero no construir ni iniciar releases.''
          ''Inicia Docker Desktop u OrbStack y comprueba de nuevo esta pantalla.''
      | None \<Rightarrow> passed ''Estado de Docker'' ''Socket y runtime Docker operativos'')"

definition caddy_item :: "config \<Rightarrow> string option \<Rightarrow> preflight_item" where
  "caddy_item c r =
     (case r of
        Some err \<Rightarrow>
          if cfg_environment c = ''development'' then passed ''Estado de Caddy'' ''Proxy Caddy no requerido en desarrollo local''
          else failed ''Estado de Caddy'' (''Proxy Caddy inaccesible: '' @ err)
            (spanish ''Un release nuevo no podr~ia recibir tr~afico ni completar la conmutaci~on segura.'')
            ''Inicia el servicio Caddy y verifica MINIDOCK_PROXY_URL y la red de control.''
      | None \<Rightarrow> passed ''Estado de Caddy'' ''API de control y proxy Caddy operativo'')"

definition network_item :: "config \<Rightarrow> preflight_item" where
  "network_item c =
     (if trim_space (cfg_docker_network c) = ''''
      then failed ''Red de Workloads'' ''Red Docker no configurada''
        (spanish ''Los contenedores quedar~ian sin la red interna aislada que exige MiniDock.'')
        ''Define MINIDOCK_DOCKER_NETWORK y ejecuta scripts/prepare-runtime-network.sh.''
      else passed ''Red de Workloads'' (''Red '' @ cfg_docker_network c @ '' ('' @ cfg_docker_network_subnet c @ '') lista''))"

definition disk_item :: "string + rat \<times> string \<Rightarrow> preflight_item" where
  "disk_item r =
     (case r of
        Inl err \<Rightarrow> failed ''Espacio Libre en Disco'' (''Error leyendo espacio en disco: '' @ err)
          ''MiniDock no puede garantizar espacio para el workspace, la imagen y el rollback.''
          (spanish ''Comprueba que MINIDOCK_DATABASE_PATH est~e en un volumen accesible.'')
      | Inr (usage, text) \<Rightarrow>
          if usage > 90 then failed ''Espacio Libre en Disco'' (''Alerta: Disco al '' @ text @ ''% de capacidad'')
            ''El build puede agotar el disco y dejar artefactos incompletos.''
            (spanish ''Libera espacio o usa la limpieza previsualizable de Operaci~on + logs.'')
          else passed ''Espacio Libre en Disco'' (''Espacio suficiente (uso actual: '' @ text @ ''%)''))"

definition RunHostPreflightCheck :: "surroundings \<Rightarrow> world \<Rightarrow> bool \<Rightarrow> config \<Rightarrow> host_preflight prog" where
  "RunHostPreflightCheck su w socket c = do {
     docker \<leftarrow> DockerReady w socket;
     caddy \<leftarrow> checkProxyReady w c;
     usage \<leftarrow> diskUsage su (cfg_database_path c);
     let items = (docker_item docker, caddy_item c caddy, network_item c, disk_item usage);
     State_Monad.return (case items of (d, p, n, s) \<Rightarrow>
       \<lparr>hp_all_ok = (pi_ok d \<and> pi_ok p \<and> pi_ok n \<and> pi_ok s), hp_docker = d, hp_caddy = p, hp_network = n, hp_disk = s\<rparr>)
   }"

record preflight =
  pf_all_ok :: bool
  pf_host :: host_preflight
  pf_repository :: preflight_item
  pf_domain :: preflight_item

definition repository_item :: "application \<Rightarrow> (string + string) option \<Rightarrow> preflight_item" where
  "repository_item a stat =
     (case stat of
        Some r \<Rightarrow>
          (case r of
             Inl err \<Rightarrow> failed ''Acceso al Repositorio'' (''Ruta local inaccesible: '' @ err)
               (spanish ''El build no podr~ia leer el c~odigo seleccionado.'')
               ''Vuelve a seleccionar una carpeta dentro del directorio de repositorios permitido.''
           | Inr _ \<Rightarrow> passed ''Acceso al Repositorio''
               (''Directorio local '' @ trim_prefix (app_repository a) ''file://'' @ '' accesible''))
      | None \<Rightarrow>
          if trim_space (app_repository a) \<noteq> '''' then passed ''Acceso al Repositorio'' (''Origen registrado: '' @ app_repository a)
          else failed ''Acceso al Repositorio'' ''Sin repositorio asignado'' ''No existe un origen del que construir el release.''
            (spanish ''Edita la aplicaci~on y selecciona una carpeta o repositorio Git.''))"

definition domain_item :: "application \<Rightarrow> preflight_item" where
  "domain_item a =
     (let domain = trim_space (app_domain a); health = trim_space (app_health_endpoint a);
          health = (if health = '''' then ''/'' else health)
      in if domain = '''' then failed ''Dominio y Health Endpoint'' ''Dominio no configurado''
           ''Caddy no puede crear una ruta estable para el release.''
           (spanish ''Asigna un dominio local nombre.localhost o un subdominio p~ublico propio.'')
         else if \<not> has_prefix health ''/'' then failed ''Dominio y Health Endpoint''
           (''Health endpoint debe iniciar con '' @ [CHR 0x27] @ ''/'' @ [CHR 0x27])
           (spanish ''MiniDock no puede verificar el candidato antes de dirigirle tr~afico.'')
           ''Corrige el health check para que sea una ruta, por ejemplo /healthz o /.''
         else passed ''Dominio y Health Endpoint'' (''Dominio '' @ domain @ '' con probe en '' @ health))"

definition RunPreflightCheck :: "surroundings \<Rightarrow> world \<Rightarrow> bool \<Rightarrow> config \<Rightarrow> application \<Rightarrow> preflight prog" where
  "RunPreflightCheck su w socket c a = do {
     host \<leftarrow> RunHostPreflightCheck su w socket c;
     stat \<leftarrow> (if has_prefix (app_repository a) ''file://''
       then do { r \<leftarrow> disk w (Stat (trim_prefix (app_repository a) ''file://'')); State_Monad.return (Some r) }
       else State_Monad.return None);
     let r = repository_item a stat;
     let d = domain_item a;
     State_Monad.return \<lparr>pf_all_ok = (hp_all_ok host \<and> pi_ok r \<and> pi_ok d), pf_host = host, pf_repository = r, pf_domain = d\<rparr>
   }"

definition preflight_items :: "preflight \<Rightarrow> preflight_item list" where
  "preflight_items p =
     [hp_docker (pf_host p), hp_caddy (pf_host p), hp_network (pf_host p), hp_disk (pf_host p), pf_repository p, pf_domain p]"

definition preflightFailureSummary :: "preflight \<Rightarrow> string" where
  "preflightFailureSummary p =
     join_with '' '' (map (\<lambda>item. pi_name item @ '': '' @ pi_action item) (filter (\<lambda>item. \<not> pi_ok item) (preflight_items p)))"

text \<open>The check as the handlers use it, for a world with the given history.\<close>

definition preflight_summary :: "surroundings \<Rightarrow> world \<Rightarrow> bool \<Rightarrow> config \<Rightarrow> history \<Rightarrow> application \<Rightarrow> string option" where
  "preflight_summary su w socket c h a =
     (let p = fst (run_state (RunPreflightCheck su w socket c a) h)
      in if pf_all_ok p then None else Some (preflightFailureSummary p))"

section \<open>Handlers of the operations page\<close>

definition authorized_job :: "neighbours \<Rightarrow> request \<Rightarrow> response job \<Rightarrow> response job" where
  "authorized_job nb rq body = do {
     ok \<leftarrow> app_call nb (\<lambda>t ap. (ap, authorized t rq ap));
     if \<not> ok then State_Monad.return (respond (Redirect ''/unlock'')) else body
   }"

definition retention :: "neighbours \<Rightarrow> string \<Rightarrow> world \<Rightarrow> executor \<Rightarrow> config \<Rightarrow> request \<Rightarrow> response job" where
  "retention nb cwd w e c rq = authorized_job nb rq (do {
     r \<leftarrow> runRetention nb cwd w e c;
     State_Monad.return (respond (if r \<noteq> None then HttpError 503 ''retention unavailable'' else Redirect ''/operations''))
   })"

definition manualBackup :: "neighbours \<Rightarrow> services \<Rightarrow> surroundings \<Rightarrow> world \<Rightarrow> config \<Rightarrow> request \<Rightarrow> response job" where
  "manualBackup nb sv su w c rq = authorized_job nb rq (do {
     r \<leftarrow> runBackup nb sv su w c;
     State_Monad.return (respond (if r \<noteq> None then HttpError 503 ''backup unavailable; unlock MiniDock and retry'' else Redirect ''/operations''))
   })"

definition updateCleanupSchedule :: "time \<Rightarrow> request \<Rightarrow> app \<Rightarrow> app \<times> response" where
  "updateCleanupSchedule t0 rq ap = requireAuthorization t0 (\<lambda>rq ap.
     case UpdateCleanupSchedule (rq_form rq ''cleanup_schedule'') (ap_db ap) of
       (s', Inl _) \<Rightarrow> (ap\<lparr>ap_db := s'\<rparr>, respond (HttpError 400 ''invalid cleanup schedule''))
     | (s', Inr _) \<Rightarrow> (ap\<lparr>ap_db := s'\<rparr>, respond (Redirect ''/operations''))) rq ap"

text \<open>\<open>rq_form\<close> holds the query of a GET request as well.\<close>

definition operationLogs :: "time \<Rightarrow> request \<Rightarrow> app \<Rightarrow> app \<times> response" where
  "operationLogs t0 rq ap = requireAuthorization t0 (\<lambda>rq ap.
     case parse_int (rq_form rq ''application'') of
       None \<Rightarrow> (ap, respond (HttpError 400 ''select an application''))
     | Some appID \<Rightarrow>
         if appID < 1 then (ap, respond (HttpError 400 ''select an application''))
         else (case parse_int (rq_form rq ''deployment'') of
             None \<Rightarrow> (ap, respond (HttpError 400 ''select a deployment''))
           | Some i \<Rightarrow>
               if i < 1 then (ap, respond (HttpError 400 ''select a deployment''))
               else (case Deployment appID i (ap_db ap) of
                   Inl _ \<Rightarrow> (ap, respond Not_Found)
                 | Inr _ \<Rightarrow> (ap, respond (Redirect (''/applications/'' @ show_int appID @ ''/deployments/'' @ show_int i @ ''/logs''))))))
     rq ap"

end
