(* ===== verification/Preflight_Props.thy ===== *)
theory Preflight_Props
  imports App_Preflight App_Collector_Props App_Handlers_Props
begin

text \<open>The gate before a deployment: what holds of the host when a job is queued from the panel.\<close>

text \<open>What a check that passed has seen, item by item.\<close>

definition host_ready :: "surroundings \<Rightarrow> world \<Rightarrow> bool \<Rightarrow> config \<Rightarrow> bool" where
  "host_ready su w socket c \<longleftrightarrow>
     (\<exists>h. fst (run_state (DockerReady w socket) h) = None) \<and>
     (cfg_environment c = ''development'' \<or> (\<exists>h. fst (run_state (checkProxyReady w c) h) = None)) \<and>
     trim_space (cfg_docker_network c) \<noteq> '''' \<and>
     (\<exists>h used text. fst (run_state (diskUsage su (cfg_database_path c)) h) = Inr (used, text) \<and> used \<le> 90)"

lemma items_ok:
  "pi_ok (docker_item r) \<longleftrightarrow> r = None"
  "pi_ok (caddy_item c p) \<longleftrightarrow> p = None \<or> cfg_environment c = ''development''"
  "pi_ok (network_item c) \<longleftrightarrow> trim_space (cfg_docker_network c) \<noteq> ''''"
  "pi_ok (disk_item d) \<longleftrightarrow> (\<exists>used text. d = Inr (used, text) \<and> used \<le> 90)"
  "pi_ok (domain_item a) \<longleftrightarrow> trim_space (app_domain a) \<noteq> '''' \<and>
     (trim_space (app_health_endpoint a) = '''' \<or> has_prefix (trim_space (app_health_endpoint a)) ''/'')"
  "pi_ok (repository_item a s) \<longleftrightarrow>
     (case s of Some r \<Rightarrow> (\<exists>x. r = Inr x) | None \<Rightarrow> trim_space (app_repository a) \<noteq> '''')"
  by (auto simp: docker_item_def caddy_item_def network_item_def disk_item_def domain_item_def repository_item_def Let_def
      passed_def failed_def has_prefix_def split: option.splits sum.splits)

lemma host_check:
  assumes "hp_all_ok (fst (run_state (RunHostPreflightCheck su w socket c) h))"
  shows "host_ready su w socket c"
proof -
  obtain d h1 where 1: "run_state (DockerReady w socket) h = (d, h1)" by fastforce
  obtain p h2 where 2: "run_state (checkProxyReady w c) h1 = (p, h2)" by fastforce
  obtain u h3 where 3: "run_state (diskUsage su (cfg_database_path c)) h2 = (u, h3)" by fastforce
  from assms have "d = None" "p = None \<or> cfg_environment c = ''development''" "trim_space (cfg_docker_network c) \<noteq> ''''"
      "\<exists>used text. u = Inr (used, text) \<and> used \<le> 90"
    by (simp_all add: RunHostPreflightCheck_def 1 2 3 items_ok)
  with 1 2 3 show ?thesis unfolding host_ready_def by (metis fst_conv)
qed

lemma application_check:
  assumes "preflight_summary su w socket c h a = None"
  shows "host_ready su w socket c" and "trim_space (app_domain a) \<noteq> ''''"
    and "has_prefix (app_repository a) ''file://'' \<longrightarrow>
      (\<exists>h x. w_disk w h (Stat (trim_prefix (app_repository a) ''file://'')) = Inr x)"
proof -
  obtain p h1 where 1: "run_state (RunHostPreflightCheck su w socket c) h = (p, h1)" by fastforce
  from assms have ok: "pf_all_ok (fst (run_state (RunPreflightCheck su w socket c a) h))"
    by (simp add: preflight_summary_def Let_def split: if_splits)
  then have "hp_all_ok p" "pi_ok (domain_item a)" by (simp_all add: RunPreflightCheck_def 1 Let_def case_prod_beta split: if_splits)
  with 1 host_check [of su w socket c h] show "host_ready su w socket c" "trim_space (app_domain a) \<noteq> ''''"
    by (simp_all add: items_ok)
  from ok show "has_prefix (app_repository a) ''file://'' \<longrightarrow>
      (\<exists>h x. w_disk w h (Stat (trim_prefix (app_repository a) ''file://'')) = Inr x)"
    by (cases "has_prefix (app_repository a) ''file://''") (auto simp: RunPreflightCheck_def 1 Let_def disk_def items_ok intro!: exI [of _ h1])
qed

text \<open>
  C34: a request to deploy changes the queue only for an authorized user, for a registered application
  that was confirmed by name when it asks for that, and after a check that saw Docker answer, Caddy
  answer (in development it may be missing), a configured network, a disk filled to at most 90 percent, a domain and, for a
  local repository, its folder.
\<close>

theorem deployments_need_a_ready_host:
  assumes "deployApplication ho (preflight_summary su w socket c h) t0 t1 t rq ap = (ap', r)"
    and "deployments (ap_db ap') \<noteq> deployments (ap_db ap)"
  shows "authorized t0 rq ap \<and> host_ready su w socket c \<and>
    (\<exists>i a. parse_int (rq_path_value rq ''id'') = Some i \<and> Application i (ap_db ap) = Inr a \<and>
       (app_require_confirmation a \<longrightarrow> rq_form rq ''confirm_production'' = app_name a) \<and> trim_space (app_domain a) \<noteq> '''' \<and>
       (has_prefix (app_repository a) ''file://'' \<longrightarrow>
         (\<exists>h x. w_disk w h (Stat (trim_prefix (app_repository a) ''file://'')) = Inr x)))"
  using assms(1) unfolding deployApplication_def
proof (cases rule: for_application_cases)
  case refused
  with assms(2) show ?thesis by simp
next
  case (body i a)
  have "preflight_summary su w socket c h a = None" "app_require_confirmation a \<longrightarrow> rq_form rq ''confirm_production'' = app_name a"
    using body(4) assms(2) by (auto split: if_splits option.splits)
  with body(1-3) application_check [of su w socket c h a] show ?thesis by blast
qed

definition demo_ready_host :: world where
  "demo_ready_host = (demo_world ''healthy'')\<lparr>w_getenv := (\<lambda>_. ''tcp://docker-proxy:2375'')\<rparr>"

definition demo_open_app :: app where
  "demo_open_app = demo_push_app\<lparr>ap_key := [1], ap_sessions := [(''c'', 9999)]\<rparr>"

definition demo_deploy_request :: request where
  "demo_deploy_request = (demo_request ''/applications/7/deploy'' '''')\<lparr>rq_cookie := Some ''c'', rq_path_value := (\<lambda>_. ''7'')\<rparr>"

lemma demo_open_authorized: "authorized 1 demo_deploy_request demo_open_app"
  by (simp add: authorized_def demo_deploy_request_def demo_open_app_def)

lemma demo_preflight:
  "preflight_summary demo_surroundings demo_ready_host False (ap_config demo_open_app) [] demo_push_application = None"
  by code_simp

lemma demo_queued: "deployments (fst (queueDeployment demo_host c 2 3 7 ''deploy'' (ap_db demo_push_app))) \<noteq> []"
  by (simp add: queueDeployment_def queueDeploymentRef_def Application_def demo_host_mkdir QueueDeployment_def
      insert_deployment_def new_deployment_row_def active_status_def app_exists_def SetDeploymentReleaseMetadata_def
      set_deployments_def Let_def split: prod.split)

lemma demo_deployed:
  "deployments (ap_db (fst (deployApplication demo_host
     (preflight_summary demo_surroundings demo_ready_host False (ap_config demo_open_app) []) 1 2 3 demo_deploy_request demo_open_app))) \<noteq>
   deployments (ap_db demo_open_app)"
proof -
  have "parse_int (rq_path_value demo_deploy_request ''id'') = Some 7" by (simp add: demo_deploy_request_def)
  moreover have "Application 7 (ap_db demo_open_app) = Inr demo_push_application"
    by (simp add: demo_open_app_def Application_def)
  moreover have "ap_db demo_open_app = ap_db demo_push_app" by (simp add: demo_open_app_def)
  moreover obtain s x where q: "queueDeployment demo_host (ap_config demo_open_app) 2 3 7 ''deploy'' (ap_db demo_push_app) = (s, x)"
    by (metis prod.collapse)
  moreover have "deployments s \<noteq> []" using demo_queued [of "ap_config demo_open_app"] q by simp
  ultimately show ?thesis
    using demo_open_authorized demo_preflight
    by (simp add: deployApplication_def for_application_def requireAuthorization_def applicationData_def
        split: sum.split)
qed

theorem deployments_need_a_ready_host_witness:
  "authorized 1 demo_deploy_request demo_open_app \<and> host_ready demo_surroundings demo_ready_host False (ap_config demo_open_app)"
  using deployments_need_a_ready_host [OF prod.collapse [symmetric] demo_deployed] by simp

end
