(* ===== verification/Backup_Command.thy ===== *)
theory Backup_Command
  imports App_Operations
begin

text \<open>
  The commands \<^verbatim>\<open>minidock backup, verify, restore, seal, open\<close> and
  \<^verbatim>\<open>kms-export\<close> (\<^verbatim>\<open>cmd/minidock/backup.go\<close>). SQLite opens, copies and
  checks database files; it is given by what it answers.
\<close>

section \<open>Flags\<close>

text \<open>
  \<^verbatim>\<open>flag.FlagSet.Parse\<close> with string flags and boolean flags: \<open>values\<close> maps every
  declared flag to its text, which is \<^verbatim>\<open>true\<close> or \<^verbatim>\<open>false\<close> for a
  boolean one.
\<close>

definition ParseBool :: "string \<Rightarrow> bool option" where
  "ParseBool s =
     (if s \<in> {''1'', ''t'', ''T'', ''true'', ''TRUE'', ''True''} then Some True
      else if s \<in> {''0'', ''f'', ''F'', ''false'', ''FALSE'', ''False''} then Some False else None)"

definition flag_body :: "string \<Rightarrow> string" where
  "flag_body s = (if has_prefix s ''--'' then drop 2 s else drop 1 s)"

definition cut_equals :: "string \<Rightarrow> string \<times> string option" where
  "cut_equals name =
     (case first_index CHR ''='' name of None \<Rightarrow> (name, None) | Some i \<Rightarrow> (take i name, Some (drop (Suc i) name)))"

fun parse_flags :: "string list \<Rightarrow> str_map \<Rightarrow> string list \<Rightarrow> string + str_map" where
  "parse_flags bools vals [] = Inr vals"
| "parse_flags bools vals (s # args) =
     (if length s < 2 \<or> hd s \<noteq> CHR ''-'' \<or> s = ''--'' then Inr vals
      else if flag_body s = '''' \<or> hd (flag_body s) = CHR ''-'' \<or> hd (flag_body s) = CHR ''='' then Inl (''bad flag syntax: '' @ s)
      else let (name, v) = cut_equals (flag_body s)
      in if map_of vals name = None
         then Inl (if name = ''help'' \<or> name = ''h'' then ''flag: help requested'' else ''flag provided but not defined: -'' @ name)
         else if name \<in> set bools
         then (case v of
                 None \<Rightarrow> parse_flags bools (AList.update name ''true'' vals) args
               | Some t \<Rightarrow>
                   (case ParseBool t of
                      None \<Rightarrow> Inl (''invalid boolean value '' @ quoted t @ '' for -'' @ name @ '': parse error'')
                    | Some b \<Rightarrow> parse_flags bools (AList.update name (if b then ''true'' else ''false'') vals) args))
         else (case v of
                 Some t \<Rightarrow> parse_flags bools (AList.update name t vals) args
               | None \<Rightarrow>
                   (case args of
                      [] \<Rightarrow> Inl (''flag needs an argument: -'' @ name)
                    | t # rest \<Rightarrow> parse_flags bools (AList.update name t vals) rest)))"

definition declared_flags :: "string \<Rightarrow> str_map" where
  "declared_flags command =
     [(''database'', ''./data/minidock.db''), (''kms-config'', ''''), (''file'', ''''), (''input'', ''''), (''output'', '''')] @
     (if command = ''kms-export'' then [] else (''password-stdin'', ''false'') #
        (if command = ''restore'' then [(''destination'', '''')] else []))"

section \<open>SQLite\<close>

text \<open>
  A database file as the driver answers: its contents after migration, the error of a copy
  (\<^verbatim>\<open>VACUUM INTO\<close>) and the text of \<^verbatim>\<open>PRAGMA integrity_check\<close>.
\<close>

record sqlite =
  sq_open :: "history \<Rightarrow> string \<Rightarrow> db result"
  sq_vacuum :: "history \<Rightarrow> string \<Rightarrow> string \<Rightarrow> string option"
  sq_integrity :: "history \<Rightarrow> string \<Rightarrow> string + string"

definition store_open :: "world \<Rightarrow> sqlite \<Rightarrow> string \<Rightarrow> (string + db) prog" where
  "store_open w sq path = do {
     made \<leftarrow> disk w (MkdirAll (dir_path path));
     case made of
       Inl err \<Rightarrow> State_Monad.return (Inl (''create database directory: '' @ err))
     | Inr _ \<Rightarrow> do {
         r \<leftarrow> perform (Sqlite ''open'' path) (\<lambda>h. sq_open sq h path);
         State_Monad.return (case r of Inl e \<Rightarrow> Inl (error_text e) | Inr s \<Rightarrow> Inr s)
       }
   }"

definition IntegrityCheck :: "sqlite \<Rightarrow> string \<Rightarrow> string option prog" where
  "IntegrityCheck sq path = do {
     r \<leftarrow> perform (Sqlite ''integrity_check'' path) (\<lambda>h. sq_integrity sq h path);
     State_Monad.return (case r of
         Inl err \<Rightarrow> Some err
       | Inr text \<Rightarrow> if text \<noteq> ''ok'' then Some (''sqlite integrity check: '' @ text) else None)
   }"

definition verify_copy :: "world \<Rightarrow> sqlite \<Rightarrow> string \<Rightarrow> string \<Rightarrow> string option prog" where
  "verify_copy w sq path plain = do {
     written \<leftarrow> disk w (WriteFile path plain);
     case written of
       Inl err \<Rightarrow> State_Monad.return (Some err)
     | Inr _ \<Rightarrow> do {
         r \<leftarrow> store_open w sq path;
         case r of
           Inl err \<Rightarrow> State_Monad.return (Some (''open restored database: '' @ err))
         | Inr _ \<Rightarrow> IntegrityCheck sq path
       }
   }"

definition verifySQLite :: "world \<Rightarrow> sqlite \<Rightarrow> string \<Rightarrow> string option prog" where
  "verifySQLite w sq plain = do {
     r \<leftarrow> disk w (MkdirTemp ''minidock-restore-verify-'');
     case r of
       Inl err \<Rightarrow> State_Monad.return (Some err)
     | Inr dir \<Rightarrow> do {
         err \<leftarrow> verify_copy w sq (join_path [dir, ''minidock.db'']) plain;
         _ \<leftarrow> disk w (RemoveAll dir);
         State_Monad.return err
       }
   }"

section \<open>The key\<close>

text \<open>\<open>decode\<close> is \<^verbatim>\<open>json.Unmarshal\<close> into a \<^verbatim>\<open>SecurityConfig\<close>.\<close>

definition kms_configuration ::
    "world \<Rightarrow> sqlite \<Rightarrow> (string \<Rightarrow> string + security_config) \<Rightarrow> string \<Rightarrow> string \<Rightarrow> (string + security_config) prog" where
  "kms_configuration w sq decode databasePath configPath =
     (if configPath \<noteq> '''' then do {
        r \<leftarrow> disk w (ReadFile configPath);
        State_Monad.return (case r of
            Inl err \<Rightarrow> Inl err
          | Inr data \<Rightarrow> (case decode data of Inl err \<Rightarrow> Inl (''read KMS config: '' @ err) | Inr cfg \<Rightarrow> Inr cfg))
      }
      else do {
        r \<leftarrow> store_open w sq databasePath;
        State_Monad.return (case r of
            Inl err \<Rightarrow> Inl err
          | Inr s \<Rightarrow> (case SecurityConfig s of Inl e \<Rightarrow> Inl (error_text e) | Inr cfg \<Rightarrow> Inr cfg))
      })"

definition unlock_key :: "services \<Rightarrow> string \<Rightarrow> security_config \<Rightarrow> string + bytes" where
  "unlock_key sv password cfg =
     (case DeriveKey (sv_kdf sv) password (sc_salt cfg) of
        Inl e \<Rightarrow> Inl (error_text e)
      | Inr key \<Rightarrow>
          (case ValidateKey (sv_cipher sv) key (sc_verifier_nonce cfg) (sc_verifier_cipher cfg) of
             Inl _ \<Rightarrow> Inl ''KMS password rejected''
           | Inr _ \<Rightarrow> Inr key))"

definition backupKey ::
    "services \<Rightarrow> world \<Rightarrow> sqlite \<Rightarrow> (string \<Rightarrow> string + security_config) \<Rightarrow> string \<Rightarrow> string \<Rightarrow> string \<Rightarrow> (string + bytes) prog" where
  "backupKey sv w sq decode databasePath configPath password = do {
     r \<leftarrow> kms_configuration w sq decode databasePath configPath;
     State_Monad.return (case r of Inl err \<Rightarrow> Inl err | Inr cfg \<Rightarrow> unlock_key sv password cfg)
   }"

section \<open>Writing\<close>

definition written :: "string + string \<Rightarrow> string option" where
  "written r = (case r of Inl err \<Rightarrow> Some err | Inr _ \<Rightarrow> None)"

text \<open>\<^verbatim>\<open>json.Marshal\<close> of the three byte slices, as padded base64.\<close>

definition kms_json :: "security_config \<Rightarrow> string" where
  "kms_json cfg =
     (let field = (\<lambda>name bs. json_string name @ '':'' @ json_string (base64 False True (of_bytes bs)))
      in ''{'' @ field ''Salt'' (sc_salt cfg) @ '','' @ field ''VerifierNonce'' (sc_verifier_nonce cfg) @ '','' @
         field ''VerifierCipher'' (sc_verifier_cipher cfg) @ ''}'')"

definition exportKMSConfig :: "world \<Rightarrow> sqlite \<Rightarrow> string \<Rightarrow> string \<Rightarrow> string option prog" where
  "exportKMSConfig w sq databasePath destination = do {
     r \<leftarrow> store_open w sq databasePath;
     case r of
       Inl err \<Rightarrow> State_Monad.return (Some err)
     | Inr s \<Rightarrow>
         (case SecurityConfig s of
            Inl e \<Rightarrow> State_Monad.return (Some (error_text e))
          | Inr cfg \<Rightarrow> do { r \<leftarrow> disk w (WriteFile destination (kms_json cfg)); State_Monad.return (written r) })
   }"

definition sealFile ::
    "services \<Rightarrow> world \<Rightarrow> sqlite \<Rightarrow> (string \<Rightarrow> string + security_config) \<Rightarrow> string \<Rightarrow> string \<Rightarrow> string \<Rightarrow> string \<Rightarrow> string \<Rightarrow>
     string option prog" where
  "sealFile sv w sq decode databasePath configPath input destination password = do {
     k \<leftarrow> backupKey sv w sq decode databasePath configPath password;
     case k of
       Inl err \<Rightarrow> State_Monad.return (Some err)
     | Inr key \<Rightarrow> do {
         r \<leftarrow> disk w (ReadFile input);
         case r of
           Inl err \<Rightarrow> State_Monad.return (Some (''read input: '' @ err))
         | Inr plain \<Rightarrow>
             (case Seal (sv_cipher sv) (sv_rand sv 0) key (to_bytes plain) of
                Inl e \<Rightarrow> State_Monad.return (Some (error_text e))
              | Inr encoded \<Rightarrow> do { r \<leftarrow> disk w (WriteFile destination (of_bytes encoded)); State_Monad.return (written r) })
       }
   }"

definition seal_copy ::
    "services \<Rightarrow> world \<Rightarrow> sqlite \<Rightarrow> string \<Rightarrow> string \<Rightarrow> bytes \<Rightarrow> string \<Rightarrow> string option prog" where
  "seal_copy sv w sq databasePath destination key tmp = do {
     copied \<leftarrow> perform (Sqlite ''vacuum into'' tmp) (\<lambda>h. sq_vacuum sq h databasePath tmp);
     case copied of
       Some err \<Rightarrow> State_Monad.return (Some err)
     | None \<Rightarrow> do {
         r \<leftarrow> disk w (ReadFile tmp);
         case r of
           Inl err \<Rightarrow> State_Monad.return (Some err)
         | Inr plain \<Rightarrow>
             (case Seal (sv_cipher sv) (sv_rand sv 0) key (to_bytes plain) of
                Inl e \<Rightarrow> State_Monad.return (Some (error_text e))
              | Inr encoded \<Rightarrow> do { r \<leftarrow> disk w (WriteFile destination (of_bytes encoded)); State_Monad.return (written r) })
       }
   }"

definition createBackup ::
    "services \<Rightarrow> world \<Rightarrow> sqlite \<Rightarrow> (string \<Rightarrow> string + security_config) \<Rightarrow> string \<Rightarrow> string \<Rightarrow> string \<Rightarrow> string option prog" where
  "createBackup sv w sq decode databasePath destination password = do {
     k \<leftarrow> backupKey sv w sq decode databasePath '''' password;
     case k of
       Inl err \<Rightarrow> State_Monad.return (Some err)
     | Inr key \<Rightarrow> do {
         r \<leftarrow> store_open w sq databasePath;
         case r of
           Inl err \<Rightarrow> State_Monad.return (Some err)
         | Inr _ \<Rightarrow> do {
             made \<leftarrow> disk w (MkdirAll (dir_path destination));
             case made of
               Inl err \<Rightarrow> State_Monad.return (Some err)
             | Inr _ \<Rightarrow> do {
                 t \<leftarrow> disk w (CreateTemp (dir_path destination) ''.minidock-backup-*.db'');
                 case t of
                   Inl err \<Rightarrow> State_Monad.return (Some err)
                 | Inr tmp \<Rightarrow> do {
                     _ \<leftarrow> disk w (FileClose tmp);
                     err \<leftarrow> seal_copy sv w sq databasePath destination key tmp;
                     _ \<leftarrow> disk w (RemoveFile tmp);
                     State_Monad.return err
                   }
               }
           }
       }
   }"

section \<open>The command\<close>

definition restore_to :: "world \<Rightarrow> string \<Rightarrow> string \<Rightarrow> string option prog" where
  "restore_to w destination plain = do {
     found \<leftarrow> disk w (Stat destination);
     case found of
       Inr _ \<Rightarrow> State_Monad.return (Some ''restore destination already exists'')
     | Inl _ \<Rightarrow> do {
         made \<leftarrow> disk w (MkdirAll (dir_path destination));
         case made of
           Inl err \<Rightarrow> State_Monad.return (Some err)
         | Inr _ \<Rightarrow> do {
             r \<leftarrow> disk w (WriteFile destination plain);
             State_Monad.return (map_option (\<lambda>e. ''write restored database: '' @ e) (written r))
           }
       }
   }"

text \<open>What is done with the authenticated contents of an archive.\<close>

definition use_archive :: "world \<Rightarrow> sqlite \<Rightarrow> string \<Rightarrow> string \<Rightarrow> string \<Rightarrow> string \<Rightarrow> string option prog" where
  "use_archive w sq command output destination plain =
     (if command = ''open'' then
        (if output = '''' then State_Monad.return (Some ''--output is required for open'')
         else do {
           r \<leftarrow> disk w (WriteFile output plain);
           State_Monad.return (map_option (\<lambda>e. ''write decrypted file: '' @ e) (written r))
         })
      else do {
        bad \<leftarrow> verifySQLite w sq plain;
        if bad \<noteq> None then State_Monad.return bad
        else if command = ''verify'' then State_Monad.return None
        else if command \<noteq> ''restore'' then State_Monad.return (Some ''unknown backup command'')
        else restore_to w destination plain
      })"

definition open_archive ::
    "services \<Rightarrow> world \<Rightarrow> sqlite \<Rightarrow> (string \<Rightarrow> string + security_config) \<Rightarrow> string \<Rightarrow> (string \<Rightarrow> string) \<Rightarrow> string \<Rightarrow> string \<Rightarrow>
     string option prog" where
  "open_archive sv w sq decode command flag destination password = do {
     r \<leftarrow> disk w (ReadFile (flag ''file''));
     case r of
       Inl err \<Rightarrow> State_Monad.return (Some (''read backup: '' @ err))
     | Inr encoded \<Rightarrow> do {
         k \<leftarrow> backupKey sv w sq decode (flag ''database'') (flag ''kms-config'') password;
         case k of
           Inl err \<Rightarrow> State_Monad.return (Some err)
         | Inr key \<Rightarrow>
             (case Open (sv_cipher sv) key (to_bytes encoded) of
                Inl e \<Rightarrow> State_Monad.return (Some (''authenticate backup: '' @ error_text e))
              | Inr plain \<Rightarrow> use_archive w sq command (flag ''output'') destination (of_bytes plain))
       }
   }"

definition backupCommand ::
    "services \<Rightarrow> world \<Rightarrow> sqlite \<Rightarrow> (string \<Rightarrow> string + security_config) \<Rightarrow> string + string \<Rightarrow> string list \<Rightarrow> string option prog" where
  "backupCommand sv w sq decode stdin args =
     (case args of
        [] \<Rightarrow> State_Monad.return
          (Some ''usage: minidock backup|verify|restore|seal|open --database PATH --file PATH --password-stdin'')
      | command # rest \<Rightarrow>
          (case parse_flags [''password-stdin''] (declared_flags command) rest of
             Inl err \<Rightarrow> State_Monad.return (Some err)
           | Inr vals \<Rightarrow>
               (let flag = lookup vals; destination = flag (if command = ''restore'' then ''destination'' else ''database'')
                in if command = ''kms-export''
                   then (if flag ''file'' = '''' then State_Monad.return (Some ''--file is required for kms-export'')
                         else exportKMSConfig w sq (flag ''database'') (flag ''file''))
                   else if flag ''file'' = '''' \<or> flag ''database'' = '''' \<or> destination = '''' \<or> flag ''password-stdin'' \<noteq> ''true''
                   then State_Monad.return (Some ''--file, --database, database/destination and --password-stdin are required'')
                   else case stdin of
                       Inl err \<Rightarrow> State_Monad.return (Some (''read password: '' @ err))
                     | Inr text \<Rightarrow>
                         (let password = trim_space text
                          in if password = '''' then State_Monad.return (Some ''empty KMS password'')
                             else if command = ''backup'' then createBackup sv w sq decode (flag ''database'') (flag ''file'') password
                             else if command = ''seal'' then
                               (if flag ''input'' = '''' then State_Monad.return (Some ''--input is required for seal'')
                                else sealFile sv w sq decode (flag ''database'') (flag ''kms-config'') (flag ''input'') (flag ''file'') password)
                             else open_archive sv w sq decode command flag destination password))))"

end
