(* ===== verification/App_Retention_Props.thy ===== *)
theory App_Retention_Props
  imports App_Collector_Props
begin

text \<open>
  Retention deletes the record of a deployment only after its artefacts are gone.
\<close>

section \<open>What has been cleaned\<close>

definition log_removed :: "string \<Rightarrow> world \<Rightarrow> config \<Rightarrow> deployment \<Rightarrow> history \<Rightarrow> bool" where
  "log_removed cwd w c d h' \<longleftrightarrow>
     (\<exists>path h. deploymentLogPath cwd c (d_log_path d) = Inr path \<and> later h' (Disk (RemoveFile path) # h) \<and>
        (case w_disk w h (RemoveFile path) of Inr _ \<Rightarrow> True | Inl err \<Rightarrow> is_not_exist err))"

definition image_removed :: "world \<Rightarrow> executor \<Rightarrow> application \<Rightarrow> deployment \<Rightarrow> history \<Rightarrow> bool" where
  "image_removed w e a d h' \<longleftrightarrow>
     (d_status d = ''successful'' \<and> d_image d \<noteq> '''' \<longrightarrow>
        (\<exists>h h1. run_state (RemoveImage w e a (d_image d)) h = (None, h1) \<and> later h' h1))"

definition cleaned :: "string \<Rightarrow> world \<Rightarrow> executor \<Rightarrow> config \<Rightarrow> application \<Rightarrow> deployment \<Rightarrow> history \<Rightarrow> bool" where
  "cleaned cwd w e c a d h \<longleftrightarrow> log_removed cwd w c d h \<and> image_removed w e a d h"

lemma cleaned_later: "cleaned cwd w e c a d h \<Longrightarrow> later h' h \<Longrightarrow> cleaned cwd w e c a d h'"
  unfolding cleaned_def log_removed_def image_removed_def by (meson later_trans)

lemma grows_image: "grows (RemoveImage w e a img)"
proof -
  have adapter: "grows (adapter w e a)" by (rule plain_grows) (rule plain_adapter)
  moreover have "grows (adapter_remove_image ad w img)" for ad
    by (cases ad) (auto simp: grows_def intro!: emits_rules grows_remove(2) [unfolded grows_def])
  ultimately show ?thesis
    unfolding RemoveImage_def grows_def by (intro emits_bind emits_sum emits_return) auto
qed

lemma grows_clean: "grows (clean_candidate cwd w e c a d)"
  using grows_image unfolding clean_candidate_def grows_def
  by (auto intro!: emits_rules simp: disk_def split: option.splits sum.splits)

lemma candidate_cleaned: "ensures (clean_candidate cwd w e c a d) (\<lambda>gone h'. gone \<longrightarrow> cleaned cwd w e c a d h') h"
proof -
  let ?img = "if d_status d = ''successful'' \<and> d_image d \<noteq> '''' then RemoveImage w e a (d_image d) else State_Monad.return None"
  obtain r h1 where img: "run_state ?img h = (r, h1)" by fastforce
  have removed: "image_removed w e a d (x # h1)" if "r = None" for x
    unfolding image_removed_def
  proof
    assume "d_status d = ''successful'' \<and> d_image d \<noteq> ''''"
    with img that have "run_state (RemoveImage w e a (d_image d)) h = (None, h1)" by simp
    then show "\<exists>h h2. run_state (RemoveImage w e a (d_image d)) h = (None, h2) \<and> later (x # h1) h2"
      using later_Cons [OF later_refl] by blast
  qed
  have log: "log_removed cwd w c d (Disk (RemoveFile path) # h1)"
    if "deploymentLogPath cwd c (d_log_path d) = Inr path" "case w_disk w h1 (RemoveFile path) of Inr _ \<Rightarrow> True | Inl err \<Rightarrow> is_not_exist err" for path
    unfolding log_removed_def using that by (intro exI [of _ path] exI [of _ h1]) simp
  show ?thesis
  proof (cases r)
    case None
    then show ?thesis
      unfolding clean_candidate_def ensures_bind
      using img removed log by (auto simp: ensures_def cleaned_def disk_def split: sum.splits)
  qed (use img in \<open>simp add: clean_candidate_def ensures_def\<close>)
qed

lemma grows_all: "grows (clean_candidates cwd w e c a ds)"
  by (induction ds) (use grows_clean in \<open>auto simp: grows_def intro!: emits_rules\<close>)

lemma candidates_cleaned:
  "ensures (clean_candidates cwd w e c a ds) (\<lambda>ids h'. \<forall>i\<in>set ids. \<exists>d\<in>set ds. d_id d = i \<and> cleaned cwd w e c a d h') h"
proof (induction ds arbitrary: h)
  case (Cons d ds)
  obtain gone h1 where 1: "run_state (clean_candidate cwd w e c a d) h = (gone, h1)" by fastforce
  obtain ids h2 where 2: "run_state (clean_candidates cwd w e c a ds) h1 = (ids, h2)" by fastforce
  have "later h2 h1" using grows_later [OF grows_all 2] .
  moreover have "gone \<longrightarrow> cleaned cwd w e c a d h1" using candidate_cleaned [of cwd w e c a d h] 1 by (simp add: ensures_def)
  moreover have "\<forall>i\<in>set ids. \<exists>d\<in>set ds. d_id d = i \<and> cleaned cwd w e c a d h2" using Cons.IH [of h1] 2 by (simp add: ensures_def)
  ultimately show ?case using 1 2 by (auto simp: ensures_def intro: cleaned_later)
qed simp

section \<open>Retention\<close>

definition candidates :: "deployment_row list \<Rightarrow> config \<Rightarrow> time \<Rightarrow> application \<Rightarrow> deployment list" where
  "candidates rows c before a = RetentionCandidates (app_id a) before (retainedImages c) ((empty_db 0)\<lparr>deployments := rows\<rparr>)"

lemma candidates_db: "RetentionCandidates (app_id a) before (retainedImages c) s = candidates (deployments s) c before a"
  by (simp add: candidates_def RetentionCandidates_def Deployments_def app_history_def)

lemma candidates_local:
  "filter (\<lambda>r. dr_application_id r = app_id a) rows = filter (\<lambda>r. dr_application_id r = app_id a) rows' \<Longrightarrow>
   candidates rows c before a = candidates rows' c before a"
  by (simp add: candidates_def RetentionCandidates_def Deployments_def app_history_def)

lemma candidate_rows: "d \<in> set (candidates rows c before a) \<Longrightarrow> \<exists>r\<in>set rows. scan_deployment r = d \<and> dr_application_id r = app_id a"
  unfolding candidates_def RetentionCandidates_def
  by (drule retention_loop_old) (auto simp: Deployments_def app_history_def order_desc_def)

text \<open>
  The state of a run: the applications still to come have all their rows, and every row that is
  gone was a candidate of its application and has been cleaned.
\<close>

definition retaining ::
    "string \<Rightarrow> world \<Rightarrow> executor \<Rightarrow> config \<Rightarrow> time \<Rightarrow> deployment_row list \<Rightarrow> application list \<Rightarrow> application list \<Rightarrow>
     deployment_row list \<Rightarrow> history \<Rightarrow> bool" where
  "retaining cwd w e c before rows0 apps rest rows h \<longleftrightarrow>
     set rows \<subseteq> set rows0 \<and>
     (\<forall>a\<in>set rest. filter (\<lambda>r. dr_application_id r = app_id a) rows = filter (\<lambda>r. dr_application_id r = app_id a) rows0) \<and>
     (\<forall>r\<in>set rows0. r \<notin> set rows \<longrightarrow>
        (\<exists>a\<in>set apps. dr_application_id r = app_id a \<and> scan_deployment r \<in> set (candidates rows0 c before a) \<and>
           cleaned cwd w e c a (scan_deployment r) h))"

lemma retaining_step:
  assumes ret: "retaining cwd w e c before rows0 apps (a # rest) rows h" and a: "a \<in> set apps" "app_id a \<notin> app_id ` set rest"
    and ids: "\<forall>i\<in>set ids. \<exists>d\<in>set (candidates rows c before a). d_id d = i \<and> cleaned cwd w e c a d h"
    and uniq: "distinct (map dr_id rows0)"
  shows "retaining cwd w e c before rows0 apps rest
    (delete_where (\<lambda>r. dr_application_id r = app_id a \<and> dr_id r \<in> set ids) rows) h"
    (is "retaining _ _ _ _ _ _ _ _ ?rows _")
proof -
  have cand: "candidates rows c before a = candidates rows0 c before a"
    by (rule candidates_local) (use ret in \<open>simp add: retaining_def\<close>)
  have "set ?rows \<subseteq> set rows" by (auto simp: delete_where_def)
  moreover have "filter (\<lambda>r. dr_application_id r = app_id b) ?rows = filter (\<lambda>r. dr_application_id r = app_id b) rows" if "b \<in> set rest" for b
  proof -
    have "app_id b \<noteq> app_id a" using that a(2) by (metis imageI)
    then show ?thesis by (induction rows) (auto simp: delete_where_def)
  qed
  moreover have "scan_deployment r \<in> set (candidates rows0 c before a) \<and> cleaned cwd w e c a (scan_deployment r) h"
    if r: "r \<in> set rows" "dr_application_id r = app_id a" "dr_id r \<in> set ids" for r
  proof -
    from ids r(3) obtain d where d: "d \<in> set (candidates rows c before a)" "d_id d = dr_id r" "cleaned cwd w e c a d h" by blast
    from candidate_rows [OF d(1)] obtain q where q: "q \<in> set rows" "scan_deployment q = d" by blast
    have "dr_id q = dr_id r" using q(2) d(2) by (auto simp: scan_deployment_def)
    with uniq q(1) r(1) ret have "q = r" unfolding retaining_def by (metis distinct_key_inj subsetD)
    with q(2) d(1,3) cand show ?thesis by simp
  qed
  ultimately have kept: "set ?rows \<subseteq> set rows"
    "\<And>b. b \<in> set rest \<Longrightarrow> filter (\<lambda>r. dr_application_id r = app_id b) ?rows = filter (\<lambda>r. dr_application_id r = app_id b) rows"
    and gone: "\<And>r. r \<in> set rows \<Longrightarrow> r \<notin> set ?rows \<Longrightarrow> dr_application_id r = app_id a \<and>
      scan_deployment r \<in> set (candidates rows0 c before a) \<and> cleaned cwd w e c a (scan_deployment r) h"
    by (auto simp only: in_delete_where)
  show ?thesis
    unfolding retaining_def
  proof (intro conjI ballI impI)
    show "set ?rows \<subseteq> set rows0" using kept(1) ret by (auto simp: retaining_def)
    show "filter (\<lambda>r. dr_application_id r = app_id b) ?rows = filter (\<lambda>r. dr_application_id r = app_id b) rows0" if "b \<in> set rest" for b
      using kept(2) [OF that] ret that by (simp add: retaining_def)
    show "\<exists>a\<in>set apps. dr_application_id r = app_id a \<and> scan_deployment r \<in> set (candidates rows0 c before a) \<and>
        cleaned cwd w e c a (scan_deployment r) h" if "r \<in> set rows0" "r \<notin> set ?rows" for r
    proof (cases "r \<in> set rows")
      case True
      with gone [OF this that(2)] a(1) show ?thesis by blast
    next
      case False
      with ret that(1) show ?thesis by (simp add: retaining_def)
    qed
  qed
qed

lemma retaining_history: "retaining cwd w e c before rows0 apps rest rows h \<Longrightarrow> later h' h \<Longrightarrow> retaining cwd w e c before rows0 apps rest rows h'"
  unfolding retaining_def by (meson cleaned_later)

lemma retaining_rest: "retaining cwd w e c before rows0 apps (a # rest) rows h \<Longrightarrow> retaining cwd w e c before rows0 apps rest rows h"
  by (simp add: retaining_def)

lemma DeleteDeployments_rows:
  "deployments (fst (DeleteDeployments i ids s)) = delete_where (\<lambda>r. dr_application_id r = i \<and> dr_id r \<in> set ids) (deployments s)"
  by (auto simp: DeleteDeployments_def Let_def delete_where_def)

lemma retain_all_safe:
  assumes q: "quiet nb deployments" and uniq: "distinct (map dr_id rows0)"
    and "set rest \<subseteq> set apps" and "distinct (map app_id rest)"
  shows "hoare deployments (retaining cwd w e c before rows0 apps rest) (retain_all nb cwd w e c before rest)
    (\<lambda>_. retaining cwd w e c before rows0 apps [])"
  using assms(3,4)
proof (induction rest)
  case Nil
  then show ?case by (simp add: hoare_return)
next
  case (Cons a rest)
  let ?I = "retaining cwd w e c before rows0 apps"
  have read: "hoare deployments (?I (a # rest)) (store_read nb (RetentionCandidates (app_id a) before (retainedImages c)))
      (\<lambda>ds rows h. ?I (a # rest) rows h \<and> ds = candidates rows c before a)"
    by (rule quiet.hoare_read [OF q]) (simp add: candidates_db)
  have clean: "hoare deployments (\<lambda>rows h. ?I (a # rest) rows h \<and> ds = candidates rows c before a)
      (run_outside (clean_candidates cwd w e c a ds))
      (\<lambda>ids rows h. ?I (a # rest) rows h \<and> (\<forall>i\<in>set ids. \<exists>d\<in>set (candidates rows c before a). d_id d = i \<and> cleaned cwd w e c a d h))" for ds
  proof (rule hoare_outside)
    fix rows h
    assume "?I (a # rest) rows h \<and> ds = candidates rows c before a"
    moreover have "ensures (clean_candidates cwd w e c a ds) (\<lambda>_ h'. later h' h) h"
      using grows_later [OF grows_all] by (auto simp: ensures_def split: prod.split)
    ultimately show "ensures (clean_candidates cwd w e c a ds) (\<lambda>ids h'. ?I (a # rest) rows h' \<and>
        (\<forall>i\<in>set ids. \<exists>d\<in>set (candidates rows c before a). d_id d = i \<and> cleaned cwd w e c a d h')) h"
      using candidates_cleaned [of cwd w e c a ds h] retaining_history
      by (auto simp: ensures_def split: prod.splits)
  qed
  have delete: "hoare deployments (\<lambda>rows h. ?I (a # rest) rows h \<and>
        (\<forall>i\<in>set ids. \<exists>d\<in>set (candidates rows c before a). d_id d = i \<and> cleaned cwd w e c a d h))
      (store_call nb (\<lambda>_. DeleteDeployments (app_id a) ids)) (\<lambda>_. ?I rest)" for ids
  proof (rule quiet.hoare_call [OF q])
    fix t :: time and s :: db and h
    assume "?I (a # rest) (deployments s) h \<and> (\<forall>i\<in>set ids. \<exists>d\<in>set (candidates (deployments s) c before a). d_id d = i \<and> cleaned cwd w e c a d h)"
    with Cons.prems show "?I rest (deployments (fst (DeleteDeployments (app_id a) ids s))) h"
      unfolding DeleteDeployments_rows by (intro retaining_step [OF _ _ _ _ uniq]) auto
  qed
  have rest: "hoare deployments (?I rest) (case r of Inl err \<Rightarrow> State_Monad.return (Some err) | Inr x \<Rightarrow> retain_all nb cwd w e c before rest)
      (\<lambda>_. ?I [])" for r :: "unit result"
  proof (rule hoare_sum)
    show "hoare deployments (?I rest) (State_Monad.return (Some err)) (\<lambda>_. ?I [])" for err
      by (rule hoare_return) (simp add: retaining_def)
    show "hoare deployments (?I rest) (retain_all nb cwd w e c before rest) (\<lambda>_. ?I [])"
      using Cons.prems by (intro Cons.IH) simp_all
  qed
  show ?case
    unfolding retain_all.simps by (rule hoare_bind [OF read], rule hoare_bind [OF clean], rule hoare_bind [OF delete], rule rest)
qed

text \<open>
  C8: A run of the retention, beside others that leave the deployments alone, only deletes rows;
  a deleted one belongs to a known application, was a candidate by age, status and number of kept
  images when the run began, and before it was deleted its log file was removed (or was already
  gone) and, if it had a successful image, the runtime had removed the image.
\<close>

theorem retention_deletes_only_cleaned:
  assumes "quiet nb work_tables"
    and "distinct (map dr_id (deployments (ap_db ap)))" and "distinct (map app_id (applications (ap_db ap)))"
    and "run_state (runRetention nb cwd w e c) (ap, h, k) = (res, (ap', h', k'))"
  shows "set (deployments (ap_db ap')) \<subseteq> set (deployments (ap_db ap)) \<and>
    (\<forall>r\<in>set (deployments (ap_db ap)). r \<notin> set (deployments (ap_db ap')) \<longrightarrow>
       (\<exists>a\<in>set (applications (ap_db ap)). dr_application_id r = app_id a \<and>
          scan_deployment r \<in> set (RetentionCandidates (app_id a) (w_now w h - retentionDays c * day_length) (retainedImages c) (ap_db ap)) \<and>
          log_removed cwd w c (scan_deployment r) h' \<and> image_removed w e a (scan_deployment r) h'))"
proof -
  let ?rows = "deployments (ap_db ap)" and ?apps = "applications (ap_db ap)"
  have q: "quiet nb deployments" "quiet nb applications"
    using assms(1) by (auto simp: quiet_def work_tables_def)
  let ?apps_read = "Applications (ap_db ap)"
  have apps: "set ?apps_read = set ?apps" "distinct (map app_id ?apps_read)"
    using assms(3) by (simp_all add: Applications_def distinct_map)
  obtain h1 k1 where r: "run_state (retain_all nb cwd w e c (w_now w h - retentionDays c * day_length) ?apps_read) (nb_effect nb k ap, h1, k1) =
      (res, (ap', h', k'))"
    using assms(4) quiet.undisturbed [OF q(2), of k ap]
    by (auto simp: runRetention_def store_read_def store_call_def app_call_def Let_def run_outside_run now_def Applications_def)
  have "retaining cwd w e c (w_now w h - retentionDays c * day_length) ?rows ?apps ?apps_read (deployments (ap_db (nb_effect nb k ap))) h1"
    using quiet.undisturbed [OF q(1), of k ap] by (simp add: retaining_def)
  from hoareD [OF retain_all_safe [OF q(1) assms(2) _ apps(2)] this r] apps(1)
  show ?thesis unfolding retaining_def cleaned_def candidates_db [symmetric] by simp
qed

definition demo_old :: app where
  "demo_old = demo_server\<lparr>ap_db := (empty_db 0)\<lparr>applications := [demo_app 1 ''web''],
     deployments := map (\<lambda>i. demo_release i ''img'' i) [1, 2, 3, 4, 5]\<rparr>\<rparr>"

theorem retention_deletes_only_cleaned_witness:
  "set (deployments (ap_db (fst (snd (run_state (runRetention (signing demo_services (\<lambda>_. demo_request ''/unlock'' ''guess'') int) ''/srv''
     (demo_world ''healthy'') demo_executor (ap_config demo_old)) (demo_old, [Sleep (99 * day_length)], 0)))))) \<subseteq> set (deployments (ap_db demo_old))"
proof -
  let ?run = "run_state (runRetention (signing demo_services (\<lambda>_. demo_request ''/unlock'' ''guess'') int) ''/srv''
     (demo_world ''healthy'') demo_executor (ap_config demo_old)) (demo_old, [Sleep (99 * day_length)], 0)"
  obtain res ap' h' k' where run: "?run = (res, (ap', h', k'))" by (metis prod_cases4)
  have "distinct (map dr_id (deployments (ap_db demo_old)))" "distinct (map app_id (applications (ap_db demo_old)))"
    by (simp_all add: demo_old_def demo_release_simps)
  from retention_deletes_only_cleaned [OF signing_in.quiet_axioms this run] run show ?thesis by simp
qed

end
