(* ===== verification/Backup_Props.thy ===== *)
theory Backup_Props
  imports Backup_Command App_Retention_Props
begin

text \<open>
  Backups: what leaves the process is sealed, rotation removes only old archives, and what was
  sealed can be restored with the same password.
\<close>

section \<open>What a backup writes and removes\<close>

text \<open>An archive of the database as it was at some moment, under the key in memory then.\<close>

definition sealed :: "services \<Rightarrow> surroundings \<Rightarrow> string \<Rightarrow> bool" where
  "sealed sv su body \<longleftrightarrow>
     (\<exists>key s plain encoded. key \<noteq> [] \<and> Snapshot su s = Inr plain \<and>
        Seal (sv_cipher sv) (sv_rand sv 0) key plain = Inr encoded \<and> body = of_bytes encoded)"

fun backup_action :: "services \<Rightarrow> surroundings \<Rightarrow> config \<Rightarrow> action \<Rightarrow> bool" where
  "backup_action sv su c (Disk (WriteFile p body)) \<longleftrightarrow> sealed sv su body \<and> (\<exists>t. p = join_path [cfg_backup_path c, backup_name t])"
| "backup_action sv su c (PutObject bucket key body) \<longleftrightarrow> sealed sv su body"
| "backup_action sv su c (Disk (RemoveFile p)) \<longleftrightarrow>
     (\<exists>h files. su_listing su h (cfg_backup_path c) = Inr files \<and> p \<in> set (expired_backups c files))"
| "backup_action sv su c (Disk (MkdirAll p)) \<longleftrightarrow> p = cfg_backup_path c"
| "backup_action sv su c (Disk (ReadDir p)) \<longleftrightarrow> p = cfg_backup_path c"
| "backup_action sv su c ReadClock \<longleftrightarrow> True"
| "backup_action sv su c _ \<longleftrightarrow> False"

lemma remove_expired_files_emits: "(\<And>b. b \<in> set bs \<Longrightarrow> P (Disk (RemoveFile b))) \<Longrightarrow> emits P (remove_expired_files w bs)"
  by (induction bs) (auto simp: disk_def intro!: emits_rules)

lemma emits_answer:
  assumes "P a" and "\<And>h. emits P (f (answer h))"
  shows "emits P (State_Monad.bind (perform a answer) f)"
  unfolding emits_def
proof
  fix h
  from assms(2) [of h] obtain t where "snd (run_state (f (answer h)) (a # h)) = t @ a # h" "list_all P t"
    unfolding emits_def by blast
  with assms(1) show "\<exists>t. snd (run_state (State_Monad.bind (perform a answer) f) h) = t @ h \<and> list_all P t"
    by (intro exI [of _ "t @ [a]"]) simp
qed

lemma rotate_emits: "emits (backup_action sv su c) (rotate_backups su w c)"
  unfolding rotate_backups_def
  by (rule emits_answer) (auto intro!: emits_rules remove_expired_files_emits split: sum.splits, blast)

lemma upload_emits: "sealed sv su body \<Longrightarrow> emits (backup_action sv su c) (UploadS3 su cfg key body)"
  unfolding UploadS3_def Let_def by (auto intro!: emits_rules split: option.splits)

lemma notes_emit [trace_rules]: "job_emits P (note_error nb text err)" "job_emits P (note_success nb)"
  unfolding note_error_def note_success_def by (auto intro!: trace_rules)

lemma deliver_emits:
  assumes "sealed sv su body"
  shows "job_emits (backup_action sv su c) (deliver_backup nb su w c (backup_name t) body)"
  unfolding deliver_backup_def upload_backup_def store_backup_def Let_def using assms
  by (auto intro!: trace_rules emits_rules rotate_emits upload_emits simp: disk_def split: option.splits sum.splits stream_end.splits)

lemma runBackup_emits: "job_emits (backup_action sv su c) (runBackup nb sv su w c)"
proof -
  have "job_emits (backup_action sv su c) (run_outside (now w) \<bind> (\<lambda>t. case Seal (sv_cipher sv) (sv_rand sv 0) key plain of
      Inl e \<Rightarrow> note_error nb (error_text e) (''encrypt backup: '' @ error_text e)
    | Inr encoded \<Rightarrow> deliver_backup nb su w c (backup_name t) (of_bytes encoded)))"
    if "key \<noteq> []" "Snapshot su s = Inr plain" for key plain s
    using that by (auto intro!: trace_rules deliver_emits emits_rules simp: now_def sealed_def split: sum.splits) blast
  note seal = this
  show ?thesis
    unfolding runBackup_def
    apply (rule job_emits_bind [OF job_emits_call(2)], rule job_emits_cases(1), rule job_emits_return)
    apply (rule job_emits_bind [OF job_emits_call(3)], rule job_emits_cases(1), rule job_emits_bind [OF job_emits_call(1)], rule notes_emit)
    apply (rule job_emits_bind_via [OF job_emits_call(2) read_yields], rule job_emits_cases(2), rule notes_emit)
    apply (elim exE, rule seal, assumption, simp)
    done
qed

section \<open>Rotation\<close>

lemma clean_elements_append: "clean_elements r st (xs @ ys) = clean_elements r (clean_elements r st xs) ys"
  by (induction r st xs rule: clean_elements.induct) (auto split: list.splits)

lemma split_on_nonempty: "split_on c s \<noteq> []"
  by (induction s) (auto split: list.splits)

lemma split_on_append_slash: "split_on CHR ''/'' (d @ ''/'' @ f) = split_on CHR ''/'' d @ split_on CHR ''/'' f"
  by (induction d) (auto simp: split_on_nonempty split: list.splits)

definition plain_name :: "string \<Rightarrow> bool" where
  "plain_name f \<longleftrightarrow> f \<notin> {'''', ''.'', ''..''} \<and> CHR ''/'' \<notin> set f"

text \<open>A plain file name ends the joined path unchanged, after a text that only depends on the directory.\<close>

lemma join_with_snoc: "join_with ''/'' (xs @ [f]) = (if xs = [] then '''' else join_with ''/'' xs @ ''/'') @ f"
  by (cases xs) (auto simp: join_with_def)

lemma clean_elements_plain:
  assumes "plain_name f"
  shows "clean_elements r st (split_on CHR ''/'' f) = f # st"
  using assms by (simp add: plain_name_def split_on_single)

lemma append_if: "(if b then x else y) @ z = (if b then x @ z else y @ z)"
  by simp

lemma join_path_name: "\<exists>pre. \<forall>f. plain_name f \<longrightarrow> join_path [d, f] = pre @ f"
proof (cases "d = ''''")
  case True
  have "join_path [d, f] = f" if "plain_name f" for f
  proof -
    from that have "\<not> is_abs f" by (cases f) (auto simp: plain_name_def is_abs_def has_prefix_def)
    then have "clean_path f = f"
      using clean_elements_plain [OF that, of False "[]"] by (simp add: clean_path_def path_elements_def join_with_def Let_def)
    then show ?thesis using that True by (simp add: join_path_def join_with_def plain_name_def)
  qed
  then show ?thesis by (intro exI [of _ "''''"]) simp
next
  case False
  let ?abs = "is_abs d"
  let ?els = "rev (clean_elements ?abs [] (split_on CHR ''/'' d))"
  let ?pre = "(if ?abs then ''/'' else '''') @ (if ?els = [] then '''' else join_with ''/'' ?els @ ''/'')"
  have "join_path [d, f] = ?pre @ f" if f: "plain_name f" for f
  proof -
    have abs: "is_abs (d @ ''/'' @ f) = ?abs" using False by (auto simp: is_abs_def has_prefix_def neq_Nil_conv)
    have "path_elements (d @ ''/'' @ f) = ?els @ [f]"
      unfolding path_elements_def abs split_on_append_slash clean_elements_append clean_elements_plain [OF f] by simp
    moreover have "join_path [d, f] = clean_path (d @ ''/'' @ f)" using False f by (simp add: join_path_def join_with_def plain_name_def)
    ultimately have "join_path [d, f] = (if ?abs then ''/'' @ join_with ''/'' (?els @ [f]) else join_with ''/'' (?els @ [f]))"
      unfolding clean_path_def Let_def abs by simp
    moreover have "join_with ''/'' (?els @ [f]) = (if ?els = [] then '''' else join_with ''/'' ?els @ ''/'') @ f"
      by (rule join_with_snoc)
    ultimately show ?thesis by (simp only: append_if append_Nil append.assoc)
  qed
  then show ?thesis by (intro exI [of _ ?pre] allI impI)
qed

lemma append_le: "p @ x \<le> p @ (y :: string) \<longleftrightarrow> x \<le> y"
  by (induction p) auto

lemma pad_chars: "set (pad k n) \<subseteq> digit_char ` {0..9}"
proof (induction k n rule: pad.induct)
  case (2 k n)
  have "nat (n mod 10) \<in> {0..9}" by simp
  then have "digit_char (nat (n mod 10)) \<in> digit_char ` {0..9}" by (rule imageI)
  with 2 show ?case by (simp del: atLeastAtMost_iff)
qed simp

lemma digits_no_slash: "CHR ''/'' \<notin> digit_char ` {0..9}"
  by code_simp

lemma stamp_length:
  assumes "0 \<le> fst (civil_date t)" and "fst (civil_date t) \<le> 9999"
  shows "length (compact_stamp t) = 15"
  using assms by (auto simp: compact_stamp_def year_text_def split: prod.split)

lemma civil_year_le:
  assumes "t \<le> t'"
  shows "fst (civil_date t) \<le> fst (civil_date t')"
proof (cases "t div day_length = t' div day_length")
  case True
  then show ?thesis by (simp add: civil_date_def civil_year_def)
next
  case False
  with assms have "t div day_length < t' div day_length"
    using zdiv_mono1 [of t t' day_length] by (simp add: day_length_def)
  from civil_date_mono [OF this] show ?thesis by (metis fst_conv prod_cases3 order.order_iff_strict)
qed

lemma backup_name_plain:
  assumes "0 \<le> fst (civil_date t)" and "fst (civil_date t) \<le> 9999"
  shows "plain_name (backup_name t)" "is_backup (backup_name t)"
proof -
  obtain y m d where date: "civil_date t = (y, m, d)" by (metis prod_cases3)
  obtain h i s where clock: "clock_time t = (h, i, s)" by (metis prod_cases3)
  from assms date have "year_text y = pad 4 y" by (simp add: year_text_def)
  then have "CHR ''/'' \<notin> set (compact_stamp t)"
    using pad_chars digits_no_slash by (fastforce simp: compact_stamp_def date clock)
  then show "plain_name (backup_name t)" by (auto simp: plain_name_def backup_name_def)
  show "is_backup (backup_name t)" by (simp add: is_backup_def backup_name_def has_prefix_def has_suffix_def)
qed

lemma backup_name_mono:
  assumes "t \<le> t'" "0 \<le> fst (civil_date t)" "fst (civil_date t') \<le> 9999"
  shows "backup_name t \<le> backup_name t'"
proof -
  have len: "length (compact_stamp t) = length (compact_stamp t')"
    using assms civil_year_le [OF assms(1)] by (simp add: stamp_length)
  show ?thesis
    unfolding backup_name_def append_le
    using compact_stamp_mono [OF assms] len by (intro append_order) (auto simp: order.order_iff_strict)
qed

lemma insort_append: "insort (p @ x) (map ((@) p) ys) = map ((@) p) (insort x (ys :: string list))"
  by (induction ys) (auto simp: append_le)

lemma sort_append: "sort (map ((@) p) xs) = map ((@) p) (sort (xs :: string list))"
  by (induction xs) (auto simp: insort_append)

definition dated :: "string \<Rightarrow> bool" where
  "dated f \<longleftrightarrow> (\<exists>t. f = backup_name t \<and> 0 \<le> fst (civil_date t) \<and> fst (civil_date t) \<le> 9999)"

lemma dated_plain: "dated f \<Longrightarrow> plain_name f"
  unfolding dated_def using backup_name_plain(1) by blast

text \<open>The expired archives of a directory of dated ones are those with the smallest names.\<close>

lemma expired_names:
  assumes "\<forall>f\<in>set files. is_backup f \<longrightarrow> dated f"
  obtains p where "\<And>f. dated f \<Longrightarrow> join_path [cfg_backup_path c, f] = p @ f"
    and "expired_backups c files =
      map ((@) p) (take (length (filter is_backup files) - backup_retention c) (sort (filter is_backup files)))"
proof -
  obtain p where p: "\<And>f. plain_name f \<Longrightarrow> join_path [cfg_backup_path c, f] = p @ f" using join_path_name by blast
  have "map (\<lambda>f. join_path [cfg_backup_path c, f]) (filter is_backup files) = map ((@) p) (filter is_backup files)"
    using assms p dated_plain by (intro map_cong) auto
  then have "expired_backups c files = map ((@) p) (take (length (filter is_backup files) - backup_retention c) (sort (filter is_backup files)))"
    by (simp only: expired_backups_def Let_def sort_append take_map length_map length_sort)
  with p dated_plain that show ?thesis by blast
qed

lemma older_name:
  assumes "dated f" and "dated g" and "f \<le> g" and "f \<noteq> g"
  shows "\<exists>t t'. f = backup_name t \<and> g = backup_name t' \<and> t < t'"
proof -
  from assms obtain t t' where t: "f = backup_name t" "0 \<le> fst (civil_date t)" "fst (civil_date t) \<le> 9999"
    and t': "g = backup_name t'" "0 \<le> fst (civil_date t')" "fst (civil_date t') \<le> 9999"
    unfolding dated_def by blast
  have "\<not> t' \<le> t" using backup_name_mono [of t' t] t t' assms(3,4) by auto
  with t t' show ?thesis by (auto simp: not_le)
qed

text \<open>
  C32: rotation. When every archive in the backup directory is named by the server in a year of four
  digits, an archive is removed only while as many archives as configured stay, each of
  them taken strictly later.
\<close>

theorem rotation_keeps_the_newest:
  assumes "distinct files" and "\<forall>f\<in>set files. is_backup f \<longrightarrow> dated f"
    and "f \<in> set files" and "is_backup f" and "join_path [cfg_backup_path c, f] \<in> set (expired_backups c files)"
  shows "\<exists>kept \<subseteq> set files. card kept = backup_retention c \<and>
    (\<forall>g\<in>kept. join_path [cfg_backup_path c, g] \<notin> set (expired_backups c files) \<and>
       (\<exists>t t'. f = backup_name t \<and> g = backup_name t' \<and> t < t'))"
proof -
  let ?bs = "sort (filter is_backup files)"
  let ?n = "length (filter is_backup files) - backup_retention c"
  obtain p where p: "\<And>f. dated f \<Longrightarrow> join_path [cfg_backup_path c, f] = p @ f"
    and e: "expired_backups c files = map ((@) p) (take ?n ?bs)"
    using expired_names [OF assms(2)] by blast
  have "dated f" using assms(2-4) by blast
  with assms(5) e p have f: "f \<in> set (take ?n ?bs)" by auto
  then have "?n \<noteq> 0" by auto
  then have len: "length (drop ?n ?bs) = backup_retention c" by simp
  have d: "distinct ?bs" using assms(1) by simp
  then have disj: "set (take ?n ?bs) \<inter> set (drop ?n ?bs) = {}" by (rule set_take_disj_set_drop_if_distinct) simp
  have sorted: "sorted (take ?n ?bs @ drop ?n ?bs)" unfolding append_take_drop_id by simp
  have "card (set (drop ?n ?bs)) = backup_retention c" using d len by (simp add: distinct_card)
  moreover have sub: "set (drop ?n ?bs) \<subseteq> {g \<in> set files. is_backup g}" using set_drop_subset [of ?n ?bs] by auto
  moreover have "join_path [cfg_backup_path c, g] \<notin> set (expired_backups c files) \<and>
       (\<exists>t t'. f = backup_name t \<and> g = backup_name t' \<and> t < t')" if g: "g \<in> set (drop ?n ?bs)" for g
  proof
    have dated: "dated g" using g sub assms(2) by blast
    then show "join_path [cfg_backup_path c, g] \<notin> set (expired_backups c files)" using p e disj g by auto
    have "f \<le> g" "f \<noteq> g" using sorted disj f g unfolding sorted_append by auto
    with \<open>dated f\<close> dated show "\<exists>t t'. f = backup_name t \<and> g = backup_name t' \<and> t < t'" by (rule older_name)
  qed
  ultimately show ?thesis by (intro exI [of _ "set (drop ?n ?bs)"]) auto
qed

definition demo_archives :: "string list" where
  "demo_archives = [''backup-00010102-000000.mdbk'', ''notes.txt'', ''backup-00010101-000000.mdbk'']"

lemma demo_archive_names: "backup_name 0 = ''backup-00010101-000000.mdbk''" "backup_name day_length = ''backup-00010102-000000.mdbk''"
  by code_simp+

lemma demo_dated: "dated (backup_name 0)" "dated (backup_name day_length)"
  unfolding dated_def by (rule exI [of _ 0], simp, code_simp) (rule exI [of _ day_length], simp, code_simp)

theorem rotation_keeps_the_newest_witness:
  "\<exists>g\<in>set demo_archives. join_path [''backups'', g] \<notin>
     set (expired_backups (ap_config demo_server\<lparr>cfg_backup_path := ''backups'', cfg_backup_retention := 1\<rparr>) demo_archives)"
proof -
  let ?c = "ap_config demo_server\<lparr>cfg_backup_path := ''backups'', cfg_backup_retention := 1\<rparr>"
  have 1: "distinct demo_archives" by code_simp
  have 2: "\<forall>f\<in>set demo_archives. is_backup f \<longrightarrow> dated f"
    using demo_dated unfolding demo_archive_names demo_archives_def by (auto simp: is_backup_def has_prefix_def)
  have 3: "join_path [cfg_backup_path ?c, ''backup-00010101-000000.mdbk''] \<in> set (expired_backups ?c demo_archives)"
    unfolding expired_backups_def backup_retention_def by (simp add: demo_archives_def) code_simp
  have 4: "''backup-00010101-000000.mdbk'' \<in> set demo_archives" "is_backup ''backup-00010101-000000.mdbk''" by code_simp+
  have one: "backup_retention ?c = 1" by (simp add: backup_retention_def)
  obtain kept where k: "kept \<subseteq> set demo_archives" "card kept = 1"
      "\<forall>g\<in>kept. join_path [cfg_backup_path ?c, g] \<notin> set (expired_backups ?c demo_archives)"
    using rotation_keeps_the_newest [OF 1 2 4 3] unfolding one by blast
  from k(2) obtain g where g: "g \<in> kept" by fastforce
  have path: "cfg_backup_path ?c = ''backups''" by simp
  show ?thesis by (rule bexI [of _ g]) (use k(3) g path in simp, use k(1) g in blast)
qed

section \<open>Archives\<close>

text \<open>An archive that opens, under a key that was in memory, to a state of the database.\<close>

definition opens_to_snapshot :: "services \<Rightarrow> surroundings \<Rightarrow> string \<Rightarrow> bool" where
  "opens_to_snapshot sv su body \<longleftrightarrow>
     (\<exists>key s plain. key \<noteq> [] \<and> Snapshot su s = Inr plain \<and> Open (sv_cipher sv) key (to_bytes body) = Inr plain)"

lemma to_of_bytes: "to_bytes (of_bytes b) = b"
proof (induction b)
  case (Cons w b)
  have "unat w < 2 ^ LENGTH(8)" by (rule unsigned_less)
  then have "(of_char (char_of (unat w)) :: nat) = unat w" by (simp add: of_char_of)
  then have "(of_char (char_of (unat w)) :: byte) = w" by (metis of_nat_of_char of_nat_unat ucast_id)
  with Cons show ?case by (simp add: of_bytes_def to_bytes_def)
qed (simp add: of_bytes_def to_bytes_def)

lemma sealed_opens:
  assumes "cipher_ok (sv_cipher sv)" and "sealed sv su body"
  shows "opens_to_snapshot sv su body"
proof -
  from assms(2) obtain key s plain encoded where "key \<noteq> []" "Snapshot su s = Inr plain" "body = of_bytes encoded"
    and "Seal (sv_cipher sv) (sv_rand sv 0) key plain = Inr encoded"
    unfolding sealed_def by blast
  with Seal_opens [OF assms(1) this(4)] show ?thesis unfolding opens_to_snapshot_def by (auto simp: to_of_bytes)
qed


definition demo_alone :: neighbours where
  "demo_alone = \<lparr>nb_effect = (\<lambda>k ap. ap), nb_clock = int\<rparr>"

definition demo_holder :: app where
  "demo_holder = demo_server\<lparr>ap_db := (empty_db 0)\<lparr>settings := [(''security.salt'', [1])]\<rparr>, ap_key := replicate 32 1\<rparr>"

definition demo_bucket :: config where
  "demo_bucket = ap_config demo_server\<lparr>cfg_backup_provider := ''s3'', cfg_backup_s3_bucket := ''b'',
     cfg_backup_s3_access_key := ''a'', cfg_backup_s3_secret_key := ''s''\<rparr>"

lemma demo_s3: "s3_validate (backup_s3 demo_bucket) = None" "cfg_backup_provider demo_bucket = ''s3''"
  by code_simp+

lemma demo_store: "su_aws_config demo_surroundings x = None" "su_put demo_surroundings h x key b = (Consumed, None)"
  by (simp_all add: demo_surroundings_def)

lemma demo_upload:
  "\<exists>b key body. PutObject b key body \<in> set (fst (snd (snd (run_state (runBackup demo_alone demo_services demo_surroundings
     (demo_world ''healthy'') demo_bucket) (demo_holder, [], 0)))))"
proof -
  have "IsInitialized (ap_db demo_holder)" by (simp add: demo_holder_def IsInitialized_def count_where_def)
  moreover have "keyCopy demo_holder = replicate 32 1" by (simp add: demo_holder_def keyCopy_def)
  moreover have "Snapshot demo_surroundings s = Inr [83, 81, 76]" for s by (simp add: Snapshot_def demo_surroundings_def)
  moreover obtain encoded where "Seal (sv_cipher demo_services) (sv_rand demo_services 0) (replicate 32 1) [83, 81, 76] = Inr encoded"
    using seal_open [of "sv_cipher demo_services" "replicate 32 1" "[83, 81, 76]" "sv_rand demo_services 0" "replicate 12 0"]
    by (auto simp: demo_services_def demo_cipher_ok key_ok_def gcm_nonce_size_def)
  ultimately show ?thesis
    by (simp add: runBackup_def store_read_def store_call_def app_call_def read_key_def demo_alone_def run_outside_run
        deliver_backup_def upload_backup_def demo_s3 demo_store note_success_def UploadS3_def now_def Let_def case_prod_beta)
qed


section \<open>A silent upload\<close>

text \<open>
  When the SDK cannot be configured, nothing ever reads the pipe that the archive is written to: the
  backup does not return, instead of recording the error.
\<close>

lemma unconfigured_upload_blocks:
  assumes "cfg_backup_provider c = ''s3''" and "s3_validate (backup_s3 c) = None"
    and "\<And>x. su_aws_config su x = Some err"
  shows "fst (run_state (deliver_backup nb su w c name encoded) st) = Some Diverged"
  using assms by (cases st) (simp add: deliver_backup_def upload_backup_def UploadS3_def run_outside_run Let_def)

end
