(* ===== verification/Restore_Props.thy ===== *)
theory Restore_Props
  imports Backup_Props
begin

text \<open>
  The commands that read archives: nothing unauthenticated reaches the disk, a restore never
  overwrites, and what the server or the command sealed comes back.
\<close>

section \<open>What a restore writes\<close>

definition authentic :: "services \<Rightarrow> world \<Rightarrow> string \<Rightarrow> bool" where
  "authentic sv w body \<longleftrightarrow>
     (\<exists>key (cfg :: security_config) h file encoded.
        ValidateKey (sv_cipher sv) key (sc_verifier_nonce cfg) (sc_verifier_cipher cfg) = Inr () \<and>
        w_disk w h (ReadFile file) = Inr encoded \<and> Open (sv_cipher sv) key (to_bytes encoded) = Inr (to_bytes body))"

definition scratch_path :: "world \<Rightarrow> string \<Rightarrow> bool" where
  "scratch_path w p \<longleftrightarrow> (\<exists>h dir. w_disk w h (MkdirTemp ''minidock-restore-verify-'') = Inr dir \<and> p = join_path [dir, ''minidock.db''])"

definition free_path :: "world \<Rightarrow> sqlite \<Rightarrow> string \<Rightarrow> bool" where
  "free_path w sq p \<longleftrightarrow> (\<exists>h err. w_disk w h (Stat p) = Inl err) \<and> (\<exists>h q. sq_integrity sq h q = Inr ''ok'')"

lemma path_intros:
  "w_disk w h (MkdirTemp ''minidock-restore-verify-'') = Inr dir \<Longrightarrow> scratch_path w (join_path [dir, ''minidock.db''])"
  "w_disk w h (Stat p) = Inl err \<Longrightarrow> sq_integrity sq h' q = Inr ''ok'' \<Longrightarrow> free_path w sq p"
  unfolding scratch_path_def free_path_def by blast+

lemma authentic_intro:
  "ValidateKey (sv_cipher sv) key (sc_verifier_nonce (cfg :: security_config)) (sc_verifier_cipher cfg) = Inr () \<Longrightarrow>
   w_disk w h (ReadFile file) = Inr encoded \<Longrightarrow> Open (sv_cipher sv) key (to_bytes encoded) = Inr b \<Longrightarrow>
   authentic sv w (of_bytes b)"
  unfolding authentic_def to_of_bytes by blast

fun restore_action :: "services \<Rightarrow> world \<Rightarrow> sqlite \<Rightarrow> action \<Rightarrow> bool" where
  "restore_action sv w sq (Disk (WriteFile p body)) \<longleftrightarrow> authentic sv w body \<and> (scratch_path w p \<or> free_path w sq p)"
| "restore_action sv w sq _ \<longleftrightarrow> True"

lemma disk_emits: "P (Disk c) \<Longrightarrow> emits P (disk w c)"
  by (auto simp: disk_def intro!: emits_rules)

lemma disk_answer: "P (Disk c) \<Longrightarrow> (\<And>h. emits P (f (w_disk w h c))) \<Longrightarrow> emits P (State_Monad.bind (disk w c) f)"
  unfolding disk_def by (rule emits_answer)

lemma disk_failure: "yields Q (disk w c \<bind> (\<lambda>r. State_Monad.return (g r)))" if "\<And>h. Q (g (w_disk w h c))"
  using that by (simp add: yields_def disk_def)

lemma store_open_emits: "emits (restore_action sv w sq) (store_open w sq path)"
  unfolding store_open_def by (auto intro!: emits_rules disk_emits split: sum.splits)

lemma integrity_emits: "emits (restore_action sv w sq) (IntegrityCheck sq path)"
  unfolding IntegrityCheck_def by (auto intro!: emits_rules split: sum.splits)

lemma key_emits: "emits (restore_action sv w sq) (backupKey sv w sq decode d conf password)"
  unfolding backupKey_def kms_configuration_def by (auto intro!: emits_rules disk_emits store_open_emits split: sum.splits)

lemma unlocked_key_valid:
  "unlock_key sv password cfg = Inr key \<Longrightarrow> ValidateKey (sv_cipher sv) key (sc_verifier_nonce cfg) (sc_verifier_cipher cfg) = Inr ()"
  by (auto simp: unlock_key_def split: sum.splits)

lemma key_yields:
  "yields (\<lambda>r. \<forall>key. r = Inr key \<longrightarrow>
     (\<exists>cfg :: security_config. ValidateKey (sv_cipher sv) key (sc_verifier_nonce cfg) (sc_verifier_cipher cfg) = Inr ()))
   (backupKey sv w sq decode d conf password)"
  unfolding yields_def backupKey_def by (auto split: prod.split sum.split dest: unlocked_key_valid)

lemma integrity_yields: "yields (\<lambda>r. r = None \<longrightarrow> (\<exists>h q. sq_integrity sq h q = Inr ''ok'')) (IntegrityCheck sq path)"
proof -
  have "yields (\<lambda>r. \<exists>h. r = sq_integrity sq h path) (perform (Sqlite ''integrity_check'' path) (\<lambda>h. sq_integrity sq h path))"
    by (auto simp: yields_def)
  then show ?thesis unfolding IntegrityCheck_def
  proof (rule yields_bind_via)
    fix x assume "\<exists>h. x = sq_integrity sq h path"
    then obtain h where x: "sq_integrity sq h path = x" by blast
    show "yields (\<lambda>r. r = None \<longrightarrow> (\<exists>h q. sq_integrity sq h q = Inr ''ok''))
        (State_Monad.return (case x of Inl err \<Rightarrow> Some err
           | Inr text \<Rightarrow> if text \<noteq> ''ok'' then Some (''sqlite integrity check: '' @ text) else None))"
    proof (rule yields_return, intro impI exI)
      assume "(case x of Inl err \<Rightarrow> Some err
           | Inr text \<Rightarrow> if text \<noteq> ''ok'' then Some (''sqlite integrity check: '' @ text) else None) = None"
      with x show "sq_integrity sq h path = Inr ''ok''" by (cases x) (simp_all split: if_splits)
    qed
  qed
qed

lemma verify_emits:
  assumes "authentic sv w body"
  shows "emits (restore_action sv w sq) (verifySQLite w sq body)"
  unfolding verifySQLite_def
proof (rule disk_answer)
  fix h
  show "emits (restore_action sv w sq) (case w_disk w h (MkdirTemp ''minidock-restore-verify-'') of
      Inl err \<Rightarrow> State_Monad.return (Some err)
    | Inr dir \<Rightarrow> verify_copy w sq (join_path [dir, ''minidock.db'']) body \<bind>
        (\<lambda>err. disk w (RemoveAll dir) \<bind> (\<lambda>_. State_Monad.return err)))"
    using assms unfolding verify_copy_def
    by (auto intro: path_intros(1) intro!: emits_rules disk_emits store_open_emits integrity_emits split: sum.splits)
qed simp

lemma verify_yields: "yields (\<lambda>r. r = None \<longrightarrow> (\<exists>h q. sq_integrity sq h q = Inr ''ok'')) (verifySQLite w sq body)"
proof -
  have "yields (\<lambda>r. r = None \<longrightarrow> (\<exists>h q. sq_integrity sq h q = Inr ''ok'')) (verify_copy w sq p body)" for p
    using integrity_yields [of sq p] unfolding verify_copy_def by (intro yields_rules) auto
  then show ?thesis
    unfolding verifySQLite_def
    by (intro yields_bind yields_sum yields_bind_via [where Y = "\<lambda>r. r = None \<longrightarrow> (\<exists>h q. sq_integrity sq h q = Inr ''ok'')"]
        yields_return) (auto intro: yields_return)
qed

lemma restore_to_emits:
  assumes "authentic sv w body" and "sq_integrity sq h q = Inr ''ok''"
  shows "emits (restore_action sv w sq) (restore_to w destination body)"
  unfolding restore_to_def
proof (rule disk_answer)
  fix h
  show "emits (restore_action sv w sq) (case w_disk w h (Stat destination) of
      Inl _ \<Rightarrow> disk w (MkdirAll (dir_path destination)) \<bind> (\<lambda>made. case made of
          Inl err \<Rightarrow> State_Monad.return (Some err)
        | Inr _ \<Rightarrow> disk w (WriteFile destination body) \<bind>
            (\<lambda>r. State_Monad.return (map_option (\<lambda>e. ''write restored database: '' @ e) (written r))))
    | Inr _ \<Rightarrow> State_Monad.return (Some ''restore destination already exists''))"
    using assms by (cases "w_disk w h (Stat destination)")
      (auto intro: path_intros(2) intro!: emits_rules disk_emits split: sum.splits)
qed simp

lemma use_archive_emits:
  assumes "authentic sv w body" and "command \<noteq> ''open''"
  shows "emits (restore_action sv w sq) (use_archive w sq command output destination body)"
  unfolding use_archive_def if_not_P [OF assms(2)]
  using assms by (intro emits_bind_via [OF verify_emits verify_yields])
    (auto intro!: emits_rules restore_to_emits)

lemma open_archive_emits:
  assumes "command \<noteq> ''open''"
  shows "emits (restore_action sv w sq) (open_archive sv w sq decode command flag destination password)"
  unfolding open_archive_def
proof (rule disk_answer)
  fix h
  let ?key = "backupKey sv w sq decode (flag ''database'') (flag ''kms-config'') password"
  have use: "emits (restore_action sv w sq) (case Open (sv_cipher sv) key (to_bytes encoded) of
      Inl e \<Rightarrow> State_Monad.return (Some (''authenticate backup: '' @ error_text e))
    | Inr body \<Rightarrow> use_archive w sq command (flag ''output'') destination (of_bytes body))"
    if "w_disk w h (ReadFile (flag ''file'')) = Inr encoded"
      "\<exists>cfg :: security_config. ValidateKey (sv_cipher sv) key (sc_verifier_nonce cfg) (sc_verifier_cipher cfg) = Inr ()" for encoded key
    using that assms by (auto intro: authentic_intro intro!: emits_rules use_archive_emits split: sum.splits)
  show "emits (restore_action sv w sq) (case w_disk w h (ReadFile (flag ''file'')) of
      Inl err \<Rightarrow> State_Monad.return (Some (''read backup: '' @ err))
    | Inr encoded \<Rightarrow> ?key \<bind> (\<lambda>k. case k of
          Inl err \<Rightarrow> State_Monad.return (Some err)
        | Inr key \<Rightarrow> (case Open (sv_cipher sv) key (to_bytes encoded) of
              Inl e \<Rightarrow> State_Monad.return (Some (''authenticate backup: '' @ error_text e))
            | Inr body \<Rightarrow> use_archive w sq command (flag ''output'') destination (of_bytes body))))"
  proof (cases "w_disk w h (ReadFile (flag ''file''))")
    case (Inr encoded)
    show ?thesis unfolding Inr sum.case
      by (rule emits_bind_via [OF key_emits key_yields], rule emits_sum, rule emits_return, rule use [OF Inr]) blast
  qed (simp add: emits_rules)
qed simp

lemma restore_command_emits: "emits (restore_action sv w sq) (backupCommand sv w sq decode stdin (''restore'' # args))"
proof -
  have "''restore'' \<noteq> ''kms-export''" "''restore'' \<noteq> ''backup''" "''restore'' \<noteq> ''seal''" "''restore'' \<noteq> ''open''" by simp_all
  then show ?thesis
    unfolding backupCommand_def Let_def list.case by (auto intro!: emits_rules open_archive_emits split: sum.split)
qed

section \<open>Round trip\<close>

text \<open>
  A host on which a restore can succeed: the archive is there, the key database opens to the given
  one, directories and files can be made, SQLite accepts the contents and the destination is free.
\<close>

definition restorable :: "world \<Rightarrow> sqlite \<Rightarrow> string \<Rightarrow> string \<Rightarrow> db \<Rightarrow> string \<Rightarrow> string \<Rightarrow> bool" where
  "restorable w sq file database s destination encoded \<longleftrightarrow>
     (\<forall>h. w_disk w h (ReadFile file) = Inr encoded \<and> sq_open sq h database = Inr s \<and>
        (\<exists>err. w_disk w h (Stat destination) = Inl err) \<and>
        (\<forall>p. \<exists>x. w_disk w h (MkdirAll p) = Inr x) \<and> (\<forall>p body. \<exists>x. w_disk w h (WriteFile p body) = Inr x) \<and>
        (\<exists>dir. w_disk w h (MkdirTemp ''minidock-restore-verify-'') = Inr dir) \<and>
        (\<forall>p. \<exists>s. sq_open sq h p = Inr s) \<and> (\<forall>p. sq_integrity sq h p = Inr ''ok''))"

definition restore_flags :: "string \<Rightarrow> string \<Rightarrow> string \<Rightarrow> string list" where
  "restore_flags file database destination =
     [''--file'', file, ''--database'', database, ''-destination='' @ destination, ''--password-stdin'']"

lemma restore_flags_parse:
  "parse_flags [''password-stdin''] (declared_flags ''restore'') (restore_flags file database destination) =
   Inr [(''database'', database), (''kms-config'', ''''), (''file'', file), (''input'', ''''), (''output'', ''''),
        (''password-stdin'', ''true''), (''destination'', destination)]"
  by (simp add: restore_flags_def declared_flags_def flag_body_def has_prefix_def cut_equals_def)

lemma restorableD:
  assumes "restorable w sq file database s destination encoded"
  shows "w_disk w h (ReadFile file) = Inr encoded" "sq_open sq h database = Inr s" "sq_integrity sq h p = Inr ''ok''"
    and "\<exists>err. w_disk w h (Stat destination) = Inl err" "\<exists>x. w_disk w h (MkdirAll p) = Inr x"
    and "\<exists>x. w_disk w h (WriteFile p body) = Inr x" "\<exists>dir. w_disk w h (MkdirTemp ''minidock-restore-verify-'') = Inr dir"
    and "\<exists>s. sq_open sq h p = Inr s"
  using assms unfolding restorable_def by blast+

lemma run_disk: "run_state (disk w c) h = (w_disk w h c, Disk c # h)"
  by (simp add: disk_def)

lemma restorable_open:
  assumes "restorable w sq file database s destination encoded"
  shows "\<exists>s t. run_state (store_open w sq p) h = (Inr s, t)"
    and "\<exists>t. run_state (store_open w sq database) h = (Inr s, t)"
proof -
  note w = restorableD [OF assms]
  obtain x where x: "w_disk w h (MkdirAll (dir_path p)) = Inr x" using w(5) by blast
  then show "\<exists>s t. run_state (store_open w sq p) h = (Inr s, t)"
    using w(8) [of "Sqlite ''open'' p # Disk (MkdirAll (dir_path p)) # h"]
      w(8) [of "Disk (MkdirAll (dir_path p)) # h" p] by (auto simp: store_open_def run_disk)
  obtain x where "w_disk w h (MkdirAll (dir_path database)) = Inr x" using w(5) by blast
  then show "\<exists>t. run_state (store_open w sq database) h = (Inr s, t)"
    using w(2) by (simp add: store_open_def run_disk)
qed

lemma restorable_verify:
  assumes "restorable w sq file database s destination encoded"
  shows "\<exists>t. run_state (verifySQLite w sq body) h = (None, t)"
proof -
  note w = restorableD [OF assms]
  have "\<exists>t. run_state (verify_copy w sq p body) h = (None, t)" for p h
  proof -
    obtain x where x: "w_disk w h (WriteFile p body) = Inr x" using w(6) by blast
    obtain s t where "run_state (store_open w sq p) (Disk (WriteFile p body) # h) = (Inr s, t)"
      using restorable_open(1) [OF assms] by blast
    with x show ?thesis using w(3) by (simp add: verify_copy_def run_disk IntegrityCheck_def)
  qed
  note copy = this
  obtain dir where d: "w_disk w h (MkdirTemp ''minidock-restore-verify-'') = Inr dir" using w(7) by blast
  obtain t where "run_state (verify_copy w sq (join_path [dir, ''minidock.db'']) body)
      (Disk (MkdirTemp ''minidock-restore-verify-'') # h) = (None, t)" using copy by blast
  with d show ?thesis by (simp add: verifySQLite_def run_disk)
qed

lemma restorable_write:
  assumes "restorable w sq file database s destination encoded"
  shows "\<exists>t. run_state (restore_to w destination body) h = (None, Disk (WriteFile destination body) # t)"
proof -
  note w = restorableD [OF assms]
  obtain e where e: "w_disk w h (Stat destination) = Inl e" using w(4) by blast
  obtain x where x: "w_disk w (Disk (Stat destination) # h) (MkdirAll (dir_path destination)) = Inr x" using w(5) by blast
  obtain y where "w_disk w (Disk (MkdirAll (dir_path destination)) # Disk (Stat destination) # h) (WriteFile destination body) = Inr y"
    using w(6) by blast
  with e x show ?thesis by (simp add: restore_to_def run_disk written_def)
qed

lemma restorable_key:
  assumes "restorable w sq file database s destination encoded" and "SecurityConfig s = Inr cfg" and "unlock_key sv password cfg = Inr key"
  shows "\<exists>t. run_state (backupKey sv w sq decode database '''' password) h = (Inr key, t)"
proof -
  obtain t where "run_state (store_open w sq database) h = (Inr s, t)" using restorable_open(2) [OF assms(1)] by blast
  with assms(2,3) show ?thesis by (simp add: backupKey_def kms_configuration_def)
qed

lemma sealed_restores:
  assumes "cipher_ok (sv_cipher sv)" and "Seal (sv_cipher sv) rand key contents = Inr encoded"
    and "SecurityConfig s = Inr cfg" and "unlock_key sv (trim_space text) cfg = Inr key" and "trim_space text \<noteq> ''''"
    and "file \<noteq> ''''" and "database \<noteq> ''''" and "destination \<noteq> ''''"
    and "restorable w sq file database s destination (of_bytes encoded)"
  shows "\<exists>t. run_state (backupCommand sv w sq decode (Inr text) (''restore'' # restore_flags file database destination)) h =
    (None, Disk (WriteFile destination (of_bytes contents)) # t)"
proof -
  let ?h1 = "Disk (ReadFile file) # h"
  obtain h2 where key: "run_state (backupKey sv w sq decode database '''' (trim_space text)) ?h1 = (Inr key, h2)"
    using restorable_key [OF assms(9,3,4)] by blast
  obtain h3 where verify: "run_state (verifySQLite w sq (of_bytes contents)) h2 = (None, h3)"
    using restorable_verify [OF assms(9)] by blast
  obtain t where last_step: "run_state (restore_to w destination (of_bytes contents)) h3 =
      (None, Disk (WriteFile destination (of_bytes contents)) # t)" using restorable_write [OF assms(9)] by blast
  have "Open (sv_cipher sv) key (to_bytes (of_bytes encoded)) = Inr contents"
    unfolding to_of_bytes by (rule Seal_opens [OF assms(1,2)])
  then show ?thesis
    using key verify last_step assms(5-8) restorableD(1) [OF assms(9)]
    by (simp add: backupCommand_def restore_flags_parse lookup_def open_archive_def use_archive_def run_disk)
qed

definition demo_sqlite :: "db \<Rightarrow> sqlite" where
  "demo_sqlite s = \<lparr>sq_open = (\<lambda>h p. Inr s), sq_vacuum = (\<lambda>h p q. None), sq_integrity = (\<lambda>h p. Inr ''ok'')\<rparr>"

definition restore_host :: "string \<Rightarrow> world" where
  "restore_host archive = (demo_world ''healthy'')\<lparr>w_disk := (\<lambda>h c. case c of
     Stat p \<Rightarrow> Inl ''no such file or directory'' | ReadFile p \<Rightarrow> Inr archive | _ \<Rightarrow> Inr ''/tmp/minidock-restore-verify-1'')\<rparr>"

definition demo_restore :: "bytes \<Rightarrow> db \<Rightarrow> string option prog" where
  "demo_restore encoded s = backupCommand demo_services (restore_host (of_bytes encoded)) (demo_sqlite s) (\<lambda>_. Inl '''')
     (Inr ''password'') (''restore'' # restore_flags ''b.mdbk'' ''old.db'' ''new.db'')"

lemma demo_restorable: "restorable (restore_host archive) (demo_sqlite s) f d s destination archive"
  by (simp add: restorable_def restore_host_def demo_sqlite_def)

lemma demo_key_database:
  "\<exists>s cfg key encoded. SecurityConfig s = Inr cfg \<and> unlock_key demo_services (trim_space ''password'') cfg = Inr key \<and>
     Seal (sv_cipher demo_services) (\<lambda>n. Inr (replicate n 7)) key [10, 20, 30] = Inr encoded"
proof -
  have kdf: "length (sv_kdf demo_services p s) = keyLength" for p s by (simp add: demo_services_def keyLength_def)
  have cipher: "cipher_ok (sv_cipher demo_services)" by (simp add: demo_services_def demo_cipher_ok)
  obtain key n c where key: "DeriveKey (sv_kdf demo_services) ''password'' (replicate 32 5) = Inr key"
      "ValidateKey (sv_cipher demo_services) key n c = Inr ()"
    using verifier_accepts_key [OF cipher, where kdf = "sv_kdf demo_services" and salt = "replicate 32 5" and rand = "\<lambda>n. Inr (replicate n 7)" and nonce = "replicate 12 7" and password = "''password''"] kdf
    by (auto simp: gcm_nonce_size_def)
  let ?cfg = "\<lparr>sc_salt = replicate 32 5, sc_verifier_nonce = n, sc_verifier_cipher = c\<rparr>"
  obtain s where "InitializeSecurity ?cfg (empty_db 1) = (s, Inr ())"
    by (simp add: InitializeSecurity_def empty_db_def security_values_def)
  from InitializeSecurity_reads [OF this] have "SecurityConfig s = Inr ?cfg" .
  moreover have "trim_space ''password'' = ''password''" by code_simp
  then have "unlock_key demo_services (trim_space ''password'') ?cfg = Inr key" using key by (simp add: unlock_key_def)
  moreover have "key_ok key" using key(1) kdf by (auto simp: DeriveKey_def key_ok_def keyLength_def)
  then obtain encoded where "Seal (sv_cipher demo_services) (\<lambda>n. Inr (replicate n 7)) key [10, 20, 30] = Inr encoded"
    using seal_open [OF cipher, of key "[10, 20, 30]" "\<lambda>n. Inr (replicate n 7)" "replicate 12 7"]
    by (auto simp: gcm_nonce_size_def)
  ultimately show ?thesis by blast
qed

lemma demo_restores:
  "\<exists>encoded s t. run_state (demo_restore encoded s) [] = (None, Disk (WriteFile ''new.db'' (of_bytes [10, 20, 30])) # t)"
proof -
  have cipher: "cipher_ok (sv_cipher demo_services)" by (simp add: demo_services_def demo_cipher_ok)
  have t: "trim_space ''password'' \<noteq> ''''" by code_simp
  obtain s cfg key encoded where "SecurityConfig s = Inr cfg" "unlock_key demo_services (trim_space ''password'') cfg = Inr key"
     "Seal (sv_cipher demo_services) (\<lambda>n. Inr (replicate n 7)) key [10, 20, 30] = Inr encoded"
    using demo_key_database by blast
  from sealed_restores [OF cipher this(3,1,2) t _ _ _ demo_restorable] show ?thesis unfolding demo_restore_def by blast
qed

text \<open>
  C6: round trip. An archive sealed under a key is restored, by a user who knows a password that the
  key database derives that key from, to exactly the sealed database: the command returns without error
  and its last action writes those bytes to the destination.
\<close>

theorem restored_database_is_the_sealed_one:
  assumes "cipher_ok (sv_cipher sv)" and "Seal (sv_cipher sv) rand key contents = Inr encoded"
    and "SecurityConfig s = Inr cfg" and "unlock_key sv (trim_space text) cfg = Inr key" and "trim_space text \<noteq> ''''"
    and "file \<noteq> ''''" and "database \<noteq> ''''" and "destination \<noteq> ''''"
    and "restorable w sq file database s destination (of_bytes encoded)"
  shows "\<exists>t. run_state (backupCommand sv w sq decode (Inr text) (''restore'' # restore_flags file database destination)) h =
    (None, Disk (WriteFile destination (of_bytes contents)) # t)"
  using assms by (rule sealed_restores)

theorem restored_database_is_the_sealed_one_witness:
  "\<exists>key encoded s t. Seal (sv_cipher demo_services) (\<lambda>n. Inr (replicate n 7)) key [10, 20, 30] = Inr encoded \<and>
     run_state (demo_restore encoded s) [] = (None, Disk (WriteFile ''new.db'' (of_bytes [10, 20, 30])) # t)"
proof -
  have cipher: "cipher_ok (sv_cipher demo_services)" by (simp add: demo_services_def demo_cipher_ok)
  have t: "trim_space ''password'' \<noteq> ''''" by code_simp
  obtain s cfg key encoded where d: "SecurityConfig s = Inr cfg" "unlock_key demo_services (trim_space ''password'') cfg = Inr key"
     "Seal (sv_cipher demo_services) (\<lambda>n. Inr (replicate n 7)) key [10, 20, 30] = Inr encoded"
    using demo_key_database by blast
  from restored_database_is_the_sealed_one [OF cipher d(3,1,2) t _ _ _ demo_restorable] d(3)
  show ?thesis unfolding demo_restore_def by blast
qed
end
