(* ===== verification/Cloudflare_Client.thy ===== *)
theory Cloudflare_Client
  imports App_Handlers
begin

text \<open>
  The client of the Cloudflare API (\<^verbatim>\<open>internal/app/cloudflare.go\<close>) and the choice of
  names and zones in \<^verbatim>\<open>server.go\<close>. Each method is a computation that sends its
  requests to the world. The decoders of \<^verbatim>\<open>encoding/json\<close> for the answers are
  parameters: they take the body and the error that reading it ended with, and return the members the
  code declares.
\<close>

section \<open>Answers\<close>

record cloudflare_zone =
  cz_id :: string
  cz_name :: string
  cz_status :: string

record cloudflare_tunnel =
  ct_id :: string
  ct_name :: string
  ct_status :: string
  ct_config_src :: string
  ct_created_at :: string

type_synonym 'a decoder = "string \<Rightarrow> string option \<Rightarrow> string + 'a"

text \<open>Success, the result and the messages of the errors, as far as a method declares them.\<close>

record cloudflare_json =
  cj_verification :: "(bool \<times> string) decoder"
  cj_zones :: "(bool \<times> cloudflare_zone list \<times> string list) decoder"
  cj_created :: "string \<Rightarrow> string + (bool \<times> string \<times> string list)"
  cj_tunnels :: "(bool \<times> (string \<times> string) list) decoder"
  cj_token :: "(bool \<times> string \<times> string list) decoder"
  cj_outcome :: "(bool \<times> string list) decoder"
  cj_tunnel :: "(bool \<times> cloudflare_tunnel) decoder"
  cj_records :: "(bool \<times> string list) decoder"
  cj_claims :: "string \<Rightarrow> string option"

definition decoded :: "'a decoder \<Rightarrow> http_response \<Rightarrow> string + 'a" where
  "decoded dec response = dec (hr_body response) (hr_read_error response)"

definition baseURL :: string where
  "baseURL = ''https://api.cloudflare.com/client/v4''"

definition bearer :: "string \<Rightarrow> string \<times> string" where
  "bearer apiToken = (''Authorization'', ''Bearer '' @ apiToken)"

definition json_headers :: "string \<Rightarrow> (string \<times> string) list" where
  "json_headers apiToken = [bearer apiToken, (''Content-Type'', ''application/json'')]"

text \<open>A request that fails before or while it is sent ends the method with that error.\<close>

definition fetch ::
    "world \<Rightarrow> string \<Rightarrow> string \<Rightarrow> (string \<times> string) list \<Rightarrow> string \<Rightarrow> (string + http_response) prog" where
  "fetch w meth url headers body = do {
     r \<leftarrow> send w meth url headers body;
     State_Monad.return (case r of BadRequest err \<Rightarrow> Inl err | NoAnswer err \<Rightarrow> Inl err | Answer response \<Rightarrow> Inr response)
   }"

definition first_error :: "string \<Rightarrow> string list \<Rightarrow> string \<Rightarrow> string" where
  "first_error label errors otherwise = (case errors of [] \<Rightarrow> otherwise | e # _ \<Rightarrow> label @ e)"

section \<open>Token and zones\<close>

definition VerifyToken :: "world \<Rightarrow> cloudflare_json \<Rightarrow> string \<Rightarrow> string option prog" where
  "VerifyToken w cj apiToken =
     (if trim_space apiToken = '''' then State_Monad.return (Some ''API token vacio'')
      else do {
        r \<leftarrow> send w ''GET'' (baseURL @ ''/user/tokens/verify'') (json_headers apiToken) '''';
        State_Monad.return (case r of
            BadRequest err \<Rightarrow> Some err
          | NoAnswer err \<Rightarrow> Some (''error de conexion con Cloudflare: '' @ err)
          | Answer response \<Rightarrow>
              if hr_status response \<noteq> 200 then Some (''token invalido de Cloudflare (HTTP '' @ show_int (hr_status response) @ '')'')
              else (case decoded (cj_verification cj) response of
                  Inl err \<Rightarrow> Some (''respuesta invalida de Cloudflare: '' @ err)
                | Inr (success, status) \<Rightarrow>
                    if \<not> success \<or> status \<noteq> ''active'' then Some ''el token de Cloudflare no esta activo'' else None))
      })"

definition ListZones :: "world \<Rightarrow> cloudflare_json \<Rightarrow> string \<Rightarrow> (string + cloudflare_zone list) prog" where
  "ListZones w cj apiToken = do {
     r \<leftarrow> fetch w ''GET'' (baseURL @ ''/zones?status=active&per_page=50'') (json_headers apiToken) '''';
     State_Monad.return (case r of
         Inl err \<Rightarrow> Inl err
       | Inr response \<Rightarrow>
           (case decoded (cj_zones cj) response of
              Inl err \<Rightarrow> Inl err
            | Inr (success, zones, errors) \<Rightarrow>
                if success then Inr zones
                else Inl (first_error ''cloudflare API: '' errors ''error al listar zonas de Cloudflare'')))
   }"

section \<open>Tunnels\<close>

definition tunnels_url :: "string \<Rightarrow> string" where
  "tunnels_url accountID = baseURL @ ''/accounts/'' @ accountID @ ''/cfd_tunnel''"

definition TunnelToken :: "world \<Rightarrow> cloudflare_json \<Rightarrow> string \<Rightarrow> string \<Rightarrow> string \<Rightarrow> (string + string) prog" where
  "TunnelToken w cj apiToken accountID tunnelID = do {
     r \<leftarrow> fetch w ''GET'' (tunnels_url accountID @ ''/'' @ tunnelID @ ''/token'') [bearer apiToken] '''';
     State_Monad.return (case r of
         Inl err \<Rightarrow> Inl err
       | Inr response \<Rightarrow>
           (case decoded (cj_token cj) response of
              Inl err \<Rightarrow> Inl err
            | Inr (success, token, errors) \<Rightarrow>
                if \<not> success \<or> trim_space token = ''''
                then Inl (first_error ''Cloudflare Tunnel: '' errors (spanish ''Cloudflare no entreg~o el token del t~unel''))
                else Inr token))
   }"

definition with_token :: "string \<Rightarrow> string + string \<Rightarrow> string + (string \<times> string)" where
  "with_token tunnelID r = (case r of Inl err \<Rightarrow> Inl err | Inr token \<Rightarrow> Inr (tunnelID, token))"

text \<open>The tunnel that already has the name, when creating one was refused.\<close>

definition existing_tunnel ::
    "world \<Rightarrow> cloudflare_json \<Rightarrow> string \<Rightarrow> string \<Rightarrow> string \<Rightarrow> string list \<Rightarrow> (string + (string \<times> string)) prog" where
  "existing_tunnel w cj apiToken accountID tunnelName errors = do {
     r \<leftarrow> fetch w ''GET'' (tunnels_url accountID @ ''?name='' @ QueryEscape tunnelName @ ''&is_deleted=false'') (json_headers apiToken) '''';
     case r of
       Inl err \<Rightarrow> State_Monad.return (Inl err)
     | Inr response \<Rightarrow>
         (case decoded (cj_tunnels cj) response of
            Inr (_, (tID, configSrc) # _) \<Rightarrow>
              if configSrc \<noteq> ''cloudflare''
              then State_Monad.return (Inl (spanish ''ya existe un t~unel llamado '' @ tunnelName @
                spanish '' con configuraci~on local; cambia su nombre o elim~inalo desde Cloudflare''))
              else do { token \<leftarrow> TunnelToken w cj apiToken accountID tID; State_Monad.return (with_token tID token) }
          | _ \<Rightarrow> State_Monad.return (Inl (first_error ''Cloudflare Tunnel: '' errors ''error al crear el tunel Cloudflare'')))
   }"

definition CreateOrGetTunnel ::
    "world \<Rightarrow> cloudflare_json \<Rightarrow> string \<Rightarrow> string \<Rightarrow> string \<Rightarrow> (string + (string \<times> string)) prog" where
  "CreateOrGetTunnel w cj apiToken accountID tunnelName =
     (if accountID = '''' then State_Monad.return (Inl ''account_id es requerido para crear un tunel'')
      else do {
        r \<leftarrow> fetch w ''POST'' (tunnels_url accountID) (json_headers apiToken)
          (''{'' @ json_string ''config_src'' @ '':'' @ json_string ''cloudflare'' @ '','' @ json_string ''name'' @ '':'' @ json_string tunnelName @ ''}'');
        case r of
          Inl err \<Rightarrow> State_Monad.return (Inl err)
        | Inr response \<Rightarrow>
            (case cj_created cj (hr_body response) of
               Inl err \<Rightarrow> State_Monad.return (Inl err)
             | Inr (success, tunnelID, errors) \<Rightarrow>
                 if success then do {
                   token \<leftarrow> TunnelToken w cj apiToken accountID tunnelID;
                   State_Monad.return (with_token tunnelID token)
                 }
                 else existing_tunnel w cj apiToken accountID tunnelName errors)
      })"

definition TunnelStatus :: "world \<Rightarrow> cloudflare_json \<Rightarrow> string \<Rightarrow> string \<Rightarrow> string \<Rightarrow> (string + string) prog" where
  "TunnelStatus w cj apiToken accountID tunnelID = do {
     r \<leftarrow> fetch w ''GET'' (tunnels_url accountID @ ''/'' @ tunnelID) [bearer apiToken] '''';
     State_Monad.return (case r of
         Inl err \<Rightarrow> Inl err
       | Inr response \<Rightarrow>
           (case decoded (cj_tunnel cj) response of
              Inl err \<Rightarrow> Inl err
            | Inr (success, tunnel) \<Rightarrow>
                if success then Inr (ct_status tunnel) else Inl (spanish ''Cloudflare no pudo consultar el estado del t~unel'')))
   }"

section \<open>Names\<close>

definition cloudflareHostname :: "string \<Rightarrow> string" where
  "cloudflareHostname domain =
     (let domain = trim_suffix (to_lower (trim_space domain)) ''.''
      in case SplitHostPort domain of Some (host, _) \<Rightarrow> trim_suffix host ''.'' | None \<Rightarrow> domain)"

definition isPublicCloudflareDomain :: "string \<Rightarrow> bool" where
  "isPublicCloudflareDomain domain =
     (let host = cloudflareHostname domain
      in host \<noteq> '''' \<and> host \<noteq> ''localhost'' \<and> \<not> has_suffix host ''.local'' \<and> contains_str host ''.'' \<and> \<not> ParseIP host)"

definition publicApplicationDomains :: "application list \<Rightarrow> string list" where
  "publicApplicationDomains apps = filter isPublicCloudflareDomain (map (\<lambda>a. cloudflareHostname (app_domain a)) apps)"

definition zone_matches :: "string \<Rightarrow> cloudflare_zone \<Rightarrow> bool" where
  "zone_matches domain zone =
     (let name = cloudflareHostname (cz_name zone) in domain = name \<or> has_suffix domain (''.'' @ name))"

fun zone_loop :: "string \<Rightarrow> cloudflare_zone \<Rightarrow> cloudflare_zone list \<Rightarrow> cloudflare_zone" where
  "zone_loop domain selected [] = selected"
| "zone_loop domain selected (zone # zones) =
     zone_loop domain
       (if zone_matches domain zone \<and> length (cloudflareHostname (cz_name zone)) > length (cz_name selected) then zone else selected)
       zones"

definition cloudflareZoneForDomain :: "cloudflare_zone list \<Rightarrow> string \<Rightarrow> cloudflare_zone option" where
  "cloudflareZoneForDomain zones domain =
     (let selected = zone_loop (cloudflareHostname domain) \<lparr>cz_id = '''', cz_name = '''', cz_status = ''''\<rparr> zones
      in if cz_id selected \<noteq> '''' then Some selected else None)"

section \<open>Ingress rules and DNS records\<close>

text \<open>A rule without a hostname catches what no other rule took.\<close>

record ingress_rule =
  ir_hostname :: string
  ir_service :: string

fun ingress_loop :: "string list \<Rightarrow> string list \<Rightarrow> ingress_rule list" where
  "ingress_loop seen [] = [\<lparr>ir_hostname = '''', ir_service = ''http_status:404''\<rparr>]"
| "ingress_loop seen (hostname # hostnames) =
     (let hostname = cloudflareHostname hostname
      in if \<not> isPublicCloudflareDomain hostname then ingress_loop seen hostnames
         else if hostname \<in> set seen then ingress_loop seen hostnames
         else \<lparr>ir_hostname = hostname, ir_service = ''http://caddy:80''\<rparr> # ingress_loop (hostname # seen) hostnames)"

definition ingress_rules :: "string list \<Rightarrow> ingress_rule list" where
  "ingress_rules hostnames = ingress_loop [] hostnames"

definition ingress_json :: "ingress_rule \<Rightarrow> string" where
  "ingress_json r =
     ''{'' @ (if ir_hostname r = '''' then '''' else json_string ''hostname'' @ '':'' @ json_string (ir_hostname r) @ '','') @
     json_string ''service'' @ '':'' @ json_string (ir_service r) @ ''}''"

definition ingress_payload :: "ingress_rule list \<Rightarrow> string" where
  "ingress_payload rules =
     ''{'' @ json_string ''config'' @ '':{'' @ json_string ''ingress'' @ '':['' @ join_with '','' (map ingress_json rules) @ '']}}''"

definition ConfigureTunnelIngress ::
    "world \<Rightarrow> cloudflare_json \<Rightarrow> string \<Rightarrow> string \<Rightarrow> string \<Rightarrow> string list \<Rightarrow> string option prog" where
  "ConfigureTunnelIngress w cj apiToken accountID tunnelID hostnames = do {
     r \<leftarrow> fetch w ''PUT'' (tunnels_url accountID @ ''/'' @ tunnelID @ ''/configurations'') (json_headers apiToken)
       (ingress_payload (ingress_rules hostnames));
     State_Monad.return (case r of
         Inl err \<Rightarrow> Some err
       | Inr response \<Rightarrow>
           (case decoded (cj_outcome cj) response of
              Inl err \<Rightarrow> Some err
            | Inr (success, errors) \<Rightarrow>
                if success then None
                else Some (first_error (spanish ''configuraci~on del t~unel: '') errors
                  (spanish ''Cloudflare rechaz~o la configuraci~on del t~unel''))))
   }"

definition records_url :: "string \<Rightarrow> string" where
  "records_url zoneID = baseURL @ ''/zones/'' @ zoneID @ ''/dns_records''"

definition cname_payload :: "string \<Rightarrow> string \<Rightarrow> string" where
  "cname_payload hostname target =
     ''{'' @ json_string ''content'' @ '':'' @ json_string target @ '','' @ json_string ''name'' @ '':'' @ json_string hostname @ '','' @
     json_string ''proxied'' @ '':true,'' @ json_string ''ttl'' @ '':1,'' @ json_string ''type'' @ '':'' @ json_string ''CNAME'' @ ''}''"

definition UpsertCNAMERecord ::
    "world \<Rightarrow> cloudflare_json \<Rightarrow> string \<Rightarrow> string \<Rightarrow> string \<Rightarrow> string \<Rightarrow> string option prog" where
  "UpsertCNAMERecord w cj apiToken zoneID hostname targetCNAME = do {
     r \<leftarrow> fetch w ''GET'' (records_url zoneID @ ''?name='' @ QueryEscape hostname @ ''&type=CNAME'') [bearer apiToken] '''';
     case r of
       Inl err \<Rightarrow> State_Monad.return (Some err)
     | Inr response \<Rightarrow>
         (case decoded (cj_records cj) response of
            Inl err \<Rightarrow> State_Monad.return (Some err)
          | Inr (_, found) \<Rightarrow> do {
              r \<leftarrow> (case found of
                  recID # _ \<Rightarrow> fetch w ''PUT'' (records_url zoneID @ ''/'' @ recID) (json_headers apiToken) (cname_payload hostname targetCNAME)
                | [] \<Rightarrow> fetch w ''POST'' (records_url zoneID) (json_headers apiToken) (cname_payload hostname targetCNAME));
              State_Monad.return (case r of
                  Inl err \<Rightarrow> Some err
                | Inr response \<Rightarrow>
                    (case decoded (cj_outcome cj) response of
                       Inl err \<Rightarrow> Some err
                     | Inr (success, errors) \<Rightarrow>
                         if success then None
                         else Some (first_error ''Cloudflare DNS: '' errors ''error al guardar registro CNAME en Cloudflare'')))
            })
   }"

fun sync_records ::
    "world \<Rightarrow> cloudflare_json \<Rightarrow> string \<Rightarrow> cloudflare_zone list \<Rightarrow> string \<Rightarrow> string list \<Rightarrow> string option prog" where
  "sync_records w cj apiToken zones target [] = State_Monad.return None"
| "sync_records w cj apiToken zones target (domain # domains) =
     (case cloudflareZoneForDomain zones domain of
        None \<Rightarrow> State_Monad.return (Some (''el token no tiene acceso a la zona DNS de '' @ domain))
      | Some zone \<Rightarrow> do {
          err \<leftarrow> UpsertCNAMERecord w cj apiToken (cz_id zone) (cloudflareHostname domain) target;
          case err of Some e \<Rightarrow> State_Monad.return (Some e) | None \<Rightarrow> sync_records w cj apiToken zones target domains
        })"

definition tunnel_target :: "string \<Rightarrow> string" where
  "tunnel_target tunnelID = tunnelID @ ''.cfargotunnel.com''"

definition syncCloudflareDNSRecords ::
    "world \<Rightarrow> cloudflare_json \<Rightarrow> string \<Rightarrow> string \<Rightarrow> string list \<Rightarrow> string option prog" where
  "syncCloudflareDNSRecords w cj apiToken tunnelID domains =
     (if domains = [] then State_Monad.return None
      else do {
        zones \<leftarrow> ListZones w cj apiToken;
        case zones of
          Inl err \<Rightarrow> State_Monad.return (Some err)
        | Inr zones \<Rightarrow> sync_records w cj apiToken zones (tunnel_target tunnelID) domains
      })"

text \<open>\<open>resolve\<close> is the answer of the resolver to a lookup of the canonical name.\<close>

definition VerifyDNSPropagation ::
    "(history \<Rightarrow> string \<Rightarrow> string + string) \<Rightarrow> string \<Rightarrow> string \<Rightarrow> (string + bool \<times> string) prog" where
  "VerifyDNSPropagation resolve domain expectedTarget = do {
     r \<leftarrow> perform (LookupCNAME domain) (\<lambda>h. resolve h domain);
     State_Monad.return (case r of
         Inl err \<Rightarrow> Inl err
       | Inr cname \<Rightarrow>
           (let cname = trim_suffix cname ''.'' in
            Inr (to_lower cname = to_lower (trim_suffix expectedTarget ''.'') \<or> has_suffix cname ''.cfargotunnel.com'', cname)))
   }"

end
