(* ===== verification/Cloudflare_Connector.thy ===== *)
theory Cloudflare_Connector
  imports App_Handlers
begin

text \<open>
  The connector container (\<^verbatim>\<open>internal/app/cloudflare_connector.go\<close>): MiniDock keeps at
  most one \<^verbatim>\<open>cloudflared\<close> container of its own, recognised by its labels, and hands it
  the tunnel token through the environment of the Docker client. The context of a call is not
  modelled: a call that runs out of time is one that Docker answers with an error.
\<close>

section \<open>Names and calls\<close>

definition cloudflaredContainerName :: string where
  "cloudflaredContainerName = ''minidock-cloudflared''"

definition cloudflaredManagedLabel :: string where
  "cloudflaredManagedLabel = ''io.minidock.managed''"

definition cloudflaredComponentLabel :: string where
  "cloudflaredComponentLabel = ''io.minidock.component''"

definition cloudflaredTokenHashLabel :: string where
  "cloudflaredTokenHashLabel = ''io.minidock.token-sha256''"

record connector =
  cn_image :: string
  cn_network :: string

definition NewDockerCloudflaredConnector :: "string \<Rightarrow> string \<Rightarrow> connector" where
  "NewDockerCloudflaredConnector img network =
     \<lparr>cn_image = (if trim_space img = '''' then ''cloudflare/cloudflared:2026.7.2'' else img),
      cn_network = (if trim_space network = '''' then ''minidock-edge'' else network)\<rparr>"

text \<open>The error of the Docker client, if any, and what it printed.\<close>

definition docker_call :: "world \<Rightarrow> (string \<times> string) list \<Rightarrow> string list \<Rightarrow> (string option \<times> string) prog" where
  "docker_call w env args = perform (Exec ''docker'' args env)
     (\<lambda>h. case w_exec w h ''docker'' args env of Inl err \<Rightarrow> (Some err, w_printed w h ''docker'' args) | Inr out \<Rightarrow> (None, out))"

fun redact :: "string list \<Rightarrow> string \<Rightarrow> string" where
  "redact [] detail = detail"
| "redact (secret # more_secrets) detail =
     redact more_secrets (if secret \<noteq> '''' then replace_all detail secret ''[REDACTADO]'' else detail)"

definition safeDockerError :: "string \<Rightarrow> string \<Rightarrow> string list \<Rightarrow> string" where
  "safeDockerError output err hidden =
     (let detail = trim_space output in if detail = '''' then err else take 400 (redact hidden detail))"

text \<open>
  A call whose failure ends the method, with the text put before what Docker printed; the secrets
  are the values to hide in it.
\<close>

definition docker_step :: "world \<Rightarrow> string \<Rightarrow> string list \<Rightarrow> (string \<times> string) list \<Rightarrow> string list \<Rightarrow> string option prog" where
  "docker_step w message hidden env args = do {
     (err, output) \<leftarrow> docker_call w env args;
     State_Monad.return (case err of None \<Rightarrow> None | Some e \<Rightarrow> Some (message @ safeDockerError output e hidden))
   }"

definition remove_connector_args :: "string \<Rightarrow> string list" where
  "remove_connector_args name = [''container'', ''rm'', ''--force'', name]"

section \<open>Inspection and status\<close>

definition inspect_format :: string where
  "inspect_format = ''{{.State.Status}}|{{index .Config.Labels '' @ quoted cloudflaredManagedLabel @ ''}}|{{index .Config.Labels '' @
     quoted cloudflaredComponentLabel @ ''}}|{{index .Config.Labels '' @ quoted cloudflaredTokenHashLabel @ ''}}|{{.Config.Image}}''"

definition inspect_args :: "string list" where
  "inspect_args = [''container'', ''inspect'', ''--format'', inspect_format, cloudflaredContainerName]"

record inspection =
  in_exists :: bool
  in_managed :: bool
  in_state :: string
  in_token_hash :: string
  in_image :: string

definition parse_inspection :: "string \<Rightarrow> string + inspection" where
  "parse_inspection output =
     (case split_on CHR ''|'' (trim_space output) of
        [state, managed, component, tokenHash, img] \<Rightarrow>
          Inr \<lparr>in_exists = True, in_managed = (managed = ''true'' \<and> component = ''cloudflared''), in_state = state,
               in_token_hash = tokenHash, in_image = img\<rparr>
      | _ \<Rightarrow> Inl ''respuesta inesperada de Docker al inspeccionar el conector'')"

definition inspect :: "world \<Rightarrow> (string + inspection) prog" where
  "inspect w = do {
     (err, output) \<leftarrow> docker_call w [] inspect_args;
     State_Monad.return (case err of
         Some e \<Rightarrow>
           (let detail = to_lower (trim_space output @ '' '' @ e) in
            if contains_str detail ''no such container'' \<or> contains_str detail ''not found''
            then Inr \<lparr>in_exists = False, in_managed = False, in_state = '''', in_token_hash = '''', in_image = ''''\<rparr>
            else Inl (''no se pudo inspeccionar el conector: '' @ safeDockerError output e []))
       | None \<Rightarrow> parse_inspection output)
   }"

definition docker_info :: "string list" where
  "docker_info = [''info'', ''--format'', ''{{.ServerVersion}}'']"

definition occupied :: string where
  "occupied = ''el nombre '' @ cloudflaredContainerName @ spanish '' est~a ocupado por un contenedor ajeno a MiniDock''"

text \<open>The state of the connector: \<^verbatim>\<open>missing\<close> or what Docker reports.\<close>

definition connector_status :: "world \<Rightarrow> (string + string) prog" where
  "connector_status w = do {
     (err, _) \<leftarrow> docker_call w [] docker_info;
     if err \<noteq> None then State_Monad.return (Inl (spanish ''Docker no est~a disponible para administrar el conector''))
     else do {
       r \<leftarrow> inspect w;
       State_Monad.return (case r of
           Inl e \<Rightarrow> Inl e
         | Inr i \<Rightarrow> if \<not> in_exists i then Inr ''missing'' else if \<not> in_managed i then Inl occupied else Inr (in_state i))
     }
   }"

definition Running :: "string \<Rightarrow> bool" where
  "Running state \<longleftrightarrow> state = ''running''"

definition Display :: "string \<Rightarrow> string" where
  "Display state =
     (if state = ''running'' then spanish ''En ejecuci~on''
      else if state = ''missing'' then ''Pendiente de iniciar''
      else if state = '''' then ''Estado desconocido''
      else ''Detenido ('' @ state @ '')'')"

section \<open>Reconciliation\<close>

text \<open>\<^verbatim>\<open>strings.Fields\<close>.\<close>

fun fields_loop :: "string \<Rightarrow> string \<Rightarrow> string list" where
  "fields_loop word [] = (if word = [] then [] else [word])"
| "fields_loop word (c # s) =
     (if is_space c then (if word = [] then fields_loop [] s else word # fields_loop [] s) else fields_loop (word @ [c]) s)"

definition Fields :: "string \<Rightarrow> string list" where
  "Fields s = fields_loop [] s"

definition legacy_label :: "string \<Rightarrow> string \<Rightarrow> string" where
  "legacy_label key v = ''label=com.docker.compose.'' @ key @ ''='' @ v"

definition legacy_args :: "string \<Rightarrow> string list" where
  "legacy_args project = [''container'', ''ls'', ''--all'', ''--quiet'', ''--filter'', legacy_label ''project'' project,
     ''--filter'', legacy_label ''service'' ''cloudflared'']"

fun remove_all :: "world \<Rightarrow> string list \<Rightarrow> string option prog" where
  "remove_all w [] = State_Monad.return None"
| "remove_all w (i # ids) = do {
     r \<leftarrow> docker_step w ''no se pudo migrar el conector anterior: '' [] [] (remove_connector_args i);
     case r of Some e \<Rightarrow> State_Monad.return (Some e) | None \<Rightarrow> remove_all w ids
   }"

definition project_args :: "string \<Rightarrow> string list" where
  "project_args self = [''container'', ''inspect'', ''--format'', ''{{index .Config.Labels '' @ quoted ''com.docker.compose.project'' @ ''}}'', self]"

definition remove_listed :: "world \<Rightarrow> string \<Rightarrow> string option prog" where
  "remove_listed w project = do {
     (err, output) \<leftarrow> docker_call w [] (legacy_args project);
     case err of
       Some e \<Rightarrow> State_Monad.return (Some (''no se pudo comprobar el conector anterior de Compose: '' @ safeDockerError output e []))
     | None \<Rightarrow> remove_all w (Fields output)
   }"

definition removeLegacyComposeConnector :: "world \<Rightarrow> (history \<Rightarrow> string + string) \<Rightarrow> string option prog" where
  "removeLegacyComposeConnector w hostname = do {
     r \<leftarrow> perform Hostname hostname;
     case r of
       Inl _ \<Rightarrow> State_Monad.return None
     | Inr self \<Rightarrow>
         if trim_space self = '''' then State_Monad.return None
         else do {
           (err, projectOutput) \<leftarrow> docker_call w [] (project_args self);
           if err \<noteq> None then State_Monad.return None
           else (let project = trim_space projectOutput in
             if project = '''' \<or> contains_any project [CHR '' '', CHR 0x09, CHR 0x0D, CHR 0x0A] then State_Monad.return None
             else remove_listed w project)
         }
   }"

definition cloudflaredTokenHash :: "services \<Rightarrow> string \<Rightarrow> string" where
  "cloudflaredTokenHash sv token = hex_string (sv_sha256 sv (to_bytes token))"

definition create_args :: "connector \<Rightarrow> string \<Rightarrow> string list" where
  "create_args c wantedHash =
     [''container'', ''create'', ''--name'', cloudflaredContainerName, ''--label'', cloudflaredManagedLabel @ ''=true'',
      ''--label'', cloudflaredComponentLabel @ ''=cloudflared'', ''--label'', cloudflaredTokenHashLabel @ ''='' @ wantedHash,
      ''--restart'', ''unless-stopped'', ''--network'', cn_network c, ''--memory'', ''256m'', ''--cpus'', ''0.50'',
      ''--pids-limit'', ''128'', ''--log-opt'', ''max-size=10m'', ''--log-opt'', ''max-file=3'', ''--read-only'',
      ''--tmpfs'', ''/tmp:rw,noexec,nosuid,size=64m'', ''--cap-drop'', ''ALL'', ''--security-opt'', ''no-new-privileges:true'',
      ''--env'', ''TUNNEL_TOKEN'', cn_image c, ''tunnel'', ''--no-autoupdate'', ''run'']"

definition start_args :: "string list" where
  "start_args = [''container'', ''start'', cloudflaredContainerName]"

definition ensure_image :: "world \<Rightarrow> connector \<Rightarrow> string option prog" where
  "ensure_image w c = do {
     (missing, _) \<leftarrow> docker_call w [] [''image'', ''inspect'', cn_image c];
     if missing = None then State_Monad.return None
     else docker_step w ''no se pudo descargar la imagen oficial de cloudflared: '' [] [] [''pull'', cn_image c]
   }"

definition create_connector :: "world \<Rightarrow> connector \<Rightarrow> string \<Rightarrow> string \<Rightarrow> string option prog" where
  "create_connector w c wantedHash token = do {
     r \<leftarrow> docker_step w ''no se pudo crear el conector: '' [token] [(''TUNNEL_TOKEN'', token)] (create_args c wantedHash);
     case r of
       Some e \<Rightarrow> State_Monad.return (Some e)
     | None \<Rightarrow> do {
         r \<leftarrow> docker_step w ''no se pudo iniciar el conector: '' [] [] start_args;
         case r of
           None \<Rightarrow> State_Monad.return None
         | Some e \<Rightarrow> do {
             _ \<leftarrow> docker_call w [] (remove_connector_args cloudflaredContainerName);
             State_Monad.return (Some e)
           }
       }
   }"

definition replace_connector :: "world \<Rightarrow> connector \<Rightarrow> bool \<Rightarrow> string \<Rightarrow> string \<Rightarrow> string option prog" where
  "replace_connector w c there wantedHash token = do {
     r \<leftarrow> ensure_image w c;
     case r of
       Some e \<Rightarrow> State_Monad.return (Some e)
     | None \<Rightarrow> do {
         r \<leftarrow> (if there then docker_step w ''no se pudo actualizar el conector: '' [] [] (remove_connector_args cloudflaredContainerName)
           else State_Monad.return None);
         case r of Some e \<Rightarrow> State_Monad.return (Some e) | None \<Rightarrow> create_connector w c wantedHash token
       }
   }"

definition ReconcileConnector :: "services \<Rightarrow> world \<Rightarrow> (history \<Rightarrow> string + string) \<Rightarrow> connector \<Rightarrow> string \<Rightarrow> string option prog" where
  "ReconcileConnector sv w hostname c token =
     (let token = trim_space token; wantedHash = cloudflaredTokenHash sv token in
      if token = '''' then State_Monad.return (Some (spanish ''Cloudflare no entreg~o un Tunnel Token''))
      else do {
        (err, _) \<leftarrow> docker_call w [] docker_info;
        if err \<noteq> None then State_Monad.return (Some (spanish ''Docker no est~a disponible para iniciar cloudflared''))
        else do {
          r \<leftarrow> removeLegacyComposeConnector w hostname;
          case r of
            Some e \<Rightarrow> State_Monad.return (Some e)
          | None \<Rightarrow> do {
              r \<leftarrow> inspect w;
              case r of
                Inl e \<Rightarrow> State_Monad.return (Some e)
              | Inr i \<Rightarrow>
                  if in_exists i \<and> \<not> in_managed i then State_Monad.return (Some occupied)
                  else if in_exists i \<and> in_token_hash i = wantedHash \<and> in_image i = cn_image c
                  then (if Running (in_state i) then State_Monad.return None
                        else docker_step w ''no se pudo reiniciar el conector: '' [] [] start_args)
                  else replace_connector w c (in_exists i) wantedHash token
            }
        }
      })"

definition remove_connector :: "world \<Rightarrow> string option prog" where
  "remove_connector w = do {
     r \<leftarrow> inspect w;
     case r of
       Inl e \<Rightarrow> State_Monad.return (Some e)
     | Inr i \<Rightarrow>
         if \<not> in_exists i then State_Monad.return None
         else if \<not> in_managed i then State_Monad.return (Some (spanish ''MiniDock no eliminar~a un contenedor que no administra''))
         else docker_step w ''no se pudo detener el conector: '' [] [] (remove_connector_args cloudflaredContainerName)
   }"

end
