(* ===== verification/App_Cloudflare.thy ===== *)
theory App_Cloudflare
  imports Cloudflare_Client Cloudflare_Connector App_Preflight
begin

text \<open>
  The handlers of the Cloudflare page and of the domain of an application
  (\<^verbatim>\<open>internal/app/server.go\<close>), as jobs that other requests may interleave with. The
  resolver, the host name and the JSON decoders are parameters. A panel message is the text that the
  redirect carries.
\<close>

record cloudflare_host =
  ch_json :: cloudflare_json
  ch_hostname :: "history \<Rightarrow> string + string"
  ch_cname :: "history \<Rightarrow> string \<Rightarrow> string + string"

definition panel_error :: "string \<Rightarrow> response" where
  "panel_error message = respond (Redirect (''/cloudflare?error='' @ QueryEscape message))"

definition panel_notice :: "string \<Rightarrow> response" where
  "panel_notice message = respond (Redirect (''/cloudflare?notice='' @ QueryEscape message))"

section \<open>Credentials\<close>

definition cloudflare_scope :: string where
  "cloudflare_scope = ''system:cloudflare''"

definition getCloudflareSecret :: "neighbours \<Rightarrow> services \<Rightarrow> string \<Rightarrow> (string + string) job" where
  "getCloudflareSecret nb sv name = do {
     key \<leftarrow> read_key nb;
     if key = [] then State_Monad.return (Inl (spanish ''sesi~on bloqueada''))
     else do {
       r \<leftarrow> store_read nb (Secret cloudflare_scope name);
       State_Monad.return (case r of
           Inl e \<Rightarrow> Inl (error_text e)
         | Inr (nonce, ciphertext) \<Rightarrow>
             (case Decrypt (sv_cipher sv) key nonce ciphertext of Inl e \<Rightarrow> Inl (error_text e) | Inr plain \<Rightarrow> Inr (of_bytes plain)))
     }
   }"

definition getCloudflareAPIToken :: "neighbours \<Rightarrow> services \<Rightarrow> (string + string) job" where
  "getCloudflareAPIToken nb sv = getCloudflareSecret nb sv ''api_token''"

text \<open>\<open>k\<close> numbers the use of the random source within the request.\<close>

definition putCloudflareSecret :: "neighbours \<Rightarrow> services \<Rightarrow> nat \<Rightarrow> bytes \<Rightarrow> string \<Rightarrow> string \<Rightarrow> error option job" where
  "putCloudflareSecret nb sv k key name v =
     (case Encrypt (sv_cipher sv) (sv_rand sv k) key (to_bytes v) of
        Inl e \<Rightarrow> State_Monad.return (Some e)
      | Inr (nonce, ciphertext) \<Rightarrow> do {
          r \<leftarrow> store_call nb (\<lambda>t. PutSecret t cloudflare_scope name nonce ciphertext);
          State_Monad.return (case r of Inl e \<Rightarrow> Some e | Inr _ \<Rightarrow> None)
        })"

definition save_config :: "neighbours \<Rightarrow> cloudflare_config \<Rightarrow> unit job" where
  "save_config nb cfg = do { _ \<leftarrow> store_call nb (\<lambda>t. SaveCloudflareConfig t cfg); State_Monad.return () }"

definition saveCloudflareFailure :: "neighbours \<Rightarrow> cloudflare_config \<Rightarrow> string \<Rightarrow> unit job" where
  "saveCloudflareFailure nb cfg message = save_config nb (cfg\<lparr>cf_status := ''error'', cf_error_message := message\<rparr>)"

definition load_config :: "neighbours \<Rightarrow> cloudflare_config job" where
  "load_config nb = store_call nb (\<lambda>t s. (s, CloudflareConfig t s))"

section \<open>Names of tunnels\<close>

definition instance_id_ok :: "string \<Rightarrow> bool" where
  "instance_id_ok s \<longleftrightarrow> length s = 12 \<and> list_all (\<lambda>c. is_digit c \<or> CHR ''a'' \<le> c \<and> c \<le> CHR ''f'') s"

definition existing_name :: string where
  "existing_name = spanish ''T~unel existente''"

definition cloudflareTunnelName :: "neighbours \<Rightarrow> services \<Rightarrow> cloudflare_config \<Rightarrow> (error + string) job" where
  "cloudflareTunnelName nb sv cfg =
     (if cf_tunnel_id cfg \<noteq> '''' \<and> cf_tunnel_name cfg \<noteq> '''' \<and> cf_tunnel_name cfg \<noteq> existing_name
      then State_Monad.return (Inr (cf_tunnel_name cfg))
      else do {
        instanceID \<leftarrow> store_read nb (SettingString ''cloudflare_instance_id'');
        if instance_id_ok instanceID then State_Monad.return (Inr (''minidock-'' @ instanceID))
        else case sv_rand sv 0 6 of
            Inl e \<Rightarrow> State_Monad.return (Inl e)
          | Inr randomID \<Rightarrow> do {
              r \<leftarrow> store_call nb (\<lambda>_. SetSettingString ''cloudflare_instance_id'' (hex_string randomID));
              State_Monad.return (case r of Inl e \<Rightarrow> Inl e | Inr _ \<Rightarrow> Inr (''minidock-'' @ hex_string randomID))
            }
      })"

text \<open>
  \<^verbatim>\<open>base64.RawURLEncoding.DecodeString\<close>: line breaks are skipped, the rest must be digits
  of the alphabet, and a last group of a single digit is an error.
\<close>

definition url_digit :: "char \<Rightarrow> nat option" where
  "url_digit c =
     (let n = (of_char c :: nat) in
      if 65 \<le> n \<and> n \<le> 90 then Some (n - 65) else if 97 \<le> n \<and> n \<le> 122 then Some (n - 71)
      else if is_digit c then Some (n + 4) else if c = CHR ''-'' then Some 62 else if c = CHR ''_'' then Some 63 else None)"

fun decode_groups :: "nat list \<Rightarrow> string option" where
  "decode_groups [] = Some []"
| "decode_groups [a] = None"
| "decode_groups [a, b] = Some [char_of ((a * 64 + b) div 16)]"
| "decode_groups [a, b, c] = (let x = (a * 64 + b) * 64 + c in Some [char_of (x div 1024), char_of (x div 4)])"
| "decode_groups (a # b # c # d # ds) =
     (let x = ((a * 64 + b) * 64 + c) * 64 + d
      in map_option (\<lambda>s. [char_of (x div 65536), char_of (x div 256), char_of x] @ s) (decode_groups ds))"

definition raw_url_decode :: "string \<Rightarrow> string option" where
  "raw_url_decode s =
     (let ds = map url_digit (filter (\<lambda>c. c \<noteq> CHR 0x0A \<and> c \<noteq> CHR 0x0D) s)
      in if None \<in> set ds then None else decode_groups (map the ds))"

definition tunnelIDFromToken :: "cloudflare_json \<Rightarrow> string \<Rightarrow> string" where
  "tunnelIDFromToken cj token =
     (let token = trim_space token;
          token = (case first_index CHR ''.'' token of None \<Rightarrow> token | Some i \<Rightarrow> take i token)
      in case raw_url_decode token of
           None \<Rightarrow> ''''
         | Some payload \<Rightarrow>
             (case cj_claims cj payload of
                None \<Rightarrow> ''''
              | Some t \<Rightarrow> if length t = 36 \<and> list_all (\<lambda>c. is_hex c \<or> c = CHR ''-'') t then to_lower t else ''''))"

section \<open>Saving the configuration\<close>

definition accountIDRegex :: "string \<Rightarrow> bool" where
  "accountIDRegex s \<longleftrightarrow> length s = 32 \<and> list_all is_hex s"

definition disable_tunnel :: "neighbours \<Rightarrow> world \<Rightarrow> cloudflare_config \<Rightarrow> response job" where
  "disable_tunnel nb w cfg = do {
     r \<leftarrow> run_outside (remove_connector w);
     case r of
       Some e \<Rightarrow> do {
         saveCloudflareFailure nb cfg (''No se pudo detener cloudflared: '' @ e);
         State_Monad.return (panel_error (''No se pudo detener el conector: '' @ e))
       }
     | None \<Rightarrow> do {
         save_config nb (cfg\<lparr>cf_status := ''disabled'', cf_error_message := ''''\<rparr>);
         State_Monad.return (panel_notice
           ''Cloudflare Tunnel desactivado; las credenciales permanecen cifradas para poder reactivarlo'')
       }
   }"

text \<open>A submitted credential, or the one that is stored when the field was left empty.\<close>

definition submitted_or_stored :: "neighbours \<Rightarrow> services \<Rightarrow> string \<Rightarrow> string \<Rightarrow> (string + string) job" where
  "submitted_or_stored nb sv v name =
     (if v = '''' then getCloudflareSecret nb sv name else State_Monad.return (Inr v))"

text \<open>The result of a mode: a refusal, or the tunnel token and the configuration to save.\<close>

definition token_mode ::
    "neighbours \<Rightarrow> services \<Rightarrow> cloudflare_host \<Rightarrow> bytes \<Rightarrow> string \<Rightarrow> cloudflare_config \<Rightarrow>
     (response + string \<times> cloudflare_config) job" where
  "token_mode nb sv ch key tunnelToken cfg = do {
     r \<leftarrow> submitted_or_stored nb sv tunnelToken ''tunnel_token'';
     case r of
       Inl _ \<Rightarrow> State_Monad.return (Inl (panel_error ''Pega un Tunnel Token para conectar''))
     | Inr token \<Rightarrow> do {
         r \<leftarrow> putCloudflareSecret nb sv 0 key ''tunnel_token'' token;
         State_Monad.return (if r \<noteq> None then Inl (panel_error ''No se pudo cifrar el Tunnel Token'')
           else Inr (token, cfg\<lparr>cf_tunnel_id := tunnelIDFromToken (ch_json ch) token, cf_tunnel_name := existing_name\<rparr>))
       }
   }"

text \<open>Routes and DNS records of the public domains; a failure is recorded.\<close>

definition publish_domains ::
    "neighbours \<Rightarrow> world \<Rightarrow> cloudflare_host \<Rightarrow> string \<Rightarrow> cloudflare_config \<Rightarrow> string option job" where
  "publish_domains nb w ch apiToken cfg = do {
     apps \<leftarrow> store_read nb Applications;
     r \<leftarrow> run_outside (ConfigureTunnelIngress w (ch_json ch) apiToken (cf_account_id cfg) (cf_tunnel_id cfg) (publicApplicationDomains apps));
     case r of
       Some e \<Rightarrow> do {
         saveCloudflareFailure nb cfg e;
         State_Monad.return (Some (spanish ''El t~unel fue creado, pero no se pudo configurar su enrutamiento: '' @ e))
       }
     | None \<Rightarrow> do {
         r \<leftarrow> run_outside (syncCloudflareDNSRecords w (ch_json ch) apiToken (cf_tunnel_id cfg) (publicApplicationDomains apps));
         case r of
           Some e \<Rightarrow> do {
             saveCloudflareFailure nb cfg e;
             State_Monad.return (Some (spanish ''El t~unel fue creado, pero no se pudo configurar todo el DNS: '' @ e))
           }
         | None \<Rightarrow> State_Monad.return None
       }
   }"

definition keep_credentials :: "neighbours \<Rightarrow> services \<Rightarrow> bytes \<Rightarrow> string \<Rightarrow> string \<Rightarrow> string option job" where
  "keep_credentials nb sv key apiToken tunnelToken = do {
     r \<leftarrow> putCloudflareSecret nb sv 1 key ''api_token'' apiToken;
     if r \<noteq> None then State_Monad.return (Some ''No se pudo cifrar el API Token'')
     else do {
       r \<leftarrow> putCloudflareSecret nb sv 2 key ''tunnel_token'' tunnelToken;
       State_Monad.return (if r \<noteq> None then Some ''No se pudo cifrar el Tunnel Token'' else None)
     }
   }"

definition create_tunnel ::
    "neighbours \<Rightarrow> services \<Rightarrow> world \<Rightarrow> cloudflare_host \<Rightarrow> string \<Rightarrow> cloudflare_config \<Rightarrow>
     (string + string \<times> cloudflare_config) job" where
  "create_tunnel nb sv w ch apiToken cfg = do {
     r \<leftarrow> run_outside (VerifyToken w (ch_json ch) apiToken);
     case r of
       Some e \<Rightarrow> State_Monad.return (Inl (''Token API invalido: '' @ e))
     | None \<Rightarrow> do {
         r \<leftarrow> cloudflareTunnelName nb sv cfg;
         case r of
           Inl _ \<Rightarrow> State_Monad.return (Inl (spanish ''No se pudo generar la identidad segura del t~unel''))
         | Inr tunnelName \<Rightarrow> do {
             r \<leftarrow> run_outside (CreateOrGetTunnel w (ch_json ch) apiToken (cf_account_id cfg) tunnelName);
             State_Monad.return (case r of
                 Inl e \<Rightarrow> Inl (''Error al crear tunel: '' @ e)
               | Inr (tunnelID, token) \<Rightarrow> Inr (token, cfg\<lparr>cf_tunnel_id := tunnelID, cf_tunnel_name := tunnelName\<rparr>))
           }
       }
   }"

definition api_mode ::
    "neighbours \<Rightarrow> services \<Rightarrow> world \<Rightarrow> cloudflare_host \<Rightarrow> bytes \<Rightarrow> string \<Rightarrow> cloudflare_config \<Rightarrow>
     (response + string \<times> cloudflare_config) job" where
  "api_mode nb sv w ch key apiToken cfg = do {
     r \<leftarrow> submitted_or_stored nb sv apiToken ''api_token'';
     case r of
       Inl _ \<Rightarrow> State_Monad.return (Inl (panel_error (spanish ''Pega un API Token para realizar la configuraci~on autom~atica'')))
     | Inr apiToken \<Rightarrow>
         if \<not> accountIDRegex (cf_account_id cfg)
         then State_Monad.return (Inl (panel_error ''El Account ID debe contener exactamente 32 caracteres hexadecimales''))
         else do {
           r \<leftarrow> create_tunnel nb sv w ch apiToken cfg;
           case r of
             Inl message \<Rightarrow> State_Monad.return (Inl (panel_error message))
           | Inr (token, cfg) \<Rightarrow> do {
               r \<leftarrow> keep_credentials nb sv key apiToken token;
               case r of
                 Some message \<Rightarrow> State_Monad.return (Inl (panel_error message))
               | None \<Rightarrow> do {
                   r \<leftarrow> publish_domains nb w ch apiToken cfg;
                   State_Monad.return (case r of Some message \<Rightarrow> Inl (panel_error message) | None \<Rightarrow> Inr (token, cfg))
                 }
             }
         }
   }"

definition start_connector ::
    "neighbours \<Rightarrow> services \<Rightarrow> world \<Rightarrow> cloudflare_host \<Rightarrow> connector \<Rightarrow> string \<Rightarrow> cloudflare_config \<Rightarrow> response job" where
  "start_connector nb sv w ch cn token cfg = do {
     save_config nb (cfg\<lparr>cf_status := ''configuring'', cf_error_message := ''''\<rparr>);
     r \<leftarrow> run_outside (ReconcileConnector sv w (ch_hostname ch) cn token);
     case r of
       Some e \<Rightarrow> do {
         saveCloudflareFailure nb cfg e;
         State_Monad.return (panel_error (spanish ''Cloudflare qued~o configurado, pero el conector no pudo iniciarse: '' @ e))
       }
     | None \<Rightarrow> do {
         save_config nb (cfg\<lparr>cf_status := ''connected'', cf_error_message := ''''\<rparr>);
         State_Monad.return (panel_notice (spanish ''Cloudflare Tunnel configurado y cloudflared iniciado autom~aticamente''))
       }
   }"

definition saveCloudflareConfig ::
    "neighbours \<Rightarrow> services \<Rightarrow> world \<Rightarrow> cloudflare_host \<Rightarrow> connector \<Rightarrow> request \<Rightarrow> response job" where
  "saveCloudflareConfig nb sv w ch cn rq = authorized_job nb rq (
     if \<not> rq_form_ok rq then State_Monad.return (respond (HttpError 400 ''invalid form''))
     else do {
       cfg \<leftarrow> load_config nb;
       let mode = trim_space (rq_form rq ''mode'');
       let accountID = trim_space (rq_form rq ''account_id'');
       let cfg = cfg\<lparr>cf_mode := mode, cf_account_id := (if accountID \<noteq> '''' then accountID else cf_account_id cfg)\<rparr>;
       key \<leftarrow> read_key nb;
       if key = [] then State_Monad.return (panel_error ''Desbloquea MiniDock para administrar credenciales'')
       else if mode = ''disabled'' then disable_tunnel nb w cfg
       else do {
         r \<leftarrow> (if mode = ''tunnel_token'' then token_mode nb sv ch key (trim_space (rq_form rq ''tunnel_token'')) cfg
           else if mode = ''api_token'' then api_mode nb sv w ch key (trim_space (rq_form rq ''api_token'')) cfg
           else State_Monad.return (Inl (panel_error (spanish ''Modo de Cloudflare no v~alido''))));
         case r of Inl refusal \<Rightarrow> State_Monad.return refusal | Inr (token, cfg) \<Rightarrow> start_connector nb sv w ch cn token cfg
       }
     })"

definition reconnectCloudflared ::
    "neighbours \<Rightarrow> services \<Rightarrow> world \<Rightarrow> cloudflare_host \<Rightarrow> connector \<Rightarrow> request \<Rightarrow> response job" where
  "reconnectCloudflared nb sv w ch cn rq = authorized_job nb rq (do {
     cfg \<leftarrow> load_config nb;
     if cf_mode cfg = ''disabled'' then State_Monad.return (panel_error ''Configura Cloudflare antes de iniciar el conector'')
     else do {
       token \<leftarrow> getCloudflareSecret nb sv ''tunnel_token'';
       case token of
         Inl _ \<Rightarrow> State_Monad.return (panel_error (spanish ''No se encontr~o un Tunnel Token cifrado''))
       | Inr token \<Rightarrow> do {
           r \<leftarrow> run_outside (ReconcileConnector sv w (ch_hostname ch) cn token);
           case r of
             Some e \<Rightarrow> do {
               saveCloudflareFailure nb cfg e;
               State_Monad.return (panel_error (''No se pudo iniciar el conector: '' @ e))
             }
           | None \<Rightarrow> do {
               save_config nb (cfg\<lparr>cf_status := ''connected'', cf_error_message := ''''\<rparr>);
               State_Monad.return (panel_notice ''Conector cloudflared iniciado'')
             }
         }
     }
   })"

section \<open>Domains of applications\<close>

definition sync_with_api ::
    "neighbours \<Rightarrow> world \<Rightarrow> cloudflare_host \<Rightarrow> string \<Rightarrow> cloudflare_config \<Rightarrow> application list \<Rightarrow> string \<Rightarrow>
     (bool \<times> string) option job" where
  "sync_with_api nb w ch apiToken cfg apps domain = do {
     r \<leftarrow> run_outside (ConfigureTunnelIngress w (ch_json ch) apiToken (cf_account_id cfg) (cf_tunnel_id cfg) (publicApplicationDomains apps));
     case r of
       Some e \<Rightarrow> State_Monad.return (Some (True, e))
     | None \<Rightarrow> do {
         r \<leftarrow> run_outside (syncCloudflareDNSRecords w (ch_json ch) apiToken (cf_tunnel_id cfg) [domain]);
         State_Monad.return (map_option (\<lambda>e. (False, e)) r)
       }
   }"

definition check_propagation :: "cloudflare_host \<Rightarrow> string \<Rightarrow> string \<Rightarrow> response job" where
  "check_propagation ch domain expectedCNAME = do {
     r \<leftarrow> run_outside (VerifyDNSPropagation (ch_cname ch) domain expectedCNAME);
     State_Monad.return (case r of
         Inl e \<Rightarrow> panel_error (''No se pudo consultar el DNS de '' @ domain @ '': '' @ e)
       | Inr (isPropagated, resolvedCNAME) \<Rightarrow>
           if isPropagated then panel_notice (''DNS verificado con exito para '' @ domain)
           else panel_error (''El DNS de '' @ domain @ spanish '' a~un no apunta al t~unel. CNAME actual: '' @ resolvedCNAME))
   }"

definition sync_application ::
    "neighbours \<Rightarrow> services \<Rightarrow> world \<Rightarrow> cloudflare_host \<Rightarrow> cloudflare_config \<Rightarrow> string \<Rightarrow> response job" where
  "sync_application nb sv w ch cfg domain = do {
     r \<leftarrow> (if cf_mode cfg = ''api_token'' then getCloudflareAPIToken nb sv else State_Monad.return (Inr ''''));
     case r of
       Inr (c # cs) \<Rightarrow> do {
         apps \<leftarrow> store_read nb Applications;
         r \<leftarrow> sync_with_api nb w ch (c # cs) cfg apps domain;
         State_Monad.return (case r of
             Some (True, e) \<Rightarrow> panel_error (spanish ''No se pudo publicar la ruta en el t~unel: '' @ e)
           | Some (False, e) \<Rightarrow> panel_error (''No se pudo configurar el DNS: '' @ e)
           | None \<Rightarrow> panel_notice (spanish ''Ruta y DNS configurados autom~aticamente para '' @ domain))
       }
     | _ \<Rightarrow> check_propagation ch domain (tunnel_target (cf_tunnel_id cfg))
   }"

definition syncAppCloudflareDNS ::
    "neighbours \<Rightarrow> services \<Rightarrow> world \<Rightarrow> cloudflare_host \<Rightarrow> request \<Rightarrow> response job" where
  "syncAppCloudflareDNS nb sv w ch rq = authorized_job nb rq (
     case parse_int (rq_path_value rq ''id'') of
       None \<Rightarrow> State_Monad.return (respond (HttpError 400 ''invalid application id''))
     | Some appID \<Rightarrow> do {
         r \<leftarrow> store_read nb (Application appID);
         case r of
           Inl _ \<Rightarrow> State_Monad.return (respond (HttpError 404 ''aplicacion no encontrada''))
         | Inr a \<Rightarrow> do {
             cfg \<leftarrow> load_config nb;
             if cf_mode cfg = ''disabled'' \<or> cf_tunnel_id cfg = ''''
             then State_Monad.return (panel_error (spanish ''Configura y conecta un t~unel de Cloudflare antes de verificar el DNS''))
             else if \<not> isPublicCloudflareDomain (app_domain a)
             then State_Monad.return (panel_error (''El dominio '' @ app_domain a @
               spanish '' no es p~ublico. Para Cloudflare usa un subdominio completo, por ejemplo demo.tudominio.com''))
             else sync_application nb sv w ch cfg (app_domain a)
           }
       })"

definition domain_url :: "int \<Rightarrow> string \<Rightarrow> string \<Rightarrow> response" where
  "domain_url appID kind message =
     respond (Redirect (''/applications/'' @ show_int appID @ ''?'' @ kind @ ''='' @ QueryEscape message))"

text \<open>The message of a domain that was saved.\<close>

definition publish_domain ::
    "neighbours \<Rightarrow> services \<Rightarrow> world \<Rightarrow> cloudflare_host \<Rightarrow> int \<Rightarrow> string \<Rightarrow> response job" where
  "publish_domain nb sv w ch appID domain = do {
     cfg \<leftarrow> load_config nb;
     if \<not> (cf_mode cfg = ''api_token'' \<and> cf_tunnel_id cfg \<noteq> '''')
     then State_Monad.return (domain_url appID ''notice'' (''Dominio actualizado exitosamente a '' @ domain))
     else do {
       token \<leftarrow> getCloudflareAPIToken nb sv;
       apps \<leftarrow> store_read nb Applications;
       case token of
         Inl _ \<Rightarrow> State_Monad.return (domain_url appID ''notice'' (''Dominio actualizado exitosamente a '' @ domain))
       | Inr apiToken \<Rightarrow> do {
           r \<leftarrow> sync_with_api nb w ch apiToken cfg apps domain;
           State_Monad.return (case r of
               Some (True, e) \<Rightarrow> domain_url appID ''error'' (''Dominio guardado, pero Cloudflare no pudo publicar la ruta: '' @ e)
             | Some (False, e) \<Rightarrow> domain_url appID ''error'' (''Dominio guardado, pero Cloudflare no pudo configurar el DNS: '' @ e)
             | None \<Rightarrow> domain_url appID ''notice'' (spanish ''Dominio actualizado y publicado autom~aticamente en Cloudflare''))
         }
     }
   }"

definition updateApplicationDomain ::
    "neighbours \<Rightarrow> services \<Rightarrow> world \<Rightarrow> cloudflare_host \<Rightarrow> config \<Rightarrow> request \<Rightarrow> response job" where
  "updateApplicationDomain nb sv w ch c rq = authorized_job nb rq (
     case parse_int (rq_path_value rq ''id'') of
       None \<Rightarrow> State_Monad.return (respond (HttpError 400 ''invalid application id''))
     | Some appID \<Rightarrow>
         if \<not> rq_form_ok rq then State_Monad.return (respond (HttpError 400 ''invalid form''))
         else (let domain = trim_space (rq_form rq ''domain'') in
           if \<not> domainRegex domain \<or> domain = cfg_admin_domain c
           then State_Monad.return (domain_url appID ''error'' ''Dominio invalido o coincide con el dominio administrativo'')
           else do {
             r \<leftarrow> store_call nb (\<lambda>_. UpdateApplicationDomain appID domain);
             case r of
               Inl _ \<Rightarrow> State_Monad.return (domain_url appID ''error'' ''Error al actualizar dominio'')
             | Inr _ \<Rightarrow>
                 if isPublicCloudflareDomain domain then publish_domain nb sv w ch appID domain
                 else State_Monad.return (domain_url appID ''notice'' (''Dominio actualizado exitosamente a '' @ domain))
           }))"

section \<open>The page\<close>

record cloudflare_row =
  cr_app :: application
  cr_expected :: string
  cr_resolved :: string
  cr_propagated :: bool
  cr_badge :: string

record cloudflare_page =
  cp_config :: cloudflare_config
  cp_rows :: "cloudflare_row list"
  cp_connector :: string
  cp_csrf :: string
  cp_notice :: string
  cp_error :: string

definition badge_private :: string where
  "badge_private = [CHR 0xE2, CHR 0x9A, CHR 0xAA] @ spanish '' Requiere dominio p~ublico''"

definition badge_pending :: string where
  "badge_pending = [CHR 0xF0, CHR 0x9F, CHR 0x9F, CHR 0xA1] @ '' Pendiente''"

definition badge_propagated :: string where
  "badge_propagated = [CHR 0xF0, CHR 0x9F, CHR 0x9F, CHR 0xA2] @ '' Propagado''"

definition running_text :: "string \<Rightarrow> string" where
  "running_text s = spanish ''En ejecuci~on '' @ [CHR 0xC2, CHR 0xB7] @ spanish s"

text \<open>What the state of the container says of the stored status.\<close>

definition local_status :: "string + string \<Rightarrow> cloudflare_config \<Rightarrow> cloudflare_config" where
  "local_status status cfg =
     (case status of
        Inl _ \<Rightarrow> cfg
      | Inr state \<Rightarrow>
          if cf_mode cfg = ''disabled'' then cfg
          else if Running state then (if cf_status cfg \<noteq> ''error'' then cfg\<lparr>cf_status := ''connected''\<rparr> else cfg)
          else if cf_status cfg = ''connected'' then cfg\<lparr>cf_status := ''configured''\<rparr> else cfg)"

definition remote_status :: "string \<Rightarrow> string \<times> cloudflare_config \<Rightarrow> string \<times> cloudflare_config" where
  "remote_status remote q =
     (if remote = ''healthy'' then (running_text '' Cloudflare saludable'', (snd q)\<lparr>cf_status := ''connected''\<rparr>)
      else if remote = ''degraded'' then (running_text '' conexi~on degradada'',
        (snd q)\<lparr>cf_status := ''error'', cf_error_message := spanish ''Cloudflare reporta una conexi~on degradada''\<rparr>)
      else if remote = ''inactive'' \<or> remote = ''down''
      then (running_text '' esperando conexi~on con Cloudflare'', (snd q)\<lparr>cf_status := ''configuring''\<rparr>)
      else q)"

definition ask_cloudflare ::
    "neighbours \<Rightarrow> services \<Rightarrow> world \<Rightarrow> cloudflare_host \<Rightarrow> string \<times> cloudflare_config \<Rightarrow> (string \<times> cloudflare_config) job" where
  "ask_cloudflare nb sv w ch q = do {
     r \<leftarrow> getCloudflareAPIToken nb sv;
     case r of
       Inl _ \<Rightarrow> State_Monad.return q
     | Inr apiToken \<Rightarrow> do {
         r \<leftarrow> run_outside (TunnelStatus w (ch_json ch) apiToken (cf_account_id (snd q)) (cf_tunnel_id (snd q)));
         State_Monad.return (case r of Inl _ \<Rightarrow> q | Inr remote \<Rightarrow> remote_status remote q)
       }
   }"

fun domain_rows :: "cloudflare_host \<Rightarrow> string \<Rightarrow> application list \<Rightarrow> cloudflare_row list prog" where
  "domain_rows ch expectedCNAME [] = State_Monad.return []"
| "domain_rows ch expectedCNAME (a # apps) = do {
     row \<leftarrow> (if \<not> isPublicCloudflareDomain (app_domain a)
       then State_Monad.return \<lparr>cr_app = a, cr_expected = expectedCNAME, cr_resolved = '''', cr_propagated = False, cr_badge = badge_private\<rparr>
       else do {
         r \<leftarrow> VerifyDNSPropagation (ch_cname ch) (app_domain a) expectedCNAME;
         let (isPropagated, current) = (case r of Inl _ \<Rightarrow> (False, '''') | Inr q \<Rightarrow> q);
         State_Monad.return \<lparr>cr_app = a, cr_expected = expectedCNAME, cr_resolved = current, cr_propagated = isPropagated,
           cr_badge = (if isPropagated then badge_propagated else badge_pending)\<rparr>
       });
     rows \<leftarrow> domain_rows ch expectedCNAME apps;
     State_Monad.return (row # rows)
   }"

text \<open>\<open>rq_form\<close> holds the query of the request. The page is the value that the template gets.\<close>

definition renderCloudflareDashboard ::
    "neighbours \<Rightarrow> services \<Rightarrow> world \<Rightarrow> cloudflare_host \<Rightarrow> request \<Rightarrow> (response + cloudflare_page) job" where
  "renderCloudflareDashboard nb sv w ch rq = do {
     ok \<leftarrow> app_call nb (\<lambda>t ap. (ap, authorized t rq ap));
     if \<not> ok then State_Monad.return (Inl (respond (Redirect ''/unlock'')))
     else do {
       cfg \<leftarrow> load_config nb;
       apps \<leftarrow> store_read nb Applications;
       status \<leftarrow> run_outside (connector_status w);
       let q = (case status of Inl e \<Rightarrow> e | Inr state \<Rightarrow> Display state, local_status status cfg);
       (connectorStatus, cfg) \<leftarrow> (if status = Inr ''running'' \<and> cf_mode (snd q) = ''api_token'' \<and> cf_account_id (snd q) \<noteq> '''' \<and>
           cf_tunnel_id (snd q) \<noteq> ''''
         then ask_cloudflare nb sv w ch q else State_Monad.return q);
       rows \<leftarrow> run_outside (domain_rows ch
         (tunnel_target (if cf_tunnel_id cfg \<noteq> '''' then cf_tunnel_id cfg else ''configurar-tunel'')) apps);
       csrf \<leftarrow> app_call nb (\<lambda>_ ap. (ap, csrfToken sv rq ap));
       State_Monad.return (Inr \<lparr>cp_config = cfg, cp_rows = rows, cp_connector = connectorStatus, cp_csrf = csrf,
         cp_notice = rq_form rq ''notice'', cp_error = rq_form rq ''error''\<rparr>)
     }
   }"

end
