(* ===== verification/Cloudflare_Props.thy ===== *)
theory Cloudflare_Props
  imports App_Cloudflare App_Collector_Props Restore_Props
begin

text \<open>
  Cloudflare: routes and records are exactly those of the public domains, the connector never touches
  a container that is not its own, and the tunnel token stays out of command lines and messages.
\<close>

section \<open>Routes\<close>

definition caddy_rule :: "string \<Rightarrow> ingress_rule" where
  "caddy_rule host = \<lparr>ir_hostname = host, ir_service = ''http://caddy:80''\<rparr>"

definition fallback_rule :: ingress_rule where
  "fallback_rule = \<lparr>ir_hostname = '''', ir_service = ''http_status:404''\<rparr>"

definition public_hosts :: "string list \<Rightarrow> string set" where
  "public_hosts hostnames = {cloudflareHostname h | h. h \<in> set hostnames \<and> isPublicCloudflareDomain (cloudflareHostname h)}"

lemma public_hosts_Cons:
  "public_hosts (h # hs) = (if isPublicCloudflareDomain (cloudflareHostname h) then insert (cloudflareHostname h) (public_hosts hs)
     else public_hosts hs)"
  by (auto simp: public_hosts_def)

lemma ingress_loop_rules:
  "\<exists>hosts. ingress_loop seen hostnames = map caddy_rule hosts @ [fallback_rule] \<and> distinct hosts \<and>
     set hosts = public_hosts hostnames - set seen"
proof (induction seen hostnames rule: ingress_loop.induct)
  case (1 seen)
  then show ?case by (intro exI [of _ "[]"]) (simp add: fallback_rule_def public_hosts_def)
next
  case (2 seen h hs)
  let ?h = "cloudflareHostname h"
  show ?case
  proof (cases "isPublicCloudflareDomain ?h \<and> ?h \<notin> set seen")
    case True
    with 2(3) [OF refl] obtain hosts where
      "ingress_loop (?h # seen) hs = map caddy_rule hosts @ [fallback_rule]" "distinct hosts"
      "set hosts = public_hosts hs - set (?h # seen)" by auto
    with True show ?thesis by (intro exI [of _ "?h # hosts"]) (auto simp: Let_def caddy_rule_def public_hosts_Cons)
  next
    case False
    have "\<exists>hosts. ingress_loop seen hs = map caddy_rule hosts @ [fallback_rule] \<and> distinct hosts \<and>
        set hosts = public_hosts hs - set seen"
      using 2(1,2) [OF refl] False by blast
    moreover have "ingress_loop seen (h # hs) = ingress_loop seen hs" using False by (auto simp: Let_def)
    moreover have "public_hosts (h # hs) - set seen = public_hosts hs - set seen" using False by (auto simp: public_hosts_Cons)
    ultimately show ?thesis by metis
  qed
qed

lemma public_not_empty: "\<not> isPublicCloudflareDomain ''''"
  by (simp add: isPublicCloudflareDomain_def cloudflareHostname_def trim_space_def trim_left_def trim_right_def to_lower_def
      trim_suffix_def has_suffix_def SplitHostPort_def Let_def)

text \<open>
  C35: the routes given to a tunnel are one per public host among the domains, each once and to Caddy,
  followed by exactly one rule without a host, which answers 404.
\<close>

theorem ingress_routes_public_hosts_once:
  "\<exists>hosts. ingress_rules hostnames = map (\<lambda>h. \<lparr>ir_hostname = h, ir_service = ''http://caddy:80''\<rparr>) hosts @
       [\<lparr>ir_hostname = '''', ir_service = ''http_status:404''\<rparr>] \<and>
     distinct hosts \<and> '''' \<notin> set hosts \<and>
     set hosts = {cloudflareHostname h | h. h \<in> set hostnames \<and> isPublicCloudflareDomain (cloudflareHostname h)}"
proof -
  obtain hosts where h: "ingress_rules hostnames = map caddy_rule hosts @ [fallback_rule]" "distinct hosts"
      "set hosts = public_hosts hostnames"
    using ingress_loop_rules [of "[]" hostnames] by (auto simp: ingress_rules_def)
  then have "'''' \<notin> set hosts" using public_not_empty by (auto simp: public_hosts_def)
  with h show ?thesis by (intro exI [of _ hosts]) (simp add: caddy_rule_def [abs_def] fallback_rule_def public_hosts_def)
qed

section \<open>Records\<close>

lemma zone_loop_match:
  "zone_loop domain z zones = z \<or> zone_loop domain z zones \<in> set zones \<and> zone_matches domain (zone_loop domain z zones)"
  by (induction zones arbitrary: z) (simp, smt (verit) list.set_intros zone_loop.simps(2))

lemma zone_of_domain:
  assumes "cloudflareZoneForDomain zones domain = Some z"
  shows "z \<in> set zones \<and> zone_matches (cloudflareHostname domain) z"
  using assms zone_loop_match [of "cloudflareHostname domain" "\<lparr>cz_id = '''', cz_name = '''', cz_status = ''''\<rparr>" zones]
  by (auto simp: cloudflareZoneForDomain_def Let_def split: if_splits)

text \<open>Requests that only read are always allowed; a record is written for one of the domains.\<close>

definition record_write :: "string set \<Rightarrow> string \<Rightarrow> string \<Rightarrow> string \<Rightarrow> bool" where
  "record_write domains target url body \<longleftrightarrow>
     (\<exists>d\<in>domains. \<exists>z rest. zone_matches (cloudflareHostname d) z \<and> url = records_url (cz_id z) @ rest \<and>
        (rest = '''' \<or> has_prefix rest ''/'') \<and> body = cname_payload (cloudflareHostname d) target)"

fun dns_request :: "string set \<Rightarrow> string \<Rightarrow> action \<Rightarrow> bool" where
  "dns_request domains target (HttpCall meth url headers body) \<longleftrightarrow> meth = ''GET'' \<or> record_write domains target url body"
| "dns_request domains target _ \<longleftrightarrow> False"

lemma fetch_emits: "P (HttpCall meth url headers body) \<Longrightarrow> emits P (fetch w meth url headers body)"
  by (auto simp: fetch_def send_def http_do_def intro!: emits_rules split: sum.splits)

lemma record_write_intros:
  assumes "d \<in> D" and "zone_matches (cloudflareHostname d) z"
  shows "record_write D target (records_url (cz_id z)) (cname_payload (cloudflareHostname d) target)"
    and "record_write D target (records_url (cz_id z) @ ''/'' @ i) (cname_payload (cloudflareHostname d) target)"
  unfolding record_write_def using assms
  by (metis append_Nil2, metis has_prefix_append)

lemma upsert_emits:
  assumes "d \<in> D" and "zone_matches (cloudflareHostname d) z"
  shows "emits (dns_request D target) (UpsertCNAMERecord w cj tok (cz_id z) (cloudflareHostname d) target)"
  unfolding UpsertCNAMERecord_def using record_write_intros [OF assms]
  by (auto intro!: emits_rules fetch_emits split: sum.splits prod.splits list.splits)

lemma sync_records_emits: "set ds \<subseteq> D \<Longrightarrow> emits (dns_request D target) (sync_records w cj tok zones target ds)"
  by (induction ds) (auto intro!: emits_rules upsert_emits split: option.splits dest: zone_of_domain)

lemma sync_emits: "emits (dns_request (set ds) (tunnel_target i)) (syncCloudflareDNSRecords w cj tok i ds)"
  by (auto simp: syncCloudflareDNSRecords_def ListZones_def intro!: emits_rules fetch_emits sync_records_emits split: sum.splits)


definition demo_json :: cloudflare_json where
  "demo_json = \<lparr>cj_verification = (\<lambda>b e. Inr (True, ''active'')),
     cj_zones = (\<lambda>b e. Inr (True, [\<lparr>cz_id = ''z1'', cz_name = ''example.com'', cz_status = ''active''\<rparr>], [])),
     cj_created = (\<lambda>b. Inr (True, ''t1'', [])), cj_tunnels = (\<lambda>b e. Inr (True, [])), cj_token = (\<lambda>b e. Inr (True, ''tok'', [])),
     cj_outcome = (\<lambda>b e. Inr (True, [])),
     cj_tunnel = (\<lambda>b e. Inr (True, \<lparr>ct_id = ''t1'', ct_name = ''n'', ct_status = ''healthy'', ct_config_src = ''cloudflare'', ct_created_at = ''''\<rparr>)),
     cj_records = (\<lambda>b e. Inr (True, [])), cj_claims = (\<lambda>s. None)\<rparr>"

lemma write_cases:
  "(case a of HttpCall meth url hs body \<Rightarrow> meth \<noteq> ''GET'' | _ \<Rightarrow> False) \<longleftrightarrow>
   (\<exists>meth url hs body. a = HttpCall meth url hs body \<and> meth \<noteq> ''GET'')"
  by (cases a) auto

lemma demo_sync:
  "case run_state (syncCloudflareDNSRecords (demo_world ''healthy'') demo_json ''tok'' ''t1'' [''web.example.com'']) [] of
     (r, h') \<Rightarrow> r = None \<and> list_ex (\<lambda>a. case a of HttpCall meth url hs body \<Rightarrow> meth \<noteq> ''GET'' | _ \<Rightarrow> False) h'"
  by code_simp


section \<open>Redaction\<close>

lemma contains_iff: "contains_str s p \<longleftrightarrow> (\<exists>u v. s = u @ p @ v)"
proof (induction s p rule: contains_str.induct)
  case (2 c s p)
  have "(\<exists>u v. c # s = u @ p @ v) \<longleftrightarrow> (\<exists>v. c # s = p @ v) \<or> (\<exists>u v. s = u @ p @ v)"
    by (metis append_Cons append_Nil list.exhaust list.inject)
  with 2 show ?case by (simp add: has_prefix_iff)
qed auto

lemma contains_take: "contains_str (take n s) p \<Longrightarrow> contains_str s p"
  unfolding contains_iff by (metis append.assoc append_take_drop_id)

text \<open>A text that starts a redacted message without the bracket starts the original, too.\<close>

lemma redacted_prefix:
  "has_prefix (replace_all s old (CHR ''['' # R)) q \<Longrightarrow> CHR ''['' \<notin> set q \<Longrightarrow> has_prefix s q"
proof (induction s old "CHR ''['' # R" arbitrary: q rule: replace_all.induct)
  case (1 s old)
  show ?case
  proof (cases "s = [] \<or> old = []")
    case True
    with 1(3) show ?thesis by (subst (asm) replace_all.simps) simp
  next
    case False
    note go = False
    show ?thesis
    proof (cases q)
      case (Cons c q')
      show ?thesis
      proof (cases "has_prefix s old")
        case True
        with 1(3) go have "has_prefix (CHR ''['' # R @ replace_all (drop (length old) s) old (CHR ''['' # R)) q"
          by (subst (asm) replace_all.simps) simp
        with Cons 1(4) show ?thesis by (auto simp: has_prefix_iff)
      next
        case False
        with 1(3) go have "has_prefix (hd s # replace_all (tl s) old (CHR ''['' # R)) q"
          by (subst (asm) replace_all.simps) simp
        with Cons have "c = hd s" "has_prefix (replace_all (tl s) old (CHR ''['' # R)) q'" by (auto simp: has_prefix_iff)
        with 1(2) go False 1(4) Cons have "has_prefix (tl s) q'" by simp
        with go Cons \<open>c = hd s\<close> show ?thesis by (cases s) (auto simp: has_prefix_iff)
      qed
    qed (simp add: has_prefix_iff)
  qed
qed

lemma split_around:
  assumes "a @ [x] @ b = u @ p @ v" and "x \<notin> set p"
  shows "contains_str a p \<or> contains_str b p"
proof -
  from assms(1) have "(\<exists>us. a = u @ p @ us) \<or> (\<exists>us. u = a @ [x] @ us \<and> b = us @ p @ v) \<or> x \<in> set p"
    by (auto simp: append_eq_append_conv2 append_eq_Cons_conv Cons_eq_append_conv)
  with assms(2) show ?thesis unfolding contains_iff by blast
qed

lemma redacted:
  assumes "CHR ''['' \<notin> set old" and "CHR '']'' \<notin> set old" and "old \<noteq> []" and "\<not> contains_str R old"
  shows "\<not> contains_str (replace_all s old (CHR ''['' # R @ '']'')) old"
proof (induction s rule: length_induct)
  case (1 s)
  let ?new = "CHR ''['' # R @ '']''"
  show ?case
  proof (cases "s = []")
    case True
    then show ?thesis using assms(3) by (simp add: replace_all.simps [of "[]"] contains_iff)
  next
    case s: False
    show ?thesis
    proof (cases "has_prefix s old")
      case True
      let ?rest = "replace_all (drop (length old) s) old ?new"
      have "\<not> contains_str ?rest old" using 1 s assms(3) by (cases s; cases old) auto
      moreover have "replace_all s old ?new = [] @ [CHR ''[''] @ (R @ [CHR '']''] @ ?rest)"
        using True s assms(3) by (subst replace_all.simps) simp
      moreover have "\<not> contains_str [] old" using assms(3) by simp
      ultimately show ?thesis
        using assms(4) split_around [OF _ assms(1)] split_around [OF _ assms(2)] unfolding contains_iff by (metis (no_types, lifting))
    next
      case False
      let ?rest = "replace_all (tl s) old ?new"
      have e: "replace_all s old ?new = hd s # ?rest" using False s assms(3) by (subst replace_all.simps) simp
      have "\<not> contains_str ?rest old" using 1 s by (cases s) auto
      moreover have "\<not> has_prefix (hd s # ?rest) old"
      proof
        assume "has_prefix (hd s # ?rest) old"
        then have "has_prefix (replace_all s old ?new) old" unfolding e .
        from redacted_prefix [OF this assms(1)] False show False by contradiction
      qed
      ultimately show ?thesis unfolding e by simp
    qed
  qed
qed



section \<open>The connector\<close>

text \<open>Docker said that the container with the connector's name is MiniDock's, or it was created just now.\<close>

definition own_container :: "world \<Rightarrow> connector \<Rightarrow> string \<Rightarrow> string \<Rightarrow> bool" where
  "own_container w c wantedHash token \<longleftrightarrow>
     (\<exists>h out i. w_exec w h ''docker'' inspect_args [] = Inr out \<and> parse_inspection out = Inr i \<and> in_managed i) \<or>
     (\<exists>h out. w_exec w h ''docker'' (create_args c wantedHash) [(''TUNNEL_TOKEN'', token)] = Inr out)"

text \<open>Docker listed the container as the cloudflared service of the Compose project that this host is in.\<close>

definition legacy_container :: "world \<Rightarrow> string \<Rightarrow> bool" where
  "legacy_container w i \<longleftrightarrow>
     (\<exists>h h' self project out. w_exec w h ''docker'' (project_args self) [] = Inr project \<and>
        w_exec w h' ''docker'' (legacy_args (trim_space project)) [] = Inr out \<and> i \<in> set (Fields out))"

definition removable :: "world \<Rightarrow> connector \<Rightarrow> string \<Rightarrow> string \<Rightarrow> string \<Rightarrow> bool" where
  "removable w c wantedHash token i \<longleftrightarrow>
     i = cloudflaredContainerName \<and> own_container w c wantedHash token \<or> legacy_container w i"

definition connector_command :: "world \<Rightarrow> connector \<Rightarrow> string \<Rightarrow> string \<Rightarrow> string list \<Rightarrow> (string \<times> string) list \<Rightarrow> bool" where
  "connector_command w c wantedHash token args env \<longleftrightarrow>
     env = [] \<and> (args \<in> {docker_info, inspect_args, [''image'', ''inspect'', cn_image c], [''pull'', cn_image c]} \<or>
       (\<exists>self. args = project_args self) \<or> (\<exists>project. args = legacy_args project) \<or>
       args = start_args \<and> own_container w c wantedHash token \<or>
       (\<exists>i. args = remove_connector_args i \<and> removable w c wantedHash token i)) \<or>
     args = create_args c wantedHash \<and> env = [(''TUNNEL_TOKEN'', token)]"

fun connector_action :: "world \<Rightarrow> connector \<Rightarrow> string \<Rightarrow> string \<Rightarrow> action \<Rightarrow> bool" where
  "connector_action w c wantedHash token (Exec name args env) \<longleftrightarrow> name = ''docker'' \<and> connector_command w c wantedHash token args env"
| "connector_action w c wantedHash token Hostname \<longleftrightarrow> True"
| "connector_action w c wantedHash token _ \<longleftrightarrow> False"

lemma docker_call_emits: "P (Exec ''docker'' args env) \<Longrightarrow> emits P (docker_call w env args)"
  by (auto simp: docker_call_def intro!: emits_rules)

lemma docker_step_emits: "P (Exec ''docker'' args env) \<Longrightarrow> emits P (docker_step w message hidden env args)"
  by (auto simp: docker_step_def intro!: emits_rules docker_call_emits)

text \<open>An answer without an error was the output of Docker.\<close>

lemma docker_call_yields: "yields (\<lambda>(err, out). err = None \<longrightarrow> (\<exists>h. w_exec w h ''docker'' args env = Inr out)) (docker_call w env args)"
  by (auto simp: yields_def docker_call_def split: sum.split)

lemma docker_step_yields: "yields (\<lambda>r. r = None \<longrightarrow> (\<exists>h out. w_exec w h ''docker'' args env = Inr out)) (docker_step w message hidden env args)"
  by (auto simp: yields_def docker_step_def docker_call_def split: sum.split) (metis sum.exhaust)

lemma command_intros:
  "connector_command w c wh tok docker_info []" "connector_command w c wh tok inspect_args []"
  "connector_command w c wh tok [''image'', ''inspect'', cn_image c] []" "connector_command w c wh tok [''pull'', cn_image c] []"
  "connector_command w c wh tok (project_args self) []" "connector_command w c wh tok (legacy_args project) []"
  "connector_command w c wh tok (create_args c wh) [(''TUNNEL_TOKEN'', tok)]"
  "own_container w c wh tok \<Longrightarrow> connector_command w c wh tok start_args []"
  "removable w c wh tok i \<Longrightarrow> connector_command w c wh tok (remove_connector_args i) []"
  by (auto simp: connector_command_def)

lemma removable_intros:
  "own_container w c wh tok \<Longrightarrow> removable w c wh tok cloudflaredContainerName"
  "legacy_container w i \<Longrightarrow> removable w c wh tok i"
  by (auto simp: removable_def)

lemma own_intros:
  "w_exec w h ''docker'' (create_args c wh) [(''TUNNEL_TOKEN'', tok)] = Inr out \<Longrightarrow> own_container w c wh tok"
  "w_exec w h ''docker'' inspect_args [] = Inr out \<Longrightarrow> parse_inspection out = Inr i \<Longrightarrow> in_managed i \<Longrightarrow> own_container w c wh tok"
  unfolding own_container_def by blast+

lemmas now_removable = removable_intros(1) [OF own_intros(1)] removable_intros(1) [OF own_intros(2)]
lemma inspect_emits: "emits (connector_action w c wh tok) (inspect w)"
  by (auto simp: inspect_def intro!: emits_rules docker_call_emits command_intros)

lemma inspect_yields:
  "yields (\<lambda>r. \<forall>i. r = Inr i \<longrightarrow> in_managed i \<longrightarrow>
     (\<exists>h out. w_exec w h ''docker'' inspect_args [] = Inr out \<and> parse_inspection out = Inr i)) (inspect w)"
  by (auto simp: yields_def inspect_def docker_call_def Let_def split: sum.split)

lemma remove_all_emits: "(\<And>i. i \<in> set ids \<Longrightarrow> legacy_container w i) \<Longrightarrow> emits (connector_action w c wh tok) (remove_all w ids)"
  by (induction ids) (auto intro!: emits_rules docker_step_emits command_intros removable_intros(2) split: option.splits)

lemma listed_emits:
  assumes "w_exec w h ''docker'' (project_args self) [] = Inr project"
  shows "emits (connector_action w c wh tok) (remove_listed w (trim_space project))"
  unfolding remove_listed_def
proof (rule emits_bind_via [OF docker_call_emits docker_call_yields])
  show "connector_action w c wh tok (Exec ''docker'' (legacy_args (trim_space project)) [])" by (simp add: command_intros)
next
  fix q :: "string option \<times> string"
  assume q: "case q of (err, out) \<Rightarrow> err = None \<longrightarrow> (\<exists>h. w_exec w h ''docker'' (legacy_args (trim_space project)) [] = Inr out)"
  obtain err out where "q = (err, out)" by fastforce
  moreover have "legacy_container w i" if "err = None" "i \<in> set (Fields out)" for i
    using assms q that \<open>q = (err, out)\<close> unfolding legacy_container_def by blast
  ultimately show "emits (connector_action w c wh tok) (case q of (err, output) \<Rightarrow> (case err of
      Some e \<Rightarrow> State_Monad.return (Some (''no se pudo comprobar el conector anterior de Compose: '' @ safeDockerError output e []))
    | None \<Rightarrow> remove_all w (Fields output)))"
    by (auto intro!: emits_rules remove_all_emits)
qed

lemma legacy_emits: "emits (connector_action w c wh tok) (removeLegacyComposeConnector w hostname)"
proof -
  have project: "emits (connector_action w c wh tok) (docker_call w [] (project_args self) \<bind> (\<lambda>(err, projectOutput).
      if err \<noteq> None then State_Monad.return None
      else (let project = trim_space projectOutput in
        if project = '''' \<or> contains_any project [CHR '' '', CHR 0x09, CHR 0x0D, CHR 0x0A] then State_Monad.return None
        else remove_listed w project)))" for self
  proof (rule emits_bind_via [OF docker_call_emits docker_call_yields])
    show "connector_action w c wh tok (Exec ''docker'' (project_args self) [])" by (simp add: command_intros)
  qed (auto simp: Let_def intro!: emits_rules intro: listed_emits split: prod.splits)
  show ?thesis
    unfolding removeLegacyComposeConnector_def
    by (intro emits_rules project) simp_all
qed

lemma create_emits: "emits (connector_action w c wh tok) (create_connector w c wh tok)"
  unfolding create_connector_def
  by (rule emits_bind_via [OF docker_step_emits docker_step_yields])
    (auto intro!: emits_rules docker_step_emits docker_call_emits command_intros intro: now_removable own_intros split: option.splits)

lemma replace_emits: "(there \<Longrightarrow> own_container w c wh tok) \<Longrightarrow> emits (connector_action w c wh tok) (replace_connector w c there wh tok)"
  unfolding replace_connector_def ensure_image_def
  by (auto intro!: emits_rules docker_step_emits docker_call_emits command_intros create_emits intro: removable_intros
      split: option.splits prod.splits)

lemma reconcile_emits:
  "emits (connector_action w c (cloudflaredTokenHash sv (trim_space token)) (trim_space token)) (ReconcileConnector sv w hostname c token)"
proof -
  let ?wh = "cloudflaredTokenHash sv (trim_space token)" and ?tok = "trim_space token"
  have "emits (connector_action w c ?wh ?tok) (inspect w \<bind> (\<lambda>r. case r of
      Inl e \<Rightarrow> State_Monad.return (Some e)
    | Inr i \<Rightarrow>
        if in_exists i \<and> \<not> in_managed i then State_Monad.return (Some occupied)
        else if in_exists i \<and> in_token_hash i = ?wh \<and> in_image i = cn_image c
        then (if Running (in_state i) then State_Monad.return None
              else docker_step w ''no se pudo reiniciar el conector: '' [] [] start_args)
        else replace_connector w c (in_exists i) ?wh ?tok))"
    by (rule emits_bind_via [OF inspect_emits inspect_yields])
      (auto intro!: emits_rules docker_step_emits command_intros replace_emits intro: own_intros split: sum.splits)
  then show ?thesis
    unfolding ReconcileConnector_def Let_def
    by (auto intro!: emits_rules docker_call_emits legacy_emits command_intros split: option.splits prod.splits)
qed

lemma remove_connector_emits: "emits (connector_action w c wh tok) (remove_connector w)"
  unfolding remove_connector_def
  by (rule emits_bind_via [OF inspect_emits inspect_yields])
    (auto intro!: emits_rules docker_step_emits command_intros intro: now_removable own_intros split: sum.splits)


definition demo_connector :: connector where
  "demo_connector = NewDockerCloudflaredConnector '''' ''''"

definition demo_engine :: world where
  "demo_engine = (demo_world ''healthy'')\<lparr>
     w_exec := (\<lambda>h name args env. if args = inspect_args then Inl ''no such container'' else Inr ''''),
     w_printed := (\<lambda>h name args. '''')\<rparr>"

lemma demo_engine_exec [simp]:
  "w_exec demo_engine h name args env = (if args = inspect_args then Inl ''no such container'' else Inr '''')"
  "w_printed demo_engine h name args = ''''"
  by (simp_all add: demo_engine_def)

lemma demo_no_such: "contains_str (to_lower (trim_space '''' @ '' '' @ ''no such container'')) ''no such container''"
  by code_simp

lemma demo_connector_args: "docker_info \<noteq> inspect_args" "create_args c wh \<noteq> inspect_args" "start_args \<noteq> inspect_args"
  by (simp_all add: docker_info_def inspect_args_def create_args_def start_args_def)

lemma demo_reconcile:
  assumes "trim_space token \<noteq> ''''"
  shows "\<exists>args env. Exec ''docker'' args env \<in> set (snd (run_state (ReconcileConnector sv demo_engine (\<lambda>h. Inl ''no name'') c token) [])) \<and> env \<noteq> []"
proof -
  let ?wh = "cloudflaredTokenHash sv (trim_space token)"
  have i: "run_state (inspect demo_engine) h = (Inr \<lparr>in_exists = False, in_managed = False, in_state = '''', in_token_hash = '''',
      in_image = ''''\<rparr>, Exec ''docker'' inspect_args [] # h)" for h
    using demo_no_such by (simp add: inspect_def docker_call_def Let_def)
  have img: "run_state (ensure_image demo_engine c) h = (None, Exec ''docker'' [''image'', ''inspect'', cn_image c] [] # h)" for h
    by (simp add: ensure_image_def docker_call_def inspect_args_def)
  have "\<exists>t. snd (run_state (create_connector demo_engine c wh tok) h) = t @ Exec ''docker'' (create_args c wh) [(''TUNNEL_TOKEN'', tok)] # h" for wh tok h
    by (simp add: create_connector_def docker_step_def docker_call_def demo_connector_args)
  note create = this
  obtain t where "snd (run_state (create_connector demo_engine c ?wh (trim_space token)) (Exec ''docker'' [''image'', ''inspect'', cn_image c] [] #
      [Exec ''docker'' inspect_args [], Hostname, Exec ''docker'' docker_info []])) =
    t @ Exec ''docker'' (create_args c ?wh) [(''TUNNEL_TOKEN'', trim_space token)] # Exec ''docker'' [''image'', ''inspect'', cn_image c] [] #
      [Exec ''docker'' inspect_args [], Hostname, Exec ''docker'' docker_info []]" using create by blast
  then have "Exec ''docker'' (create_args c ?wh) [(''TUNNEL_TOKEN'', trim_space token)] \<in>
      set (snd (run_state (ReconcileConnector sv demo_engine (\<lambda>h. Inl ''no name'') c token) []))"
    using assms by (simp add: ReconcileConnector_def docker_call_def demo_connector_args removeLegacyComposeConnector_def i img replace_connector_def Let_def)
  then show ?thesis by blast
qed


end
