(* ===== verification/Cloudflare_Status.thy ===== *)
theory Cloudflare_Status
  imports Cloudflare_Props App_Handlers_Props
begin

text \<open>What the stored status of the tunnel means: \<^verbatim>\<open>connected\<close> is only written after the connector came up.\<close>

section \<open>Invariants of a view and the history\<close>

named_theorems maintains_rules

definition maintains :: "(db \<Rightarrow> 'v) \<Rightarrow> ('v \<Rightarrow> history \<Rightarrow> bool) \<Rightarrow> 'a job \<Rightarrow> bool" where
  "maintains view I p \<longleftrightarrow> hoare view I p (\<lambda>x. I)"

text \<open>Invariants that later actions cannot invalidate, and computations that only add actions.\<close>

definition lasting :: "('v \<Rightarrow> history \<Rightarrow> bool) \<Rightarrow> bool" where
  "lasting I \<longleftrightarrow> (\<forall>v h u. I v h \<longrightarrow> I v (u @ h))"

abbreviation appends :: "'a prog \<Rightarrow> bool" where
  "appends \<equiv> emits (\<lambda>_. True)"

lemma maintains_return [maintains_rules]: "maintains view I (State_Monad.return x)"
  by (simp add: maintains_def hoare_return)

lemma maintains_bind [maintains_rules]: "maintains view I p \<Longrightarrow> (\<And>x. maintains view I (f x)) \<Longrightarrow> maintains view I (State_Monad.bind p f)"
  unfolding maintains_def by (rule hoare_bind)

lemma maintains_outside: "lasting I \<Longrightarrow> appends p \<Longrightarrow> maintains view I (run_outside p)"
  unfolding maintains_def lasting_def emits_def
  by (rule hoare_outside) (metis ensures_def case_prod_beta)

lemma maintains_cases [maintains_rules]:
  "(b \<Longrightarrow> maintains view I p) \<Longrightarrow> (\<not> b \<Longrightarrow> maintains view I q) \<Longrightarrow> maintains view I (if b then p else q)"
  "(\<And>x. r = Inl x \<Longrightarrow> maintains view I (f1 x)) \<Longrightarrow> (\<And>x. r = Inr x \<Longrightarrow> maintains view I (g1 x)) \<Longrightarrow>
   maintains view I (case r of Inl x \<Rightarrow> f1 x | Inr x \<Rightarrow> g1 x)"
  "(o1 = None \<Longrightarrow> maintains view I p1) \<Longrightarrow> (\<And>x. o1 = Some x \<Longrightarrow> maintains view I (f2 x)) \<Longrightarrow>
   maintains view I (case o1 of None \<Rightarrow> p1 | Some x \<Rightarrow> f2 x)"
  "(\<And>x y. q1 = (x, y) \<Longrightarrow> maintains view I (f3 x y)) \<Longrightarrow> maintains view I (case q1 of (x, y) \<Rightarrow> f3 x y)"
  "(\<And>x. x = v \<Longrightarrow> maintains view I (f4 x)) \<Longrightarrow> maintains view I (Let v f4)"
      apply simp
     apply (cases r; simp)
    apply (cases o1; simp)
   apply (cases q1; simp)
  apply simp
  done

context quiet
begin

lemma maintains_call: "(\<And>t s h. I (view s) h \<Longrightarrow> I (view (fst (op t s))) h) \<Longrightarrow> maintains view I (store_call nb op)"
  unfolding maintains_def by (rule hoare_call)

lemma maintains_read: "maintains view I (store_read nb f)"
  unfolding maintains_def by (rule hoare_read)

lemma maintains_app: "(\<And>t ap. fst (g t ap) = ap) \<Longrightarrow> maintains view I (app_call nb g)"
  unfolding maintains_def hoare_def app_call_def using undisturbed by (auto simp: Let_def case_prod_beta)

lemma maintains_key: "maintains view I (read_key nb)"
  unfolding read_key_def by (rule maintains_app) simp

end

section \<open>The programs of the client only add actions\<close>

named_theorems appends_rules

lemma appends_all [appends_rules]: "emits P p \<Longrightarrow> appends p"
  by (rule emits_mono) simp_all

lemma appends_fetch: "appends (fetch w meth url headers body)"
  by (rule fetch_emits) simp

lemma appends_client:
  "appends (VerifyToken w cj tok)" "appends (ConfigureTunnelIngress w cj tok acc tun hs)" "appends (TunnelToken w cj tok acc tun)"
  "appends (syncCloudflareDNSRecords w cj tok tun hs)" "appends (remove_connector w)"
  "appends (ReconcileConnector sv w hostname c token)"
  by (auto simp: VerifyToken_def send_def http_do_def ConfigureTunnelIngress_def TunnelToken_def
      intro!: emits_rules appends_fetch intro: appends_all sync_emits remove_connector_emits reconcile_emits split: sum.splits)

lemma appends_create: "appends (CreateOrGetTunnel w cj tok acc name)"
  by (auto simp: CreateOrGetTunnel_def existing_tunnel_def intro!: emits_rules appends_fetch appends_client
      split: sum.splits list.splits)

section \<open>The stored status\<close>

text \<open>Bringing the connector up ended without an error at some moment of the history.\<close>

definition came_up :: "services \<Rightarrow> world \<Rightarrow> cloudflare_host \<Rightarrow> connector \<Rightarrow> history \<Rightarrow> bool" where
  "came_up sv w ch cn h \<longleftrightarrow>
     (\<exists>token h0 h1 u. run_state (ReconcileConnector sv w (ch_hostname ch) cn token) h0 = (None, h1) \<and> h = u @ h1)"

definition truthful :: "services \<Rightarrow> world \<Rightarrow> cloudflare_host \<Rightarrow> connector \<Rightarrow> cloudflare_config option \<Rightarrow> history \<Rightarrow> bool" where
  "truthful sv w ch cn c h \<longleftrightarrow> (\<forall>cfg. c = Some cfg \<longrightarrow> cf_status cfg = ''connected'' \<longrightarrow> came_up sv w ch cn h)"

lemma came_up_lasts: "came_up sv w ch cn h \<Longrightarrow> came_up sv w ch cn (u @ h)"
  unfolding came_up_def by (metis append.assoc)

lemma truthful_lasts: "lasting (truthful sv w ch cn)"
  unfolding lasting_def truthful_def using came_up_lasts by blast

text \<open>Store operations of these handlers and the row of the configuration.\<close>

lemma maintains_cloudflare_row:
  "cloudflare (fst (PutSecret t scope name nonce c s)) = cloudflare s"
  "cloudflare (fst (SetSettingString key v s)) = cloudflare s"
  "cloudflare (fst (SaveCloudflareConfig t cfg s)) = Some (cfg\<lparr>cf_updated_at := t\<rparr>)"
  by (simp_all add: PutSecret_def SetSettingString_def put_setting_def SaveCloudflareConfig_def)

text \<open>Neighbours that leave the stored configuration of the tunnel alone.\<close>

locale quiet_tunnel = quiet nb cloudflare for nb
begin

lemma maintains_save:
  assumes "cf_status cfg \<noteq> ''connected''"
  shows "maintains cloudflare (truthful sv w ch cn) (save_config nb cfg)"
  unfolding save_config_def using assms
  by (intro maintains_bind maintains_return maintains_call) (simp add: maintains_cloudflare_row truthful_def)

lemma save_connected: "hoare cloudflare (\<lambda>v. came_up sv w ch cn) (save_config nb cfg) (\<lambda>x v. came_up sv w ch cn)"
  unfolding save_config_def by (intro hoare_bind hoare_return hoare_call)

lemma maintains_failure: "maintains cloudflare (truthful sv w ch cn) (saveCloudflareFailure nb cfg message)"
  unfolding saveCloudflareFailure_def by (rule maintains_save) simp

lemma maintains_load: "maintains cloudflare I (load_config nb)"
  unfolding load_config_def by (rule maintains_call) simp

lemma maintains_get: "maintains cloudflare I (getCloudflareSecret nb sv name)" "maintains cloudflare I (getCloudflareAPIToken nb sv)"
  unfolding getCloudflareAPIToken_def getCloudflareSecret_def by (intro maintains_rules maintains_read maintains_key; simp)+

lemma maintains_put: "maintains cloudflare I (putCloudflareSecret nb sv i key name v)"
  unfolding putCloudflareSecret_def by (intro maintains_rules maintains_call) (simp add: maintains_cloudflare_row)

lemma maintains_name: "maintains cloudflare I (cloudflareTunnelName nb sv cfg)"
  unfolding cloudflareTunnelName_def by (intro maintains_rules maintains_read maintains_call) (simp add: maintains_cloudflare_row)

lemmas maintains_steps = maintains_save maintains_failure maintains_load maintains_get maintains_put maintains_name maintains_read maintains_key
  maintains_outside [OF truthful_lasts] appends_client appends_create

lemma maintains_disable: "maintains cloudflare (truthful sv w ch cn) (disable_tunnel nb w cfg)"
  unfolding disable_tunnel_def by (intro maintains_rules maintains_steps) simp

lemma maintains_token_mode: "maintains cloudflare (truthful sv w ch cn) (token_mode nb sv ch' key token cfg)"
  unfolding token_mode_def submitted_or_stored_def by (intro maintains_rules maintains_steps)

lemma maintains_publish: "maintains cloudflare (truthful sv w ch cn) (publish_domains nb w' ch' apiToken cfg)"
  unfolding publish_domains_def by (intro maintains_rules maintains_steps)

lemma maintains_api_mode: "maintains cloudflare (truthful sv w ch cn) (api_mode nb sv' w' ch' key token cfg)"
  unfolding api_mode_def submitted_or_stored_def keep_credentials_def create_tunnel_def
  by (intro maintains_rules maintains_steps maintains_publish)

text \<open>The call that matters: after an answer without error the connector came up.\<close>

lemma maintains_reconcile:
  assumes "\<And>e. maintains cloudflare (truthful sv w ch cn) (f (Some e))"
    and "hoare cloudflare (\<lambda>v. came_up sv w ch cn) (f None) (\<lambda>x v. came_up sv w ch cn)"
  shows "maintains cloudflare (truthful sv w ch cn) (State_Monad.bind (run_outside (ReconcileConnector sv w (ch_hostname ch) cn token)) f)"
  unfolding maintains_def
proof (rule hoare_bind)
  let ?p = "ReconcileConnector sv w (ch_hostname ch) cn token"
  show "hoare cloudflare (truthful sv w ch cn) (run_outside ?p)
      (\<lambda>r v h. truthful sv w ch cn v h \<and> (r = None \<longrightarrow> came_up sv w ch cn h))"
  proof (rule hoare_outside)
    fix v h
    assume v: "truthful sv w ch cn v h"
    obtain r h1 where run: "run_state ?p h = (r, h1)" by fastforce
    moreover have "truthful sv w ch cn v h1"
      using v run appends_client(6) [of sv w "ch_hostname ch" cn token] truthful_lasts [of sv w ch cn]
      unfolding lasting_def emits_def by (metis snd_conv)
    moreover have "came_up sv w ch cn h1" if "r = None"
      using run that unfolding came_up_def by (metis append_Nil)
    ultimately show "ensures ?p (\<lambda>r h. truthful sv w ch cn v h \<and> (r = None \<longrightarrow> came_up sv w ch cn h)) h"
      by (simp add: ensures_def)
  qed
  fix r
  show "hoare cloudflare (\<lambda>v h. truthful sv w ch cn v h \<and> (r = None \<longrightarrow> came_up sv w ch cn h)) (f r) (\<lambda>x. truthful sv w ch cn)"
  proof (cases r)
    case None
    have "hoare cloudflare (\<lambda>v. came_up sv w ch cn) (f None) (\<lambda>x. truthful sv w ch cn)"
      using assms(2) by (rule hoare_post) (simp add: truthful_def)
    then show ?thesis unfolding None by (rule hoare_pre) simp
  next
    case (Some e)
    show ?thesis unfolding Some using assms(1) [of e] unfolding maintains_def by (rule hoare_pre) simp
  qed
qed

lemma maintains_start: "maintains cloudflare (truthful sv w ch cn) (start_connector nb sv w ch cn token cfg)"
  unfolding start_connector_def
  by (intro maintains_bind maintains_save maintains_reconcile) (auto intro!: maintains_rules maintains_steps hoare_bind hoare_return save_connected)

lemma maintains_authorized: "maintains cloudflare I p \<Longrightarrow> maintains cloudflare I (authorized_job nb rq p)"
  unfolding authorized_job_def by (intro maintains_rules maintains_app) simp_all

lemma maintains_saveConfig: "maintains cloudflare (truthful sv w ch cn) (saveCloudflareConfig nb sv w ch cn rq)"
  unfolding saveCloudflareConfig_def
  by (intro maintains_authorized maintains_rules maintains_steps maintains_disable maintains_token_mode maintains_api_mode maintains_start)

lemma maintains_reconnect: "maintains cloudflare (truthful sv w ch cn) (reconnectCloudflared nb sv w ch cn rq)"
  unfolding reconnectCloudflared_def
  by (intro maintains_authorized maintains_bind maintains_cases maintains_return maintains_steps maintains_reconcile)
    (auto intro!: maintains_rules maintains_steps hoare_bind hoare_return save_connected)

lemma stays_truthful:
  assumes "p \<in> {saveCloudflareConfig nb sv w ch cn rq, reconnectCloudflared nb sv w ch cn rq}"
    and "truthful sv w ch cn (cloudflare (ap_db ap)) h" and "run_state p (ap, h, k) = (r, (ap', h', k'))"
  shows "truthful sv w ch cn (cloudflare (ap_db ap')) h'"
proof -
  have "maintains cloudflare (truthful sv w ch cn) p" using assms(1) maintains_saveConfig maintains_reconnect by blast
  then show ?thesis using assms(2,3) unfolding maintains_def by (rule hoareD)
qed

end

lemma unlock_keeps_tunnel: "cloudflare (ap_db (fst (unlock sv t0 t t' rq ap))) = cloudflare (ap_db ap)"
proof -
  have "RegisterFailedUnlock scope t s = (s', x) \<Longrightarrow> cloudflare s' = cloudflare s"
    "ClearUnlockFailures scope s = (s', y) \<Longrightarrow> cloudflare s' = cloudflare s" for scope t s s' x y
    by (auto simp: RegisterFailedUnlock_def ClearUnlockFailures_def Let_def split: option.splits if_splits prod.splits)
  then show ?thesis
    by (auto simp: unlock_def Let_def setKey_def newSession_def session_reply_def
        split: sum.splits prod.splits option.splits if_splits)
qed

interpretation signing_tunnel: quiet_tunnel "signing sv rqs clock"
  by unfold_locales (simp add: signing_def unlock_keeps_tunnel)

text \<open>
  C7: the panel says \<^verbatim>\<open>connected\<close> only truthfully. Beside requests that leave the stored
  configuration of the tunnel alone, saving the configuration or reconnecting turns the stored status to
  \<^verbatim>\<open>connected\<close> only when, at some moment of the history, bringing up the connector container has returned
  without error.
\<close>

theorem connected_only_after_the_connector_started:
  assumes "quiet_tunnel nb"
    and "p \<in> {saveCloudflareConfig nb sv w ch cn rq, reconnectCloudflared nb sv w ch cn rq}"
    and "\<forall>cfg. cloudflare (ap_db ap) = Some cfg \<longrightarrow> cf_status cfg \<noteq> ''connected''"
    and "run_state p (ap, h, k) = (r, (ap', h', k'))"
    and "cloudflare (ap_db ap') = Some cfg'" and "cf_status cfg' = ''connected''"
  shows "\<exists>token h0 h1 u. run_state (ReconcileConnector sv w (ch_hostname ch) cn token) h0 = (None, h1) \<and> h' = u @ h1"
proof -
  have "truthful sv w ch cn (cloudflare (ap_db ap)) h" using assms(3) by (simp add: truthful_def)
  from quiet_tunnel.stays_truthful [OF assms(1,2) this assms(4)] assms(5,6) show ?thesis
    by (simp add: truthful_def came_up_def)
qed

definition demo_host_name :: cloudflare_host where
  "demo_host_name = \<lparr>ch_json = demo_json, ch_hostname = (\<lambda>h. Inl ''no name''), ch_cname = (\<lambda>h d. Inl ''no such host'')\<rparr>"

definition demo_sealed_token :: "bytes \<times> bytes" where
  "demo_sealed_token = projr (Encrypt demo_cipher (sv_rand demo_services 0) (replicate 32 1) (to_bytes ''tok''))"

definition demo_tunnel :: cloudflare_config where
  "demo_tunnel = \<lparr>cf_mode = ''tunnel_token'', cf_account_id = '''', cf_tunnel_id = '''', cf_tunnel_name = ''home'',
     cf_status = ''error'', cf_last_health_check = None, cf_error_message = ''stopped'', cf_updated_at = 5\<rparr>"

definition demo_tunnel_app :: app where
  "demo_tunnel_app = demo_server\<lparr>ap_key := replicate 32 1, ap_sessions := [(''s'', 5000)],
     ap_db := (empty_db 0)\<lparr>cloudflare := Some demo_tunnel,
       secrets := [\<lparr>sec_scope = cloudflare_scope, sec_name = ''tunnel_token'', sec_nonce = fst demo_sealed_token,
         sec_ciphertext = snd demo_sealed_token, sec_updated_at = 5\<rparr>]\<rparr>\<rparr>"

lemma demo_token_opens:
  "Decrypt (sv_cipher demo_services) (replicate 32 1) (fst demo_sealed_token) (snd demo_sealed_token) = Inr (to_bytes ''tok'')"
proof -
  obtain c where c: "Encrypt (sv_cipher demo_services) (sv_rand demo_services 0) (replicate 32 1) (to_bytes ''tok'') =
      Inr (replicate gcm_nonce_size 0, c)"
    using EncryptWithAAD_ok [OF demo_cipher_ok, of "replicate 32 1" "sv_rand demo_services 0" "replicate gcm_nonce_size 0" "to_bytes ''tok''" "[]"]
    by (auto simp: Encrypt_def key_ok_def demo_services_def to_bytes_def)
  then have sealed: "demo_sealed_token = (replicate gcm_nonce_size 0, c)"
    by (simp add: demo_sealed_token_def demo_services_def)
  show ?thesis
    unfolding sealed fst_conv snd_conv by (rule Encrypt_decrypts [OF demo_services_ok _ _ c]) (simp_all add: key_ok_def to_bytes_def)
qed

lemma demo_connector_starts:
  assumes "trim_space token \<noteq> ''''"
  shows "\<exists>h'. run_state (ReconcileConnector sv demo_engine (\<lambda>h. Inl ''no name'') c token) h = (None, h')"
proof -
  have i: "run_state (inspect demo_engine) h = (Inr \<lparr>in_exists = False, in_managed = False, in_state = '''', in_token_hash = '''',
      in_image = ''''\<rparr>, Exec ''docker'' inspect_args [] # h)" for h
    using demo_no_such by (simp add: inspect_def docker_call_def Let_def)
  have img: "run_state (ensure_image demo_engine c) h = (None, Exec ''docker'' [''image'', ''inspect'', cn_image c] [] # h)" for h
    by (simp add: ensure_image_def docker_call_def inspect_args_def)
  show ?thesis using assms
    by (simp add: ReconcileConnector_def docker_call_def docker_step_def demo_connector_args removeLegacyComposeConnector_def
        i img replace_connector_def create_connector_def Let_def)
qed

lemma demo_token: "trim_space ''tok'' \<noteq> ''''" "of_bytes (to_bytes ''tok'') = ''tok''"
  by code_simp+

lemma demo_reconnects:
  "\<exists>h cfg ap'. run_state (reconnectCloudflared demo_alone demo_services demo_engine demo_host_name demo_connector demo_secret_form)
     (demo_tunnel_app, [], 0) = (panel_notice ''Conector cloudflared iniciado'', (ap', h, 5)) \<and>
     cloudflare (ap_db ap') = Some cfg \<and> cf_status cfg = ''connected''"
proof -
  have "authorized t demo_secret_form demo_tunnel_app" if "t < 5000" for t
    using that by (simp add: authorized_def demo_secret_form_def demo_request_def demo_tunnel_app_def)
  moreover have "keyCopy demo_tunnel_app = replicate 32 1" by (simp add: keyCopy_def demo_tunnel_app_def)
  moreover have "Secret cloudflare_scope ''tunnel_token'' (ap_db demo_tunnel_app) = Inr demo_sealed_token"
    by (simp add: Secret_def demo_tunnel_app_def secret_key_def)
  moreover have "CloudflareConfig t (ap_db demo_tunnel_app) = demo_tunnel" for t
    by (simp add: CloudflareConfig_def demo_tunnel_app_def)
  moreover obtain h' where "run_state (ReconcileConnector demo_services demo_engine (\<lambda>h. Inl ''no name'') demo_connector ''tok'') [] = (None, h')"
    using demo_connector_starts [of "''tok''"] demo_token by blast
  ultimately show ?thesis
    using demo_token_opens demo_token(2)
    by (simp add: reconnectCloudflared_def authorized_job_def app_call_def load_config_def store_call_def store_read_def
        getCloudflareSecret_def read_key_def demo_alone_def Let_def case_prod_beta demo_host_name_def run_outside_run
        save_config_def SaveCloudflareConfig_def demo_tunnel_def)
qed

theorem connected_only_after_the_connector_started_witness:
  "\<exists>token h0 h1 u. run_state (ReconcileConnector demo_services demo_engine (ch_hostname demo_host_name) demo_connector token) h0 = (None, h1) \<and>
     fst (snd (snd (run_state (reconnectCloudflared demo_alone demo_services demo_engine demo_host_name demo_connector demo_secret_form)
       (demo_tunnel_app, [], 0)))) = u @ h1"
proof -
  have quiet: "quiet_tunnel demo_alone" by unfold_locales (simp add: demo_alone_def)
  have before: "\<forall>cfg. cloudflare (ap_db demo_tunnel_app) = Some cfg \<longrightarrow> cf_status cfg \<noteq> ''connected''"
    by (simp add: demo_tunnel_app_def demo_tunnel_def)
  from demo_reconnects obtain h cfg ap' where
    run: "run_state (reconnectCloudflared demo_alone demo_services demo_engine demo_host_name demo_connector demo_secret_form)
      (demo_tunnel_app, [], 0) = (panel_notice ''Conector cloudflared iniciado'', (ap', h, 5))"
    and cfg: "cloudflare (ap_db ap') = Some cfg" "cf_status cfg = ''connected''" by blast
  have p: "reconnectCloudflared demo_alone demo_services demo_engine demo_host_name demo_connector demo_secret_form \<in>
    {saveCloudflareConfig demo_alone demo_services demo_engine demo_host_name demo_connector demo_secret_form,
     reconnectCloudflared demo_alone demo_services demo_engine demo_host_name demo_connector demo_secret_form}" by simp
  show ?thesis
    using connected_only_after_the_connector_started [OF quiet p before run cfg] run by simp
qed

end
