(* ===== verification/Agent_Control.thy ===== *)
theory Agent_Control
  imports App_Operations
begin

text \<open>
  The control stream of remote agents (\<^verbatim>\<open>internal/agent/control.go\<close>): an agent says
  hello over mutual TLS and then sends heartbeats. The stream is given by what the server receives
  from it, in order; what other requests do to the database meanwhile is given by the neighbours.
\<close>

record agent_message =
  am_kind :: string
  am_node_id :: string
  am_name :: string
  am_version :: string
  am_capabilities :: "string list"

record control_message =
  cm_kind :: string
  cm_heartbeat_seconds :: int
  cm_detail :: string

text \<open>What \<^verbatim>\<open>Recv\<close> returns; a list that ends leaves the server waiting.\<close>

datatype received = Message agent_message | End_Of_Stream | Broken string

datatype connection_end = Ended | Refused string | Waiting

text \<open>
  The peer of a connection: whether the context knows one, whether it came over TLS, and then the raw
  certificates it has shown.
\<close>

datatype peer = No_Peer | Plain_Peer | Tls_Peer "bytes list"

record control_plane =
  cp_store :: bool
  cp_heartbeat_interval :: duration

definition nodeIDPattern :: "string \<Rightarrow> bool" where
  "nodeIDPattern s \<longleftrightarrow> s \<noteq> [] \<and> length s \<le> 63 \<and> lower_or_digit (hd s) \<and>
     list_all (\<lambda>c. lower_or_digit c \<or> c = CHR ''-'') (tl s)"

definition certificateFingerprint :: "services \<Rightarrow> peer \<Rightarrow> string + string" where
  "certificateFingerprint sv p =
     (case p of
        No_Peer \<Rightarrow> Inl ''agent peer information is missing''
      | Plain_Peer \<Rightarrow> Inl ''agent mTLS certificate is required''
      | Tls_Peer [] \<Rightarrow> Inl ''agent mTLS certificate is required''
      | Tls_Peer (raw # _) \<Rightarrow> Inr (hex_string (sv_sha256 sv raw)))"

definition node_of :: "agent_message \<Rightarrow> string \<Rightarrow> node" where
  "node_of m fingerprint = \<lparr>node_id = am_node_id m, node_name = am_name m, node_version = am_version m,
     node_capabilities = am_capabilities m, node_fingerprint = fingerprint, node_created_at = 0, node_last_seen_at = 0\<rparr>"

definition upsert :: "neighbours \<Rightarrow> agent_message \<Rightarrow> string \<Rightarrow> unit result job" where
  "upsert nb m fingerprint = store_call nb (\<lambda>t. UpsertNode t (node_of m fingerprint))"

definition valid_hello :: "agent_message \<Rightarrow> bool" where
  "valid_hello m \<longleftrightarrow> am_kind m = ''hello'' \<and> nodeIDPattern (am_node_id m) \<and> am_name m \<noteq> '''' \<and> am_version m \<noteq> ''''"

definition valid_heartbeat :: "agent_message \<Rightarrow> agent_message \<Rightarrow> bool" where
  "valid_heartbeat first m \<longleftrightarrow> am_kind m = ''heartbeat'' \<and> am_node_id m = am_node_id first"

text \<open>A heartbeat counts with the name, version and capabilities of the hello.\<close>

fun heartbeats :: "neighbours \<Rightarrow> agent_message \<Rightarrow> string \<Rightarrow> received list \<Rightarrow> connection_end job" where
  "heartbeats nb first identity [] = State_Monad.return Waiting"
| "heartbeats nb first identity (End_Of_Stream # _) = State_Monad.return Ended"
| "heartbeats nb first identity (Broken err # _) = State_Monad.return (Refused (''receive agent message: '' @ err))"
| "heartbeats nb first identity (Message m # rest) =
     (if \<not> valid_heartbeat first m then State_Monad.return (Refused ''invalid agent heartbeat'')
      else do {
        r \<leftarrow> upsert nb (m\<lparr>am_name := am_name first, am_version := am_version first, am_capabilities := am_capabilities first\<rparr>) identity;
        case r of Inl e \<Rightarrow> State_Monad.return (Refused (error_text e)) | Inr _ \<Rightarrow> heartbeats nb first identity rest
      })"

definition heartbeat_interval :: "control_plane \<Rightarrow> duration" where
  "heartbeat_interval p = (if cp_heartbeat_interval p \<le> 0 then 30 * second else cp_heartbeat_interval p)"

definition accepted :: "control_plane \<Rightarrow> control_message" where
  "accepted p = \<lparr>cm_kind = ''accepted'', cm_heartbeat_seconds = heartbeat_interval p div second, cm_detail = ''''\<rparr>"

text \<open>\<open>answer\<close> is the error of \<^verbatim>\<open>Send\<close>; the result has the messages sent.\<close>

definition Connect ::
    "neighbours \<Rightarrow> services \<Rightarrow> control_plane \<Rightarrow> peer \<Rightarrow> (control_message \<Rightarrow> string option) \<Rightarrow> received list \<Rightarrow>
     (control_message list \<times> connection_end) job" where
  "Connect nb sv p pr answer stream =
     (if \<not> cp_store p then State_Monad.return ([], Refused ''control plane store is required'')
      else case certificateFingerprint sv pr of
          Inl err \<Rightarrow> State_Monad.return ([], Refused err)
        | Inr identity \<Rightarrow>
            (case stream of
               [] \<Rightarrow> State_Monad.return ([], Waiting)
             | End_Of_Stream # _ \<Rightarrow> State_Monad.return ([], Refused ''receive agent hello: EOF'')
             | Broken err # _ \<Rightarrow> State_Monad.return ([], Refused (''receive agent hello: '' @ err))
             | Message first # rest \<Rightarrow>
                 (if \<not> valid_hello first then State_Monad.return ([], Refused ''first agent message must be a valid hello'')
                  else do {
                    r \<leftarrow> upsert nb first identity;
                    case r of
                      Inl e \<Rightarrow> State_Monad.return ([], Refused (error_text e))
                    | Inr _ \<Rightarrow>
                        (case answer (accepted p) of
                           Some err \<Rightarrow> State_Monad.return ([], Refused err)
                         | None \<Rightarrow> do {
                             connection_end \<leftarrow> heartbeats nb first identity rest;
                             State_Monad.return ([accepted p], connection_end)
                           })
                  })))"

section \<open>The agent\<close>

text \<open>\<^verbatim>\<open>cmd/minidock-agent/main.go\<close>: the pause between heartbeats and the advertised capabilities.\<close>

definition agent_interval :: "control_message \<Rightarrow> duration" where
  "agent_interval m = (let interval = cm_heartbeat_seconds m * second in if interval < 5 * second then 30 * second else interval)"

definition splitCapabilities :: "string \<Rightarrow> string list" where
  "splitCapabilities v = filter (\<lambda>item. item \<noteq> '''') (map trim_space (split_on CHR '','' v))"

definition hello :: "string \<Rightarrow> string \<Rightarrow> string \<Rightarrow> string \<Rightarrow> agent_message" where
  "hello nodeID nodeName version capabilities = \<lparr>am_kind = ''hello'', am_node_id = nodeID, am_name = nodeName,
     am_version = version, am_capabilities = splitCapabilities capabilities\<rparr>"

definition heartbeat :: "string \<Rightarrow> agent_message" where
  "heartbeat nodeID = \<lparr>am_kind = ''heartbeat'', am_node_id = nodeID, am_name = '''', am_version = '''', am_capabilities = []\<rparr>"

end
