(* ===== verification/Agent_Props.thy ===== *)
theory Agent_Props
  imports Agent_Control App_Jobs Store_Guards_Props Cloudflare_Status
begin

text \<open>
  An agent speaks for its own node only: the row of a node changes on a connection exactly when the
  hello names it, and then it is bound to the certificate of the peer.
\<close>

section \<open>The row of a node\<close>

definition node_at :: "string \<Rightarrow> db \<Rightarrow> node option" where
  "node_at i s = find (\<lambda>r. node_id r = i) (nodes s)"

definition node_view :: "string \<Rightarrow> db \<Rightarrow> bool \<times> node option" where
  "node_view i s = (nodes_unique s, node_at i s)"

lemma find_update_row:
  "(\<And>r. node_id (u r) = node_id r) \<Longrightarrow> find (\<lambda>r. node_id r = i) (update_where sel u rows) =
     map_option (\<lambda>r. if sel r then u r else r) (find (\<lambda>r. node_id r = i) rows)"
  by (induction rows) simp_all

definition bound_to :: "agent_message \<Rightarrow> string \<Rightarrow> node \<Rightarrow> bool" where
  "bound_to m fingerprint row \<longleftrightarrow> node_fingerprint row = fingerprint \<and> node_name row = am_name m \<and>
     node_version row = am_version m \<and> node_capabilities row = am_capabilities m"

lemma upsert_row:
  assumes "nodes_unique s" and "UpsertNode t (node_of m f) s = (s', x)"
  shows "nodes_unique s' \<and> (i \<noteq> am_node_id m \<longrightarrow> node_at i s' = node_at i s) \<and>
    (case x of Inl e \<Rightarrow> node_at (am_node_id m) s' = node_at (am_node_id m) s
     | Inr _ \<Rightarrow> (\<exists>row. node_at (am_node_id m) s' = Some row \<and> bound_to m f row) \<and>
         (\<forall>row. node_at (am_node_id m) s = Some row \<longrightarrow> node_fingerprint row = f))"
proof -
  let ?nd = "node_of m f" and ?sel = "\<lambda>r. node_id r = am_node_id m \<and> node_fingerprint r = f"
  let ?u = "\<lambda>r. r\<lparr>node_name := am_name m, node_version := am_version m, node_capabilities := am_capabilities m, node_last_seen_at := t\<rparr>"
  have unique: "nodes_unique s'" using UpsertNode_enrolled [OF assms] by simp
  have rows: "find (\<lambda>r. node_id r = j) (update_where ?sel ?u (nodes s)) = map_option (\<lambda>r. if ?sel r then ?u r else r) (node_at j s)" for j
    unfolding node_at_def by (rule find_update_row) simp
  show ?thesis
    using assms(2)
  proof (cases rule: UpsertNode_shape)
    case invalid
    then show ?thesis using unique by auto
  next
    case (updated r)
    then have own: "node_at (am_node_id m) s = Some r"
      using find_key_Some [of node_id "nodes s" r] assms(1) by (simp add: nodes_unique_def node_at_def node_of_def)
    have "node_at j s' = map_option (\<lambda>r. if ?sel r then ?u r else r) (node_at j s)" for j
      using updated(4) rows [of j] by (simp add: node_at_def node_of_def)
    moreover have "map_option (\<lambda>r. if ?sel r then ?u r else r) (node_at i s) = node_at i s" if "i \<noteq> am_node_id m"
      using that by (cases "node_at i s") (auto simp: node_at_def dest: find_SomeD)
    ultimately show ?thesis using own updated unique by (simp add: bound_to_def node_of_def)
  next
    case added
    then have fresh: "node_at (am_node_id m) s = None" by (simp add: node_at_def node_of_def find_None_iff)
    have "node_at j s' = (case node_at j s of None \<Rightarrow>
        (if j = am_node_id m then Some ((node_of m f)\<lparr>node_created_at := t, node_last_seen_at := t\<rparr>) else None) | Some r \<Rightarrow> Some r)" for j
      using added(2) by (simp add: node_at_def node_of_def find_append split: option.splits)
    then show ?thesis using fresh added unique by (simp add: bound_to_def node_of_def split: option.splits)
  qed
qed

section \<open>A connection\<close>

text \<open>Nothing but the row of the node itself: unchanged, or bound to the peer that named it.\<close>

definition speaks_as :: "string \<Rightarrow> agent_message \<Rightarrow> string \<Rightarrow> node option \<Rightarrow> bool \<times> node option \<Rightarrow> bool" where
  "speaks_as i m fingerprint before v \<longleftrightarrow> fst v \<and>
     (if i = am_node_id m
      then (\<exists>row. snd v = Some row \<and> bound_to m fingerprint row) \<and> (\<forall>row. before = Some row \<longrightarrow> node_fingerprint row = fingerprint)
      else snd v = before)"

locale quiet_node = quiet nb "node_view i" for nb i
begin

lemma upsert_keeps:
  assumes "am_node_id m = am_node_id first"
  shows "hoare (node_view i) (\<lambda>v h. speaks_as i first f before v)
    (upsert nb (m\<lparr>am_name := am_name first, am_version := am_version first, am_capabilities := am_capabilities first\<rparr>) f)
    (\<lambda>x v h. speaks_as i first f before v)"
  unfolding upsert_def
proof (rule hoare_call)
  fix t s and h :: history
  let ?m = "m\<lparr>am_name := am_name first, am_version := am_version first, am_capabilities := am_capabilities first\<rparr>"
  assume v: "speaks_as i first f before (node_view i s)"
  obtain s' x where call: "UpsertNode t (node_of ?m f) s = (s', x)" by fastforce
  have "bound_to ?m f = bound_to first f" by (simp add: bound_to_def fun_eq_iff)
  with upsert_row [OF _ call, of i] v assms
  show "speaks_as i first f before (node_view i (fst (UpsertNode t (node_of ?m f) s)))"
    by (cases x) (auto simp: speaks_as_def node_view_def call)
qed

lemma heartbeats_keep:
  "hoare (node_view i) (\<lambda>v h. speaks_as i first f before v) (heartbeats nb first f stream) (\<lambda>x v h. speaks_as i first f before v)"
proof (induction stream)
  case (Cons m rest)
  show ?case
  proof (cases m)
    case (Message msg)
    show ?thesis
      unfolding Message heartbeats.simps
      by (intro hoare_if hoare_bind [OF upsert_keeps] hoare_sum hoare_return Cons.IH) (simp_all add: valid_heartbeat_def)
  qed (simp_all add: hoare_return)
qed (simp add: hoare_return)

lemma hello_binds:
  "hoare (node_view i) (\<lambda>v h. v = (True, before)) (upsert nb first f)
     (\<lambda>x v h. case x of Inl _ \<Rightarrow> v = (True, before) | Inr _ \<Rightarrow> speaks_as i first f before v)"
  unfolding upsert_def
proof (rule hoare_call)
  fix t s and h :: history
  assume v: "node_view i s = (True, before)"
  obtain s' x where call: "UpsertNode t (node_of first f) s = (s', x)" by fastforce
  from upsert_row [OF _ call, of i] v
  show "case snd (UpsertNode t (node_of first f) s) of
      Inl _ \<Rightarrow> node_view i (fst (UpsertNode t (node_of first f) s)) = (True, before)
    | Inr _ \<Rightarrow> speaks_as i first f before (node_view i (fst (UpsertNode t (node_of first f) s)))"
    by (cases x) (auto simp: speaks_as_def node_view_def call)
qed

text \<open>What a connection may leave behind.\<close>

definition left_behind :: "services \<Rightarrow> peer \<Rightarrow> received list \<Rightarrow> node option \<Rightarrow> bool \<times> node option \<Rightarrow> bool" where
  "left_behind sv pr stream before v \<longleftrightarrow> v = (True, before) \<or>
     (\<exists>raw certs first rest. pr = Tls_Peer (raw # certs) \<and> stream = Message first # rest \<and> valid_hello first \<and>
        speaks_as i first (hex_string (sv_sha256 sv raw)) before v)"

lemma Connect_keeps:
  "hoare (node_view i) (\<lambda>v h. v = (True, before)) (Connect nb sv p pr answer stream) (\<lambda>x v h. left_behind sv pr stream before v)"
proof -
  have unchanged: "hoare (node_view i) (\<lambda>v h. v = (True, before)) (State_Monad.return r) (\<lambda>x v h. left_behind sv pr stream before v)" for r :: "control_message list \<times> connection_end"
    by (rule hoare_return) (simp add: left_behind_def)
  show ?thesis
  proof (cases "\<exists>raw certs first rest. cp_store p \<and> pr = Tls_Peer (raw # certs) \<and> stream = Message first # rest \<and> valid_hello first")
    case True
    then obtain raw certs first rest where eq: "cp_store p" "pr = Tls_Peer (raw # certs)" "stream = Message first # rest" "valid_hello first"
      by blast
    let ?f = "hex_string (sv_sha256 sv raw)"
    have left: "left_behind sv pr stream before v" if "speaks_as i first ?f before v" for v
      using eq that by (auto simp: left_behind_def)
    have go: "hoare (node_view i) (\<lambda>v h. speaks_as i first ?f before v)
        (case answer (accepted p) of Some err \<Rightarrow> State_Monad.return ([], Refused err)
         | None \<Rightarrow> do { connection_end \<leftarrow> heartbeats nb first ?f rest; State_Monad.return ([accepted p], connection_end) })
        (\<lambda>x v h. left_behind sv pr stream before v)"
      by (intro hoare_option hoare_bind [OF heartbeats_keep] hoare_return left) simp_all
    show ?thesis
      using eq by (auto simp: Connect_def certificateFingerprint_def intro!: hoare_bind [OF hello_binds] hoare_sum unchanged [unfolded eq] go [unfolded eq])
  next
    case False
    then have "\<exists>r. Connect nb sv p pr answer stream = State_Monad.return r"
      by (auto simp: Connect_def certificateFingerprint_def split: peer.splits list.splits received.splits)
    then show ?thesis using unchanged by metis
  qed
qed

end

lemma unlock_keeps_nodes: "node_view i (ap_db (fst (unlock sv t0 t t' rq ap))) = node_view i (ap_db ap)"
proof -
  have "RegisterFailedUnlock scope t s = (s', x) \<Longrightarrow> nodes s' = nodes s"
    "ClearUnlockFailures scope s = (s', y) \<Longrightarrow> nodes s' = nodes s" for scope t s s' x y
    by (auto simp: RegisterFailedUnlock_def ClearUnlockFailures_def Let_def split: option.splits if_splits prod.splits)
  then have "nodes (ap_db (fst (unlock sv t0 t t' rq ap))) = nodes (ap_db ap)"
    by (auto simp: unlock_def Let_def setKey_def newSession_def session_reply_def
        split: sum.splits prod.splits option.splits if_splits)
  then show ?thesis by (simp add: node_view_def node_at_def nodes_unique_def)
qed

interpretation signing_agents: quiet_node "signing sv rqs clock" i
  by unfold_locales (simp add: signing_def unlock_keeps_nodes)

text \<open>
  C11: an agent speaks for its own node. Beside others that leave the row of a node alone, a connection
  changes that row only if its peer has shown a certificate and its first message is a valid hello naming
  the node; then the row has the fingerprint of that certificate and the name, version and capabilities
  of the hello, whatever its heartbeats claim, and a node enrolled before had that fingerprint already.
\<close>

theorem agent_speaks_for_its_own_node:
  assumes "quiet_node nb i" and "nodes_unique (ap_db ap)"
    and "run_state (Connect nb sv p pr answer stream) (ap, h, k) = (r, (ap', h', k'))"
    and "node_at i (ap_db ap') \<noteq> node_at i (ap_db ap)"
  shows "\<exists>raw certs first rest row. pr = Tls_Peer (raw # certs) \<and> stream = Message first # rest \<and> valid_hello first \<and>
    am_node_id first = i \<and> node_at i (ap_db ap') = Some row \<and> node_fingerprint row = hex_string (sv_sha256 sv raw) \<and>
    node_name row = am_name first \<and> node_version row = am_version first \<and> node_capabilities row = am_capabilities first \<and>
    (\<forall>old. node_at i (ap_db ap) = Some old \<longrightarrow> node_fingerprint old = hex_string (sv_sha256 sv raw))"
proof -
  have "node_view i (ap_db ap) = (True, node_at i (ap_db ap))" using assms(2) by (simp add: node_view_def)
  from hoareD [OF quiet_node.Connect_keeps [OF assms(1)] this assms(3)] assms(4) show ?thesis
    unfolding quiet_node.left_behind_def [OF assms(1)]
    by (auto simp: node_view_def speaks_as_def bound_to_def split: if_splits)
qed

definition demo_hello :: agent_message where
  "demo_hello = hello ''edge-1'' ''Edge'' ''1.0'' ''runtime-observation, logs''"

lemma demo_hello_ok: "valid_hello demo_hello" "valid_heartbeat demo_hello (heartbeat ''edge-1'')"
  by code_simp+

lemma demo_fields: "am_node_id demo_hello = ''edge-1''" "am_name demo_hello = ''Edge''" "am_version demo_hello = ''1.0''"
    "am_node_id (heartbeat ''edge-1'') = ''edge-1''"
  by (simp_all add: demo_hello_def hello_def heartbeat_def)

lemma demo_fingerprint: "hex_string (sv_sha256 demo_services [7]) = ''01''"
  by code_simp

lemma demo_connection:
  "\<exists>r ap' h' k'. run_state (Connect demo_alone demo_services \<lparr>cp_store = True, cp_heartbeat_interval = 0\<rparr> (Tls_Peer [[7]]) (\<lambda>m. None)
     [Message demo_hello, Message (heartbeat ''edge-1''), End_Of_Stream]) (demo_server, [], 0) = (r, (ap', h', k')) \<and>
     node_at ''edge-1'' (ap_db ap') \<noteq> node_at ''edge-1'' (ap_db demo_server) \<and> nodes_unique (ap_db demo_server)"
proof -
  have "nodes (ap_db demo_server) = []" by (simp add: demo_server_def empty_db_def)
  then show ?thesis
    by (simp add: Connect_def certificateFingerprint_def demo_hello_ok demo_fingerprint upsert_def store_call_def app_call_def demo_alone_def
        UpsertNode_def node_of_def demo_fields Let_def count_where_def node_at_def nodes_unique_def)
qed

theorem agent_speaks_for_its_own_node_witness:
  "\<exists>row. node_at ''edge-1'' (ap_db (fst (snd (run_state (Connect demo_alone demo_services \<lparr>cp_store = True, cp_heartbeat_interval = 0\<rparr>
     (Tls_Peer [[7]]) (\<lambda>m. None) [Message demo_hello, Message (heartbeat ''edge-1''), End_Of_Stream]) (demo_server, [], 0))))) = Some row \<and>
     node_fingerprint row = ''01'' \<and> node_name row = ''Edge''"
proof -
  have quiet: "quiet_node demo_alone ''edge-1''" by unfold_locales (simp add: demo_alone_def)
  from demo_connection obtain r ap' h' k' where run: "run_state (Connect demo_alone demo_services \<lparr>cp_store = True, cp_heartbeat_interval = 0\<rparr>
      (Tls_Peer [[7]]) (\<lambda>m. None) [Message demo_hello, Message (heartbeat ''edge-1''), End_Of_Stream]) (demo_server, [], 0) = (r, (ap', h', k'))"
    and new: "node_at ''edge-1'' (ap_db ap') \<noteq> node_at ''edge-1'' (ap_db demo_server)" and unique: "nodes_unique (ap_db demo_server)" by blast
  from agent_speaks_for_its_own_node [OF quiet unique run new] show ?thesis
    by (auto simp: run demo_fingerprint demo_fields)
qed

end
