(* ===== verification/App_Repositories.thy ===== *)
theory App_Repositories
  imports App_Cloudflare
begin

text \<open>
  The browser of local repositories (\<^verbatim>\<open>internal/app/repositories.go\<close>): folders below the
  one path that was granted to MiniDock. The operating system resolves symbolic links, lists folders and
  describes files; it is the world together with a listing and a test for folders.
\<close>

record dir_entry =
  de_name :: string
  de_is_dir :: bool
  de_symlink :: bool

record folders =
  fo_entries :: "history \<Rightarrow> string \<Rightarrow> string + dir_entry list"
  fo_is_dir :: "history \<Rightarrow> string \<Rightarrow> string + bool"

record browser_entry =
  be_name :: string
  be_path :: string
  be_repository :: bool

record browser_data =
  bd_current :: string
  bd_parent :: string
  bd_entries :: "browser_entry list"

definition withinRepositoryRoot :: "string \<Rightarrow> string \<Rightarrow> bool" where
  "withinRepositoryRoot base path \<longleftrightarrow> path = base \<or> has_prefix path (base @ ''/'')"

definition authorized_prog :: "time \<Rightarrow> request \<Rightarrow> app \<Rightarrow> reply prog \<Rightarrow> reply prog" where
  "authorized_prog t0 rq ap body = (if \<not> authorized t0 rq ap then State_Monad.return (Redirect ''/unlock'') else body)"

text \<open>\<^verbatim>\<open>json.Encoder.Encode\<close> ends the value with a line break.\<close>

definition json_page :: "string \<Rightarrow> reply" where
  "json_page v = Page 200 ''JSON'' (v @ [CHR 0x0A])"

section \<open>Browsing\<close>

text \<open>One entry of a folder; \<open>None\<close> when it is left out.\<close>

definition browse_entry :: "world \<Rightarrow> folders \<Rightarrow> string \<Rightarrow> string \<Rightarrow> dir_entry \<Rightarrow> browser_entry option prog" where
  "browse_entry w fo base current entry =
     (if has_prefix (de_name entry) ''.'' then State_Monad.return None
      else if \<not> de_is_dir entry \<and> \<not> de_symlink entry then State_Monad.return None
      else do {
        r \<leftarrow> disk w (EvalSymlinks (join_path [current, de_name entry]));
        case r of
          Inl _ \<Rightarrow> State_Monad.return None
        | Inr path \<Rightarrow>
            if \<not> withinRepositoryRoot base path then State_Monad.return None
            else do {
              info \<leftarrow> perform (Disk (Stat path)) (\<lambda>h. fo_is_dir fo h path);
              case info of
                Inl _ \<Rightarrow> State_Monad.return None
              | Inr folder \<Rightarrow>
                  if \<not> folder then State_Monad.return None
                  else do {
                    git \<leftarrow> disk w (Stat (join_path [path, ''.git'']));
                    State_Monad.return (Some \<lparr>be_name = de_name entry, be_path = trim_prefix path (base @ ''/''),
                      be_repository = (case git of Inl _ \<Rightarrow> False | Inr _ \<Rightarrow> True)\<rparr>)
                  }
            }
      })"

fun browse_entries :: "world \<Rightarrow> folders \<Rightarrow> string \<Rightarrow> string \<Rightarrow> dir_entry list \<Rightarrow> browser_entry list prog" where
  "browse_entries w fo base current [] = State_Monad.return []"
| "browse_entries w fo base current (entry # rest) = do {
     r \<leftarrow> browse_entry w fo base current entry;
     others \<leftarrow> browse_entries w fo base current rest;
     State_Monad.return (case r of None \<Rightarrow> others | Some e \<Rightarrow> e # others)
   }"

definition browse_parent :: "string \<Rightarrow> string \<Rightarrow> string" where
  "browse_parent base current = (if current \<noteq> base then trim_prefix (dir_path current) (base @ ''/'') else '''')"

definition browse_folder :: "world \<Rightarrow> folders \<Rightarrow> string \<Rightarrow> string \<Rightarrow> (reply + browser_data) prog" where
  "browse_folder w fo base current = do {
     r \<leftarrow> perform (Disk (ReadDir current)) (\<lambda>h. fo_entries fo h current);
     case r of
       Inl _ \<Rightarrow> State_Monad.return (Inl Not_Found)
     | Inr entries \<Rightarrow> do {
         es \<leftarrow> browse_entries w fo base current entries;
         State_Monad.return (Inr \<lparr>bd_current = ''file://'' @ current, bd_parent = browse_parent base current, bd_entries = es\<rparr>)
       }
   }"

definition relative_path :: "string \<Rightarrow> string" where
  "relative_path requested =
     (let relative = trim_prefix (clean_path (''/'' @ requested)) ''/'' in if relative = ''.'' then '''' else relative)"

definition browse :: "world \<Rightarrow> folders \<Rightarrow> config \<Rightarrow> string \<Rightarrow> (reply + browser_data) prog" where
  "browse w fo c requested =
     (if cfg_local_repositories_path c = ''''
      then State_Monad.return (Inl (HttpError 503 ''local repository browsing is not configured''))
      else do {
        r \<leftarrow> disk w (EvalSymlinks (cfg_local_repositories_path c));
        case r of
          Inl _ \<Rightarrow> State_Monad.return (Inl (HttpError 503 ''local repository root is unavailable''))
        | Inr base \<Rightarrow> do {
            r \<leftarrow> disk w (EvalSymlinks (join_path [base, relative_path requested]));
            case r of
              Inl _ \<Rightarrow> State_Monad.return (Inl Not_Found)
            | Inr current \<Rightarrow>
                if \<not> withinRepositoryRoot base current then State_Monad.return (Inl Not_Found)
                else browse_folder w fo base current
          }
      })"

definition entry_json :: "browser_entry \<Rightarrow> string" where
  "entry_json e = ''{'' @ json_string ''name'' @ '':'' @ json_string (be_name e) @ '','' @ json_string ''path'' @ '':'' @
     json_string (be_path e) @ '','' @ json_string ''repository'' @ '':'' @ (if be_repository e then ''true'' else ''false'') @ ''}''"

definition browser_json :: "browser_data \<Rightarrow> string" where
  "browser_json d = ''{'' @ json_string ''current'' @ '':'' @ json_string (bd_current d) @ '','' @
     (if bd_parent d = '''' then '''' else json_string ''parent'' @ '':'' @ json_string (bd_parent d) @ '','') @
     json_string ''entries'' @ '':['' @ join_with '','' (map entry_json (bd_entries d)) @ '']}''"

definition browseLocalRepositories :: "time \<Rightarrow> world \<Rightarrow> folders \<Rightarrow> request \<Rightarrow> app \<Rightarrow> reply prog" where
  "browseLocalRepositories t0 w fo rq ap = authorized_prog t0 rq ap (do {
     r \<leftarrow> browse w fo (ap_config ap) (rq_form rq ''path'');
     State_Monad.return (case r of Inl reply \<Rightarrow> reply | Inr d \<Rightarrow> json_page (browser_json d))
   })"

section \<open>One folder\<close>

definition localRepositoryPath :: "world \<Rightarrow> config \<Rightarrow> string \<Rightarrow> string option prog" where
  "localRepositoryPath w c requested = do {
     r \<leftarrow> disk w (EvalSymlinks (cfg_local_repositories_path c));
     case r of
       Inl _ \<Rightarrow> State_Monad.return None
     | Inr base \<Rightarrow> do {
         r \<leftarrow> disk w (EvalSymlinks (join_path [base, trim_prefix (clean_path (''/'' @ requested)) ''/'']));
         State_Monad.return (case r of Inl _ \<Rightarrow> None | Inr path \<Rightarrow> if withinRepositoryRoot base path then Some path else None)
       }
   }"

definition strings_json :: "string list \<Rightarrow> string" where
  "strings_json xs = ''['' @ join_with '','' (map json_string xs) @ '']''"

definition localRepositoryReferences :: "time \<Rightarrow> world \<Rightarrow> request \<Rightarrow> app \<Rightarrow> reply prog" where
  "localRepositoryReferences t0 w rq ap = authorized_prog t0 rq ap (do {
     r \<leftarrow> localRepositoryPath w (ap_config ap) (rq_form rq ''path'');
     case r of
       None \<Rightarrow> State_Monad.return Not_Found
     | Some path \<Rightarrow> do {
         git \<leftarrow> disk w (Stat (join_path [path, ''.git'']));
         case git of
           Inl _ \<Rightarrow> State_Monad.return (HttpError 400 ''folder is not a Git repository'')
         | Inr _ \<Rightarrow> do {
             out \<leftarrow> exec_cmd w ''git'' [''-C'', path, ''for-each-ref'', ''--format=%(refname:short)'', ''refs/heads'', ''refs/tags''] [];
             State_Monad.return (case out of
                 Inl _ \<Rightarrow> HttpError 503 ''could not read Git references''
               | Inr text \<Rightarrow> json_page (''{'' @ json_string ''references'' @ '':'' @ strings_json (Fields text) @ ''}''))
           }
       }
   })"

definition detection_json :: "detection \<Rightarrow> string" where
  "detection_json d = ''{'' @ json_string ''type'' @ '':'' @ json_string (det_type d) @ '','' @ json_string ''confidence'' @ '':'' @
     json_string (det_confidence d) @ '','' @ json_string ''reason'' @ '':'' @ json_string (det_reason d) @ ''}''"

definition detectLocalRuntime :: "time \<Rightarrow> world \<Rightarrow> request \<Rightarrow> app \<Rightarrow> reply prog" where
  "detectLocalRuntime t0 w rq ap = authorized_prog t0 rq ap (do {
     r \<leftarrow> localRepositoryPath w (ap_config ap) (rq_form rq ''path'');
     case r of
       None \<Rightarrow> State_Monad.return Not_Found
     | Some path \<Rightarrow> do {
         fs \<leftarrow> perform (ReadProject path) (w_files w);
         State_Monad.return (json_page (detection_json (Detect (w_manifest w) fs path)))
       }
   })"

definition validateLocalRuntime :: "time \<Rightarrow> world \<Rightarrow> request \<Rightarrow> app \<Rightarrow> reply prog" where
  "validateLocalRuntime t0 w rq ap = authorized_prog t0 rq ap (do {
     r \<leftarrow> localRepositoryPath w (ap_config ap) (rq_form rq ''path'');
     case r of
       None \<Rightarrow> State_Monad.return Not_Found
     | Some path \<Rightarrow> do {
         fs \<leftarrow> perform (ReadProject path) (w_files w);
         State_Monad.return (let missing = Validate fs path (rq_form rq ''type'')
           in json_page (''{'' @ json_string ''missing'' @ '':'' @ (if missing = [] then ''null'' else strings_json missing) @ '','' @
             json_string ''valid'' @ '':'' @ (if missing = [] then ''true'' else ''false'') @ ''}''))
       }
   })"

section \<open>A new folder\<close>

definition bad_folder_name :: "string \<Rightarrow> bool" where
  "bad_folder_name name \<longleftrightarrow> name = '''' \<or> name = ''.'' \<or> name = ''..'' \<or> contains_any name [CHR ''/'', CHR 0x5C]"

definition make_folder :: "world \<Rightarrow> config \<Rightarrow> string \<Rightarrow> string \<Rightarrow> reply prog" where
  "make_folder w c requested name = do {
     r \<leftarrow> disk w (EvalSymlinks (cfg_local_repositories_path c));
     case r of
       Inl _ \<Rightarrow> State_Monad.return (HttpError 503 ''local repository root is unavailable'')
     | Inr base \<Rightarrow> do {
         r \<leftarrow> disk w (EvalSymlinks (join_path [base, clean_path (''/'' @ trim_prefix requested ''/'')]));
         case r of
           Inl _ \<Rightarrow> State_Monad.return Not_Found
         | Inr parent \<Rightarrow>
             if \<not> withinRepositoryRoot base parent then State_Monad.return Not_Found
             else (let path = join_path [parent, name]
                   in if \<not> withinRepositoryRoot base path then State_Monad.return (HttpError 400 ''invalid folder path'')
                      else do {
                        made \<leftarrow> disk w (Mkdir path);
                        State_Monad.return (case made of
                            Inl _ \<Rightarrow> HttpError 409 ''could not create folder''
                          | Inr _ \<Rightarrow> json_page (''{'' @ json_string ''path'' @ '':'' @ json_string (trim_prefix path (base @ ''/'')) @ ''}''))
                      })
       }
   }"

text \<open>
  \<open>decode\<close> is \<^verbatim>\<open>json.Decoder.Decode\<close> on the first 4096 bytes of the body, into the
  path and the name of the folder.
\<close>

definition createLocalRepositoryFolder ::
    "time \<Rightarrow> world \<Rightarrow> (string option \<Rightarrow> (string \<times> string) option) \<Rightarrow> request \<Rightarrow> app \<Rightarrow> reply prog" where
  "createLocalRepositoryFolder t0 w decode rq ap = authorized_prog t0 rq ap
     (case decode (rq_body rq) of
        None \<Rightarrow> State_Monad.return (HttpError 400 ''invalid folder request'')
      | Some (requested, given) \<Rightarrow>
          (let name = trim_space given
           in if bad_folder_name name then State_Monad.return (HttpError 400 ''invalid folder name'')
              else make_folder w (ap_config ap) requested name))"

end
