(* ===== verification/Repositories_Props.thy ===== *)
theory Repositories_Props
  imports App_Repositories Cloudflare_Status
begin

text \<open>The repository browser looks at and creates nothing outside the folder that was granted to it.\<close>

definition granted :: "world \<Rightarrow> config \<Rightarrow> string \<Rightarrow> bool" where
  "granted w c p \<longleftrightarrow> (\<exists>h base. w_disk w h (EvalSymlinks (cfg_local_repositories_path c)) = Inr base \<and> withinRepositoryRoot base p)"

fun stays_inside :: "world \<Rightarrow> config \<Rightarrow> action \<Rightarrow> bool" where
  "stays_inside w c (Disk (EvalSymlinks p)) \<longleftrightarrow> True"
| "stays_inside w c (Disk (ReadDir p)) \<longleftrightarrow> granted w c p"
| "stays_inside w c (Disk (Stat p)) \<longleftrightarrow> granted w c p \<or> (\<exists>q. granted w c q \<and> p = join_path [q, ''.git''])"
| "stays_inside w c (Disk (Mkdir p)) \<longleftrightarrow> granted w c p \<and>
     (\<exists>parent name. granted w c parent \<and> \<not> bad_folder_name name \<and> p = join_path [parent, name])"
| "stays_inside w c (ReadProject p) \<longleftrightarrow> granted w c p"
| "stays_inside w c (Exec name args env) \<longleftrightarrow> name = ''git'' \<and> env = [] \<and> (\<exists>q. granted w c q \<and>
     args = [''-C'', q, ''for-each-ref'', ''--format=%(refname:short)'', ''refs/heads'', ''refs/tags''])"
| "stays_inside w c _ \<longleftrightarrow> False"

lemma grantedI: "w_disk w h (EvalSymlinks (cfg_local_repositories_path c)) = Inr base \<Longrightarrow> withinRepositoryRoot base p \<Longrightarrow> granted w c p"
  unfolding granted_def by blast

lemma inside_intros:
  "granted w c q \<Longrightarrow> stays_inside w c (Disk (Stat (join_path [q, ''.git''])))"
  "granted w c q \<Longrightarrow> emits (stays_inside w c) (perform (Disk (Stat q)) answer)"
  "granted w c q \<Longrightarrow> granted w c (join_path [q, name]) \<Longrightarrow> \<not> bad_folder_name name \<Longrightarrow> stays_inside w c (Disk (Mkdir (join_path [q, name])))"
  by (auto intro!: emits_rules)

declare stays_inside.simps(3,4) [simp del]

lemma entry_emits:
  assumes "w_disk w h (EvalSymlinks (cfg_local_repositories_path c)) = Inr base"
  shows "emits (stays_inside w c) (browse_entry w fo base current entry)"
  unfolding browse_entry_def using grantedI [OF assms]
  by (auto intro!: emits_rules disk_emits inside_intros split: sum.splits)

lemma entries_emit:
  assumes "w_disk w h (EvalSymlinks (cfg_local_repositories_path c)) = Inr base"
  shows "emits (stays_inside w c) (browse_entries w fo base current es)"
  by (induction es) (auto intro!: emits_rules entry_emits [OF assms])

lemma folder_emits:
  assumes "w_disk w h (EvalSymlinks (cfg_local_repositories_path c)) = Inr base" and "withinRepositoryRoot base current"
  shows "emits (stays_inside w c) (browse_folder w fo base current)"
  unfolding browse_folder_def using grantedI [OF assms]
  by (auto intro!: emits_rules entries_emit [OF assms(1)] split: sum.splits)

lemma browse_emits: "emits (stays_inside w c) (browse w fo c requested)"
  unfolding browse_def
  by (intro emits_rules disk_answer) (auto intro!: emits_rules disk_emits folder_emits)

lemma path_emits: "emits (stays_inside w c) (localRepositoryPath w c requested)"
  unfolding localRepositoryPath_def by (intro emits_rules disk_answer) (auto intro!: emits_rules disk_emits)

lemma path_yields: "yields (\<lambda>r. \<forall>path. r = Some path \<longrightarrow> granted w c path) (localRepositoryPath w c requested)"
  by (auto simp: localRepositoryPath_def yields_def disk_def dest: grantedI split: sum.splits)

lemma make_emits: "\<not> bad_folder_name name \<Longrightarrow> emits (stays_inside w c) (make_folder w c requested name)"
  unfolding make_folder_def Let_def
  by (intro emits_rules disk_answer) (auto intro!: emits_rules disk_emits inside_intros dest: grantedI)

lemma authorized_emits: "emits P p \<Longrightarrow> emits P (authorized_prog t0 rq ap p)"
  unfolding authorized_prog_def by (intro emits_rules)

lemma handlers_emit:
  "emits (stays_inside w (ap_config ap)) (browseLocalRepositories t0 w fo rq ap)"
  "emits (stays_inside w (ap_config ap)) (localRepositoryReferences t0 w rq ap)"
  "emits (stays_inside w (ap_config ap)) (detectLocalRuntime t0 w rq ap)"
  "emits (stays_inside w (ap_config ap)) (validateLocalRuntime t0 w rq ap)"
  "emits (stays_inside w (ap_config ap)) (createLocalRepositoryFolder t0 w decode rq ap)"
proof -
  show "emits (stays_inside w (ap_config ap)) (browseLocalRepositories t0 w fo rq ap)"
    unfolding browseLocalRepositories_def by (intro authorized_emits emits_rules browse_emits)
  show "emits (stays_inside w (ap_config ap)) (localRepositoryReferences t0 w rq ap)"
    unfolding localRepositoryReferences_def
    by (rule authorized_emits, rule emits_bind_via [OF path_emits path_yields])
      (auto intro!: emits_rules disk_emits inside_intros simp: exec_cmd_def split: option.splits sum.splits)
  show "emits (stays_inside w (ap_config ap)) (detectLocalRuntime t0 w rq ap)"
    unfolding detectLocalRuntime_def
    by (rule authorized_emits, rule emits_bind_via [OF path_emits path_yields]) (auto intro!: emits_rules split: option.splits)
  show "emits (stays_inside w (ap_config ap)) (validateLocalRuntime t0 w rq ap)"
    unfolding validateLocalRuntime_def
    by (rule authorized_emits, rule emits_bind_via [OF path_emits path_yields]) (auto intro!: emits_rules split: option.splits)
  show "emits (stays_inside w (ap_config ap)) (createLocalRepositoryFolder t0 w decode rq ap)"
    unfolding createLocalRepositoryFolder_def Let_def
    by (intro authorized_emits emits_rules) (auto intro!: emits_rules make_emits split: option.splits)
qed

lemma unauthorized_nothing:
  "\<not> authorized t0 rq ap \<Longrightarrow> run_state (browseLocalRepositories t0 w fo rq ap) h = (Redirect ''/unlock'', h)"
  "\<not> authorized t0 rq ap \<Longrightarrow> run_state (localRepositoryReferences t0 w rq ap) h = (Redirect ''/unlock'', h)"
  "\<not> authorized t0 rq ap \<Longrightarrow> run_state (detectLocalRuntime t0 w rq ap) h = (Redirect ''/unlock'', h)"
  "\<not> authorized t0 rq ap \<Longrightarrow> run_state (validateLocalRuntime t0 w rq ap) h = (Redirect ''/unlock'', h)"
  "\<not> authorized t0 rq ap \<Longrightarrow> run_state (createLocalRepositoryFolder t0 w decode rq ap) h = (Redirect ''/unlock'', h)"
  by (simp_all add: browseLocalRepositories_def localRepositoryReferences_def detectLocalRuntime_def validateLocalRuntime_def
      createLocalRepositoryFolder_def authorized_prog_def)


definition demo_disk :: world where
  "demo_disk = (demo_world ''healthy'')\<lparr>w_disk := (\<lambda>h c. case c of EvalSymlinks p \<Rightarrow> Inr p | _ \<Rightarrow> Inr '''')\<rparr>"

definition demo_browser_app :: app where
  "demo_browser_app = demo_secret_app\<lparr>ap_config := (ap_config demo_secret_app)\<lparr>cfg_local_repositories_path := ''/srv''\<rparr>\<rparr>"

lemma demo_paths: "join_path [''/srv'', clean_path (CHR ''/'' # trim_prefix ''a/../apps'' ''/'')] = ''/srv/apps''"
    "withinRepositoryRoot ''/srv'' ''/srv/apps''" "join_path [''/srv/apps'', ''web''] = ''/srv/apps/web''"
    "withinRepositoryRoot ''/srv'' ''/srv/apps/web''" "trim_space '' web'' = ''web''" "bad_folder_name ''web'' = False"
  by code_simp+

lemma demo_creates:
  "Disk (Mkdir ''/srv/apps/web'') \<in> set (snd (run_state (createLocalRepositoryFolder 100 demo_disk
     (\<lambda>b. Some (''a/../apps'', '' web'')) demo_secret_form demo_browser_app) []))"
proof -
  have "authorized 100 demo_secret_form demo_browser_app"
    by (simp add: authorized_def demo_browser_app_def demo_secret_app_def demo_secret_form_def demo_request_def)
  then show ?thesis
    by (simp add: createLocalRepositoryFolder_def authorized_prog_def make_folder_def disk_def demo_disk_def demo_browser_app_def
        demo_paths Let_def)
qed


text \<open>The parent of a folder right below the root is given as an absolute path, unlike every other path of the listing.\<close>

lemma first_level_parent_is_absolute:
  "browse_parent ''/srv'' ''/srv/apps'' = ''/srv''" "browse_parent ''/srv'' ''/srv/apps/web'' = ''apps''"
  by code_simp+

end
