(* ===== verification/App_Pages.thy ===== *)
theory App_Pages
  imports App_Repositories
begin

text \<open>
  What the read-only pages compute (\<^verbatim>\<open>internal/app/server.go\<close> and the preview of the
  retention in \<^verbatim>\<open>operations.go\<close>): the progress of a deployment, its differences from the
  one before, the release report, the inventory of nodes, the log pages and the log stream. Pages are
  kept as the values they display; headers of downloads are left out.
\<close>

section \<open>Progress of a deployment\<close>

text \<open>\<open>tenths\<close> is the text of a number of milliseconds in seconds with one decimal.\<close>

definition formatMs :: "world \<Rightarrow> (int \<Rightarrow> string) \<Rightarrow> int \<Rightarrow> string" where
  "formatMs w tenths ms =
     (if ms \<le> 0 then ''''
      else if ms < 1000 then w_quotient w ms 1000 @ ''s''
      else if ms < 60000 then tenths ms @ ''s''
      else show_int (ms div 60000) @ ''m '' @ show_int (ms div 1000 mod 60) @ ''s'')"

record pipeline =
  pl_deployment :: deployment
  pl_has_deployment :: bool
  pl_preflight_failed :: bool
  pl_step1 :: "string \<times> string"
  pl_step2 :: "string \<times> string"
  pl_step3 :: "string \<times> string"
  pl_step4 :: "string \<times> string"
  pl_step5 :: "string \<times> string"
  pl_step6 :: "string \<times> string"

definition pl_steps :: "pipeline \<Rightarrow> (string \<times> string) list" where
  "pl_steps p = [pl_step1 p, pl_step2 p, pl_step3 p, pl_step4 p, pl_step5 p, pl_step6 p]"

definition not_started :: "string \<times> string" where
  "not_started = (''pending'', ''No iniciado'')"

definition pending_step :: "string \<times> string" where
  "pending_step = (''pending'', ''Pendiente'')"

definition done_step :: "world \<Rightarrow> (int \<Rightarrow> string) \<Rightarrow> string \<Rightarrow> int \<Rightarrow> string \<times> string" where
  "done_step w tenths message ms = (''done'', message @ (if ms > 0 then '' ('' @ formatMs w tenths ms @ '')'' else ''''))"

definition all_done :: "world \<Rightarrow> (int \<Rightarrow> string) \<Rightarrow> deployment \<Rightarrow> pipeline \<Rightarrow> pipeline" where
  "all_done w tenths d p = p\<lparr>
     pl_step2 := done_step w tenths ''Completado'' (d_source_duration_ms d),
     pl_step3 := done_step w tenths ''Procesado'' (d_build_duration_ms d),
     pl_step4 := done_step w tenths ''Completado'' (d_start_duration_ms d),
     pl_step5 := done_step w tenths ''Confirmado'' (d_health_duration_ms d),
     pl_step6 := done_step w tenths ''Enrutado'' (d_route_duration_ms d)\<rparr>"

definition mark_failure :: "deployment \<Rightarrow> pipeline \<Rightarrow> pipeline" where
  "mark_failure d p =
     (if d_failure_stage d = ''start'' then
        (if d_failure_code d = ''runtime_unavailable''
         then p\<lparr>pl_step1 := (''failed'', ''Runtime no disponible''), pl_step2 := not_started, pl_step3 := not_started,
           pl_step4 := not_started, pl_step5 := not_started, pl_step6 := not_started\<rparr>
         else p\<lparr>pl_step4 := (''failed'', ''Switch/Arranque fallido''), pl_step5 := pending_step, pl_step6 := pending_step\<rparr>)
      else if d_failure_stage d = ''source''
      then p\<lparr>pl_step2 := (''failed'', ''Clon/Fetch fallido''), pl_step3 := not_started, pl_step4 := not_started,
        pl_step5 := not_started, pl_step6 := not_started\<rparr>
      else if d_failure_stage d = ''build''
      then p\<lparr>pl_step3 := (''failed'', spanish ''Compilaci~on fallida''), pl_step4 := not_started, pl_step5 := not_started, pl_step6 := not_started\<rparr>
      else if d_failure_stage d = ''health''
      then p\<lparr>pl_step5 := (''failed'', ''Health check fallido''), pl_step6 := not_started\<rparr>
      else if d_failure_stage d = ''route''
      then p\<lparr>pl_step6 := (''failed'', ''Ruta proxy fallida'')\<rparr>
      else p\<lparr>pl_step4 := (''failed'', spanish ''Fallo de ejecuci~on''), pl_step5 := pending_step, pl_step6 := pending_step\<rparr>)"

definition computePipelineStatus :: "world \<Rightarrow> (int \<Rightarrow> string) \<Rightarrow> deployment \<Rightarrow> bool \<Rightarrow> pipeline" where
  "computePipelineStatus w tenths d preflightFailed =
     (let p = \<lparr>pl_deployment = d, pl_has_deployment = True, pl_preflight_failed = preflightFailed,
            pl_step1 = (''failed'', spanish ''Requiere configuraci~on''), pl_step2 = not_started, pl_step3 = not_started,
            pl_step4 = not_started, pl_step5 = not_started, pl_step6 = not_started\<rparr>
      in if preflightFailed then p
         else (let p = p\<lparr>pl_step1 := (''done'', ''Runtime de contenedores'' @
                    (if d_queue_duration_ms d > 0 then '' (Cola: '' @ formatMs w tenths (d_queue_duration_ms d) @ '')'' else ''''))\<rparr>
               in if d_status d = ''queued''
                  then p\<lparr>pl_step2 := (''active'', ''En cola''), pl_step3 := (''pending'', ''En cola''), pl_step4 := pending_step,
                    pl_step5 := pending_step, pl_step6 := pending_step\<rparr>
                  else if d_status d = ''running''
                  then p\<lparr>pl_step2 := (''done'', ''Completado''), pl_step3 := (''active'', ''En curso''), pl_step4 := (''active'', ''En curso''),
                    pl_step5 := pending_step, pl_step6 := pending_step\<rparr>
                  else if d_status d = ''successful'' then all_done w tenths d p
                  else if d_status d = ''failed'' then mark_failure d (all_done w tenths d p)
                  else p\<lparr>pl_step2 := (''pending'', ''Cancelado''), pl_step3 := (''pending'', ''Cancelado''),
                    pl_step4 := (''pending'', ''Cancelado''), pl_step5 := (''pending'', ''Cancelado''),
                    pl_step6 := (''pending'', ''Cancelado'')\<rparr>))"

definition runtimePreflightFailure :: "string \<Rightarrow> bool" where
  "runtimePreflightFailure text =
     (let text = to_lower text
      in contains_str text ''runtime preflight:'' \<or> contains_str text ''no supported container runtime'' \<or>
         contains_str text ''default kernel not configured'')"

definition diagnostic_named :: "string \<Rightarrow> runtime_diagnostic list \<Rightarrow> runtime_diagnostic" where
  "diagnostic_named name ds = foldl (\<lambda>found d. if rd_name d = name then d else found)
     \<lparr>rd_name = '''', rd_detail = '''', rd_setup_command = '''', rd_installed = False, rd_ready = False\<rparr> ds"

definition backquote :: string where
  "backquote = [CHR 0x60]"

definition runtimeNotice :: "runtime_diagnostic list \<Rightarrow> string" where
  "runtimeNotice ds =
     (let apple = diagnostic_named ''apple'' ds; docker = diagnostic_named ''docker'' ds
      in if rd_installed apple \<and> \<not> rd_ready apple \<and> rd_ready docker
         then spanish ''Apple Container est~a instalado pero no est~a listo; MiniDock est~a usando Docker como respaldo. Para preferir Apple Container ejecuta '' @
           backquote @ rd_setup_command apple @ backquote @ spanish '' y completa la configuraci~on de kernel si se solicita.''
         else if rd_installed apple \<and> \<not> rd_ready apple
         then spanish ''Apple Container est~a instalado pero no est~a listo. Ejecuta '' @ backquote @ rd_setup_command apple @ backquote @
           spanish '' y completa la configuraci~on de kernel si se solicita antes de desplegar.''
         else '''')"

section \<open>Nodes and release reports\<close>

text \<open>\<open>stamp\<close> is the JSON text of a time.\<close>

definition json_object :: "(string \<times> string) list \<Rightarrow> string" where
  "json_object members = ''{'' @ join_with '','' (map (\<lambda>(name, v). json_string name @ '':'' @ v) members) @ ''}''"

definition json_array :: "string list \<Rightarrow> string" where
  "json_array vs = ''['' @ join_with '','' vs @ '']''"

text \<open>A node without capabilities has none at all, which is printed as \<^verbatim>\<open>null\<close>.\<close>

definition node_json :: "(time \<Rightarrow> string) \<Rightarrow> node \<Rightarrow> string" where
  "node_json stamp n = json_object
     [(''id'', json_string (node_id n)), (''name'', json_string (node_name n)), (''version'', json_string (node_version n)),
      (''capabilities'', if node_capabilities n = [] then ''null'' else json_array (map json_string (node_capabilities n))),
      (''last_seen_at'', stamp (node_last_seen_at n))]"

definition nodesAPI :: "(time \<Rightarrow> string) \<Rightarrow> time \<Rightarrow> request \<Rightarrow> app \<Rightarrow> reply" where
  "nodesAPI stamp t0 rq ap =
     (if \<not> authorized t0 rq ap then HttpError 401 ''authentication required''
      else json_page (json_array (map (node_json stamp) (Nodes (ap_db ap)))))"

definition release_json :: "(time \<Rightarrow> string) \<Rightarrow> deployment \<Rightarrow> string" where
  "release_json stamp d = json_object
     [(''id'', show_int (d_id d)), (''application_id'', show_int (d_application_id d)), (''action'', json_string (d_action d)),
      (''status'', json_string (d_status d)), (''image'', json_string (d_image d)), (''requested_ref'', json_string (d_requested_ref d)),
      (''source_revision'', json_string (d_source_revision d)), (''source_fingerprint'', json_string (d_source_fingerprint d)),
      (''artifact_digest'', json_string (d_artifact_digest d)), (''runtime'', json_string (d_runtime d)),
      (''internal_port'', show_int (d_internal_port d)), (''health_endpoint'', json_string (d_health_endpoint d)),
      (''manifest'', json_string (d_manifest d)), (''configuration_digest'', json_string (d_configuration_digest d)),
      (''failure_stage'', json_string (d_failure_stage d)), (''failure_code'', json_string (d_failure_code d)),
      (''failure_detail'', json_string (d_failure_detail d)), (''current_stage'', json_string (d_current_stage d)),
      (''queue_duration_ms'', show_int (d_queue_duration_ms d)), (''source_duration_ms'', show_int (d_source_duration_ms d)),
      (''build_duration_ms'', show_int (d_build_duration_ms d)), (''start_duration_ms'', show_int (d_start_duration_ms d)),
      (''health_duration_ms'', show_int (d_health_duration_ms d)), (''route_duration_ms'', show_int (d_route_duration_ms d)),
      (''started_at'', stamp (d_started_at d)), (''finished_at'', stamp (d_finished_at d))]"

definition report_json :: "(time \<Rightarrow> string) \<Rightarrow> application \<Rightarrow> deployment \<Rightarrow> string" where
  "report_json stamp a d = json_object
     [(''version'', ''1''),
      (''application'', json_object [(''id'', show_int (app_id a)), (''name'', json_string (app_name a)),
         (''domain'', json_string (app_domain a)), (''internal_port'', show_int (app_internal_port a))]),
      (''release'', release_json stamp d)]"

definition releaseReport :: "(time \<Rightarrow> string) \<Rightarrow> time \<Rightarrow> request \<Rightarrow> app \<Rightarrow> reply" where
  "releaseReport stamp t0 rq ap =
     (if \<not> authorized t0 rq ap then Redirect ''/unlock''
      else case parse_int (rq_path_value rq ''id'') of
          None \<Rightarrow> Not_Found
        | Some applicationID \<Rightarrow>
            (case parse_int (rq_path_value rq ''deploymentID'') of
               None \<Rightarrow> Not_Found
             | Some deploymentID \<Rightarrow>
                 (case Application applicationID (ap_db ap) of
                    Inl _ \<Rightarrow> Not_Found
                  | Inr a \<Rightarrow>
                      (case Deployment applicationID deploymentID (ap_db ap) of
                         Inl _ \<Rightarrow> Not_Found
                       | Inr d \<Rightarrow> json_page (report_json stamp a d)))))"

section \<open>Differences between deployments\<close>

fun previous_of :: "int \<Rightarrow> deployment list \<Rightarrow> deployment option" where
  "previous_of i (d # d' # ds) = (if d_id d = i then Some d' else previous_of i (d' # ds))"
| "previous_of i ds = None"

text \<open>A row of the comparison: name, current value, previous value, changed.\<close>

definition diff_text :: "string \<Rightarrow> (deployment \<Rightarrow> string) \<Rightarrow> deployment \<Rightarrow> deployment option \<Rightarrow> string \<times> string \<times> string \<times> bool" where
  "diff_text name field d prev =
     (name, field d, case prev of None \<Rightarrow> '''' | Some p \<Rightarrow> field p, case prev of None \<Rightarrow> False | Some p \<Rightarrow> field d \<noteq> field p)"

definition diff_port :: "deployment \<Rightarrow> deployment option \<Rightarrow> string \<times> string \<times> string \<times> bool" where
  "diff_port d prev =
     (''Puerto Interno'', show_int (d_internal_port d), case prev of None \<Rightarrow> ''0'' | Some p \<Rightarrow> show_int (d_internal_port p),
      case prev of None \<Rightarrow> False | Some p \<Rightarrow> d_internal_port d \<noteq> d_internal_port p)"

definition diff_fields :: "deployment \<Rightarrow> deployment option \<Rightarrow> (string \<times> string \<times> string \<times> bool) list" where
  "diff_fields d prev =
     [diff_text (spanish ''Acci~on'') d_action d prev,
      diff_text ''Estado'' d_status d prev,
      diff_text (spanish ''Revisi~on de Origen (Git)'') d_source_revision d prev,
      diff_text ''Huella de Origen'' d_source_fingerprint d prev,
      diff_text ''Imagen'' d_image d prev,
      diff_text ''Digest del Artefacto'' d_artifact_digest d prev,
      diff_text ''Runtime'' d_runtime d prev,
      diff_port d prev,
      diff_text ''Ruta de Health Check'' d_health_endpoint d prev,
      diff_text (spanish ''Digest de Configuraci~on'') d_configuration_digest d prev]"

record diff_data =
  df_application :: application
  df_deployment :: deployment
  df_previous :: "deployment option"
  df_fields :: "(string \<times> string \<times> string \<times> bool) list"

definition deploymentDiff :: "time \<Rightarrow> request \<Rightarrow> app \<Rightarrow> reply + diff_data" where
  "deploymentDiff t0 rq ap =
     (if \<not> authorized t0 rq ap then Inl (Redirect ''/unlock'')
      else case applicationData rq (ap_db ap) of
          Inl _ \<Rightarrow> Inl Not_Found
        | Inr (a, _) \<Rightarrow>
            (case parse_int (rq_path_value rq ''deploymentID'') of
               None \<Rightarrow> Inl Not_Found
             | Some i \<Rightarrow>
                 if i < 1 then Inl Not_Found
                 else (case Deployment (app_id a) i (ap_db ap) of
                     Inl _ \<Rightarrow> Inl Not_Found
                   | Inr d \<Rightarrow>
                       (let prev = previous_of (d_id d) (Deployments (app_id a) (ap_db ap))
                        in Inr \<lparr>df_application = a, df_deployment = d, df_previous = prev, df_fields = diff_fields d prev\<rparr>))))"

end
