(* ===== verification/App_Logs.thy ===== *)
theory App_Logs
  imports App_Cloudflare
begin

text \<open>
  Logs of deployments (\<^verbatim>\<open>internal/app/server.go\<close>): the preview, the pages that serve
  a log or the output of a container, the stream that follows a deployment, the control of a container,
  and the preview of the retention (\<^verbatim>\<open>operations.go\<close>). A log file is read at one moment.
\<close>

section \<open>Preview\<close>

definition max_preview :: nat where
  "max_preview = 16 * 1024"

definition read_preview :: "string + string \<Rightarrow> string + string \<Rightarrow> string \<times> string" where
  "read_preview info contents =
     (case contents of
        Inl _ \<Rightarrow> ('''', spanish ''No se pudo leer el log.'')
      | Inr text \<Rightarrow> (case info of Inl _ \<Rightarrow> take max_preview text | Inr _ \<Rightarrow> drop (length text - max_preview) text, ''''))"

text \<open>The preview of a log and, where there is none, the reason.\<close>

definition deploymentLogPreview :: "string \<Rightarrow> world \<Rightarrow> config \<Rightarrow> string \<Rightarrow> (string \<times> string) prog" where
  "deploymentLogPreview cwd w c logPath =
     (case deploymentLogPath cwd c logPath of
        Inl _ \<Rightarrow> State_Monad.return ('''', spanish ''El log no est~a disponible.'')
      | Inr path \<Rightarrow> do {
          opened \<leftarrow> disk w (OpenFile path);
          case opened of
            Inl err \<Rightarrow> State_Monad.return ('''',
              if is_not_exist err then spanish ''El worker todav~ia no ha creado el log.'' else ''No se pudo abrir el log.'')
          | Inr _ \<Rightarrow> do {
              info \<leftarrow> disk w (Stat path);
              contents \<leftarrow> disk w (ReadFile path);
              State_Monad.return (read_preview info contents)
            }
        })"

definition shown :: "string \<times> string \<Rightarrow> string" where
  "shown r = (if fst r = '''' then snd r else fst r)"

section \<open>The log stream\<close>

datatype stream_stop = Gone | Finished | Client_Left

definition finished_status :: "string \<Rightarrow> bool" where
  "finished_status status \<longleftrightarrow> status = ''successful'' \<or> status = ''failed''"

text \<open>
  The texts sent and why the stream stopped; \<open>None\<close> if it is still open after the given number of
  rounds. Between two rounds the stream waits half a second or until the client has left.
\<close>

fun log_stream ::
    "neighbours \<Rightarrow> string \<Rightarrow> world \<Rightarrow> config \<Rightarrow> int \<Rightarrow> int \<Rightarrow> string \<Rightarrow> nat \<Rightarrow> (string list \<times> stream_stop) option job" where
  "log_stream nb cwd w c appID i lst 0 = State_Monad.return None"
| "log_stream nb cwd w c appID i lst (Suc n) = do {
     r \<leftarrow> store_read nb (Deployment appID i);
     case r of
       Inl _ \<Rightarrow> State_Monad.return (Some ([], Gone))
     | Inr d \<Rightarrow> do {
         preview \<leftarrow> run_outside (deploymentLogPreview cwd w c (d_log_path d));
         let v = shown preview;
         let sent = (if v \<noteq> lst then [v] else []);
         if finished_status (d_status d) then State_Monad.return (Some (sent, Finished))
         else do {
           left \<leftarrow> run_outside (sleep w (500 * millisecond));
           if left \<noteq> None then State_Monad.return (Some (sent, Client_Left))
           else do {
             rest \<leftarrow> log_stream nb cwd w c appID i v n;
             State_Monad.return (map_option (\<lambda>(more, stop). (sent @ more, stop)) rest)
           }
         }
       }
   }"

definition log_event :: "string \<Rightarrow> string" where
  "log_event v = ''event: log'' @ [CHR 0x0A] @ ''data: '' @ json_string v @ [CHR 0x0A, CHR 0x0A]"

text \<open>\<open>flusher\<close>: whether the connection can be flushed; \<open>rounds\<close> bounds the stream.\<close>

definition deploymentLogStream ::
    "neighbours \<Rightarrow> string \<Rightarrow> world \<Rightarrow> config \<Rightarrow> bool \<Rightarrow> request \<Rightarrow> nat \<Rightarrow> (reply + (string list \<times> stream_stop) option) job" where
  "deploymentLogStream nb cwd w c flusher rq rounds = do {
     ok \<leftarrow> app_call nb (\<lambda>t ap. (ap, authorized t rq ap));
     if \<not> ok then State_Monad.return (Inl (Redirect ''/unlock''))
     else do {
       r \<leftarrow> store_read nb (applicationData rq);
       case r of
         Inl _ \<Rightarrow> State_Monad.return (Inl Not_Found)
       | Inr (a, _) \<Rightarrow>
           (case parse_int (rq_path_value rq ''deploymentID'') of
              None \<Rightarrow> State_Monad.return (Inl Not_Found)
            | Some i \<Rightarrow>
                if i < 1 then State_Monad.return (Inl Not_Found)
                else if \<not> flusher then State_Monad.return (Inl (HttpError 500 ''streaming is not supported''))
                else do {
                  sent \<leftarrow> log_stream nb cwd w c (app_id a) i [CHR 0x00] rounds;
                  State_Monad.return (Inr (map_option (\<lambda>(vs, stop). (map log_event vs, stop)) sent))
                })
     }
   }"

section \<open>Log pages\<close>

definition matching_lines :: "string \<Rightarrow> string \<Rightarrow> string" where
  "matching_lines q text = concat (map (\<lambda>line. line @ [CHR 0x0A])
     (filter (\<lambda>line. contains_str (to_lower line) q) (split_on (CHR 0x0A) text)))"

definition filtered :: "request \<Rightarrow> string \<Rightarrow> string" where
  "filtered rq text = (let q = to_lower (rq_form rq ''q'') in if q \<noteq> '''' then matching_lines q text else text)"

definition max_log :: nat where
  "max_log = 2 * 1024 * 1024"

definition for_application_prog :: "time \<Rightarrow> request \<Rightarrow> app \<Rightarrow> (application \<Rightarrow> reply prog) \<Rightarrow> reply prog" where
  "for_application_prog t0 rq ap body =
     (if \<not> authorized t0 rq ap then State_Monad.return (Redirect ''/unlock'')
      else case applicationData rq (ap_db ap) of Inl _ \<Rightarrow> State_Monad.return Not_Found | Inr (a, _) \<Rightarrow> body a)"

definition serve_log :: "world \<Rightarrow> request \<Rightarrow> string \<Rightarrow> reply prog" where
  "serve_log w rq path = do {
     opened \<leftarrow> disk w (OpenFile path);
     case opened of
       Inl err \<Rightarrow> State_Monad.return (if is_not_exist err then HttpError 404 ''deployment log is not available yet''
         else HttpError 503 ''deployment log unavailable'')
     | Inr _ \<Rightarrow> do {
         contents \<leftarrow> disk w (ReadFile path);
         State_Monad.return (Page 200 ''text'' (case contents of Inl _ \<Rightarrow> '''' | Inr text \<Rightarrow> filtered rq (take max_log text)))
       }
   }"

definition deploymentLogs :: "time \<Rightarrow> string \<Rightarrow> world \<Rightarrow> request \<Rightarrow> app \<Rightarrow> reply prog" where
  "deploymentLogs t0 cwd w rq ap = for_application_prog t0 rq ap (\<lambda>a.
     case parse_int (rq_path_value rq ''deploymentID'') of
       None \<Rightarrow> State_Monad.return Not_Found
     | Some i \<Rightarrow>
         if i < 1 then State_Monad.return Not_Found
         else (case Deployment (app_id a) i (ap_db ap) of
             Inl _ \<Rightarrow> State_Monad.return Not_Found
           | Inr d \<Rightarrow>
               (case deploymentLogPath cwd (ap_config ap) (d_log_path d) of
                  Inl _ \<Rightarrow> State_Monad.return Not_Found
                | Inr path \<Rightarrow> serve_log w rq path)))"

text \<open>\<open>printed\<close> is what the runtime writes while \<open>Logs\<close> runs.\<close>

definition applicationLogs :: "time \<Rightarrow> world \<Rightarrow> executor \<Rightarrow> (application \<Rightarrow> string) \<Rightarrow> request \<Rightarrow> app \<Rightarrow> reply prog" where
  "applicationLogs t0 w e printed rq ap = for_application_prog t0 rq ap (\<lambda>a. do {
     err \<leftarrow> Logs w e a;
     State_Monad.return (if err \<noteq> None then HttpError 502 ''container logs unavailable'' else Page 200 ''text'' (filtered rq (printed a)))
   })"

definition controlApplication :: "time \<Rightarrow> world \<Rightarrow> executor \<Rightarrow> request \<Rightarrow> app \<Rightarrow> reply prog" where
  "controlApplication t0 w e rq ap = for_application_prog t0 rq ap (\<lambda>a. do {
     err \<leftarrow> Control w e a (rq_path_value rq ''action'');
     State_Monad.return (if err \<noteq> None then HttpError 502 ''container action failed''
       else Redirect (''/applications/'' @ rq_path_value rq ''id''))
   })"

section \<open>Preview of the retention\<close>

record cleanup_candidate =
  cc_application_name :: string
  cc_deployment_id :: int
  cc_image :: string
  cc_log_path :: string
  cc_log_size :: string
  cc_age_days :: int

record cleanup_preview =
  cu_candidates :: "cleanup_candidate list"
  cu_total_logs_size :: string
  cu_total_images :: int
  cu_retention_days :: int
  cu_retained_images :: int

definition whole_days :: "duration \<Rightarrow> int" where
  "whole_days d = (if d < 0 then - (- d div day_length) else d div day_length)"

text \<open>One candidate with the size of its log; \<open>size_of\<close> is the size that a file system reports.\<close>

definition preview_candidate ::
    "string \<Rightarrow> world \<Rightarrow> (history \<Rightarrow> string \<Rightarrow> string + int) \<Rightarrow> config \<Rightarrow> application \<Rightarrow> deployment \<Rightarrow> (cleanup_candidate \<times> int) prog" where
  "preview_candidate cwd w size_of c a d = do {
     stat \<leftarrow> (case deploymentLogPath cwd c (d_log_path d) of
         Inl _ \<Rightarrow> State_Monad.return (Inl '''')
       | Inr path \<Rightarrow> perform (Disk (Stat path)) (\<lambda>h. size_of h path));
     t \<leftarrow> now w;
     State_Monad.return (\<lparr>cc_application_name = app_name a, cc_deployment_id = d_id d, cc_image = d_image d, cc_log_path = d_log_path d,
        cc_log_size = (case stat of Inl _ \<Rightarrow> '''' | Inr n \<Rightarrow> w_quotient w n 1024 @ '' KB''), cc_age_days = whole_days (t - d_started_at d)\<rparr>,
       case stat of Inl _ \<Rightarrow> 0 | Inr n \<Rightarrow> n)
   }"

fun preview_candidates ::
    "string \<Rightarrow> world \<Rightarrow> (history \<Rightarrow> string \<Rightarrow> string + int) \<Rightarrow> config \<Rightarrow> application \<Rightarrow> deployment list \<Rightarrow>
     (cleanup_candidate \<times> int) list prog" where
  "preview_candidates cwd w size_of c a [] = State_Monad.return []"
| "preview_candidates cwd w size_of c a (d # ds) = do {
     x \<leftarrow> preview_candidate cwd w size_of c a d;
     xs \<leftarrow> preview_candidates cwd w size_of c a ds;
     State_Monad.return (x # xs)
   }"

fun preview_applications ::
    "string \<Rightarrow> world \<Rightarrow> (history \<Rightarrow> string \<Rightarrow> string + int) \<Rightarrow> config \<Rightarrow> time \<Rightarrow> db \<Rightarrow> application list \<Rightarrow>
     (cleanup_candidate \<times> int) list prog" where
  "preview_applications cwd w size_of c before s [] = State_Monad.return []"
| "preview_applications cwd w size_of c before s (a # as) = do {
     xs \<leftarrow> preview_candidates cwd w size_of c a (RetentionCandidates (app_id a) before (retainedImages c) s);
     ys \<leftarrow> preview_applications cwd w size_of c before s as;
     State_Monad.return (xs @ ys)
   }"

definition count_images :: "time \<Rightarrow> config \<Rightarrow> db \<Rightarrow> int" where
  "count_images before c s = int (length (filter (\<lambda>d. d_image d \<noteq> '''' \<and> d_status d = ''successful'')
     (concat (map (\<lambda>a. RetentionCandidates (app_id a) before (retainedImages c) s) (Applications s)))))"

definition retentionPreview ::
    "time \<Rightarrow> string \<Rightarrow> world \<Rightarrow> (history \<Rightarrow> string \<Rightarrow> string + int) \<Rightarrow> request \<Rightarrow> app \<Rightarrow> (reply + cleanup_preview) prog" where
  "retentionPreview t0 cwd w size_of rq ap =
     (if \<not> authorized t0 rq ap then State_Monad.return (Inl (Redirect ''/unlock''))
      else do {
        t \<leftarrow> now w;
        let c = ap_config ap;
        let before = t - retentionDays c * day_length;
        xs \<leftarrow> preview_applications cwd w size_of c before (ap_db ap) (Applications (ap_db ap));
        State_Monad.return (Inr \<lparr>cu_candidates = map fst xs, cu_total_logs_size = w_quotient w (sum_list (map snd xs)) (1024 * 1024) @ '' MB'',
          cu_total_images = count_images before c (ap_db ap), cu_retention_days = retentionDays c, cu_retained_images = retainedImages c\<rparr>)
      })"

end
