(* ===== verification/App_Overview.thy ===== *)
theory App_Overview
  imports App_Pages App_Logs
begin

text \<open>
  What the panel shows (\<^verbatim>\<open>server.go\<close> and \<^verbatim>\<open>operations.go\<close>): the dashboard, the
  detail of an application, its secrets, the forms and the operations page. Every page is the record of the
  values that its view gets; the texts of dates and numbers are made by the views.
\<close>

definition page_for :: "time \<Rightarrow> request \<Rightarrow> app \<Rightarrow> (application \<Rightarrow> deployment list \<Rightarrow> 'a prog) \<Rightarrow> (reply + 'a) prog" where
  "page_for t0 rq ap body =
     (if \<not> authorized t0 rq ap then State_Monad.return (Inl (Redirect ''/unlock''))
      else case applicationData rq (ap_db ap) of
          Inl _ \<Rightarrow> State_Monad.return (Inl Not_Found)
        | Inr (a, ds) \<Rightarrow> do { x \<leftarrow> body a ds; State_Monad.return (Inr x) })"

section \<open>Dashboard and forms\<close>

text \<open>The phase of the project that the panel names: number, name, state and what comes next.\<close>

definition currentPhase :: "int \<times> string \<times> string \<times> string" where
  "currentPhase = (6, spanish ''Flujo guiado y automatizaci~on'', ''En progreso'', spanish ''Validar un despliegue real y las reglas de automatizaci~on'')"

record dashboard_data =
  db_environment :: string
  db_applications :: "application list"
  db_nodes :: "node list"
  db_phase :: "int \<times> string \<times> string \<times> string"
  db_csrf_token :: string
  db_readiness :: host_preflight

definition dashboard :: "time \<Rightarrow> services \<Rightarrow> surroundings \<Rightarrow> world \<Rightarrow> bool \<Rightarrow> request \<Rightarrow> app \<Rightarrow> (reply + dashboard_data) prog" where
  "dashboard t0 sv su w socket rq ap =
     (if \<not> IsInitialized (ap_db ap) then State_Monad.return (Inl (Redirect ''/setup''))
      else if \<not> authorized t0 rq ap then State_Monad.return (Inl (Redirect ''/unlock''))
      else do {
        readiness \<leftarrow> RunHostPreflightCheck su w socket (ap_config ap);
        State_Monad.return (Inr \<lparr>db_environment = cfg_environment (ap_config ap), db_applications = Applications (ap_db ap),
          db_nodes = Nodes (ap_db ap), db_phase = currentPhase, db_csrf_token = csrfToken sv rq ap, db_readiness = readiness\<rparr>)
      })"

definition setupForm :: "app \<Rightarrow> reply" where
  "setupForm ap = (if IsInitialized (ap_db ap) then Redirect ''/unlock'' else Page 200 ''Setup'' '''')"

definition unlockForm :: "time \<Rightarrow> request \<Rightarrow> app \<Rightarrow> reply" where
  "unlockForm t0 rq ap =
     (if \<not> IsInitialized (ap_db ap) then Redirect ''/setup''
      else if authorized t0 rq ap then Redirect ''/''
      else Page 200 ''Unlock'' '''')"

record form_data =
  fd_application :: application
  fd_error :: string
  fd_csrf_token :: string
  fd_readiness :: host_preflight

definition renderApplicationForm ::
    "services \<Rightarrow> surroundings \<Rightarrow> world \<Rightarrow> bool \<Rightarrow> request \<Rightarrow> application \<Rightarrow> string \<Rightarrow> int \<Rightarrow> app \<Rightarrow> (int \<times> form_data) prog" where
  "renderApplicationForm sv su w socket rq a message status ap = do {
     readiness \<leftarrow> RunHostPreflightCheck su w socket (ap_config ap);
     State_Monad.return (status, \<lparr>fd_application = a, fd_error = message, fd_csrf_token = csrfToken sv rq ap, fd_readiness = readiness\<rparr>)
   }"

definition blank_application :: application where
  "blank_application = \<lparr>app_id = 0, app_name = '''', app_repository = '''', app_branch = ''main'', app_work_dir = ''.'',
     app_type = ''static'', app_build_command = '''', app_run_command = '''', app_internal_port = 8080, app_domain = '''',
     app_runtime = ''auto'', app_deploy_on_push = False, app_require_confirmation = False, app_auto_rollback = False,
     app_github_installation_id = 0, app_health_endpoint = '''', app_created_at = zero_time\<rparr>"

definition applicationForm ::
    "time \<Rightarrow> services \<Rightarrow> surroundings \<Rightarrow> world \<Rightarrow> bool \<Rightarrow> request \<Rightarrow> app \<Rightarrow> (reply + int \<times> form_data) prog" where
  "applicationForm t0 sv su w socket rq ap =
     (if \<not> authorized t0 rq ap then State_Monad.return (Inl (Redirect ''/unlock''))
      else do { form \<leftarrow> renderApplicationForm sv su w socket rq blank_application '''' 200 ap; State_Monad.return (Inr form) })"

section \<open>Detail of an application\<close>

record detail_data =
  de_application :: application
  de_deployments :: "deployment list"
  de_deployed_version :: string
  de_container :: "container_status option"
  de_container_error :: string
  de_log_preview :: string
  de_log_preview_error :: string
  de_runtime_notice :: string
  de_phase :: "int \<times> string \<times> string \<times> string"
  de_pipeline :: "pipeline option"
  de_csrf_token :: string
  de_has_secrets :: bool
  de_health :: "evidence result"
  de_notice :: string
  de_error :: string
  de_preflight :: preflight

definition deployed_version :: "deployment list \<Rightarrow> string" where
  "deployed_version ds =
     (case find (\<lambda>d. d_status d = ''successful'' \<and> d_image d \<noteq> '''') ds of None \<Rightarrow> '''' | Some d \<Rightarrow> d_image d)"

definition newest_preview :: "string \<Rightarrow> world \<Rightarrow> config \<Rightarrow> deployment list \<Rightarrow> (string \<times> string) prog" where
  "newest_preview cwd w c ds =
     (case ds of [] \<Rightarrow> State_Monad.return ('''', '''') | d # _ \<Rightarrow> deploymentLogPreview cwd w c (d_log_path d))"

definition newest_pipeline :: "world \<Rightarrow> (int \<Rightarrow> string) \<Rightarrow> string \<Rightarrow> deployment list \<Rightarrow> pipeline option" where
  "newest_pipeline w tenths preview ds =
     (case ds of [] \<Rightarrow> None | d # _ \<Rightarrow> Some (computePipelineStatus w tenths d (runtimePreflightFailure preview)))"

definition applicationDetail ::
    "time \<Rightarrow> services \<Rightarrow> surroundings \<Rightarrow> string \<Rightarrow> world \<Rightarrow> executor \<Rightarrow> bool \<Rightarrow> (int \<Rightarrow> string) \<Rightarrow> request \<Rightarrow> app \<Rightarrow>
     (reply + detail_data) prog" where
  "applicationDetail t0 sv su cwd w e socket tenths rq ap = page_for t0 rq ap (\<lambda>a ds. do {
     diagnostics \<leftarrow> RuntimeDiagnostics w;
     (preview, problem) \<leftarrow> newest_preview cwd w (ap_config ap) ds;
     container \<leftarrow> Status w e a;
     check \<leftarrow> RunPreflightCheck su w socket (ap_config ap) a;
     State_Monad.return \<lparr>de_application = a, de_deployments = ds, de_deployed_version = deployed_version ds,
       de_container = (case container of Inl _ \<Rightarrow> None | Inr st \<Rightarrow> Some st),
       de_container_error = (case container of Inl err \<Rightarrow> ''No disponible: '' @ detail_text err | Inr _ \<Rightarrow> ''''),
       de_log_preview = preview, de_log_preview_error = problem, de_runtime_notice = runtimeNotice diagnostics, de_phase = currentPhase,
       de_pipeline = newest_pipeline w tenths preview ds, de_csrf_token = csrfToken sv rq ap,
       de_has_secrets = HasSecrets (app_id a) (ap_db ap), de_health = HealthEvidence (app_id a) (ap_db ap),
       de_notice = rq_form rq ''notice'', de_error = rq_form rq ''error'', de_preflight = check\<rparr>
   })"

section \<open>Secrets of an application\<close>

record secrets_data =
  sd_application :: application
  sd_environment :: string
  sd_target :: string
  sd_secrets :: "secret_metadata list"
  sd_configuration :: "configuration_row list"
  sd_audit :: "secret_audit list"
  sd_error :: string
  sd_csrf_token :: string

definition renderSecrets :: "services \<Rightarrow> request \<Rightarrow> application \<Rightarrow> string \<Rightarrow> string \<Rightarrow> string \<Rightarrow> app \<Rightarrow> secrets_data" where
  "renderSecrets sv rq a env target message ap =
     \<lparr>sd_application = a, sd_environment = env, sd_target = target,
      sd_secrets = ApplicationSecrets (app_id a) env target (ap_db ap),
      sd_configuration = ApplicationConfiguration (app_id a) env target (ap_db ap),
      sd_audit = SecretAudit (app_id a) (ap_db ap), sd_error = message, sd_csrf_token = csrfToken sv rq ap\<rparr>"

definition secretsPage :: "time \<Rightarrow> services \<Rightarrow> request \<Rightarrow> app \<Rightarrow> reply + secrets_data" where
  "secretsPage t0 sv rq ap =
     (if \<not> authorized t0 rq ap then Inl (Redirect ''/unlock'')
      else case applicationData rq (ap_db ap) of
          Inl _ \<Rightarrow> Inl Not_Found
        | Inr (a, _) \<Rightarrow> Inr (renderSecrets sv rq a (secretEnvironment (rq_form rq ''environment'')) (secretTarget (rq_form rq ''target'')) '''' ap))"

section \<open>Operations\<close>

record operation_row =
  or_application :: application
  or_deployment :: "deployment option"
  or_container :: "container_status option"
  or_unavailable :: string
  or_health :: "evidence result"

record operations_data =
  od_applications :: "operation_row list"
  od_alerts :: "alert list"
  od_resolved_alerts :: "alert list"
  od_disk_used :: string
  od_disk_compliant :: bool
  od_disk_budget :: int
  od_build_percent :: rat
  od_build_limit :: int
  od_build_compliant :: bool
  od_routing_percent :: rat
  od_routing_compliant :: bool
  od_retention_days :: int
  od_retained_images :: int
  od_cleanup_schedule :: string
  od_last_success :: string
  od_last_error :: string
  od_backup_age :: string
  od_last_restore :: string
  od_csrf_token :: string

definition cached_alert :: "time \<Rightarrow> string \<times> string \<Rightarrow> alert" where
  "cached_alert t c = \<lparr>al_id = 0, al_severity = fst c, al_message = snd c, al_application_id = None, al_deployment_id = None,
     al_resolved = False, al_created_at = t, al_resolved_at = None\<rparr>"

text \<open>Alerts of the cache that the database does not have are shown too.\<close>

fun merge_alerts :: "time \<Rightarrow> alert list \<Rightarrow> (string \<times> string) list \<Rightarrow> alert list" where
  "merge_alerts t active [] = active"
| "merge_alerts t active (c # cs) =
     merge_alerts t (if list_ex (\<lambda>a. al_message a = snd c) active then active else active @ [cached_alert t c]) cs"

definition operation_row_of :: "caches \<Rightarrow> db \<Rightarrow> application \<Rightarrow> operation_row" where
  "operation_row_of ca s a =
     \<lparr>or_application = a, or_deployment = (case Deployments (app_id a) s of [] \<Rightarrow> None | d # _ \<Rightarrow> Some d),
      or_container = (case map_of (ca_status_err ca) (app_id a) of Some _ \<Rightarrow> None | None \<Rightarrow> map_of (ca_status ca) (app_id a)),
      or_unavailable = (case map_of (ca_status_err ca) (app_id a) of Some err \<Rightarrow> err | None \<Rightarrow> ''''),
      or_health = HealthEvidence (app_id a) s\<rparr>"

text \<open>\<open>age_of\<close> is the text of the time since a date in RFC 3339, if it is one.\<close>

definition backup_age :: "(string \<Rightarrow> string option) \<Rightarrow> string \<Rightarrow> string" where
  "backup_age age_of lastSuccess =
     (if lastSuccess = '''' then spanish ''Ning~un backup realizado''
      else case age_of lastSuccess of Some text \<Rightarrow> text @ spanish '' atr~as'' | None \<Rightarrow> lastSuccess)"

definition operations ::
    "time \<Rightarrow> services \<Rightarrow> surroundings \<Rightarrow> time \<Rightarrow> (string \<Rightarrow> string option) \<Rightarrow> caches \<Rightarrow> request \<Rightarrow> app \<Rightarrow>
     (reply + operations_data) prog" where
  "operations t0 sv su t age_of ca rq ap =
     (let c = ap_config ap; s = ap_db ap
      in if \<not> authorized t0 rq ap then State_Monad.return (Inl (Redirect ''/unlock''))
         else do {
           usage \<leftarrow> diskUsage su (cfg_database_path c);
           let used = (case usage of Inl _ \<Rightarrow> 0 | Inr (used, _) \<Rightarrow> used);
           let build = BuildDurationSLO (cfg_slo_build_duration_minutes c * 60 * 1000) s;
           let routing = RoutingSLO (t - cfg_slo_probe_window c) s;
           let restored = SettingString ''backup_last_restore_test'' s;
           State_Monad.return (Inr \<lparr>od_applications = map (operation_row_of ca s) (Applications s),
             od_alerts = merge_alerts t (GetActiveAlerts s) (ca_alerts ca), od_resolved_alerts = GetResolvedAlerts s,
             od_disk_used = ca_disk_used ca, od_disk_compliant = (used \<le> of_int (cfg_disk_alert_percent c)),
             od_disk_budget = cfg_disk_alert_percent c, od_build_percent = build, od_build_limit = cfg_slo_build_duration_minutes c,
             od_build_compliant = (build \<ge> 95), od_routing_percent = routing,
             od_routing_compliant = (routing \<ge> 99), od_retention_days = retentionDays c,
             od_retained_images = retainedImages c, od_cleanup_schedule = AutomationSettings s,
             od_last_success = SettingString ''backup_last_success'' s, od_last_error = SettingString ''backup_last_error'' s,
             od_backup_age = backup_age age_of (SettingString ''backup_last_success'' s),
             od_last_restore = (if restored = '''' then spanish ''No ensayada a~un'' else restored),
             od_csrf_token = csrfToken sv rq ap\<rparr>)
         })"

end
