(* ===== verification/Pages_Props.thy ===== *)
theory Pages_Props
  imports App_Overview Cloudflare_Status Store_Guards_Props
begin

text \<open>The pages: progress is shown as a front, exports hide what they promise to hide, the log stream ends with the final log.\<close>

section \<open>Progress\<close>

text \<open>How many steps are done, and what is shown at the front.\<close>

definition steps_done :: "deployment \<Rightarrow> bool \<Rightarrow> nat" where
  "steps_done d preflightFailed =
     (if preflightFailed then 0
      else if d_status d = ''running'' then 2
      else if d_status d = ''successful'' then 6
      else if d_status d \<noteq> ''failed'' then 1
      else if d_failure_stage d = ''start'' then (if d_failure_code d = ''runtime_unavailable'' then 0 else 3)
      else if d_failure_stage d = ''source'' then 1
      else if d_failure_stage d = ''build'' then 2
      else if d_failure_stage d = ''health'' then 4
      else if d_failure_stage d = ''route'' then 5
      else 3)"

definition front :: "deployment \<Rightarrow> bool \<Rightarrow> string list" where
  "front d preflightFailed =
     (if preflightFailed \<or> d_status d = ''failed'' then [''failed'']
      else if d_status d = ''queued'' then [''active'']
      else if d_status d = ''running'' then [''active'', ''active'']
      else [])"

text \<open>
  The six steps of a deployment are shown as a front: some are done, then comes the step that failed or
  those that run, and the rest is pending. Exactly one step is shown as failed if the deployment failed
  or its check did, none otherwise.
\<close>

theorem progress_is_a_front:
  "map fst (pl_steps (computePipelineStatus w tenths d preflightFailed)) =
     replicate (steps_done d preflightFailed) ''done'' @ front d preflightFailed @
     replicate (6 - steps_done d preflightFailed - length (front d preflightFailed)) ''pending''"
  by (simp add: computePipelineStatus_def pl_steps_def steps_done_def front_def all_done_def mark_failure_def Let_def
      not_started_def pending_step_def done_step_def eval_nat_numeral)

section \<open>Exports\<close>

lemma insort_map: "insort_key f (g x) (map g xs) = map g (insort_key (f \<circ> g) x xs)"
  by (induction xs) simp_all

lemma sort_map: "sort_key f (map g xs) = map g (sort_key (f \<circ> g) xs)"
  by (induction xs) (simp_all add: insort_map comp_def)

definition public_node :: "node \<Rightarrow> node" where
  "public_node n = n\<lparr>node_fingerprint := '''', node_created_at := 0\<rparr>"

definition public_row :: "deployment_row \<Rightarrow> deployment_row" where
  "public_row r = r\<lparr>dr_log_path := ''''\<rparr>"

lemma nodes_public: "map public_node (Nodes s) = sort_key node_name (sort_key node_id (map public_node (nodes s)))"
  by (simp add: Nodes_def sort_map comp_def public_node_def)

lemma node_json_public: "node_json stamp (public_node n) = node_json stamp n"
  by (simp add: node_json_def public_node_def)

lemma nodes_json_public: "map (node_json stamp) (Nodes s) = map (node_json stamp) (sort_key node_name (sort_key node_id (map public_node (nodes s))))"
  unfolding nodes_public [symmetric] by (simp add: node_json_public)

lemma find_public:
  "map_option public_row (find (\<lambda>r. dr_application_id r = a \<and> dr_id r = i) rows) =
     find (\<lambda>r. dr_application_id r = a \<and> dr_id r = i) (map public_row rows)"
  by (induction rows) (simp_all add: public_row_def)

lemma report_public: "report_json stamp a (scan_deployment (public_row r)) = report_json stamp a (scan_deployment r)"
  by (simp add: report_json_def release_json_def scan_deployment_def scan_release_def public_row_def)

lemma report_by_row:
  "(case Deployment a i s of Inl e \<Rightarrow> Not_Found | Inr d \<Rightarrow> json_page (report_json stamp ap d)) =
   (case find (\<lambda>r. dr_application_id r = a \<and> dr_id r = i) (map public_row (deployments s)) of
      None \<Rightarrow> Not_Found | Some r \<Rightarrow> json_page (report_json stamp ap (scan_deployment r)))"
  unfolding find_public [symmetric]
  by (cases "find (\<lambda>r. dr_application_id r = a \<and> dr_id r = i) (deployments s)") (simp_all add: Deployment_def report_public)

text \<open>
  C39: exports hide what they promise to hide. A release report depends on nothing but the applications and
  the deployments without their log paths, so neither log paths nor secrets nor configuration nor
  settings can be read from it; the inventory of nodes depends on the nodes without their
  certificate fingerprints.
\<close>

theorem exports_hide_paths_secrets_and_certificates:
  assumes "authorized t0 rq ap = authorized t0 rq ap'"
    and "applications (ap_db ap) = applications (ap_db ap')"
    and "map public_row (deployments (ap_db ap)) = map public_row (deployments (ap_db ap'))"
    and "map public_node (nodes (ap_db ap)) = map public_node (nodes (ap_db ap'))"
  shows "releaseReport stamp t0 rq ap = releaseReport stamp t0 rq ap' \<and> nodesAPI stamp t0 rq ap = nodesAPI stamp t0 rq ap'"
  using assms by (simp add: releaseReport_def Application_def report_by_row nodesAPI_def nodes_json_public split: option.split)

definition demo_report_app :: app where
  "demo_report_app = demo_secret_app\<lparr>ap_db := (ap_db demo_push_app)\<lparr>
     deployments := [new_deployment_row 3 7 ''successful'' ''web:1'' ''/var/log/3.log'' 5], nodes := [demo_node]\<rparr>\<rparr>"

definition demo_other_app :: app where
  "demo_other_app = demo_secret_app\<lparr>ap_db := (ap_db demo_push_app)\<lparr>
     deployments := [new_deployment_row 3 7 ''successful'' ''web:1'' ''/elsewhere/log'' 5],
     nodes := [demo_node\<lparr>node_fingerprint := ''sha256:bb''\<rparr>],
     secrets := [\<lparr>sec_scope = ''app:7'', sec_name = ''TOKEN'', sec_nonce = [1], sec_ciphertext = [2], sec_updated_at = 3\<rparr>]\<rparr>\<rparr>"

theorem exports_hide_paths_secrets_and_certificates_witness:
  "releaseReport show_int 100 demo_secret_form demo_report_app = releaseReport show_int 100 demo_secret_form demo_other_app \<and>
   nodesAPI show_int 100 demo_secret_form demo_report_app = nodesAPI show_int 100 demo_secret_form demo_other_app"
  by (rule exports_hide_paths_secrets_and_certificates)
    (simp_all add: demo_report_app_def demo_other_app_def authorized_def demo_secret_app_def demo_secret_form_def demo_request_def
      public_row_def public_node_def new_deployment_row_def)

section \<open>The log stream\<close>

lemma run_job_outside: "run_state (run_outside p) (ap, h, k) = (x, (ap', h', k')) \<Longrightarrow> ap' = ap \<and> k' = k \<and> run_state p h = (x, h')"
  by (auto simp: run_outside_run split: prod.splits)

lemma read_deployment:
  "run_state (store_read nb f) (ap, h, k) = (x, (ap', h', k')) \<Longrightarrow> x = f (ap_db ap') \<and> h' = h"
  by (auto simp: store_read_def store_call_def app_call_def Let_def case_prod_beta)

lemma preview_bounded: "run_state (deploymentLogPreview cwd w c p) h = (pm, h') \<Longrightarrow> length (shown pm) \<le> max_preview"
  by (auto simp: deploymentLogPreview_def shown_def read_preview_def disk_def max_preview_def split: sum.splits if_splits)

lemma stream_round:
  assumes "run_state (log_stream nb cwd w c a i lst (Suc n)) (ap, h, k) = (Some (es, stop), (ap', h', k'))"
  obtains (gone) "es = []" "stop = Gone"
    | (finished) d h1 ap1 where "Deployment a i (ap_db ap') = Inr d" "finished_status (d_status d)" "stop = Finished"
        "es = (if shown ap1 \<noteq> lst then [shown ap1] else [])"
        "run_state (deploymentLogPreview cwd w c (d_log_path d)) h1 = (ap1, h')"
    | (left) v where "length v \<le> max_preview" "es = (if v \<noteq> lst then [v] else [])" "stop = Client_Left"
    | (more) v ap2 h2 k2 es' where "length v \<le> max_preview" "es = (if v \<noteq> lst then [v] else []) @ es'"
        "run_state (log_stream nb cwd w c a i v n) (ap2, h2, k2) = (Some (es', stop), (ap', h', k'))"
proof -
  obtain r ap1 h1 k1 where r: "run_state (store_read nb (Deployment a i)) (ap, h, k) = (r, (ap1, h1, k1))"
    by (metis prod.exhaust)
  note read = read_deployment [OF r]
  show thesis
  proof (cases r)
    case (Inl e)
    with assms r show thesis by (intro gone) simp_all
  next
    case (Inr d)
    obtain pm h2 where p: "run_state (deploymentLogPreview cwd w c (d_log_path d)) h1 = (pm, h2)" by fastforce
    note bound = preview_bounded [OF p]
    show thesis
    proof (cases "finished_status (d_status d)")
      case True
      with assms r Inr p read show thesis by (intro finished [of d pm h1]) (simp_all add: run_outside_run Let_def)
    next
      case False
      obtain e h3 where s: "run_state (sleep w (500 * millisecond)) h2 = (e, h3)" by fastforce
      show thesis
      proof (cases e)
        case (Some x)
        with assms r Inr p False s bound show thesis by (intro left [of "shown pm"]) (simp_all add: run_outside_run Let_def)
      next
        case None
        obtain q ap4 h4 k4 where q: "run_state (log_stream nb cwd w c a i (shown pm) n) (ap1, h3, k1) = (q, (ap4, h4, k4))"
          by (metis prod.exhaust)
        with assms r Inr p False s None bound show thesis
          by (cases q) (auto simp: run_outside_run Let_def intro!: more [of "shown pm"])
      qed
    qed
  qed
qed

lemma stream_sends:
  assumes "run_state (log_stream nb cwd w c a i lst n) (ap, h, k) = (Some (vs, stop), (ap', h', k'))"
  shows "list_all (\<lambda>v. length v \<le> max_preview) vs \<and> successively (\<noteq>) (lst # vs) \<and>
    (stop = Finished \<longrightarrow> (\<exists>d h1 pm. Deployment a i (ap_db ap') = Inr d \<and> finished_status (d_status d) \<and>
       run_state (deploymentLogPreview cwd w c (d_log_path d)) h1 = (pm, h') \<and> last (lst # vs) = shown pm))"
  using assms
proof (induction n arbitrary: lst ap h k vs)
  case (Suc n)
  from Suc.prems show ?case
  proof (cases rule: stream_round)
    case (more v ap2 h2 k2 es')
    from Suc.IH [OF more(3)] more(1,2) show ?thesis by (cases "v = lst") auto
  qed (auto dest: preview_bounded)
qed simp

text \<open>
  C40: the log stream of a deployment sends previews of at most 16 KiB, never the same one twice in a row, and
  when it stops because the deployment is finished, it has read the log after it saw the final status and
  the last text sent is what it read then: no end of a log is lost.
\<close>

theorem log_stream_ends_with_the_final_log:
  assumes "run_state (deploymentLogStream nb cwd w c flusher rq rounds) (ap, h, k) = (Inr (Some (es, stop)), (ap', h', k'))"
  shows "\<exists>a i vs. parse_int (rq_path_value rq ''deploymentID'') = Some i \<and> 1 \<le> i \<and> es = map log_event vs \<and> list_all (\<lambda>v. length v \<le> max_preview) vs \<and> successively (\<noteq>) ([CHR 0x00] # vs) \<and>
    (stop = Finished \<longrightarrow> (\<exists>d h1 pm. Deployment a i (ap_db ap') = Inr d \<and> finished_status (d_status d) \<and>
       run_state (deploymentLogPreview cwd w c (d_log_path d)) h1 = (pm, h') \<and> last ([CHR 0x00] # vs) = shown pm))"
proof -
  from assms obtain a i vs ap1 h1 k1 where id: "parse_int (rq_path_value rq ''deploymentID'') = Some i" "1 \<le> i"
    and es: "es = map log_event vs"
    and run: "run_state (log_stream nb cwd w c a i [CHR 0x00] rounds) (ap1, h1, k1) = (Some (vs, stop), (ap', h', k'))"
    unfolding deploymentLogStream_def by (auto simp: not_less split: prod.splits if_splits sum.splits option.splits)
  from stream_sends [OF run] id es show ?thesis by blast
qed

definition demo_stream_app :: app where
  "demo_stream_app = demo_secret_app\<lparr>ap_config := (ap_config demo_secret_app)\<lparr>cfg_log_path := ''/srv/logs''\<rparr>,
     ap_db := (ap_db demo_push_app)\<lparr>deployments := [new_deployment_row 7 7 ''successful'' ''web:1'' ''/srv/logs/7.log'' 5]\<rparr>\<rparr>"

definition demo_log_disk :: world where
  "demo_log_disk = (demo_world ''healthy'')\<lparr>w_disk := (\<lambda>h c. Inr ''built'')\<rparr>"

lemma demo_log_path: "deploymentLogPath ''/'' (ap_config demo_stream_app) ''/srv/logs/7.log'' = Inr ''/srv/logs/7.log''"
proof -
  have "abs_path ''/'' ''/srv/logs'' = ''/srv/logs''" "abs_path ''/'' ''/srv/logs/7.log'' = ''/srv/logs/7.log''"
    "path_within ''/srv/logs'' ''/srv/logs/7.log''" by code_simp+
  then show ?thesis by (simp add: deploymentLogPath_def demo_stream_app_def Let_def)
qed

lemma parse_seven: "parse_int ''7'' = Some 7"
  by code_simp

lemma demo_streams:
  "\<exists>h' k'. run_state (deploymentLogStream demo_alone ''/'' demo_log_disk (ap_config demo_stream_app) True demo_secret_form 1)
     (demo_stream_app, [], 0) = (Inr (Some ([log_event ''built''], Finished)), (demo_stream_app, h', k'))"
proof -
  have "authorized 0 demo_secret_form demo_stream_app"
    by (simp add: authorized_def demo_stream_app_def demo_secret_app_def demo_secret_form_def demo_request_def)
  moreover have "\<exists>a. applicationData demo_secret_form (ap_db demo_stream_app) = Inr (a, Deployments 7 (ap_db demo_stream_app)) \<and> app_id a = 7"
    by (simp add: applicationData_def Application_def demo_secret_form_def demo_request_def demo_stream_app_def
        demo_push_app_def demo_push_application_def parse_seven)
  moreover have "\<exists>d. Deployment 7 7 (ap_db demo_stream_app) = Inr d \<and> d_status d = ''successful'' \<and> d_log_path d = ''/srv/logs/7.log''"
    by (simp add: Deployment_def demo_stream_app_def scan_deployment_def scan_release_def new_deployment_row_def)
  ultimately show ?thesis
    by (auto simp: deploymentLogStream_def store_read_def store_call_def app_call_def demo_alone_def Let_def run_outside_run finished_status_def
        deploymentLogPreview_def demo_log_path read_preview_def shown_def disk_def demo_log_disk_def max_preview_def)
qed

theorem log_stream_ends_with_the_final_log_witness:
  "\<exists>vs h1 h' d pm. [log_event ''built''] = map log_event vs \<and> Deployment 7 7 (ap_db demo_stream_app) = Inr d \<and>
     run_state (deploymentLogPreview ''/'' demo_log_disk (ap_config demo_stream_app) (d_log_path d)) h1 = (pm, h') \<and> last ([CHR 0x00] # vs) = shown pm"
proof -
  from demo_streams obtain h' k' where
    run: "run_state (deploymentLogStream demo_alone ''/'' demo_log_disk (ap_config demo_stream_app) True demo_secret_form 1)
      (demo_stream_app, [], 0) = (Inr (Some ([log_event ''built''], Finished)), (demo_stream_app, h', k'))" by blast
  note sends = log_stream_ends_with_the_final_log [OF run]
  obtain a i vs where vs: "[log_event ''built''] = map log_event vs"
    and fin: "Finished = Finished \<longrightarrow> (\<exists>d h1 pm. Deployment a i (ap_db demo_stream_app) = Inr d \<and> finished_status (d_status d) \<and>
       run_state (deploymentLogPreview ''/'' demo_log_disk (ap_config demo_stream_app) (d_log_path d)) h1 = (pm, h') \<and>
       last ([CHR 0x00] # vs) = shown pm)"
    using sends by (elim exE conjE) (rule that)
  from mp [OF fin refl] obtain d h1 pm where d: "Deployment a i (ap_db demo_stream_app) = Inr d"
      "run_state (deploymentLogPreview ''/'' demo_log_disk (ap_config demo_stream_app) (d_log_path d)) h1 = (pm, h')"
    and last: "last ([CHR 0x00] # vs) = shown pm" by (elim exE conjE)
  have "Deployment 7 7 (ap_db demo_stream_app) = Inr d"
    using d(1) by (auto simp: Deployment_def demo_stream_app_def new_deployment_row_def split: if_splits)
  with vs d(2) last show ?thesis by (intro exI conjI)
qed

text \<open>
  The stream knows two final states only: while nobody changes a cancelled deployment and the client stays,
  it never ends.
\<close>

lemma cancelled_stream_never_ends:
  assumes quiet: "\<And>k ap. Deployment a i (ap_db (nb_effect nb k ap)) = Deployment a i (ap_db ap)"
    and stays: "\<And>h. w_sleep w h (500 * millisecond) = None"
  shows "Deployment a i (ap_db ap) = Inr d \<Longrightarrow> d_status d = ''cancelled'' \<Longrightarrow>
    fst (run_state (log_stream nb cwd w c a i lst n) (ap, h, k)) = None"
proof (induction n arbitrary: lst ap h k)
  case (Suc n)
  show ?case
    using Suc quiet stays
    by (simp add: store_read_def store_call_def app_call_def Let_def case_prod_beta run_outside_run sleep_def finished_status_def)
qed simp

section \<open>Secrets stay out of the pages\<close>

definition reseal :: "(secret_row \<Rightarrow> bytes \<times> bytes) \<Rightarrow> app \<Rightarrow> app" where
  "reseal f ap = ap\<lparr>ap_db := (ap_db ap)\<lparr>secrets := map (\<lambda>r. r\<lparr>sec_nonce := fst (f r), sec_ciphertext := snd (f r)\<rparr>) (secrets (ap_db ap))\<rparr>\<rparr>"

lemma reseal_fields [simp]:
  "ap_config (reseal f ap) = ap_config ap" "ap_key (reseal f ap) = ap_key ap" "ap_sessions (reseal f ap) = ap_sessions ap"
  "applications (ap_db (reseal f ap)) = applications (ap_db ap)" "deployments (ap_db (reseal f ap)) = deployments (ap_db ap)"
  by (simp_all add: reseal_def)

lemma reseal_reads [simp]:
  "authorized t0 rq (reseal f ap) = authorized t0 rq ap" "csrfToken sv rq (reseal f ap) = csrfToken sv rq ap"
  "Application i (ap_db (reseal f ap)) = Application i (ap_db ap)" "Deployments i (ap_db (reseal f ap)) = Deployments i (ap_db ap)"
  "SecretAudit i (ap_db (reseal f ap)) = SecretAudit i (ap_db ap)"
  "ApplicationConfiguration i env target (ap_db (reseal f ap)) = ApplicationConfiguration i env target (ap_db ap)"
  "HealthEvidence i (ap_db (reseal f ap)) = HealthEvidence i (ap_db ap)"
  by (simp_all add: authorized_def csrfToken_def csrfTokenFor_def Application_def Deployments_def app_history_def SecretAudit_def
      ApplicationConfiguration_def HealthEvidence_def reseal_def split: option.split)

lemma reseal_data [simp]: "applicationData rq (ap_db (reseal f ap)) = applicationData rq (ap_db ap)"
  by (simp add: applicationData_def split: option.split sum.split)

lemma reseal_has [simp]: "HasSecrets i (ap_db (reseal f ap)) = HasSecrets i (ap_db ap)"
  by (simp add: HasSecrets_def reseal_def list_ex_iff)

lemma reseal_secrets [simp]: "ApplicationSecrets i env target (ap_db (reseal f ap)) = ApplicationSecrets i env target (ap_db ap)"
  by (simp add: ApplicationSecrets_def reseal_def filter_map sort_map comp_def)

text \<open>
  What the pages of an application show does not depend on the nonces and ciphertexts of its secrets: databases that
  differ only there give the same secrets page and the same detail page, error replies included.
\<close>

theorem pages_hide_ciphertexts:
  "secretsPage t0 sv rq (reseal f ap) = secretsPage t0 sv rq ap \<and>
   applicationDetail t0 sv su cwd w e socket tenths rq (reseal f ap) = applicationDetail t0 sv su cwd w e socket tenths rq ap"
  by (simp add: secretsPage_def renderSecrets_def applicationDetail_def page_for_def split: sum.split)

end
