(* ===== verification/App_Routes.thy ===== *)
theory App_Routes
  imports App_Webhook App_Session_Props
begin

text \<open>
  The route table of \<^verbatim>\<open>Handler\<close> in \<^verbatim>\<open>server.go\<close> and the way \<^verbatim>\<open>http.ServeMux\<close> chooses
  from it: the path must be clean, segments are decoded one by one, a literal segment is preferred to a
  wildcard and a wildcard to the rest of the path. Handlers have their names here; what they do is an
  argument. Security headers are left out.
\<close>

section \<open>The table\<close>

datatype segment = Literal string | Wildcard string | Rest

definition segment_of :: "string \<Rightarrow> segment" where
  "segment_of s =
     (if s = '''' then Rest
      else if has_prefix s ''{'' then Wildcard (trim_suffix (trim_prefix s ''{'') ''}'')
      else Literal s)"

definition pattern_of :: "string \<Rightarrow> segment list" where
  "pattern_of p = map segment_of (split_on CHR ''/'' (trim_prefix p ''/''))"

definition route_table :: "(string \<times> string \<times> string) list" where
  "route_table = [
     (''GET'', ''/healthz'', ''health''),
     (''GET'', ''/readyz'', ''ready''),
     (''GET'', ''/runtimez'', ''runtime''),
     (''GET'', ''/api/nodes'', ''nodesAPI''),
     (''GET'', ''/'', ''dashboard''),
     (''GET'', ''/operations'', ''operations''),
     (''GET'', ''/operations/logs'', ''operationLogs''),
     (''POST'', ''/operations/retention'', ''retention''),
     (''POST'', ''/operations/cleanup-schedule'', ''updateCleanupSchedule''),
     (''GET'', ''/applications/new'', ''applicationForm''),
     (''GET'', ''/repositories/browse'', ''browseLocalRepositories''),
     (''GET'', ''/repositories/refs'', ''localRepositoryReferences''),
     (''GET'', ''/repositories/detect'', ''detectLocalRuntime''),
     (''GET'', ''/repositories/validate'', ''validateLocalRuntime''),
     (''POST'', ''/repositories/folders'', ''createLocalRepositoryFolder''),
     (''GET'', ''/static/application-form.js'', ''applicationFormScript''),
     (''GET'', ''/static/deployment-log.js'', ''deploymentLogScript''),
     (''POST'', ''/applications'', ''createApplication''),
     (''GET'', ''/applications/{id}'', ''applicationDetail''),
     (''GET'', ''/applications/{id}/secrets'', ''secretsPage''),
     (''POST'', ''/applications/{id}/secrets'', ''saveSecret''),
     (''POST'', ''/applications/{id}/secrets/{name}/delete'', ''deleteSecret''),
     (''POST'', ''/applications/{id}/configuration'', ''saveConfiguration''),
     (''POST'', ''/applications/{id}/configuration/{name}/delete'', ''deleteConfiguration''),
     (''POST'', ''/applications/{id}/deploy'', ''deployApplication''),
     (''POST'', ''/applications/{id}/rollback'', ''rollbackApplication''),
     (''POST'', ''/applications/{id}/retry'', ''retryApplication''),
     (''GET'', ''/applications/{id}/deployments/{deploymentID}/diff'', ''deploymentDiff''),
     (''POST'', ''/applications/{id}/deployments/{deploymentID}/cancel'', ''cancelDeployment''),
     (''POST'', ''/applications/{id}/automation'', ''updateApplicationAutomation''),
     (''POST'', ''/applications/{id}/{action}'', ''controlApplication''),
     (''GET'', ''/applications/{id}/logs'', ''applicationLogs''),
     (''GET'', ''/applications/{id}/deployments/{deploymentID}/release-report'', ''releaseReport''),
     (''GET'', ''/applications/{id}/deployments/{deploymentID}/logs'', ''deploymentLogs''),
     (''GET'', ''/applications/{id}/deployments/{deploymentID}/log-stream'', ''deploymentLogStream''),
     (''GET'', ''/operations/retention/preview'', ''retentionPreview''),
     (''POST'', ''/operations/backup'', ''manualBackup''),
     (''GET'', ''/setup'', ''setupForm''),
     (''POST'', ''/setup'', ''setup''),
     (''GET'', ''/unlock'', ''unlockForm''),
     (''POST'', ''/unlock'', ''unlock''),
     (''POST'', ''/lock'', ''lock''),
     (''GET'', ''/cloudflare'', ''renderCloudflareDashboard''),
     (''POST'', ''/cloudflare/save'', ''saveCloudflareConfig''),
     (''POST'', ''/cloudflare/reconnect'', ''reconnectCloudflared''),
     (''POST'', ''/applications/{id}/cloudflare/sync'', ''syncAppCloudflareDNS''),
     (''POST'', ''/applications/{id}/domain'', ''updateApplicationDomain''),
     (''POST'', ''/webhooks/github/{id}'', ''githubWebhook'')]"

definition routes :: "(string \<times> segment list \<times> string) list" where
  "routes = map (\<lambda>(verb, p, h). (verb, pattern_of p, h)) route_table"

section \<open>The choice of a route\<close>

fun match_segments :: "segment list \<Rightarrow> string list \<Rightarrow> (string \<times> string) list option" where
  "match_segments [] [] = Some []"
| "match_segments (Rest # _) _ = Some []"
| "match_segments (Literal l # ps) (s # ss) = (if l = s then match_segments ps ss else None)"
| "match_segments (Wildcard x # ps) (s # ss) = (if s = '''' then None else map_option (\<lambda>vs. (x, s) # vs) (match_segments ps ss))"
| "match_segments _ _ = None"

fun segment_rank :: "segment \<Rightarrow> nat" where
  "segment_rank (Literal _) = 0"
| "segment_rank (Wildcard _) = 1"
| "segment_rank Rest = 2"

definition preferred :: "segment list \<Rightarrow> segment list \<Rightarrow> bool" where
  "preferred p q \<longleftrightarrow> ord_class.lexordp (map segment_rank p) (map segment_rank q)"

definition serves :: "string \<Rightarrow> string \<Rightarrow> bool" where
  "serves verb requested \<longleftrightarrow> verb = requested \<or> verb = ''GET'' \<and> requested = ''HEAD''"

fun best_route :: "(string \<times> segment list \<times> string) list \<Rightarrow> string \<Rightarrow> string list \<Rightarrow> (segment list \<times> string \<times> (string \<times> string) list) option" where
  "best_route [] requested segs = None"
| "best_route ((verb, p, h) # rs) requested segs =
     (let other = best_route rs requested segs
      in case match_segments p segs of
           None \<Rightarrow> other
         | Some vs \<Rightarrow>
             if \<not> serves verb requested then other
             else (case other of None \<Rightarrow> Some (p, h, vs) | Some (q, _, _) \<Rightarrow> if preferred q p then other else Some (p, h, vs)))"

datatype routed = Handled string "(string \<times> string) list" | Moved string | Method_Not_Allowed | No_Route

definition route :: "string \<Rightarrow> string list \<Rightarrow> routed" where
  "route requested segs =
     (case best_route routes requested segs of
        Some (_, h, vs) \<Rightarrow> Handled h vs
      | None \<Rightarrow> if list_ex (\<lambda>(_, p, _). match_segments p segs \<noteq> None) routes then Method_Not_Allowed else No_Route)"

section \<open>Paths\<close>

text \<open>\<^verbatim>\<open>url.PathUnescape\<close>; a segment that is not escaped correctly is taken as it is.\<close>

fun unescape :: "string \<Rightarrow> string option" where
  "unescape [] = Some []"
| "unescape (c # s) =
     (if c \<noteq> CHR ''%'' then map_option ((#) c) (unescape s)
      else case s of
          a # b # rest \<Rightarrow>
            if is_hex a \<and> is_hex b then map_option ((#) (char_of (16 * hex_value a + hex_value b))) (unescape rest) else None
        | _ \<Rightarrow> None)"

definition path_unescape :: "string \<Rightarrow> string" where
  "path_unescape s = (case unescape s of None \<Rightarrow> s | Some t \<Rightarrow> t)"

definition path_segments :: "string \<Rightarrow> string list" where
  "path_segments escaped = map path_unescape (split_on CHR ''/'' (trim_prefix escaped ''/''))"

text \<open>The clean form of a path keeps its last slash.\<close>

definition mux_path :: "string \<Rightarrow> string" where
  "mux_path p =
     (let rooted = (if has_prefix p ''/'' then p else ''/'' @ p);
          cleaned = clean_path rooted
      in if has_suffix p ''/'' \<and> cleaned \<noteq> ''/'' then cleaned @ ''/'' else cleaned)"

definition dispatch :: "string \<Rightarrow> string \<Rightarrow> routed" where
  "dispatch requested escaped =
     (if requested \<noteq> ''CONNECT'' \<and> mux_path escaped \<noteq> escaped then Moved (mux_path escaped)
      else route requested (path_segments escaped))"

section \<open>The server\<close>

type_synonym handler = "request \<Rightarrow> app \<Rightarrow> app \<times> response"

definition with_values :: "(string \<times> string) list \<Rightarrow> request \<Rightarrow> request" where
  "with_values vs rq = rq\<lparr>rq_path_value := (\<lambda>k. case map_of vs k of None \<Rightarrow> '''' | Some v \<Rightarrow> v)\<rparr>"

definition mux :: "(string \<Rightarrow> handler) \<Rightarrow> string \<Rightarrow> handler" where
  "mux actions escaped rq ap =
     (case dispatch (rq_method rq) escaped of
        Handled h vs \<Rightarrow> actions h (with_values vs rq) ap
      | Moved p \<Rightarrow> (ap, respond (Redirect p))
      | Method_Not_Allowed \<Rightarrow> (ap, respond (HttpError 405 ''Method Not Allowed''))
      | No_Route \<Rightarrow> (ap, respond Not_Found))"

text \<open>The server around its handlers \<open>actions\<close>, for a request with the path \<open>escaped\<close> as it was sent.\<close>

definition Handler :: "services \<Rightarrow> time \<Rightarrow> (string \<Rightarrow> handler) \<Rightarrow> string \<Rightarrow> handler" where
  "Handler sv t0 actions escaped = csrfCheck sv t0 (mux actions escaped)"

definition staticScript :: "(string \<Rightarrow> string option) \<Rightarrow> string \<Rightarrow> reply" where
  "staticScript embedded name = (case embedded name of None \<Rightarrow> Not_Found | Some contents \<Rightarrow> Page 200 ''Script'' contents)"

definition applicationFormScript :: "(string \<Rightarrow> string option) \<Rightarrow> reply" where
  "applicationFormScript embedded = staticScript embedded ''static/application-form.js''"

definition deploymentLogScript :: "(string \<Rightarrow> string option) \<Rightarrow> reply" where
  "deploymentLogScript embedded = staticScript embedded ''static/deployment-log.js''"

end
