(* ===== verification/Routes_Props.thy ===== *)
theory Routes_Props
  imports App_Routes
begin

text \<open>Routing: the table has no conflicts, specific routes win, and no POST gets around the token of the session.\<close>

section \<open>The table\<close>

lemma routes_parsed: "length routes = 48"
  by code_simp

text \<open>A path that two patterns of a method match must have one of them as the more specific one, or registering the routes panics.\<close>

fun overlap :: "segment list \<Rightarrow> segment list \<Rightarrow> bool" where
  "overlap [] [] = True"
| "overlap (Rest # _) _ = True"
| "overlap _ (Rest # _) = True"
| "overlap (Literal a # ps) (Literal b # qs) = (a = b \<and> overlap ps qs)"
| "overlap (Wildcard _ # ps) (_ # qs) = overlap ps qs"
| "overlap (_ # ps) (Wildcard _ # qs) = overlap ps qs"
| "overlap _ _ = False"

fun more_specific :: "segment list \<Rightarrow> segment list \<Rightarrow> bool" where
  "more_specific _ (Rest # _) = True"
| "more_specific [] [] = True"
| "more_specific (Literal a # ps) (Literal b # qs) = (a = b \<and> more_specific ps qs)"
| "more_specific (Literal _ # ps) (Wildcard _ # qs) = more_specific ps qs"
| "more_specific (Wildcard _ # ps) (Wildcard _ # qs) = more_specific ps qs"
| "more_specific _ _ = False"

fun conflict_free :: "(string \<times> segment list \<times> string) list \<Rightarrow> bool" where
  "conflict_free [] = True"
| "conflict_free ((verb, p, h) # rs) =
     (list_all (\<lambda>(verb', q, _). verb = verb' \<and> overlap p q \<longrightarrow> more_specific p q \<noteq> more_specific q p) rs \<and> conflict_free rs)"

lemma routes_do_not_conflict: "conflict_free routes"
  by code_simp

lemma specific_routes_win:
  "dispatch ''POST'' ''/applications/7/deploy'' = Handled ''deployApplication'' [(''id'', ''7'')]"
  "dispatch ''POST'' ''/applications/7/stop'' = Handled ''controlApplication'' [(''id'', ''7''), (''action'', ''stop'')]"
  "dispatch ''GET'' ''/applications/new'' = Handled ''applicationForm'' []"
  "dispatch ''GET'' ''/missing/page'' = Handled ''dashboard'' []"
  "dispatch ''POST'' ''/missing'' = Method_Not_Allowed"
  "dispatch ''POST'' ''/webhooks/../lock'' = Moved ''/lock''"
  "dispatch ''POST'' ''/webhooks/%2e%2e/lock'' = Method_Not_Allowed"
  by code_simp+

section \<open>No way around the token\<close>

lemma best_route_sound: "best_route rs requested segs = Some (p, h, vs) \<Longrightarrow>
    \<exists>verb. (verb, p, h) \<in> set rs \<and> serves verb requested \<and> match_segments p segs = Some vs"
  by (induction rs requested segs rule: best_route.induct) (auto simp: Let_def split: option.splits if_splits)

definition open_handlers :: "string list" where
  "open_handlers = [''setup'', ''unlock'', ''githubWebhook'']"

definition guarded_start :: "segment list \<Rightarrow> bool" where
  "guarded_start p = (case p of Literal l # _ \<Rightarrow> list_ex ((=) l) [''operations'', ''repositories'', ''applications'', ''lock'', ''cloudflare''] | _ \<Rightarrow> False)"

lemma posts_start_guarded:
  "list_all (\<lambda>(verb, p, h). verb = ''POST'' \<longrightarrow> list_ex ((=) h) open_handlers \<or> guarded_start p) routes"
  by code_simp

lemma guarded_path:
  assumes "guarded_start p" and "match_segments p segs = Some vs"
  shows "\<not> has_prefix (concat (map ((#) CHR ''/'') segs)) ''/webhooks/'' \<and>
    concat (map ((#) CHR ''/'') segs) \<noteq> ''/setup'' \<and> concat (map ((#) CHR ''/'') segs) \<noteq> ''/unlock''"
proof -
  from assms(1) obtain l ps where p: "p = Literal l # ps"
    and l: "list_ex ((=) l) [''operations'', ''repositories'', ''applications'', ''lock'', ''cloudflare'']"
    by (auto simp: guarded_start_def split: list.splits segment.splits)
  with assms(2) obtain ss where "segs = l # ss" by (cases segs) (auto split: if_splits)
  with l show ?thesis by (auto simp: has_prefix_def)
qed

text \<open>
  C27: Every POST request that the server hands to a handler other than setup, unlock and the webhook is
  subject to the session token: outside the test environment the server runs the handler, with the values
  of the path, exactly if the session is live and the request carries its token, and otherwise
  refuses and changes nothing. No spelling of a path gets around that: neither escapes nor dots.
\<close>

theorem routed_posts_need_the_session_token:
  assumes "rq_method rq = ''POST''" and "rq_path rq = concat (map ((#) CHR ''/'') (path_segments escaped))"
    and "dispatch ''POST'' escaped = Handled h vs" and "h \<notin> set open_handlers"
    and "cfg_environment (ap_config ap) \<noteq> ''test'' \<or> rq_header rq ''X-Test-Validate-CSRF'' \<noteq> ''''"
  shows "Handler sv t0 actions escaped rq ap =
    (if authorized t0 rq ap \<and> csrfToken sv rq ap \<noteq> '''' \<and> csrf_actual rq = csrfToken sv rq ap then actions h (with_values vs rq) ap
     else (ap, respond (if authorized t0 rq ap then HttpError 403 ''invalid CSRF token'' else Redirect ''/unlock'')))"
proof -
  from assms(3) obtain p where "best_route routes ''POST'' (path_segments escaped) = Some (p, h, vs)"
    by (auto simp: dispatch_def route_def split: if_splits option.splits)
  from best_route_sound [OF this] obtain verb where route: "(verb, p, h) \<in> set routes" "serves verb ''POST''"
    and segs: "match_segments p (path_segments escaped) = Some vs" by blast
  from route(2) have "verb = ''POST''" by (simp add: serves_def)
  with route(1) posts_start_guarded assms(4) have "guarded_start p" by (fastforce simp: list_all_iff list_ex_iff)
  from guarded_path [OF this segs] have "\<not> has_prefix (rq_path rq) ''/webhooks/''" "rq_path rq \<noteq> ''/setup''" "rq_path rq \<noteq> ''/unlock''"
    unfolding assms(2) by blast+
  then show ?thesis
    unfolding Handler_def using assms(1,3,5) by (simp add: posts_need_the_session_token mux_def)
qed

theorem routed_posts_need_the_session_token_witness:
  "Handler demo_services 1002 (\<lambda>h. lock) ''/lock'' (demo_request ''/lock'' '''') demo_unlocked =
     (demo_unlocked, respond (HttpError 403 ''invalid CSRF token''))"
proof -
  let ?rq = "demo_request ''/lock'' ''''"
  have post: "rq_method ?rq = ''POST''" by (simp add: demo_request_def)
  have "''/lock'' = concat (map ((#) CHR ''/'') (path_segments ''/lock''))" by code_simp
  then have path: "rq_path ?rq = concat (map ((#) CHR ''/'') (path_segments ''/lock''))" by (simp add: demo_request_def)
  have dispatched: "dispatch ''POST'' ''/lock'' = Handled ''lock'' []" and guarded: "''lock'' \<notin> set open_handlers" by code_simp+
  have live: "cfg_environment (ap_config demo_unlocked) \<noteq> ''test'' \<or> rq_header ?rq ''X-Test-Validate-CSRF'' \<noteq> ''''"
    by (simp add: demo_environment)
  have token: "csrf_actual ?rq = ''''" by (simp add: csrf_actual_def demo_request_def)
  have refused: "\<not> (authorized 1002 ?rq demo_unlocked \<and> csrfToken demo_services ?rq demo_unlocked \<noteq> '''' \<and>
      csrf_actual ?rq = csrfToken demo_services ?rq demo_unlocked)" unfolding token by metis
  show ?thesis
    unfolding routed_posts_need_the_session_token [OF post path dispatched guarded live] if_not_P [OF refused] if_P [OF demo_authorized] ..
qed

end
