(* ===== verification/Spec2Isabelle.thy ===== *)
theory Spec2Isabelle
  imports Queue_Props Store_Apps_Props Store_Guards_Props Migrations Security_Props Runtime_Props Executor_Contract App_Handlers_Props
    App_Collector_Props Preflight_Props Restore_Props Cloudflare_Status Agent_Props Repositories_Props Pages_Props Routes_Props
begin

text \<open>
  \<^bold>\<open>MiniDock: a verification library\<close>

  MiniDock is a small self-hosted deployment server. A web panel and a GitHub webhook
  (\<^verbatim>\<open>internal/app\<close>) put jobs into a queue in SQLite (\<^verbatim>\<open>internal/store\<close>);
  workers take them, fetch and build the source, start a candidate container, prove it healthy,
  route it through Caddy and retire the old one (\<^verbatim>\<open>internal/deploy\<close>). Secrets are
  encrypted under a key derived from the master password (\<^verbatim>\<open>internal/security\<close>),
  backups are sealed with the same key (\<^verbatim>\<open>internal/backup\<close>,
  \<^verbatim>\<open>cmd/minidock\<close>), and application types come from templates and detection
  (\<^verbatim>\<open>internal/runtime\<close>). A collector watches applications and raises alerts, retention removes
  old releases, a tunnel of Cloudflare can publish the domains, and agents on other hosts report over
  mutual TLS (\<^verbatim>\<open>internal/agent\<close>).

  \<^bold>\<open>Theories and sources\<close>

  \<^item> \<open>Prelude\<close>: times, bytes, errors, the functions of packages strings and strconv that
    the sources use, and the SQL statements on tables as lists of rows, with their lemmas.
    \<open>Paths\<close>: \<^verbatim>\<open>path/filepath\<close> on slash-separated paths.

  \<^item> \<open>Db\<close>: the tables of \<^verbatim>\<open>store.go\<close> as records and the database as one record.
    \<open>Store_Queue\<close>, \<open>Store_Apps\<close>, \<open>Store_Guards\<close>, \<open>Store_Alerts\<close>: every
    operation of package store, one definition each, under the names of the code. A store operation
    takes its clock readings as arguments and returns the new database with a result or an error.
    \<open>Migrations\<close>: \<^verbatim>\<open>migrate\<close> and the ten migrations as statement lists.

  \<^item> \<open>Queue_Spec\<close>: an abstract machine with one slot per application (free, waiting, held);
    \<open>Queue_Refines\<close> proves every queue operation a transition of it, \<open>Queue_Steps\<close>
    defines the reachable states and treats the history, and \<open>Queue_Props\<close> holds the
    properties. \<open>Table_Spec\<close> is the contract of a keyed table, a locale that the tables with
    upserts interpret. \<open>Store_Apps_Props\<close> and \<open>Store_Guards_Props\<close> hold the
    properties of applications, secrets, lockouts, rate limits, deliveries, nodes and alerts.

  \<^item> \<open>Security\<close>, \<open>Security_Props\<close>: AES-GCM over a block cipher, the master-key
    verifier and the backup format. \<open>Runtime\<close>, \<open>Runtime_Props\<close>: templates,
    Dockerfiles, detection and validation of projects.

  \<^item> \<open>Executor_Base\<close>: Docker, Git, Caddy, the disk, the clock and the request context are a
    \<open>world\<close> that answers each action and may use the whole history; the executor runs in a state
    monad over that history. \<open>Executor_Caddy\<close>, \<open>Executor_Docker\<close>,
    \<open>Executor_Switch\<close>, \<open>Executor_Source\<close> and \<open>Executor_Deploy\<close> translate
    \<^verbatim>\<open>executor.go\<close> in its order. \<open>Executor_Logic\<close> has the rules for computations;
    \<open>Executor_Safety\<close> and \<open>Executor_Evidence\<close> the lemmas on what a release does and what
    it has seen; \<open>Executor_Props\<close> and \<open>Executor_Contract\<close> the properties.

  \<^item> \<open>App_Config\<close>: \<^verbatim>\<open>config.go\<close> and what \<^verbatim>\<open>New\<close> makes of it.
    \<open>App_Session\<close>: the state of the server and setup, unlock, lock, sessions and the CSRF
    middleware of \<^verbatim>\<open>server.go\<close>. \<open>App_Webhook\<close>: queueing and the GitHub webhook
    of \<^verbatim>\<open>cicd.go\<close>. \<open>App_Worker\<close>: the worker of \<^verbatim>\<open>cicd.go\<close> with the
    configuration of a release, heartbeat, log writer and start-up. \<open>App_Handlers\<close>: the handlers
    that create applications and change secrets, configuration and the queue. Each has its
    properties in the theory of the same name with \<open>_Props\<close>.

  \<^item> \<open>App_Jobs\<close>: two logics for the computations of \<open>App_Worker\<close> that touch both the server and
    the outside world, one for what they leave in the database and one for the actions they perform whatever
    others do between their steps; \<open>Civil_Time\<close>: dates and
    their texts as package time prints them. \<open>App_Operations\<close>: collector, retention and backup of
    \<^verbatim>\<open>operations.go\<close> with the upload of \<^verbatim>\<open>s3.go\<close>, \<open>App_Preflight\<close>: the checks of host and
    application and the health and readiness handlers. Properties in \<open>App_Collector_Props\<close>,
    \<open>App_Retention_Props\<close>, \<open>Backup_Props\<close> and \<open>Preflight_Props\<close>.
    \<open>Backup_Command\<close>, \<open>Restore_Props\<close>: the command line of \<^verbatim>\<open>cmd/minidock/backup.go\<close>.

  \<^item> \<open>Cloudflare_Client\<close>, \<open>Cloudflare_Connector\<close>, \<open>App_Cloudflare\<close>: \<^verbatim>\<open>cloudflare.go\<close>,
    \<^verbatim>\<open>cloudflare_connector.go\<close> and the handlers of \<^verbatim>\<open>server.go\<close> that use them; properties in
    \<open>Cloudflare_Props\<close> and \<open>Cloudflare_Status\<close>.

  \<^item> \<open>Agent_Control\<close>, \<open>Agent_Props\<close>: \<^verbatim>\<open>Connect\<close> of \<^verbatim>\<open>control.go\<close> with the messages of
    \<^verbatim>\<open>protocol.go\<close> and what \<^verbatim>\<open>minidock-agent\<close> sends. \<open>App_Repositories\<close>,
    \<open>Repositories_Props\<close>: \<^verbatim>\<open>repositories.go\<close>. \<open>App_Pages\<close>, \<open>App_Logs\<close>, \<open>App_Overview\<close>,
    \<open>Pages_Props\<close>: the pages, reports, logs and streams of \<^verbatim>\<open>server.go\<close> and
    \<^verbatim>\<open>operations.go\<close>, each as the record of values its view gets.
    \<open>App_Routes\<close>, \<open>Routes_Props\<close>: the route table of \<^verbatim>\<open>Handler\<close> and the choice of
    \<^verbatim>\<open>http.ServeMux\<close> from it, around the CSRF middleware.

  \<^bold>\<open>What is shown\<close>

  \<^item> Queue: the store refines the slot machine, at most one active deployment per application, the
    oldest job first, claims exclude each other, cancellation wins, recovery unblocks, retention keeps
    the newest releases, rollback finds the right target; the worker settles every job it claims
    although other goroutines work on the same database between its store calls.

  \<^item> Releases: a failed release leaves the serving container alone, a successful one has seen
    health, address, route and public answer in this order, polling ends, commands and build contexts
    are confined, recovery is safe, artifacts and environment files are exact, a rollback restores the
    recorded public configuration.

  \<^item> Access: a session exists only under a key that validates, posts need its token on every route and
    spelling of a path, webhooks queue
    only authentic and allowed pushes once, lockouts and rate limits count as intended, secrets never
    become public and reach the release unchanged, registered applications meet what the executor
    relies on.

  \<^item> Operations: after a collection every active alert has a reason of this run, retention deletes only
    rows whose log and image are gone, backups are sealed and rotation keeps the newest, a restore writes
    only authentic data to a free place and gives back exactly the sealed database, deployments need a host
    that passed its checks in order.

  \<^item> Cloudflare: only MiniDock's own containers are touched, the token never appears in a message, the
    status is connected only after the connector started, routes and DNS records belong to the domains.

  \<^item> Agents, repositories and pages: a connection speaks only for the node of its certificate, the
    repository browser stays below its root, reports and inventories show no paths, secrets or fingerprints,
    pages do not depend on ciphertexts, the log stream ends with the final log.

  \<^item> Formats: backups, verifier, migrations, templates.

  \<^bold>\<open>Bounds, fuel and assumptions\<close>

  \<^item> The polling loops of health and route take fuel; with a clock that advances by what was slept,
    the health timeout divided by the polling interval of 500 ms, plus two, is enough, and it is proved
    that they return. The log stream takes a number of rounds: it
    may run as long as the client stays, and it is proved that it never ends for a cancelled deployment.
    Everything else is total.

  \<^item> Times and counters are integers; the lengths of the backup header and the words of GCM keep
    their width. Strings are lists of bytes; case mapping and white space are those of ASCII.

  \<^item> Parameters: the block cipher, Argon2id, SHA-256, HMAC, RSA, the random source, the decoders of
    JSON, URLs and PEM, the world of the executor, the effect of concurrent goroutines between two
    store calls. A property that needs anything of them says so, and its witness has a concrete one.

  \<^item> A store operation is atomic and does not fail for reasons of the database driver or a cancelled
    request. A panic is an error value that ends the request.

  \<^bold>\<open>Not modelled\<close>

  The text of logs and of generated pages (package views is generated code). Security headers. Process entry
  points, the development watcher, the TLS configuration and the gRPC descriptor of \<^verbatim>\<open>internal/agent\<close>,
  which are library calls. The tickers that repeat \<open>runCollection\<close>, \<open>runBackup\<close> and
  \<open>runNextDeployment\<close>; the repeated steps are modelled. \<^verbatim>\<open>switchFailure\<close> and
  \<^verbatim>\<open>restoreDockerRelease\<close>, which nothing calls; adapters injected by tests. Texts of floating-point
  numbers are parameters, and quoting with \<^verbatim>\<open>%q\<close> is written without escapes.
\<close>

end
